(* ===== verification/Prelude.thy ===== *)
theory Prelude
  imports Complex_Main "HOL-Library.Sublist" "HOL-Library.Signed_Division"
    "HOL-Library.AList" "HOL-Library.Char_ord" "HOL-Library.List_Lexorder"
begin

text \<open>
  The vocabulary shared by the components: Go strings as byte lists together with the
  functions of the packages \<^verbatim>\<open>strings\<close>, \<^verbatim>\<open>strconv\<close> and \<^verbatim>\<open>path/filepath\<close> that the
  repository calls, Go maps as association lists whose order is the order in which a
  \<^verbatim>\<open>range\<close> visits the entries, and the range of \<^verbatim>\<open>int64\<close>.
\<close>

named_theorems go_text \<open>facts on the modelled functions of strings, strconv and filepath\<close>
named_theorems go_map \<open>facts on Go maps\<close>

section \<open>Machine integers\<close>

definition max_int64 :: int where
  "max_int64 = 9223372036854775807"

definition min_int64 :: int where
  "min_int64 = - 9223372036854775808"

definition in_int64 :: "int \<Rightarrow> bool" where
  "in_int64 i \<longleftrightarrow> min_int64 \<le> i \<and> i \<le> max_int64"

text \<open>Two's complement wrap-around of \<^verbatim>\<open>int64\<close> arithmetic.\<close>

definition wrap64 :: "int \<Rightarrow> int" where
  "wrap64 i = (i + 9223372036854775808) mod 18446744073709551616 - 9223372036854775808"

section \<open>Results\<close>

text \<open>A Go function with results \<^verbatim>\<open>(T, error)\<close> returns \<open>'e + 'a\<close>, errors on the left.\<close>

type_synonym ('e, 'a) result = "'e + 'a"

fun is_ok :: "('e, 'a) result \<Rightarrow> bool" where
  "is_ok (Inl _) = False"
| "is_ok (Inr _) = True"

section \<open>Package strings\<close>

text \<open>
  The UTF-8 encodings of the code points \<^verbatim>\<open>unicode.IsSpace\<close> accepts; a Go string is a
  sequence of bytes, which is what a list of characters is here.
\<close>

definition space_runes :: "string list" where
  "space_runes =
    [[CHR 0x09], [CHR 0x0A], [CHR 0x0B], [CHR 0x0C], [CHR 0x0D], [CHR 0x20],
     [CHR 0xC2, CHR 0x85], [CHR 0xC2, CHR 0xA0], [CHR 0xE1, CHR 0x9A, CHR 0x80],
     [CHR 0xE2, CHR 0x80, CHR 0x80], [CHR 0xE2, CHR 0x80, CHR 0x81],
     [CHR 0xE2, CHR 0x80, CHR 0x82], [CHR 0xE2, CHR 0x80, CHR 0x83],
     [CHR 0xE2, CHR 0x80, CHR 0x84], [CHR 0xE2, CHR 0x80, CHR 0x85],
     [CHR 0xE2, CHR 0x80, CHR 0x86], [CHR 0xE2, CHR 0x80, CHR 0x87],
     [CHR 0xE2, CHR 0x80, CHR 0x88], [CHR 0xE2, CHR 0x80, CHR 0x89],
     [CHR 0xE2, CHR 0x80, CHR 0x8A], [CHR 0xE2, CHR 0x80, CHR 0xA8],
     [CHR 0xE2, CHR 0x80, CHR 0xA9], [CHR 0xE2, CHR 0x80, CHR 0xAF],
     [CHR 0xE2, CHR 0x81, CHR 0x9F], [CHR 0xE3, CHR 0x80, CHR 0x80]]"

fun strip_one :: "string list \<Rightarrow> string \<Rightarrow> string option" where
  "strip_one [] s = None"
| "strip_one (r # rs) s =
    (if r \<noteq> [] \<and> prefix r s then Some (drop (length r) s) else strip_one rs s)"

lemma strip_one_shorter: "strip_one rs s = Some t \<Longrightarrow> length t < length s"
  by (induction rs s rule: strip_one.induct)
     (auto split: if_splits simp: prefix_def)

function strip_left :: "string list \<Rightarrow> string \<Rightarrow> string" where
  "strip_left rs s = (case strip_one rs s of None \<Rightarrow> s | Some t \<Rightarrow> strip_left rs t)"
  by pat_completeness auto
termination
  by (relation "measure (\<lambda>(rs, s). length s)") (auto dest: strip_one_shorter)

declare strip_left.simps [simp del]

definition strip_right :: "string list \<Rightarrow> string \<Rightarrow> string" where
  "strip_right rs s = rev (strip_left (map rev rs) (rev s))"

definition TrimSpace :: "string \<Rightarrow> string" where
  "TrimSpace s = strip_right space_runes (strip_left space_runes s)"

definition HasPrefix :: "string \<Rightarrow> string \<Rightarrow> bool" where
  "HasPrefix s p = prefix p s"

definition HasSuffix :: "string \<Rightarrow> string \<Rightarrow> bool" where
  "HasSuffix s p = suffix p s"

definition TrimPrefix :: "string \<Rightarrow> string \<Rightarrow> string" where
  "TrimPrefix s p = (if prefix p s then drop (length p) s else s)"

definition TrimSuffix :: "string \<Rightarrow> string \<Rightarrow> string" where
  "TrimSuffix s p = (if suffix p s then take (length s - length p) s else s)"

definition Contains :: "string \<Rightarrow> string \<Rightarrow> bool" where
  "Contains s p = sublist p s"

text \<open>\<^verbatim>\<open>strings.Split\<close> with a separator of one byte.\<close>

fun Split :: "string \<Rightarrow> char \<Rightarrow> string list" where
  "Split [] c = [[]]"
| "Split (x # xs) c =
    (if x = c then [] # Split xs c
     else (case Split xs c of [] \<Rightarrow> [[x]] | y # ys \<Rightarrow> (x # y) # ys))"

fun Join :: "string list \<Rightarrow> string \<Rightarrow> string" where
  "Join [] sep = []"
| "Join [x] sep = x"
| "Join (x # y # ys) sep = x @ sep @ Join (y # ys) sep"

text \<open>\<^verbatim>\<open>strings.Cut\<close> at a separator of one byte: before, after, found.\<close>

fun Cut :: "string \<Rightarrow> char \<Rightarrow> string \<times> string \<times> bool" where
  "Cut [] c = ([], [], False)"
| "Cut (x # xs) c =
    (if x = c then ([], xs, True)
     else (case Cut xs c of (b, a, f) \<Rightarrow> (x # b, a, f)))"

definition ToUpper_ascii :: "char \<Rightarrow> char" where
  "ToUpper_ascii c =
    (if 97 \<le> (of_char c :: nat) \<and> (of_char c :: nat) \<le> 122
     then char_of ((of_char c :: nat) - 32) else c)"

text \<open>
  \<^verbatim>\<open>%q\<close>: quotes, with Go's escapes for quotes, backslashes and control bytes. Bytes above the ASCII
  range are kept, as Go does for printable text.
\<close>

definition hex_digit :: "nat \<Rightarrow> char" where
  "hex_digit n = char_of (if n < 10 then 48 + n else 87 + n)"

definition quote_byte :: "char \<Rightarrow> string" where
  "quote_byte c =
    (let n = of_char c :: nat; escaped = (\<lambda>e. [CHR 0x5C, e]) in
     if n = 34 \<or> n = 92 then escaped c
     else if n = 7 then escaped (CHR ''a'') else if n = 8 then escaped (CHR ''b'')
     else if n = 9 then escaped (CHR ''t'') else if n = 10 then escaped (CHR ''n'')
     else if n = 11 then escaped (CHR ''v'') else if n = 12 then escaped (CHR ''f'')
     else if n = 13 then escaped (CHR ''r'')
     else if n < 32 \<or> n = 127 then [CHR 0x5C, CHR ''x'', hex_digit (n div 16), hex_digit (n mod 16)]
     else [c])"

definition Quote :: "string \<Rightarrow> string" where
  "Quote s = CHR 0x22 # concat (map quote_byte s) @ [CHR 0x22]"

text \<open>\<^verbatim>\<open>strings.EqualFold\<close> against ASCII text without the letters k and s, which have no further folds.\<close>

definition EqualFold_ascii :: "string \<Rightarrow> string \<Rightarrow> bool" where
  "EqualFold_ascii s t \<longleftrightarrow> map ToUpper_ascii s = map ToUpper_ascii t"

text \<open>
  \<^verbatim>\<open>strings.ToUpper\<close> as far as ASCII letters of the result go: of the other runes only the
  dotless i and the long s become ASCII letters.
\<close>

fun ToUpper_to_ascii :: "string \<Rightarrow> string" where
  "ToUpper_to_ascii [] = []"
| "ToUpper_to_ascii (a # b # s) =
    (if a = CHR 0xC4 \<and> b = CHR 0xB1 then CHR ''I'' # ToUpper_to_ascii s
     else if a = CHR 0xC5 \<and> b = CHR 0xBF then CHR ''S'' # ToUpper_to_ascii s
     else ToUpper_ascii a # ToUpper_to_ascii (b # s))"
| "ToUpper_to_ascii [a] = [ToUpper_ascii a]"

lemma Split_ne [simp]: "Split s c \<noteq> []"
  by (induction s) (auto split: list.splits)

lemma Join_Split [go_text, simp]: "Join (Split s c) [c] = s"
proof (induction s)
  case Nil then show ?case by simp
next
  case (Cons x xs)
  then show ?case by (cases "Split xs c"; cases "tl (Split xs c)") auto
qed

lemma Split_no_sep: "t \<in> set (Split s c) \<Longrightarrow> c \<notin> set t"
  by (induction s arbitrary: t) (auto split: if_splits list.splits)

lemma Split_one [simp]: "c \<notin> set s \<Longrightarrow> Split s c = [s]"
  by (induction s) auto

lemma Split_append [go_text]: "c \<notin> set s \<Longrightarrow> Split (s @ c # t) c = s # Split t c"
  by (induction s) auto

lemma Cut_found [go_text]: "c \<notin> set b \<Longrightarrow> Cut (b @ c # a) c = (b, a, True)"
  by (induction b) auto

lemma Cut_absent [go_text]: "c \<notin> set s \<Longrightarrow> Cut s c = (s, [], False)"
  by (induction s) auto

lemma HasSuffix_app [go_text, simp]: "HasSuffix (s @ p) p"
  by (simp add: HasSuffix_def suffix_def)

lemma HasPrefix_app [go_text, simp]: "HasPrefix (p @ s) p"
  by (simp add: HasPrefix_def)

lemma TrimSuffix_app [go_text, simp]: "TrimSuffix (s @ p) p = s"
  by (simp add: TrimSuffix_def suffix_def)

lemma TrimPrefix_app [go_text, simp]: "TrimPrefix (p @ s) p = s"
  by (simp add: TrimPrefix_def)

lemma strip_one_suffix: "strip_one rs s = Some t \<Longrightarrow> suffix t s"
  by (induction rs s rule: strip_one.induct) (auto split: if_splits simp: suffix_drop)

lemma strip_left_suffix [go_text]: "suffix (strip_left rs s) s"
proof (induction rs s rule: strip_left.induct)
  case (1 rs s)
  then show ?case
    by (subst strip_left.simps) (auto split: option.splits dest: strip_one_suffix intro: suffix_order.trans)
qed

lemma strip_right_prefix [go_text]: "prefix (strip_right rs s) s"
  by (metis rev_rev_ident strip_left_suffix strip_right_def suffix_to_prefix)

lemma TrimSpace_subset: "c \<in> set (TrimSpace s) \<Longrightarrow> c \<in> set s"
  using set_mono_prefix [OF strip_right_prefix] set_mono_suffix [OF strip_left_suffix]
  unfolding TrimSpace_def by blast

lemma strip_one_None_iff: "strip_one rs s = None \<longleftrightarrow> (\<forall>r \<in> set rs. r \<noteq> [] \<longrightarrow> \<not> prefix r s)"
  by (induction rs s rule: strip_one.induct) auto

lemma strip_left_done: "strip_one rs (strip_left rs s) = None"
proof (induction rs s rule: strip_left.induct)
  case (1 rs s)
  then show ?case by (subst strip_left.simps) (auto split: option.splits)
qed

lemma strip_left_fix: "strip_one rs s = None \<Longrightarrow> strip_left rs s = s"
  by (subst strip_left.simps) simp

lemma TrimSpace_idem [go_text, simp]: "TrimSpace (TrimSpace s) = TrimSpace s"
proof -
  let ?u = "strip_left space_runes s"
  have "prefix (TrimSpace s) ?u" by (simp add: TrimSpace_def strip_right_prefix)
  then have "strip_one space_runes (TrimSpace s) = None"
    using strip_left_done [of space_runes s] unfolding strip_one_None_iff by (meson prefix_order.trans)
  then have "strip_left space_runes (TrimSpace s) = TrimSpace s" by (rule strip_left_fix)
  moreover have "strip_right space_runes (TrimSpace s) = TrimSpace s"
    using strip_left_fix [OF strip_left_done, of "map rev space_runes" "rev ?u"]
    by (simp add: TrimSpace_def strip_right_def)
  ultimately show ?thesis by (simp add: TrimSpace_def)
qed

lemma TrimSpace_Nil [simp]: "TrimSpace [] = []"
  by code_simp

section \<open>Package strconv\<close>

definition digit_char :: "nat \<Rightarrow> char" where
  "digit_char d = char_of (48 + d)"

definition is_digit :: "char \<Rightarrow> bool" where
  "is_digit c \<longleftrightarrow> 48 \<le> (of_char c :: nat) \<and> (of_char c :: nat) \<le> 57"

definition digit_val :: "char \<Rightarrow> nat" where
  "digit_val c = of_char c - 48"

fun show_nat :: "nat \<Rightarrow> string" where
  "show_nat n = (if n < 10 then [digit_char n] else show_nat (n div 10) @ [digit_char (n mod 10)])"

declare show_nat.simps [simp del]

definition read_nat :: "string \<Rightarrow> nat" where
  "read_nat s = foldl (\<lambda>a c. 10 * a + digit_val c) 0 s"

definition FormatInt :: "int \<Rightarrow> string" where
  "FormatInt i = (if i < 0 then CHR ''-'' # show_nat (nat (- i)) else show_nat (nat i))"

text \<open>\<^verbatim>\<open>strconv.ParseInt(s, 10, 64)\<close>; a syntax or range error is \<open>None\<close>.\<close>

definition digits_only :: "string \<Rightarrow> bool" where
  "digits_only s \<longleftrightarrow> s \<noteq> [] \<and> list_all is_digit s"

definition ParseInt64 :: "string \<Rightarrow> int option" where
  "ParseInt64 s =
    (let neg = (s \<noteq> [] \<and> hd s = CHR ''-'');
         body = (if s \<noteq> [] \<and> (hd s = CHR ''-'' \<or> hd s = CHR ''+'') then tl s else s);
         v = (if neg then - int (read_nat body) else int (read_nat body))
     in if digits_only body \<and> in_int64 v then Some v else None)"

text \<open>\<^verbatim>\<open>strconv.Atoi\<close>, where \<^verbatim>\<open>int\<close> has 64 bits, and the two directions for booleans.\<close>

definition Atoi :: "string \<Rightarrow> int option" where
  "Atoi s = ParseInt64 s"

definition Itoa :: "int \<Rightarrow> string" where
  "Itoa i = FormatInt i"

definition ParseBool :: "string \<Rightarrow> bool option" where
  "ParseBool s =
    (if s \<in> {''1'', ''t'', ''T'', ''true'', ''TRUE'', ''True''} then Some True
     else if s \<in> {''0'', ''f'', ''F'', ''false'', ''FALSE'', ''False''} then Some False
     else None)"

definition FormatBool :: "bool \<Rightarrow> string" where
  "FormatBool b = (if b then ''true'' else ''false'')"

lemma ParseBool_FormatBool [go_text, simp]: "ParseBool (FormatBool b) = Some b"
  by (simp add: ParseBool_def FormatBool_def)

lemma digit_char_digit [simp]: "d < 10 \<Longrightarrow> is_digit (digit_char d)"
  by (simp add: is_digit_def digit_char_def)

lemma digit_val_char [simp]: "d < 10 \<Longrightarrow> digit_val (digit_char d) = d"
  by (simp add: digit_val_def digit_char_def)

lemma show_nat_digits: "list_all is_digit (show_nat n) \<and> show_nat n \<noteq> []"
  by (induction n rule: show_nat.induct) (subst (1 2) show_nat.simps, auto)

lemma show_nat_ne [simp]: "show_nat n \<noteq> []"
  using show_nat_digits by simp

lemma read_show_nat [go_text, simp]: "read_nat (show_nat n) = n"
proof (induction n rule: show_nat.induct)
  case (1 n)
  then show ?case
    by (subst show_nat.simps) (auto simp: read_nat_def)
qed

lemma sign_not_digit: "is_digit c \<Longrightarrow> c \<noteq> CHR ''-'' \<and> c \<noteq> CHR ''+''"
  by (auto simp: is_digit_def)

lemma show_nat_inj: "show_nat m = show_nat n \<longleftrightarrow> m = n"
  by (metis read_show_nat)

lemma hd_show_nat: "is_digit (hd (show_nat n))"
  using show_nat_digits [of n] by (cases "show_nat n") auto

lemma ParseInt64_FormatInt [go_text, simp]:
  assumes "in_int64 i" shows "ParseInt64 (FormatInt i) = Some i"
proof (cases "i < 0")
  case True
  then show ?thesis using assms show_nat_digits [of "nat (- i)"]
    by (simp add: ParseInt64_def FormatInt_def digits_only_def Let_def)
next
  case False
  then show ?thesis
    using assms show_nat_digits [of "nat i"] sign_not_digit [OF hd_show_nat [of "nat i"]]
    by (simp add: ParseInt64_def FormatInt_def digits_only_def Let_def)
qed

lemma ParseInt64_range: "ParseInt64 s = Some i \<Longrightarrow> in_int64 i"
  by (auto simp: ParseInt64_def Let_def split: if_splits)

lemma FormatInt_ne [simp]: "FormatInt i \<noteq> []"
  by (simp add: FormatInt_def)

text \<open>Decimal text has no white space to trim.\<close>

lemma strip_one_None: "(\<And>r. r \<in> set rs \<Longrightarrow> r \<noteq> [] \<Longrightarrow> hd r \<notin> set s) \<Longrightarrow> strip_one rs s = None"
  by (induction rs s rule: strip_one.induct) (fastforce simp: prefix_def dest: hd_in_set)+

lemma strip_left_id: "(\<And>r. r \<in> set rs \<Longrightarrow> r \<noteq> [] \<Longrightarrow> hd r \<notin> set s) \<Longrightarrow> strip_left rs s = s"
  by (subst strip_left.simps) (simp add: strip_one_None)

definition no_space_bytes :: "string \<Rightarrow> bool" where
  "no_space_bytes s \<longleftrightarrow> list_all (\<lambda>c. 33 \<le> (of_char c :: nat) \<and> (of_char c :: nat) \<le> 126) s"

lemma space_rune_bytes:
  "r \<in> set space_runes \<Longrightarrow> c \<in> set r \<Longrightarrow> \<not> (33 \<le> (of_char c :: nat) \<and> (of_char c :: nat) \<le> 126)"
  by (auto simp: space_runes_def)

lemma TrimSpace_id [go_text]: "no_space_bytes s \<Longrightarrow> TrimSpace s = s"
proof -
  assume s: "no_space_bytes s"
  have "strip_left space_runes s = s"
    using s by (intro strip_left_id) (auto simp: no_space_bytes_def list_all_iff dest: space_rune_bytes [OF _ hd_in_set])
  moreover have "strip_left (map rev space_runes) (rev s) = rev s"
    using s by (intro strip_left_id)
       (auto simp: no_space_bytes_def list_all_iff dest: space_rune_bytes [OF _ hd_in_set [of "rev _", simplified]])
  ultimately show ?thesis by (simp add: TrimSpace_def strip_right_def)
qed

lemma FormatInt_no_space: "no_space_bytes (FormatInt i)"
proof -
  have "no_space_bytes (show_nat n)" for n
    using show_nat_digits [of n] by (auto simp: no_space_bytes_def list_all_iff is_digit_def)
  then show ?thesis by (simp add: FormatInt_def no_space_bytes_def)
qed

section \<open>Package path/filepath\<close>

fun clean_parts :: "bool \<Rightarrow> string list \<Rightarrow> string list \<Rightarrow> string list" where
  "clean_parts rooted acc [] = rev acc"
| "clean_parts rooted acc (p # ps) =
    (if p = [] \<or> p = ''.'' then clean_parts rooted acc ps
     else if p = ''..'' then
       (case acc of
          [] \<Rightarrow> clean_parts rooted (if rooted then [] else [p]) ps
        | a # as \<Rightarrow> if a = ''..'' then clean_parts rooted (p # acc) ps
                    else clean_parts rooted as ps)
     else clean_parts rooted (p # acc) ps)"

definition Clean :: "string \<Rightarrow> string" where
  "Clean s =
    (let rooted = (s \<noteq> [] \<and> hd s = CHR ''/'');
         body = Join (clean_parts rooted [] (Split s CHR ''/'')) ''/'';
         out = (if rooted then CHR ''/'' # body else body)
     in if out = [] then ''.'' else out)"

definition filepath_Join :: "string list \<Rightarrow> string" where
  "filepath_Join es =
    (let ne = filter (\<lambda>e. e \<noteq> []) es in if ne = [] then [] else Clean (Join ne ''/''))"

text \<open>\<^verbatim>\<open>filepath.Dir\<close>: the path up to its last slash, cleaned.\<close>

definition filepath_Dir :: "string \<Rightarrow> string" where
  "filepath_Dir p = Clean (rev (dropWhile (\<lambda>c. c \<noteq> CHR ''/'') (rev p)))"

lemma Split_app: "Split (a @ c # b) c = Split a c @ Split b c"
  by (induction a) (auto split: list.splits)

lemma Join_append: "xs \<noteq> [] \<Longrightarrow> ys \<noteq> [] \<Longrightarrow> Join (xs @ ys) sep = Join xs sep @ sep @ Join ys sep"
proof (induction xs sep rule: Join.induct)
  case (2 x sep)
  then show ?case by (cases ys) auto
qed auto

text \<open>A plain file name stays the last element of a joined path.\<close>

definition plain_file :: "string \<Rightarrow> bool" where
  "plain_file n \<longleftrightarrow> n \<noteq> [] \<and> n \<noteq> ''.'' \<and> n \<noteq> ''..'' \<and> CHR ''/'' \<notin> set n"

lemma clean_parts_last: "plain_file n \<Longrightarrow> clean_parts rooted acc (ps @ [n]) = clean_parts rooted acc ps @ [n]"
  by (induction rooted acc ps rule: clean_parts.induct) (auto simp: plain_file_def split: list.splits)

lemma last_filepath_Join:
  assumes "plain_file n" shows "last (Split (filepath_Join [d, n]) CHR ''/'') = n"
proof -
  have one: "Split n CHR ''/'' = [n]" using assms by (simp add: plain_file_def)
  define ps where "ps = (if d = [] then [] else Split d CHR ''/'')"
  define rooted where "rooted = (d \<noteq> [] \<and> hd d = CHR ''/'')"
  define cs where "cs = clean_parts rooted [] ps"
  have body: "Join (xs @ [n]) ''/'' \<noteq> []" for xs
    using assms Join_append [of xs "[n]"] by (cases xs) (auto simp: plain_file_def)
  have "filepath_Join [d, n] = (if rooted then CHR ''/'' # Join (cs @ [n]) ''/'' else Join (cs @ [n]) ''/'')"
  proof (cases "d = []")
    case True
    then show ?thesis
      using assms one by (cases n) (auto simp: filepath_Join_def Clean_def Let_def ps_def rooted_def cs_def plain_file_def)
  next
    case False
    then have "Join [d, n] ''/'' = d @ CHR ''/'' # n" "filter (\<lambda>e. e \<noteq> []) [d, n] = [d, n]" using assms by (auto simp: plain_file_def)
    then show ?thesis
      using False body Split_app [of d "CHR ''/''" n] one
      by (auto simp: filepath_Join_def Clean_def Let_def ps_def rooted_def cs_def hd_append clean_parts_last [OF assms])
  qed
  moreover have "last (Split (Join (cs @ [n]) ''/'') CHR ''/'') = n"
    using Join_append [of cs "[n]" "''/''"] one by (cases "cs = []") (auto simp: Split_app)
  ultimately show ?thesis by auto
qed

section \<open>Lists\<close>

lemma find_append: "find P (xs @ ys) = (case find P xs of None \<Rightarrow> find P ys | Some x \<Rightarrow> Some x)"
  by (induction xs) auto

lemma find_SomeD: "find P xs = Some x \<Longrightarrow> x \<in> set xs \<and> P x"
  by (induction xs) (auto split: if_splits)

lemma option_eqI: "(\<And>c. x = Some c \<longleftrightarrow> y = Some c) \<Longrightarrow> x = y"
  by (cases x; cases y) auto

section \<open>Go maps\<close>

text \<open>
  A Go map is an association list with distinct keys; the list order is one of the orders
  in which \<^verbatim>\<open>range\<close> may visit it. Lookup is \<^const>\<open>map_of\<close>, assignment is
  \<^const>\<open>AList.update\<close> and \<^verbatim>\<open>delete\<close> is \<^const>\<open>AList.delete\<close>.
\<close>

type_synonym ('k, 'v) gomap = "('k \<times> 'v) list"

definition gomap_ok :: "('k, 'v) gomap \<Rightarrow> bool" where
  "gomap_ok m \<longleftrightarrow> distinct (map fst m)"

lemma gomap_ok_Nil [go_map, simp]: "gomap_ok []"
  by (simp add: gomap_ok_def)

lemma gomap_ok_update [go_map, simp]: "gomap_ok m \<Longrightarrow> gomap_ok (AList.update k v m)"
  by (simp add: gomap_ok_def distinct_update)

lemma update_fresh [go_map]: "k \<notin> fst ` set m \<Longrightarrow> AList.update k v m = m @ [(k, v)]"
  by (induction m) auto

lemma gomap_ok_delete [go_map, simp]: "gomap_ok m \<Longrightarrow> gomap_ok (AList.delete k m)"
  by (simp add: gomap_ok_def distinct_delete)

lemma gomap_ok_filter [go_map, simp]: "gomap_ok m \<Longrightarrow> gomap_ok (filter P m)"
  by (simp add: gomap_ok_def distinct_map_filter)

lemma gomap_entry: "gomap_ok m \<Longrightarrow> (k, v) \<in> set m \<longleftrightarrow> map_of m k = Some v"
  by (simp add: gomap_ok_def)

lemma gomap_lookup_filter_entry [go_map]:
  "gomap_ok m \<Longrightarrow> map_of (filter (\<lambda>(k, v). P k v) m) k =
     (case map_of m k of Some v \<Rightarrow> if P k v then Some v else None | None \<Rightarrow> None)"
  by (induction m) (auto simp: gomap_ok_def map_of_eq_None_iff split: option.splits)

lemma gomap_lookup_filter [go_map]:
  "gomap_ok m \<Longrightarrow> map_of (filter (\<lambda>(k, v). P k) m) k = (if P k then map_of m k else None)"
  by (simp add: gomap_lookup_filter_entry split: option.splits)

lemma gomap_all:
  assumes "gomap_ok m"
  shows "list_all (\<lambda>(k, v). P k v) m \<longleftrightarrow> (\<forall>k v. map_of m k = Some v \<longrightarrow> P k v)"
proof -
  have "list_all (\<lambda>(k, v). P k v) m \<longleftrightarrow> (\<forall>k v. (k, v) \<in> set m \<longrightarrow> P k v)"
    by (auto simp: list_all_iff)
  then show ?thesis unfolding gomap_entry [OF assms] .
qed

end
