(* ===== verification/Annotations.thy ===== *)
theory Annotations
  imports Prelude
begin

text \<open>
  Package \<^verbatim>\<open>fractiond/internal/annotations\<close> (annotations.go): the annotation keys of a
  container, the GPU-memory request and limit in MiB, the device assignment and the
  compute mode. The Kubernetes quantity parser is a third-party package: it is the
  parameter \<open>pq\<close>, which yields the \<^verbatim>\<open>int64\<close> value of a well-formed quantity and \<open>None\<close>
  for a parse error.
\<close>

section \<open>Definitions\<close>

type_synonym annotation_map = "string \<rightharpoonup> string"
type_synonym quantity_parser = "string \<Rightarrow> int option"

definition memoryInfix :: string where "memoryInfix = ''gpu-memory''"
definition devicesSuffix :: string where "devicesSuffix = ''gpus.devices''"
definition annotationSuffixRequest :: string where "annotationSuffixRequest = ''request''"
definition annotationSuffixLimit :: string where "annotationSuffixLimit = ''limit''"
definition computeModeSuffix :: string where "computeModeSuffix = ''gpu-compute.mode''"
definition bytesPerMiB :: int where "bytesPerMiB = 1024 * 1024"
definition minMemoryBytes :: int where "minMemoryBytes = bytesPerMiB"

datatype ComputeMode = ComputeModeTimeSlicing | ComputeModeSMSharing

record GPUMemoryConfig =
  Request :: string
  Limit :: string

datatype annotation_error =
    InvalidQuantity string
  | NegativeQuantity string
  | BelowMinimum string int
  | ParsingAnnotation string annotation_error
  | ModeNotEnabled string string
  | InvalidMode string string

definition IsEmpty :: "GPUMemoryConfig \<Rightarrow> bool" where
  "IsEmpty c \<longleftrightarrow> Request c = [] \<and> Limit c = []"

definition ApplyDefaults :: "GPUMemoryConfig \<Rightarrow> GPUMemoryConfig" where
  "ApplyDefaults c =
    (let c = (if Request c = [] then c\<lparr>Request := Limit c\<rparr> else c)
     in if Limit c = [] then c\<lparr>Limit := Request c\<rparr> else c)"

definition EffectiveMemoryMiB :: "GPUMemoryConfig \<Rightarrow> int" where
  "EffectiveMemoryMiB c =
    (let v = (if Limit c = [] then Request c else Limit c)
     in if v = [] then 0 else case ParseInt64 v of None \<Rightarrow> 0 | Some mib \<Rightarrow> mib)"

definition ceilDiv :: "int \<Rightarrow> int \<Rightarrow> int" where
  "ceilDiv v d = 1 + (v - 1) sdiv d"

definition quantityToMemoryMiB :: "quantity_parser \<Rightarrow> string \<Rightarrow> (annotation_error, int) result" where
  "quantityToMemoryMiB pq v =
    (case pq v of
       None \<Rightarrow> Inl (InvalidQuantity v)
     | Some bytes \<Rightarrow>
         if bytes < 0 then Inl (NegativeQuantity v)
         else if bytes < minMemoryBytes then Inl (BelowMinimum v bytes)
         else Inr (ceilDiv bytes bytesPerMiB))"

definition parseToMemoryMiB :: "quantity_parser \<Rightarrow> string \<Rightarrow> (annotation_error, string) result" where
  "parseToMemoryMiB pq v =
    (case quantityToMemoryMiB pq v of Inl e \<Rightarrow> Inl e | Inr mib \<Rightarrow> Inr (FormatInt mib))"

definition containerMemoryAnnotationKey :: "string \<Rightarrow> string \<Rightarrow> string \<Rightarrow> string" where
  "containerMemoryAnnotationKey pre cname suf = pre @ cname @ ''.'' @ memoryInfix @ ''.'' @ suf"

definition containerDevicesAnnotationKey :: "string \<Rightarrow> string \<Rightarrow> string" where
  "containerDevicesAnnotationKey pre cname = pre @ cname @ ''.'' @ devicesSuffix"

definition containerComputeModeAnnotationKey :: "string \<Rightarrow> string \<Rightarrow> string" where
  "containerComputeModeAnnotationKey pre cname = pre @ cname @ ''.'' @ computeModeSuffix"

definition RequestAnnotationKey :: "string \<Rightarrow> string \<Rightarrow> string" where
  "RequestAnnotationKey pre cname = containerMemoryAnnotationKey pre cname annotationSuffixRequest"

definition LimitAnnotationKey :: "string \<Rightarrow> string \<Rightarrow> string" where
  "LimitAnnotationKey pre cname = containerMemoryAnnotationKey pre cname annotationSuffixLimit"

definition DevicesAnnotationKey :: "string \<Rightarrow> string \<Rightarrow> string" where
  "DevicesAnnotationKey pre cname = containerDevicesAnnotationKey pre cname"

definition ComputeModeAnnotationKey :: "string \<Rightarrow> string \<Rightarrow> string" where
  "ComputeModeAnnotationKey pre cname = containerComputeModeAnnotationKey pre cname"

text \<open>One of the two lookups of \<^verbatim>\<open>ParseGPUMemoryAnnotations\<close>; an absent key leaves the field empty.\<close>

definition memoryAnnotation ::
  "quantity_parser \<Rightarrow> annotation_map \<Rightarrow> string \<Rightarrow> (annotation_error, string) result" where
  "memoryAnnotation pq ann key =
    (case ann key of
       None \<Rightarrow> Inr []
     | Some v \<Rightarrow>
         (case parseToMemoryMiB pq v of
            Inl e \<Rightarrow> Inl (ParsingAnnotation key e)
          | Inr mib \<Rightarrow> Inr mib))"

definition ParseGPUMemoryAnnotations ::
  "quantity_parser \<Rightarrow> annotation_map \<Rightarrow> string \<Rightarrow> string \<Rightarrow> (annotation_error, GPUMemoryConfig) result" where
  "ParseGPUMemoryAnnotations pq ann cname pre =
    (case memoryAnnotation pq ann (containerMemoryAnnotationKey pre cname annotationSuffixRequest) of
       Inl e \<Rightarrow> Inl e
     | Inr request \<Rightarrow>
         (case memoryAnnotation pq ann (containerMemoryAnnotationKey pre cname annotationSuffixLimit) of
            Inl e \<Rightarrow> Inl e
          | Inr limit \<Rightarrow> Inr \<lparr>Request = request, Limit = limit\<rparr>))"

definition ParseVisibleDevices :: "annotation_map \<Rightarrow> string \<Rightarrow> string \<Rightarrow> string" where
  "ParseVisibleDevices ann cname pre =
    TrimSpace (case ann (containerDevicesAnnotationKey pre cname) of None \<Rightarrow> [] | Some v \<Rightarrow> v)"

definition ParseComputeMode ::
  "annotation_map \<Rightarrow> string \<Rightarrow> string \<Rightarrow> bool \<Rightarrow> (annotation_error, ComputeMode) result" where
  "ParseComputeMode ann cname pre smSharingEnabled =
    (let key = containerComputeModeAnnotationKey pre cname in
     case ann key of
       None \<Rightarrow> Inr ComputeModeTimeSlicing
     | Some raw \<Rightarrow>
         (let val = TrimSpace raw in
          if val = ''time-slicing'' then Inr ComputeModeTimeSlicing
          else if val = ''sm-sharing'' then
            (if \<not> smSharingEnabled then Inl (ModeNotEnabled key val) else Inr ComputeModeSMSharing)
          else Inl (InvalidMode key val)))"

section \<open>Memory amounts\<close>

named_theorems annotation_key \<open>unfolding of the annotation keys\<close>

lemmas annotation_key_defs [annotation_key] =
  RequestAnnotationKey_def LimitAnnotationKey_def DevicesAnnotationKey_def
  ComputeModeAnnotationKey_def containerMemoryAnnotationKey_def
  containerDevicesAnnotationKey_def containerComputeModeAnnotationKey_def
  memoryInfix_def devicesSuffix_def annotationSuffixRequest_def annotationSuffixLimit_def
  computeModeSuffix_def

lemma ceilDiv_ceiling:
  assumes "1 \<le> v" "0 < d"
  shows "ceilDiv v d = \<lceil>rat_of_int v / rat_of_int d\<rceil>"
proof -
  define k where "k = (v - 1) div d"
  have "ceilDiv v d = 1 + k"
    using assms by (cases "v = 1") (simp_all add: ceilDiv_def signed_divide_int_def k_def)
  moreover have "k * d \<le> v - 1" "v - 1 < (k + 1) * d"
    using \<open>0 < d\<close> div_mult_mod_eq [of "v - 1" d] pos_mod_sign [of d "v - 1"] pos_mod_bound [of d "v - 1"]
    unfolding k_def distrib_right by linarith+
  then have "k * d < v" "v \<le> (1 + k) * d" by (simp_all add: algebra_simps)
  then have "rat_of_int (k * d) < rat_of_int v" "rat_of_int v \<le> rat_of_int ((1 + k) * d)"
    by (simp_all only: of_int_less_iff of_int_le_iff)
  then have "\<lceil>rat_of_int v / rat_of_int d\<rceil> = 1 + k"
    using \<open>0 < d\<close>
    by (intro ceiling_unique) (simp_all add: pos_less_divide_eq pos_divide_le_eq)
  ultimately show ?thesis by simp
qed

lemma ceilDiv_bounds:
  assumes "bytesPerMiB \<le> b" "in_int64 b"
  shows "1 \<le> ceilDiv b bytesPerMiB" "ceilDiv b bytesPerMiB \<le> 8796093022208"
proof -
  have "ceilDiv b bytesPerMiB = 1 + (b - 1) div 1048576"
    using assms by (simp add: ceilDiv_def signed_divide_int_def bytesPerMiB_def)
  then show "1 \<le> ceilDiv b bytesPerMiB" "ceilDiv b bytesPerMiB \<le> 8796093022208"
    using assms unfolding bytesPerMiB_def in_int64_def max_int64_def by linarith+
qed

definition quantities_int64 :: "quantity_parser \<Rightarrow> bool" where
  "quantities_int64 pq \<longleftrightarrow> (\<forall>s b. pq s = Some b \<longrightarrow> in_int64 b)"

lemma quantityToMemoryMiB_Inr:
  "quantityToMemoryMiB pq v = Inr m \<longleftrightarrow>
     (\<exists>b. pq v = Some b \<and> bytesPerMiB \<le> b \<and> m = ceilDiv b bytesPerMiB)"
  by (auto simp: quantityToMemoryMiB_def minMemoryBytes_def bytesPerMiB_def split: option.splits)

lemma parseToMemoryMiB_Inr:
  "parseToMemoryMiB pq v = Inr s \<longleftrightarrow>
     (\<exists>b. pq v = Some b \<and> bytesPerMiB \<le> b \<and> s = FormatInt (ceilDiv b bytesPerMiB))"
  by (auto simp: parseToMemoryMiB_def quantityToMemoryMiB_Inr split: sum.splits)
     (metis quantityToMemoryMiB_Inr sum.distinct(1))

lemma parse_formatted_mib:
  assumes "bytesPerMiB \<le> b" "in_int64 b"
  shows "ParseInt64 (FormatInt (ceilDiv b bytesPerMiB)) = Some (ceilDiv b bytesPerMiB)"
  using ceilDiv_bounds [OF assms]
  by (intro ParseInt64_FormatInt) (simp add: in_int64_def min_int64_def max_int64_def)

lemma memoryAnnotation_Inr:
  "memoryAnnotation pq ann k = Inr s \<longleftrightarrow>
     ann k = None \<and> s = [] \<or> (\<exists>v. ann k = Some v \<and> parseToMemoryMiB pq v = Inr s)"
  by (auto simp: memoryAnnotation_def split: option.splits sum.splits)

lemma ParseGPUMemoryAnnotations_Inr:
  "ParseGPUMemoryAnnotations pq ann cname pre = Inr cfg \<longleftrightarrow>
     memoryAnnotation pq ann (RequestAnnotationKey pre cname) = Inr (Request cfg) \<and>
     memoryAnnotation pq ann (LimitAnnotationKey pre cname) = Inr (Limit cfg)"
  by (cases cfg)
     (auto simp: ParseGPUMemoryAnnotations_def RequestAnnotationKey_def LimitAnnotationKey_def
           split: sum.splits)

lemma ApplyDefaults_fields:
  "Request (ApplyDefaults c) = (if Request c = [] then Limit c else Request c)"
  "Limit (ApplyDefaults c) = (if Limit c = [] then Request c else Limit c)"
  by (simp_all add: ApplyDefaults_def Let_def)

lemma ApplyDefaults_idem [simp]: "ApplyDefaults (ApplyDefaults c) = ApplyDefaults c"
  by (simp add: ApplyDefaults_def Let_def)

lemma ApplyDefaults_nonempty:
  "\<not> IsEmpty c \<Longrightarrow> Request (ApplyDefaults c) \<noteq> [] \<and> Limit (ApplyDefaults c) \<noteq> []"
  by (auto simp: IsEmpty_def ApplyDefaults_fields)

lemma EffectiveMemoryMiB_ApplyDefaults [simp]:
  "EffectiveMemoryMiB (ApplyDefaults c) = EffectiveMemoryMiB c"
  by (simp add: EffectiveMemoryMiB_def ApplyDefaults_fields Let_def)

text \<open>The bytes of the annotation that decides the enforced amount: the limit, else the request.\<close>

definition enforced_bytes :: "quantity_parser \<Rightarrow> annotation_map \<Rightarrow> string \<Rightarrow> string \<Rightarrow> int option" where
  "enforced_bytes pq ann cname pre =
    (case ann (LimitAnnotationKey pre cname) of
       Some v \<Rightarrow> pq v
     | None \<Rightarrow> (case ann (RequestAnnotationKey pre cname) of Some v \<Rightarrow> pq v | None \<Rightarrow> None))"

lemma EffectiveMemoryMiB_of_annotations:
  assumes "ParseGPUMemoryAnnotations pq ann cname pre = Inr cfg" "\<not> IsEmpty cfg"
    and "quantities_int64 pq"
  shows "\<exists>b. enforced_bytes pq ann cname pre = Some b \<and> bytesPerMiB \<le> b \<and>
              EffectiveMemoryMiB cfg = ceilDiv b bytesPerMiB"
  using assms
  by (auto simp: ParseGPUMemoryAnnotations_Inr memoryAnnotation_Inr parseToMemoryMiB_Inr
        IsEmpty_def enforced_bytes_def EffectiveMemoryMiB_def parse_formatted_mib quantities_int64_def
        FormatInt_ne [symmetric])

lemma Limit_text:
  assumes "ParseGPUMemoryAnnotations pq ann cname pre = Inr cfg" "\<not> IsEmpty cfg"
    and "quantities_int64 pq"
  shows "Limit (ApplyDefaults cfg) = FormatInt (EffectiveMemoryMiB cfg)"
  using assms
  by (auto simp: ParseGPUMemoryAnnotations_Inr memoryAnnotation_Inr parseToMemoryMiB_Inr ApplyDefaults_fields
        IsEmpty_def EffectiveMemoryMiB_def parse_formatted_mib quantities_int64_def FormatInt_ne [symmetric])

section \<open>Annotation keys\<close>

lemma annotation_keys_injective:
  "RequestAnnotationKey pre c = RequestAnnotationKey pre c' \<longleftrightarrow> c = c'"
  "LimitAnnotationKey pre c = LimitAnnotationKey pre c' \<longleftrightarrow> c = c'"
  "DevicesAnnotationKey pre c = DevicesAnnotationKey pre c' \<longleftrightarrow> c = c'"
  "ComputeModeAnnotationKey pre c = ComputeModeAnnotationKey pre c' \<longleftrightarrow> c = c'"
  by (auto simp: annotation_key)

lemma annotation_keys_disjoint:
  "RequestAnnotationKey pre c \<noteq> LimitAnnotationKey pre c'"
  "RequestAnnotationKey pre c \<noteq> DevicesAnnotationKey pre c'"
  "RequestAnnotationKey pre c \<noteq> ComputeModeAnnotationKey pre c'"
  "LimitAnnotationKey pre c \<noteq> DevicesAnnotationKey pre c'"
  "LimitAnnotationKey pre c \<noteq> ComputeModeAnnotationKey pre c'"
  "DevicesAnnotationKey pre c \<noteq> ComputeModeAnnotationKey pre c'"
  by (subst rev_is_rev_conv [symmetric], simp add: annotation_key del: rev_is_rev_conv)+

lemmas annotation_keys_neq [simp] =
  annotation_keys_disjoint annotation_keys_disjoint [symmetric]

lemma memoryAnnotation_cong:
  fixes ann :: annotation_map
  shows "ann k = ann' k \<Longrightarrow> memoryAnnotation pq ann k = memoryAnnotation pq ann' k"
  by (simp add: memoryAnnotation_def)

lemma reads_own_keys:
  assumes "ann (RequestAnnotationKey pre c) = ann' (RequestAnnotationKey pre c)"
    and "ann (LimitAnnotationKey pre c) = ann' (LimitAnnotationKey pre c)"
  shows "ParseGPUMemoryAnnotations pq ann c pre = ParseGPUMemoryAnnotations pq ann' c pre"
  using memoryAnnotation_cong [where ann = ann and ann' = ann' and pq = pq] assms
  unfolding ParseGPUMemoryAnnotations_def RequestAnnotationKey_def LimitAnnotationKey_def by (metis (no_types))

text \<open>Every annotation key fractiond reads for one container.\<close>

definition container_keys :: "string \<Rightarrow> string \<Rightarrow> string set" where
  "container_keys pre c =
    {RequestAnnotationKey pre c, LimitAnnotationKey pre c,
     DevicesAnnotationKey pre c, ComputeModeAnnotationKey pre c}"

lemma other_container_keys:
  "c \<noteq> c' \<Longrightarrow> container_keys pre c \<inter> container_keys pre c' = {}"
  by (auto simp: container_keys_def annotation_keys_injective)

section \<open>Properties\<close>

text \<open>
  C14: the amount enforced on a container. When the memory annotations of a container parse
  and at least one is set, defaulting fills both the request and the limit, and the amount
  recorded for metrics is the number of whole MiB that covers the bytes of the limit
  annotation (the request annotation when there is no limit): the least integer not below
  bytes / 1 MiB, which is at least 1 and survives the trip through its decimal text.
\<close>

theorem memory_annotation_amount:
  assumes "ParseGPUMemoryAnnotations pq ann cname pre = Inr cfg" "\<not> IsEmpty cfg"
    and "quantities_int64 pq"
  shows "Request (ApplyDefaults cfg) \<noteq> [] \<and> Limit (ApplyDefaults cfg) \<noteq> [] \<and>
    EffectiveMemoryMiB (ApplyDefaults cfg) = EffectiveMemoryMiB cfg \<and>
    1 \<le> EffectiveMemoryMiB cfg \<and>
    (\<exists>b. enforced_bytes pq ann cname pre = Some b \<and>
         EffectiveMemoryMiB cfg = \<lceil>rat_of_int b / 1048576\<rceil>)"
proof -
  obtain b where b: "enforced_bytes pq ann cname pre = Some b" "bytesPerMiB \<le> b"
      "EffectiveMemoryMiB cfg = ceilDiv b bytesPerMiB"
    using EffectiveMemoryMiB_of_annotations [OF assms] by blast
  have "in_int64 b"
    using b(1) assms(3) by (auto simp: enforced_bytes_def quantities_int64_def split: option.splits)
  with b ceilDiv_bounds(1) ceilDiv_ceiling [of b bytesPerMiB] ApplyDefaults_nonempty [OF assms(2)]
  show ?thesis by (auto simp: bytesPerMiB_def)
qed

definition sample_quantity :: quantity_parser where
  "sample_quantity s = (if s = ''4Gi'' then Some 4294967296 else if s = ''1500k'' then Some 1500000 else None)"

lemma sample_quantity_int64: "quantities_int64 sample_quantity"
  by (simp add: quantities_int64_def sample_quantity_def in_int64_def max_int64_def min_int64_def)

theorem memory_annotation_amount_witness:
  "let ann = [RequestAnnotationKey ''p.'' ''c'' \<mapsto> ''1500k''];
       cfg = \<lparr>Request = ''2'', Limit = []\<rparr>
   in ParseGPUMemoryAnnotations sample_quantity ann ''c'' ''p.'' = Inr cfg \<and>
      Limit (ApplyDefaults cfg) \<noteq> [] \<and> 1 \<le> EffectiveMemoryMiB cfg"
proof -
  have "ParseGPUMemoryAnnotations sample_quantity [RequestAnnotationKey ''p.'' ''c'' \<mapsto> ''1500k'']
      ''c'' ''p.'' = Inr \<lparr>Request = ''2'', Limit = []\<rparr>"
    by code_simp
  from memory_annotation_amount [OF this _ sample_quantity_int64] this show ?thesis
    by (simp add: IsEmpty_def)
qed

text \<open>
  Containers do not read each other's annotations. Setting or clearing any annotation
  that belongs to one container leaves the parsed memory configuration, the device
  assignment and the compute mode of every other container of the pod unchanged.
\<close>

theorem annotations_isolated:
  assumes "c \<noteq> c'" "k \<in> container_keys pre c'"
  shows "ParseGPUMemoryAnnotations pq (ann(k := v)) c pre = ParseGPUMemoryAnnotations pq ann c pre \<and>
    ParseVisibleDevices (ann(k := v)) c pre = ParseVisibleDevices ann c pre \<and>
    ParseComputeMode (ann(k := v)) c pre sm = ParseComputeMode ann c pre sm"
proof -
  have own: "(ann(k := v)) x = ann x" if "x \<in> container_keys pre c" for x
    using assms that other_container_keys [of c c' pre] by auto
  have "ParseGPUMemoryAnnotations pq (ann(k := v)) c pre = ParseGPUMemoryAnnotations pq ann c pre"
    by (rule reads_own_keys; rule own; simp add: container_keys_def)
  moreover have "(ann(k := v)) (containerDevicesAnnotationKey pre c) = ann (containerDevicesAnnotationKey pre c)"
    by (rule own) (simp add: container_keys_def DevicesAnnotationKey_def)
  moreover have "(ann(k := v)) (containerComputeModeAnnotationKey pre c) = ann (containerComputeModeAnnotationKey pre c)"
    by (rule own) (simp add: container_keys_def ComputeModeAnnotationKey_def)
  ultimately show ?thesis
    unfolding ParseVisibleDevices_def ParseComputeMode_def by simp
qed

theorem annotations_isolated_witness:
  "ParseComputeMode ([ComputeModeAnnotationKey ''p.'' ''b'' \<mapsto> ''sm-sharing''])
     ''a'' ''p.'' True = Inr ComputeModeTimeSlicing"
proof -
  have "ParseComputeMode (Map.empty(ComputeModeAnnotationKey ''p.'' ''b'' := Some ''sm-sharing''))
     ''a'' ''p.'' True = ParseComputeMode Map.empty ''a'' ''p.'' True"
    using annotations_isolated [of "''a''" "''b''" "ComputeModeAnnotationKey ''p.'' ''b''" "''p.''"]
    by (simp add: container_keys_def)
  then show ?thesis by (simp add: ParseComputeMode_def Let_def)
qed

end
