(* ===== verification/Nri.thy ===== *)
theory Nri
  imports Prelude
begin

text \<open>
  The data of the container runtime's Node Resource Interface (the third-party package
  \<^verbatim>\<open>containerd/nri/pkg/api\<close>) that fractiond reads and writes, as plain records: only the
  fields the source uses, no behaviour. A Go pointer that the code tests for nil is an
  \<open>option\<close>. An adjustment is the sequence of edits the plugin asked for.
\<close>

record LinuxDevice =
  dev_major :: int
  dev_minor :: int

record LinuxContainer =
  linux_devices :: "LinuxDevice list"
  linux_cgroups_path :: string

datatype ContainerState =
    CONTAINER_UNKNOWN
  | CONTAINER_CREATED
  | CONTAINER_PAUSED
  | CONTAINER_RUNNING
  | CONTAINER_STOPPED

record Mount =
  mount_source :: string
  mount_destination :: string
  mount_type :: string
  mount_options :: "string list"

record Container =
  ctr_id :: string
  ctr_pod_sandbox_id :: string
  ctr_name :: string
  ctr_state :: ContainerState
  ctr_env :: "string list"
  ctr_mounts :: "Mount list"
  ctr_linux :: "LinuxContainer option"

record PodSandbox =
  pod_id :: string
  pod_name :: string
  pod_uid :: string
  pod_namespace :: string
  pod_annotations :: "string \<rightharpoonup> string"

datatype EnvEdit = AddEnv string string | RemoveEnv string

record ContainerAdjustment =
  adj_env :: "EnvEdit list"
  adj_mounts :: "Mount list"
  adj_cdi_devices :: "string list"

text \<open>
  A container carries an adjustment when every variable the adjustment sets is in its
  environment with that value and every mount it adds is among its mounts: what a runtime
  that honours the adjustment produces.
\<close>

definition env_entry :: "string \<Rightarrow> string \<Rightarrow> string" where
  "env_entry k v = k @ ''='' @ v"

definition carries :: "ContainerAdjustment \<Rightarrow> Container \<Rightarrow> bool" where
  "carries adj c \<longleftrightarrow>
     (\<forall>e \<in> set (adj_env adj). case e of AddEnv k v \<Rightarrow> env_entry k v \<in> set (ctr_env c) | RemoveEnv _ \<Rightarrow> True) \<and>
     set (adj_mounts adj) \<subseteq> set (ctr_mounts c)"

lemma carries_env: "carries adj c \<Longrightarrow> AddEnv k v \<in> set (adj_env adj) \<Longrightarrow> env_entry k v \<in> set (ctr_env c)"
  by (fastforce simp: carries_def)

lemma carries_mount: "carries adj c \<Longrightarrow> m \<in> set (adj_mounts adj) \<Longrightarrow> m \<in> set (ctr_mounts c)"
  by (auto simp: carries_def)

section \<open>Indexing pod sandboxes\<close>

text \<open>
  The lookup table from sandbox IDs to sandboxes that adapter.go and detector.go each build
  with the same loop: entries without an ID are skipped, the last entry of an ID wins.
\<close>

fun sandbox_loop :: "PodSandbox option list \<Rightarrow> (string, PodSandbox) gomap \<Rightarrow> (string, PodSandbox) gomap" where
  "sandbox_loop [] out = out"
| "sandbox_loop (None # pods) out = sandbox_loop pods out"
| "sandbox_loop (Some pod # pods) out =
    (if pod_id pod = [] then sandbox_loop pods out
     else sandbox_loop pods (AList.update (pod_id pod) pod out))"

definition podSandboxLookup :: "PodSandbox option list \<Rightarrow> (string, PodSandbox) gomap" where
  "podSandboxLookup pods = sandbox_loop pods []"

lemma sandbox_loop_lookup:
  assumes "map_of (sandbox_loop pods out) i = Some pod"
  shows "Some pod \<in> set pods \<and> pod_id pod = i \<or> map_of out i = Some pod"
  using assms
  by (induction pods out rule: sandbox_loop.induct) (auto simp: update_conv' split: if_splits)

lemma podSandboxLookup_Some:
  "map_of (podSandboxLookup pods) i = Some pod \<Longrightarrow> Some pod \<in> set pods \<and> pod_id pod = i"
  using sandbox_loop_lookup [of pods "[]" i pod] by (simp add: podSandboxLookup_def)

end
