(* ===== verification/Injection.thy ===== *)
theory Injection
  imports Annotations
begin

text \<open>
  Package \<^verbatim>\<open>fractiond/internal/injection\<close> (injection.go) and the shared constants of
  \<^verbatim>\<open>common/configuration\<close>: the environment variables, the CDI device names and the MPS
  pipe mount that both the create hook and the audit derive from a container's annotations.
\<close>

section \<open>Definitions\<close>

definition DefaultAnnotationPrefix :: string where
  "DefaultAnnotationPrefix = ''nvidia.com/container.''"

definition DefaultMPSPipeDirectory :: string where
  "DefaultMPSPipeDirectory = ''/run/nvidia-mps''"

definition SharedMPSSocketPath :: string where
  "SharedMPSSocketPath = ''shared/default''"

definition ContainerMPSPipeDirectory :: string where
  "ContainerMPSPipeDirectory = ''/tmp/nvidia-mps''"

definition EnvGPUMemoryRequest :: string where
  "EnvGPUMemoryRequest = ''NVIDIA_GPU_MEMORY_REQUEST''"

definition EnvGPUMemoryLimit :: string where
  "EnvGPUMemoryLimit = ''NVIDIA_GPU_MEMORY_LIMIT''"

definition EnvMPSPipeDirectory :: string where
  "EnvMPSPipeDirectory = ''CUDA_MPS_PIPE_DIRECTORY''"

definition EnvVisibleDevices :: string where
  "EnvVisibleDevices = ''NVIDIA_VISIBLE_DEVICES''"

definition CDIKindDevicePlugin :: string where
  "CDIKindDevicePlugin = ''k8s.device-plugin.nvidia.com/gpu''"

definition cdiNonDeviceValues :: "string list" where
  "cdiNonDeviceValues = [''all'', ''void'', ''none'', []]"

fun cdi_names :: "string list \<Rightarrow> string list" where
  "cdi_names [] = []"
| "cdi_names (device # rest) =
    (let device = TrimSpace device in
     if device \<in> set cdiNonDeviceValues then cdi_names rest
     else (CDIKindDevicePlugin @ ''='' @ device) # cdi_names rest)"

definition CDIDeviceNames :: "string \<Rightarrow> string list" where
  "CDIDeviceNames visibleDevices = cdi_names (Split visibleDevices CHR '','')"

definition AllEnvKeys :: "string list" where
  "AllEnvKeys = [EnvGPUMemoryRequest, EnvGPUMemoryLimit, EnvMPSPipeDirectory, EnvVisibleDevices]"

definition MPSPipeMount :: "string \<Rightarrow> ComputeMode \<Rightarrow> string \<times> string" where
  "MPSPipeMount mpsPipeDir mode =
    (if mode = ComputeModeSMSharing
     then (filepath_Join [mpsPipeDir, SharedMPSSocketPath], ContainerMPSPipeDirectory)
     else (mpsPipeDir, mpsPipeDir))"

section \<open>Lemmas\<close>

named_theorems env_key \<open>unfolding of the injected variable names\<close>

lemmas env_key_defs [env_key] =
  EnvGPUMemoryRequest_def EnvGPUMemoryLimit_def EnvMPSPipeDirectory_def EnvVisibleDevices_def

lemma env_keys_no_equals:
  "CHR ''='' \<notin> set EnvGPUMemoryRequest" "CHR ''='' \<notin> set EnvGPUMemoryLimit"
  "CHR ''='' \<notin> set EnvMPSPipeDirectory" "CHR ''='' \<notin> set EnvVisibleDevices"
  by (simp_all add: env_key)

lemma AllEnvKeys_distinct: "distinct AllEnvKeys"
  by (simp add: AllEnvKeys_def env_key)

lemma cdi_names_eq:
  "cdi_names ds =
    map (\<lambda>d. CDIKindDevicePlugin @ ''='' @ TrimSpace d)
        (filter (\<lambda>d. TrimSpace d \<notin> set cdiNonDeviceValues) ds)"
  by (induction ds) (auto simp: Let_def)

section \<open>Properties\<close>

text \<open>
  Every CDI device requested for a container names one entry of its comma-separated
  device assignment. The result lists, in order, the trimmed entries that are not one of
  all, void, none and the empty string, each qualified by the device plugin's CDI kind; so
  it is empty exactly when no entry names a device, and no name holds a comma.
\<close>

theorem CDIDeviceNames_entries:
  "CDIDeviceNames v =
     map (\<lambda>d. CDIKindDevicePlugin @ ''='' @ TrimSpace d)
       (filter (\<lambda>d. TrimSpace d \<notin> {''all'', ''void'', ''none'', []}) (Split v CHR '','')) \<and>
   (CDIDeviceNames v = [] \<longleftrightarrow> TrimSpace ` set (Split v CHR '','') \<subseteq> {''all'', ''void'', ''none'', []}) \<and>
   CHR '','' \<notin> \<Union> (set ` set (CDIDeviceNames v))"
  by (auto simp: CDIDeviceNames_def cdi_names_eq cdiNonDeviceValues_def filter_empty_conv
      CDIKindDevicePlugin_def dest: TrimSpace_subset Split_no_sep)

end
