(* ===== verification/Container_Store.thy ===== *)
theory Container_Store
  imports Prelude
begin

text \<open>
  Package \<^verbatim>\<open>common/mapping/store\<close> (container_store.go): the container-to-pod mapping, its
  Writer and Reader interfaces and the in-memory implementation. The interface contract of
  the write side is the locale \<open>mapping_writer\<close>; the in-memory store interprets it here and
  the file-backed store in theory \<open>Fsstore\<close>. The store's mutex makes each method one atomic
  step, which is what a function on the state is.
\<close>

section \<open>Data\<close>

record GPUDevice =
  Index :: int
  MinorNumber :: int
  UUID :: string

record ContainerInfo =
  ContainerID :: string
  Container_name :: string
  Pod :: string
  Namespace :: string
  PodUID :: string
  CgroupPath :: string
  GPUDevices :: "GPUDevice list"
  RequestedMemoryMiB :: int

type_synonym ContainerStore = "(string, ContainerInfo) gomap"

text \<open>The Writer interface as the record of its methods over a storage state.\<close>

record 's Writer =
  w_Upsert :: "ContainerInfo \<Rightarrow> 's \<Rightarrow> 's"
  w_Delete :: "string \<Rightarrow> 's \<Rightarrow> 's"
  w_Replace :: "ContainerInfo list \<Rightarrow> 's \<Rightarrow> 's"

section \<open>Normalisation of container IDs and cgroup paths\<close>

text \<open>The text after the last occurrence of a separator (\<^verbatim>\<open>strings.LastIndex\<close>).\<close>

fun after_last :: "string \<Rightarrow> string \<Rightarrow> string option" where
  "after_last sep [] = (if sep = [] then Some [] else None)"
| "after_last sep (x # xs) =
    (case after_last sep xs of
       Some t \<Rightarrow> Some t
     | None \<Rightarrow> if prefix sep (x # xs) then Some (drop (length sep) (x # xs)) else None)"

definition trim_char :: "char \<Rightarrow> string \<Rightarrow> string" where
  "trim_char c s = rev (dropWhile (\<lambda>x. x = c) (rev (dropWhile (\<lambda>x. x = c) s)))"

definition trim_right_char :: "char \<Rightarrow> string \<Rightarrow> string" where
  "trim_right_char c s = rev (dropWhile (\<lambda>x. x = c) (rev s))"

definition normalizeContainerID :: "string \<Rightarrow> string" where
  "normalizeContainerID cid =
    (let cid = TrimSpace cid in
     if cid = [] then []
     else let cid = (case after_last ''://'' cid of Some t \<Rightarrow> t | None \<Rightarrow> cid)
          in trim_char CHR ''/'' cid)"

text \<open>One \<^verbatim>\<open>strings.ReplaceAll(path, "//", "/")\<close>, and the loop that repeats it.\<close>

fun squeeze_once :: "string \<Rightarrow> string" where
  "squeeze_once [] = []"
| "squeeze_once [x] = [x]"
| "squeeze_once (x # y # zs) =
    (if x = CHR ''/'' \<and> y = CHR ''/'' then CHR ''/'' # squeeze_once zs
     else x # squeeze_once (y # zs))"

fun has_double_slash :: "string \<Rightarrow> bool" where
  "has_double_slash (x # y # zs) \<longleftrightarrow> (x = CHR ''/'' \<and> y = CHR ''/'') \<or> has_double_slash (y # zs)"
| "has_double_slash _ \<longleftrightarrow> False"

lemma squeeze_once_le: "length (squeeze_once s) \<le> length s"
  by (induction s rule: squeeze_once.induct) auto

lemma squeeze_once_shorter: "has_double_slash s \<Longrightarrow> length (squeeze_once s) < length s"
proof (induction s rule: squeeze_once.induct)
  case (3 x y zs)
  then show ?case using squeeze_once_le [of zs] by auto
qed auto

function squeeze :: "string \<Rightarrow> string" where
  "squeeze s = (if has_double_slash s then squeeze (squeeze_once s) else s)"
  by pat_completeness auto
termination
  by (relation "measure length") (auto dest: squeeze_once_shorter)

declare squeeze.simps [simp del]

definition normalizeCgroupPath :: "string \<Rightarrow> string" where
  "normalizeCgroupPath path =
    (let path = TrimSpace path in
     if path = [] then []
     else let path = (if \<not> HasPrefix path ''/'' then CHR ''/'' # path else path);
              path = squeeze path
          in if path \<noteq> ''/'' then trim_right_char CHR ''/'' path else path)"

definition cgroupPathContains :: "string \<Rightarrow> string \<Rightarrow> bool" where
  "cgroupPathContains processPath containerPath =
    (let processPath = normalizeCgroupPath processPath;
         containerPath = normalizeCgroupPath containerPath
     in if processPath = [] \<or> containerPath = [] \<or> containerPath = ''/'' then False
        else processPath = containerPath \<or> HasPrefix processPath (containerPath @ ''/''))"

definition cgroupPathContainsContainerID :: "string \<Rightarrow> string \<Rightarrow> bool" where
  "cgroupPathContainsContainerID processPath cid =
    (let processPath = normalizeCgroupPath processPath;
         cid = normalizeContainerID cid
     in if processPath = [] \<or> cid = [] then False else Contains processPath cid)"

definition cgroupPathMatchesContainer :: "string \<Rightarrow> ContainerInfo \<Rightarrow> bool" where
  "cgroupPathMatchesContainer processPath c =
    (if cgroupPathContains processPath (CgroupPath c) then True
     else cgroupPathContainsContainerID processPath (ContainerID c))"

section \<open>The in-memory store\<close>

definition NewContainerStore :: ContainerStore where
  "NewContainerStore = []"

fun replace_loop :: "ContainerInfo list \<Rightarrow> ContainerStore \<Rightarrow> ContainerStore" where
  "replace_loop [] nxt = nxt"
| "replace_loop (c # cs) nxt =
    (if ContainerID c = [] then replace_loop cs nxt
     else replace_loop cs (AList.update (ContainerID c) c nxt))"

definition store_Replace :: "ContainerInfo list \<Rightarrow> ContainerStore \<Rightarrow> ContainerStore" where
  "store_Replace cs s = replace_loop cs []"

definition store_Upsert :: "ContainerInfo \<Rightarrow> ContainerStore \<Rightarrow> ContainerStore" where
  "store_Upsert c s = (if ContainerID c = [] then s else AList.update (ContainerID c) c s)"

definition store_Delete :: "string \<Rightarrow> ContainerStore \<Rightarrow> ContainerStore" where
  "store_Delete cid s =
    (if cid = [] then s
     else let s = AList.delete cid s;
              normalized = normalizeContainerID cid
          in if normalized = [] then s
             else filter (\<lambda>(storedID, _). normalizeContainerID storedID \<noteq> normalized) s)"

definition store_Writer :: "ContainerStore Writer" where
  "store_Writer = \<lparr>w_Upsert = store_Upsert, w_Delete = store_Delete, w_Replace = store_Replace\<rparr>"

fun MatchCgroupPaths :: "string list \<Rightarrow> ContainerStore \<Rightarrow> ContainerInfo option" where
  "MatchCgroupPaths [] s = None"
| "MatchCgroupPaths (path # paths) s =
    (case find (\<lambda>(_, c). cgroupPathMatchesContainer path c) s of
       Some (_, c) \<Rightarrow> Some c
     | None \<Rightarrow> MatchCgroupPaths paths s)"

definition ActivePodUIDs :: "ContainerStore \<Rightarrow> string set" where
  "ActivePodUIDs s = set (filter (\<lambda>u. u \<noteq> []) (map (\<lambda>(_, c). PodUID c) s))"

definition ActiveContainers :: "ContainerStore \<Rightarrow> ContainerInfo list" where
  "ActiveContainers s = map snd s"

text \<open>The invariant of the store: distinct keys, none empty, each the ID of its entry.\<close>

definition store_ok :: "ContainerStore \<Rightarrow> bool" where
  "store_ok s \<longleftrightarrow> gomap_ok s \<and> list_all (\<lambda>(k, c). k \<noteq> [] \<and> k = ContainerID c) s"

section \<open>Lookup laws\<close>

text \<open>The entry a list of containers leaves for an ID: the last one listed with it.\<close>

definition last_by_id :: "ContainerInfo list \<Rightarrow> string \<Rightarrow> ContainerInfo option" where
  "last_by_id cs i = find (\<lambda>c. ContainerID c = i) (rev cs)"

lemma last_by_id_simps [simp]:
  "last_by_id [] i = None"
  "last_by_id (c # cs) i =
     (case last_by_id cs i of Some d \<Rightarrow> Some d | None \<Rightarrow> if ContainerID c = i then Some c else None)"
  by (auto simp: last_by_id_def find_append split: option.splits)

lemma last_by_id_Some: "last_by_id cs i = Some c \<Longrightarrow> c \<in> set cs \<and> ContainerID c = i"
  by (induction cs) (auto split: option.splits if_splits)

lemma last_by_id_None: "last_by_id cs i = None \<longleftrightarrow> i \<notin> ContainerID ` set cs"
  by (induction cs) (auto split: option.splits)

lemma store_ok_iff:
  "store_ok s \<longleftrightarrow> gomap_ok s \<and> (\<forall>k c. map_of s k = Some c \<longrightarrow> k \<noteq> [] \<and> k = ContainerID c)"
  using gomap_all [of s "\<lambda>k c. k \<noteq> [] \<and> k = ContainerID c"] unfolding store_ok_def by blast

lemma store_ok_new: "store_ok NewContainerStore"
  by (simp add: NewContainerStore_def store_ok_def)

lemma store_ok_update: "store_ok s \<Longrightarrow> ContainerID c \<noteq> [] \<Longrightarrow> store_ok (AList.update (ContainerID c) c s)"
  by (auto simp: store_ok_iff update_conv' split: if_splits)

lemma store_ok_upsert: "store_ok s \<Longrightarrow> store_ok (store_Upsert c s)"
  by (simp add: store_Upsert_def store_ok_update)

lemma store_ok_delete: "store_ok s \<Longrightarrow> store_ok (store_Delete cid s)"
  by (auto simp: store_Delete_def store_ok_def Let_def list_all_iff AList.delete_eq)

lemma store_ok_replace_loop: "store_ok s \<Longrightarrow> store_ok (replace_loop cs s)"
  by (induction cs s rule: replace_loop.induct) (auto simp: store_ok_update)

lemma store_ok_replace: "store_ok (store_Replace cs s)"
  using store_ok_replace_loop [of "[]"] by (simp add: store_Replace_def store_ok_def)

lemma replace_loop_lookup:
  "i \<noteq> [] \<Longrightarrow> map_of (replace_loop cs s) i =
     (case last_by_id cs i of Some c \<Rightarrow> Some c | None \<Rightarrow> map_of s i)"
  by (induction cs s rule: replace_loop.induct) (auto simp: update_conv' split: option.splits)

lemma store_Replace_lookup: "i \<noteq> [] \<Longrightarrow> map_of (store_Replace cs s) i = last_by_id cs i"
  by (simp add: store_Replace_def replace_loop_lookup split: option.splits)

lemma store_Upsert_lookup:
  "ContainerID c \<noteq> [] \<Longrightarrow> map_of (store_Upsert c s) i = (if i = ContainerID c then Some c else map_of s i)"
  by (simp add: store_Upsert_def update_conv')

lemma store_Delete_lookup:
  assumes "store_ok s" "cid \<noteq> []"
  shows "map_of (store_Delete cid s) i =
    (if i = cid \<or> normalizeContainerID cid \<noteq> [] \<and> normalizeContainerID i = normalizeContainerID cid
     then None else map_of s i)"
  using assms
  by (simp add: store_Delete_def Let_def store_ok_def gomap_lookup_filter delete_conv')

section \<open>The Writer contract\<close>

datatype mapping_op = OpUpsert ContainerInfo | OpDelete string | OpReplace "ContainerInfo list"

fun run_op :: "'s Writer \<Rightarrow> mapping_op \<Rightarrow> 's \<Rightarrow> 's" where
  "run_op W (OpUpsert c) = w_Upsert W c"
| "run_op W (OpDelete i) = w_Delete W i"
| "run_op W (OpReplace cs) = w_Replace W cs"

fun op_ids :: "mapping_op \<Rightarrow> string set" where
  "op_ids (OpUpsert c) = {ContainerID c}"
| "op_ids (OpDelete i) = {i}"
| "op_ids (OpReplace cs) = ContainerID ` set cs"

text \<open>The abstract mapping: a finite map from container IDs to what is known of them.\<close>

fun spec_op :: "mapping_op \<Rightarrow> (string \<rightharpoonup> ContainerInfo) \<Rightarrow> (string \<rightharpoonup> ContainerInfo)" where
  "spec_op (OpUpsert c) m = m(ContainerID c \<mapsto> c)"
| "spec_op (OpDelete i) m = m(i := None)"
| "spec_op (OpReplace cs) m = last_by_id cs"

locale mapping_writer =
  fixes W :: "'s Writer"
    and view :: "'s \<Rightarrow> string \<rightharpoonup> ContainerInfo"
    and project :: "ContainerInfo \<Rightarrow> ContainerInfo"
    and inv :: "'s \<Rightarrow> bool"
    and bare :: "string \<Rightarrow> bool"
  assumes upsert_view: "inv s \<Longrightarrow> bare (ContainerID c) \<Longrightarrow> bare i \<Longrightarrow>
      view (w_Upsert W c s) i = (if i = ContainerID c then Some (project c) else view s i)"
    and delete_view: "inv s \<Longrightarrow> bare j \<Longrightarrow> bare i \<Longrightarrow>
      view (w_Delete W j s) i = (if i = j then None else view s i)"
    and replace_view: "inv s \<Longrightarrow> (\<And>c. c \<in> set cs \<Longrightarrow> bare (ContainerID c)) \<Longrightarrow> bare i \<Longrightarrow>
      view (w_Replace W cs s) i = map_option project (last_by_id cs i)"
    and inv_upsert: "inv s \<Longrightarrow> inv (w_Upsert W c s)"
    and inv_delete: "inv s \<Longrightarrow> inv (w_Delete W j s)"
    and inv_replace: "inv s \<Longrightarrow> inv (w_Replace W cs s)"
begin

text \<open>The storage shows, on bare IDs, the projection of an abstract mapping.\<close>

definition shows_map :: "'s \<Rightarrow> (string \<rightharpoonup> ContainerInfo) \<Rightarrow> bool" where
  "shows_map s m \<longleftrightarrow> inv s \<and> (\<forall>i. bare i \<longrightarrow> view s i = map_option project (m i))"

lemma run_op_refines:
  assumes "shows_map s m" "\<And>i. i \<in> op_ids op \<Longrightarrow> bare i"
  shows "shows_map (run_op W op s) (spec_op op m)"
  using assms
  by (cases op) (auto simp: shows_map_def upsert_view delete_view replace_view
      inv_upsert inv_delete inv_replace)

lemma run_ops_refine:
  assumes "shows_map s m" "\<And>i. i \<in> \<Union> (op_ids ` set ops) \<Longrightarrow> bare i"
  shows "shows_map (fold (run_op W) ops s) (fold spec_op ops m)"
  using assms by (induction ops arbitrary: s m) (auto simp: run_op_refines)

lemma run_ops_view:
  assumes "inv s" "\<And>i. bare i \<Longrightarrow> view s i = None"
    and "\<And>i. i \<in> \<Union> (op_ids ` set ops) \<Longrightarrow> bare i" and "bare i"
  shows "view (fold (run_op W) ops s) i = map_option project (fold spec_op ops Map.empty i)"
  using run_ops_refine [of s Map.empty ops] assms by (auto simp: shows_map_def)

end

text \<open>IDs as the runtime reports them: normalisation leaves them alone.\<close>

definition bare_id :: "string \<Rightarrow> bool" where
  "bare_id i \<longleftrightarrow> i \<noteq> [] \<and> normalizeContainerID i = i"

interpretation mem: mapping_writer store_Writer "\<lambda>s. map_of s" "\<lambda>c. c" store_ok bare_id
  by unfold_locales
     (auto simp: store_Writer_def bare_id_def store_Upsert_lookup store_Delete_lookup
       store_Replace_lookup store_ok_upsert store_ok_delete store_ok_replace option.map_ident)

section \<open>Cgroup paths\<close>

lemma squeeze_no_double: "\<not> has_double_slash (squeeze s)"
proof (induction s rule: squeeze.induct)
  case (1 s)
  then show ?case by (subst squeeze.simps) auto
qed

lemma hd_squeeze_once: "s \<noteq> [] \<Longrightarrow> hd (squeeze_once s) = hd s \<and> squeeze_once s \<noteq> []"
  by (induction s rule: squeeze_once.induct) auto

lemma hd_squeeze: "s \<noteq> [] \<Longrightarrow> hd (squeeze s) = hd s \<and> squeeze s \<noteq> []"
proof (induction s rule: squeeze.induct)
  case (1 s)
  then show ?case using hd_squeeze_once [of s] by (subst (1 2) squeeze.simps) auto
qed

lemma has_double_slash_append: "has_double_slash s \<Longrightarrow> has_double_slash (s @ u)"
  by (induction s rule: has_double_slash.induct) auto

lemma has_double_slash_prefix: "has_double_slash s \<Longrightarrow> prefix s t \<Longrightarrow> has_double_slash t"
  by (auto simp: prefix_def has_double_slash_append)

lemma trim_right_char_prefix: "prefix (trim_right_char c s) s"
  by (metis rev_rev_ident suffix_dropWhile suffix_to_prefix trim_right_char_def)

lemma trim_right_char_last: "trim_right_char c s \<noteq> [] \<Longrightarrow> last (trim_right_char c s) \<noteq> c"
  using hd_dropWhile [of "\<lambda>x. x = c" "rev s"] by (auto simp: trim_right_char_def last_rev)

text \<open>
  The normal form: empty, or rooted, without a double slash and without a trailing slash
  unless it is the root.
\<close>

definition cgroup_normal :: "string \<Rightarrow> bool" where
  "cgroup_normal p \<longleftrightarrow> p = [] \<or> p = ''/'' \<or>
     (hd p = CHR ''/'' \<and> \<not> has_double_slash p \<and> last p \<noteq> CHR ''/'')"

lemma trim_rooted_normal:
  assumes "hd s = CHR ''/''" "s \<noteq> []" "\<not> has_double_slash s" "s \<noteq> ''/''"
  shows "cgroup_normal (trim_right_char CHR ''/'' s)"
proof (cases "trim_right_char CHR ''/'' s")
  case (Cons x xs)
  then have "hd (trim_right_char CHR ''/'' s) = hd s"
    using trim_right_char_prefix [of "CHR ''/''" s] by (auto simp: prefix_def)
  moreover have "\<not> has_double_slash (trim_right_char CHR ''/'' s)"
    using assms(3) has_double_slash_prefix trim_right_char_prefix by blast
  ultimately show ?thesis
    using Cons assms(1) trim_right_char_last [of "CHR ''/''" s] by (simp add: cgroup_normal_def)
qed (simp add: cgroup_normal_def)

lemma normalizeCgroupPath_normal: "cgroup_normal (normalizeCgroupPath p)"
proof -
  define q where "q = (if \<not> HasPrefix (TrimSpace p) ''/'' then CHR ''/'' # TrimSpace p else TrimSpace p)"
  have q: "q \<noteq> []" "hd q = CHR ''/''"
    by (auto simp: q_def HasPrefix_def prefix_def)
  have "cgroup_normal (trim_right_char CHR ''/'' (squeeze q))" if "squeeze q \<noteq> ''/''"
    using trim_rooted_normal [of "squeeze q"] that hd_squeeze [of q] q squeeze_no_double [of q] by simp
  then show ?thesis
    by (auto simp: normalizeCgroupPath_def Let_def cgroup_normal_def q_def)
qed

lemma component_prefix_iff:
  "p = q \<or> prefix (q @ [c]) p \<longleftrightarrow> prefix (Split q c) (Split p c)"
proof
  assume "p = q \<or> prefix (q @ [c]) p"
  then show "prefix (Split q c) (Split p c)" by (auto simp: prefix_def Split_app)
next
  assume "prefix (Split q c) (Split p c)"
  then obtain r where r: "Split p c = Split q c @ r" by (auto simp: prefix_def)
  have p: "p = Join (Split q c @ r) [c]"
    unfolding r [symmetric] by simp
  show "p = q \<or> prefix (q @ [c]) p"
    by (cases "r = []") (simp_all add: p Join_append)
qed

lemma MatchCgroupPaths_None:
  "MatchCgroupPaths paths s = None \<longleftrightarrow>
     (\<forall>p \<in> set paths. \<forall>(k, c) \<in> set s. \<not> cgroupPathMatchesContainer p c)"
  by (induction paths) (fastforce simp: find_None_iff dest: find_SomeD split: option.splits)+

lemma MatchCgroupPaths_Some:
  "MatchCgroupPaths paths s = Some c \<Longrightarrow>
     \<exists>k p. (k, c) \<in> set s \<and> p \<in> set paths \<and> cgroupPathMatchesContainer p c"
  by (induction paths) (auto split: option.splits dest!: find_SomeD)

section \<open>Properties\<close>

text \<open>
  The in-memory store implements a finite map. Starting from an empty store, after any
  sequence of Upsert, Delete and Replace calls on the IDs the runtime reports, the store
  holds for every ID exactly what the abstract map holds: the last value written and not
  deleted since, with Replace keeping only the listed containers.
\<close>

theorem store_refines_map:
  assumes "\<And>i. i \<in> \<Union> (op_ids ` set ops) \<Longrightarrow> bare_id i" "bare_id i"
  shows "map_of (fold (run_op store_Writer) ops NewContainerStore) i = fold spec_op ops Map.empty i"
  using mem.run_ops_view [of NewContainerStore ops i] assms store_ok_new
  by (simp add: NewContainerStore_def option.map_ident)

definition sample_info :: "string \<Rightarrow> string \<Rightarrow> ContainerInfo" where
  "sample_info cid pod =
    \<lparr>ContainerID = cid, Container_name = ''main'', Pod = pod, Namespace = ''ns'', PodUID = pod,
     CgroupPath = [], GPUDevices = [], RequestedMemoryMiB = 1024\<rparr>"

lemma sample_info_id [simp]: "ContainerID (sample_info i p) = i"
  by (simp add: sample_info_def)

theorem store_refines_map_witness:
  "map_of (fold (run_op store_Writer)
      [OpUpsert (sample_info ''a1'' ''p''), OpUpsert (sample_info ''b2'' ''q''), OpDelete ''a1'']
      NewContainerStore) ''b2'' = Some (sample_info ''b2'' ''q'')"
proof -
  have bare: "bare_id ''a1''" "bare_id ''b2''" by code_simp+
  show ?thesis
    by (subst store_refines_map) (use bare in auto)
qed

text \<open>
  A Delete leaves no alias behind. Whatever form an ID is given in (bare, or with a
  runtime scheme such as containerd://), after Delete no stored ID has the same normal form,
  every entry of another container is kept, and the store stays well formed.
\<close>

theorem store_Delete_aliases:
  assumes "store_ok s" "normalizeContainerID cid \<noteq> []"
  shows "store_ok (store_Delete cid s) \<and>
    (\<forall>i. normalizeContainerID i = normalizeContainerID cid \<longrightarrow> map_of (store_Delete cid s) i = None) \<and>
    (\<forall>i. normalizeContainerID i \<noteq> normalizeContainerID cid \<longrightarrow> map_of (store_Delete cid s) i = map_of s i)"
proof -
  have "cid \<noteq> []" using assms(2) by (auto simp: normalizeContainerID_def)
  then show ?thesis
    using store_Delete_lookup [OF assms(1)] store_ok_delete [OF assms(1)] assms(2) by auto
qed

theorem store_Delete_aliases_witness:
  "map_of (store_Delete ''containerd://a1'' [(''a1'', sample_info ''a1'' ''p'')]) ''a1'' = None"
proof -
  have "store_ok [(''a1'', sample_info ''a1'' ''p'')]" by (simp add: store_ok_def gomap_ok_def)
  moreover have "normalizeContainerID ''containerd://a1'' \<noteq> []"
    "normalizeContainerID ''a1'' = normalizeContainerID ''containerd://a1''" by code_simp+
  ultimately show ?thesis using store_Delete_aliases by blast
qed

text \<open>
  Cgroup containment is containment of path components. The normal form of any path is
  empty, the root, or a rooted path without a double or a trailing slash, and a process path
  lies in a container's cgroup exactly when the components of the container's normal form
  are a leading part of the components of the process's: /a/bc is never inside /a/b.
\<close>

theorem cgroupPathContains_components:
  "cgroup_normal (normalizeCgroupPath p) \<and>
   (cgroupPathContains p c \<longleftrightarrow>
     normalizeCgroupPath p \<noteq> [] \<and> normalizeCgroupPath c \<noteq> [] \<and> normalizeCgroupPath c \<noteq> ''/'' \<and>
     prefix (Split (normalizeCgroupPath c) CHR ''/'') (Split (normalizeCgroupPath p) CHR ''/''))"
  using normalizeCgroupPath_normal
    component_prefix_iff [of "normalizeCgroupPath p" "normalizeCgroupPath c" "CHR ''/''"]
  by (simp add: cgroupPathContains_def Let_def HasPrefix_def)

text \<open>
  A lookup by cgroup paths answers from the store. It returns a container only if that
  container is stored and one of the given paths lies in it, and it returns nothing only if
  no stored container matches any path; both hold for every iteration order of the map.
\<close>

theorem MatchCgroupPaths_sound_complete:
  "(case MatchCgroupPaths paths s of
      Some c \<Rightarrow> c \<in> set (ActiveContainers s) \<and> (\<exists>p \<in> set paths. cgroupPathMatchesContainer p c)
    | None \<Rightarrow> \<not> (\<exists>p \<in> set paths. \<exists>c \<in> set (ActiveContainers s). cgroupPathMatchesContainer p c))"
  by (auto simp: ActiveContainers_def MatchCgroupPaths_None split: option.splits
      dest!: MatchCgroupPaths_Some intro: rev_image_eqI) fastforce

end
