(* ===== verification/Fsstore.thy ===== *)
theory Fsstore
  imports Container_Store
begin

text \<open>
  Package \<^verbatim>\<open>common/mapping/fsstore\<close> (record.go, writer.go, reader.go): the mapping handed from
  fractiond to metricsd as one file per container in a shared directory. The directory is an
  explicit state. A file holds a decoded record, or bytes that do not decode; every system
  call may fail as an \<open>Io\<close> value says. \<open>writeRecord\<close> returns the sequence of directory states
  it goes through, since a reader in another process may look at any of them.
\<close>

section \<open>Records and file names\<close>

definition schemaVersion :: int where "schemaVersion = 1"
definition fileExtension :: string where "fileExtension = ''.json''"
definition DefaultMapDir :: string where "DefaultMapDir = ''/var/run/gpu-fractioning/map''"

record MappingRecord =
  rec_SchemaVersion :: int
  rec_Pod :: string
  rec_Namespace :: string
  rec_PodUID :: string
  rec_GPUDevices :: "GPUDevice list"
  rec_RequestedMemoryMiB :: int

definition newRecord :: "ContainerInfo \<Rightarrow> MappingRecord" where
  "newRecord info =
    \<lparr>rec_SchemaVersion = schemaVersion, rec_Pod = Pod info, rec_Namespace = Namespace info,
     rec_PodUID = PodUID info, rec_GPUDevices = GPUDevices info,
     rec_RequestedMemoryMiB = RequestedMemoryMiB info\<rparr>"

definition toContainer :: "MappingRecord \<Rightarrow> string \<Rightarrow> ContainerInfo" where
  "toContainer r cid =
    \<lparr>ContainerID = cid, Container_name = [], Pod = rec_Pod r, Namespace = rec_Namespace r,
     PodUID = rec_PodUID r, CgroupPath = [], GPUDevices = rec_GPUDevices r,
     RequestedMemoryMiB = rec_RequestedMemoryMiB r\<rparr>"

definition sanitizeContainerID :: "string \<Rightarrow> string" where
  "sanitizeContainerID cid =
    (let cid = TrimSpace cid;
         cid = (case after_last ''://'' cid of Some t \<Rightarrow> t | None \<Rightarrow> cid);
         cid = map (\<lambda>x. if x = CHR ''/'' then CHR ''_'' else x) cid
     in map (\<lambda>x. if x = CHR 0x5C then CHR ''_'' else x) cid)"

definition fileName :: "string \<Rightarrow> string" where
  "fileName cid = sanitizeContainerID cid @ fileExtension"

definition containerIDFromFile :: "string \<Rightarrow> string" where
  "containerIDFromFile name = TrimSuffix name fileExtension"

section \<open>The shared directory\<close>

datatype FileContent = JsonRecord MappingRecord | Unparsable | Unreadable

text \<open>A directory entry; the flag of a subdirectory says that it is empty.\<close>

datatype DirEntry = RegularFile FileContent | Directory bool

fun is_dir :: "DirEntry \<Rightarrow> bool" where
  "is_dir (Directory _) = True"
| "is_dir (RegularFile _) = False"

record MapDir =
  dir_exists :: bool
  dir_entries :: "(string, DirEntry) gomap"

definition put_entry :: "string \<Rightarrow> DirEntry \<Rightarrow> MapDir \<Rightarrow> MapDir" where
  "put_entry n e d = d\<lparr>dir_entries := AList.update n e (dir_entries d)\<rparr>"

text \<open>\<^verbatim>\<open>os.Remove\<close>: files and empty subdirectories go, anything else is left.\<close>

definition remove_entry :: "string \<Rightarrow> MapDir \<Rightarrow> MapDir" where
  "remove_entry n d =
    (if map_of (dir_entries d) n = Some (Directory False) then d
     else d\<lparr>dir_entries := AList.delete n (dir_entries d)\<rparr>)"

datatype WriteStep =
    MkdirAll | Marshal | CreateTemp | WriteTemp | ChmodTemp | SyncTemp | CloseTemp | RenameTemp | RemoveTemp

record Io =
  io_write :: "ContainerInfo \<Rightarrow> WriteStep \<Rightarrow> bool"
  io_rand :: "ContainerInfo \<Rightarrow> nat"
  io_mkdir :: bool
  io_readdir :: bool
  io_remove :: "string \<Rightarrow> bool"

text \<open>\<^verbatim>\<open>os.CreateTemp\<close> puts a random number in place of the star of the pattern.\<close>

definition tempName :: "nat \<Rightarrow> string" where
  "tempName r = ''.gpu-fractioning-'' @ show_nat r @ ''.tmp''"

section \<open>Writer\<close>

definition discard_temp :: "(WriteStep \<Rightarrow> bool) \<Rightarrow> string \<Rightarrow> MapDir \<Rightarrow> MapDir" where
  "discard_temp fails tmp d = (if fails RemoveTemp then d else remove_entry tmp d)"

definition renamed :: "string \<Rightarrow> ContainerInfo \<Rightarrow> MapDir \<Rightarrow> MapDir" where
  "renamed tmp info d =
    put_entry (fileName (ContainerID info)) (RegularFile (JsonRecord (newRecord info)))
      (d\<lparr>dir_entries := AList.delete tmp (dir_entries d)\<rparr>)"

definition target_is_dir :: "ContainerInfo \<Rightarrow> MapDir \<Rightarrow> bool" where
  "target_is_dir info d =
    (case map_of (dir_entries d) (fileName (ContainerID info)) of Some e \<Rightarrow> is_dir e | None \<Rightarrow> False)"

definition writeRecord ::
  "(WriteStep \<Rightarrow> bool) \<Rightarrow> string \<Rightarrow> ContainerInfo \<Rightarrow> MapDir \<Rightarrow> MapDir list \<times> WriteStep option" where
  "writeRecord fails tmp info d =
    (if fails MkdirAll then ([], Some MkdirAll)
     else let d1 = d\<lparr>dir_exists := True\<rparr> in
     if fails Marshal then ([d1], Some Marshal)
     else if fails CreateTemp then ([d1], Some CreateTemp)
     else let d2 = put_entry tmp (RegularFile Unparsable) d1 in
     if fails WriteTemp then ([d1, d2, discard_temp fails tmp d2], Some WriteTemp)
     else let d3 = put_entry tmp (RegularFile (JsonRecord (newRecord info))) d2 in
     if fails ChmodTemp then ([d1, d2, d3, discard_temp fails tmp d3], Some ChmodTemp)
     else if fails SyncTemp then ([d1, d2, d3, discard_temp fails tmp d3], Some SyncTemp)
     else if fails CloseTemp then ([d1, d2, d3, discard_temp fails tmp d3], Some CloseTemp)
     else if fails RenameTemp \<or> target_is_dir info d3
          then ([d1, d2, d3, discard_temp fails tmp d3], Some RenameTemp)
     else ([d1, d2, d3, renamed tmp info d3], None))"

definition written :: "Io \<Rightarrow> ContainerInfo \<Rightarrow> MapDir \<Rightarrow> MapDir" where
  "written io info d = last (d # fst (writeRecord (io_write io info) (tempName (io_rand io info)) info d))"

definition fs_Upsert :: "Io \<Rightarrow> ContainerInfo \<Rightarrow> MapDir \<Rightarrow> MapDir" where
  "fs_Upsert io info d = (if ContainerID info = [] then d else written io info d)"

definition fs_Delete :: "Io \<Rightarrow> string \<Rightarrow> MapDir \<Rightarrow> MapDir" where
  "fs_Delete io cid d =
    (if cid = [] then d
     else if io_remove io (fileName cid) then d
     else remove_entry (fileName cid) d)"

fun write_all :: "Io \<Rightarrow> ContainerInfo list \<Rightarrow> string set \<Rightarrow> MapDir \<Rightarrow> string set \<times> MapDir" where
  "write_all io [] desired d = (desired, d)"
| "write_all io (info # infos) desired d =
    (if ContainerID info = [] then write_all io infos desired d
     else write_all io infos (insert (fileName (ContainerID info)) desired) (written io info d))"

definition keep_entry :: "Io \<Rightarrow> string set \<Rightarrow> string \<Rightarrow> DirEntry \<Rightarrow> bool" where
  "keep_entry io desired name e \<longleftrightarrow>
     is_dir e \<or> \<not> HasSuffix name fileExtension \<or> name \<in> desired \<or> io_remove io name"

definition fs_Replace :: "Io \<Rightarrow> ContainerInfo list \<Rightarrow> MapDir \<Rightarrow> MapDir" where
  "fs_Replace io infos d =
    (if io_mkdir io then d
     else case write_all io infos {} (d\<lparr>dir_exists := True\<rparr>) of (desired, d) \<Rightarrow>
       if io_readdir io then d
       else d\<lparr>dir_entries := filter (\<lambda>(n, e). keep_entry io desired n e) (dir_entries d)\<rparr>)"

definition fs_Writer :: "Io \<Rightarrow> MapDir Writer" where
  "fs_Writer io = \<lparr>w_Upsert = fs_Upsert io, w_Delete = fs_Delete io, w_Replace = fs_Replace io\<rparr>"

section \<open>Reader\<close>

fun readFile :: "string \<Rightarrow> DirEntry \<Rightarrow> ContainerInfo option" where
  "readFile name (RegularFile (JsonRecord r)) =
    (if rec_SchemaVersion r \<noteq> schemaVersion then None
     else Some (toContainer r (containerIDFromFile name)))"
| "readFile name (RegularFile Unparsable) = None"
| "readFile name (RegularFile Unreadable) = None"
| "readFile name (Directory _) = None"

definition scan_entry :: "string \<times> DirEntry \<Rightarrow> ContainerInfo option" where
  "scan_entry ne =
    (case ne of (name, e) \<Rightarrow>
       if is_dir e \<or> HasPrefix name ''.'' \<or> \<not> HasSuffix name fileExtension then None
       else readFile name e)"

text \<open>\<^verbatim>\<open>os.ReadDir\<close> lists a directory in the order of the file names.\<close>

definition scan :: "MapDir \<Rightarrow> ContainerStore" where
  "scan d =
    (if \<not> dir_exists d then NewContainerStore
     else store_Replace (List.map_filter scan_entry (sort_key fst (dir_entries d))) NewContainerStore)"

definition Reader_MatchCgroupPaths :: "MapDir \<Rightarrow> string list \<Rightarrow> ContainerInfo option" where
  "Reader_MatchCgroupPaths d paths = MatchCgroupPaths paths (scan d)"

definition Reader_ActivePodUIDs :: "MapDir \<Rightarrow> string set" where
  "Reader_ActivePodUIDs d = ActivePodUIDs (scan d)"

definition Reader_ActiveContainers :: "MapDir \<Rightarrow> ContainerInfo list" where
  "Reader_ActiveContainers d = ActiveContainers (scan d)"

section \<open>What a reader sees\<close>

definition decode_entry :: "string \<Rightarrow> DirEntry option \<Rightarrow> ContainerInfo option" where
  "decode_entry i e =
    (case e of Some (RegularFile (JsonRecord r)) \<Rightarrow>
        if rec_SchemaVersion r = schemaVersion then Some (toContainer r i) else None
     | _ \<Rightarrow> None)"

lemma toContainer_id [simp]: "ContainerID (toContainer r i) = i"
  by (simp add: toContainer_def)

lemma decode_entry_Some:
  "decode_entry i e = Some c \<longleftrightarrow>
     (\<exists>r. e = Some (RegularFile (JsonRecord r)) \<and> rec_SchemaVersion r = schemaVersion \<and> c = toContainer r i)"
  by (auto simp: decode_entry_def split: option.splits DirEntry.splits FileContent.splits)

lemma last_by_id_unique:
  "inj_on ContainerID (set cs) \<Longrightarrow> last_by_id cs i = Some c \<longleftrightarrow> c \<in> set cs \<and> ContainerID c = i"
  by (auto dest: last_by_id_Some)
     (metis inj_onD last_by_id_None last_by_id_Some image_eqI not_None_eq)

lemma scan_entry_Some:
  "scan_entry (n, e) = Some c \<longleftrightarrow>
     (\<exists>r i. n = i @ fileExtension \<and> \<not> prefix ''.'' n \<and> e = RegularFile (JsonRecord r) \<and>
       rec_SchemaVersion r = schemaVersion \<and> c = toContainer r i)"
  by (auto simp: scan_entry_def HasPrefix_def HasSuffix_def suffix_def containerIDFromFile_def
      split: if_splits elim!: readFile.elims)

lemma visible_name: "prefix ''.'' (i @ fileExtension) \<longleftrightarrow> i = [] \<or> hd i = CHR ''.''"
  by (cases i) (auto simp: fileExtension_def)

lemma set_map_filter: "set (List.map_filter f xs) = {y. \<exists>x \<in> set xs. f x = Some y}"
  by (induction xs) (auto simp: map_filter_simps split: option.splits)

lemma scan_lookup:
  assumes "gomap_ok (dir_entries d)" "i \<noteq> []"
  shows "map_of (scan d) i =
    (if dir_exists d \<and> hd i \<noteq> CHR ''.'' then decode_entry i (map_of (dir_entries d) (i @ fileExtension))
     else None)"
proof (cases "dir_exists d")
  case True
  let ?L = "List.map_filter scan_entry (sort_key fst (dir_entries d))"
  have L: "c \<in> set ?L \<longleftrightarrow> (\<exists>r. map_of (dir_entries d) (ContainerID c @ fileExtension) = Some (RegularFile (JsonRecord r)) \<and>
      \<not> prefix ''.'' (ContainerID c @ fileExtension) \<and>
      rec_SchemaVersion r = schemaVersion \<and> c = toContainer r (ContainerID c))" for c
  proof -
    have "c \<in> set ?L \<longleftrightarrow> (\<exists>n e. (n, e) \<in> set (dir_entries d) \<and> scan_entry (n, e) = Some c)"
      by (force simp: set_map_filter)
    then show ?thesis unfolding gomap_entry [OF assms(1)] scan_entry_Some by auto
  qed
  have "inj_on ContainerID (set ?L)"
    by (rule inj_onI) (metis L DirEntry.inject(1) FileContent.inject option.inject)
  then have "map_of (scan d) i = Some c \<longleftrightarrow> c \<in> set ?L \<and> ContainerID c = i" for c
    using True assms(2) by (simp add: scan_def store_Replace_lookup last_by_id_unique)
  then show ?thesis
    using True assms(2) by (intro option_eqI) (auto simp: L visible_name decode_entry_Some)
qed (simp add: scan_def NewContainerStore_def)

section \<open>Writing\<close>

definition dir_ok :: "MapDir \<Rightarrow> bool" where
  "dir_ok d \<longleftrightarrow> gomap_ok (dir_entries d) \<and> (dir_exists d \<or> dir_entries d = [])"

definition files_only :: "MapDir \<Rightarrow> bool" where
  "files_only d \<longleftrightarrow> list_all (\<lambda>(n, e). \<not> is_dir e) (dir_entries d)"

lemma scan_ok: "store_ok (scan d)"
  by (simp add: scan_def store_ok_new store_ok_replace)

lemma scan_lookup_empty [simp]: "map_of (scan d) [] = None"
  using scan_ok [of d] by (auto simp: store_ok_iff dest: spec [of _ "[]"] intro: option_eqI)

lemma temp_not_json [simp]: "tempName r \<noteq> i @ fileExtension" "i @ fileExtension \<noteq> tempName r"
  using arg_cong [of "tempName r" "i @ fileExtension" last]
  by (auto simp: tempName_def fileExtension_def)

lemma fileName_not_temp [simp]: "tempName r \<noteq> fileName c" "fileName c \<noteq> tempName r"
  by (simp_all add: fileName_def)

lemma put_entry_simps [simp]:
  "dir_exists (put_entry n e d) = dir_exists d"
  "map_of (dir_entries (put_entry n e d)) m = (if m = n then Some e else map_of (dir_entries d) m)"
  "gomap_ok (dir_entries d) \<Longrightarrow> gomap_ok (dir_entries (put_entry n e d))"
  by (simp_all add: put_entry_def update_conv')

lemma remove_entry_simps [simp]:
  "dir_exists (remove_entry n d) = dir_exists d"
  "m \<noteq> n \<Longrightarrow> map_of (dir_entries (remove_entry n d)) m = map_of (dir_entries d) m"
  "gomap_ok (dir_entries d) \<Longrightarrow> gomap_ok (dir_entries (remove_entry n d))"
  by (simp_all add: remove_entry_def delete_conv')

lemma discard_temp_simps [simp]:
  "dir_exists (discard_temp f t d) = dir_exists d"
  "m \<noteq> t \<Longrightarrow> map_of (dir_entries (discard_temp f t d)) m = map_of (dir_entries d) m"
  "gomap_ok (dir_entries d) \<Longrightarrow> gomap_ok (dir_entries (discard_temp f t d))"
  by (simp_all add: discard_temp_def)

lemma renamed_simps [simp]:
  "dir_exists (renamed t info d) = dir_exists d"
  "m \<noteq> t \<Longrightarrow> map_of (dir_entries (renamed t info d)) m =
     (if m = fileName (ContainerID info) then Some (RegularFile (JsonRecord (newRecord info)))
      else map_of (dir_entries d) m)"
  "gomap_ok (dir_entries d) \<Longrightarrow> gomap_ok (dir_entries (renamed t info d))"
  by (simp_all add: renamed_def delete_conv')

lemma writeRecord_states:
  assumes "gomap_ok (dir_entries d)" "d' \<in> set (fst (writeRecord fails (tempName r) info d))"
  shows "gomap_ok (dir_entries d')" "dir_exists d'"
    "map_of (dir_entries d') (i @ fileExtension) = map_of (dir_entries d) (i @ fileExtension) \<or>
      (snd (writeRecord fails (tempName r) info d) = None \<and> i @ fileExtension = fileName (ContainerID info) \<and>
       map_of (dir_entries d') (i @ fileExtension) = Some (RegularFile (JsonRecord (newRecord info))))"
  using assms by (auto simp: writeRecord_def Let_def split: if_splits)

lemma writeRecord_last:
  assumes "snd (writeRecord fails tmp info d) = None"
  shows "fst (writeRecord fails tmp info d) \<noteq> []"
    "\<exists>d3. last (fst (writeRecord fails tmp info d)) = renamed tmp info d3 \<and> dir_exists d3 \<and>
       (\<forall>m. m \<noteq> tmp \<longrightarrow> map_of (dir_entries d3) m = map_of (dir_entries d) m)"
  using assms by (auto simp: writeRecord_def Let_def split: if_splits)

lemma scan_same_entry:
  assumes "dir_ok d" "gomap_ok (dir_entries d')" "dir_exists d'"
    "map_of (dir_entries d') (i @ fileExtension) = map_of (dir_entries d) (i @ fileExtension)"
  shows "map_of (scan d') i = map_of (scan d) i"
proof (cases "i = []")
  case False
  then show ?thesis
    using assms scan_lookup [of d i] scan_lookup [of d' i]
    by (cases "dir_exists d") (auto simp: dir_ok_def decode_entry_def)
qed simp

lemma scan_new_entry:
  assumes "gomap_ok (dir_entries d')" "dir_exists d'" "i \<noteq> []" "hd i \<noteq> CHR ''.''"
    "map_of (dir_entries d') (i @ fileExtension) = Some (RegularFile (JsonRecord (newRecord info)))"
  shows "map_of (scan d') i = Some (toContainer (newRecord info) i)"
  using assms by (simp add: scan_lookup decode_entry_def newRecord_def)

section \<open>The file-backed store without faults\<close>

definition no_faults :: "(ContainerInfo \<Rightarrow> nat) \<Rightarrow> Io" where
  "no_faults rnd = \<lparr>io_write = (\<lambda>_ _. False), io_rand = rnd, io_mkdir = False, io_readdir = False,
     io_remove = (\<lambda>_. False)\<rparr>"

text \<open>IDs as the runtime reports them, on the file side: sanitising leaves them alone.\<close>

definition bare_file_id :: "string \<Rightarrow> bool" where
  "bare_file_id i \<longleftrightarrow> i \<noteq> [] \<and> hd i \<noteq> CHR ''.'' \<and> sanitizeContainerID i = i"

definition dir_inv :: "MapDir \<Rightarrow> bool" where
  "dir_inv d \<longleftrightarrow> dir_ok d \<and> files_only d"

definition persisted :: "ContainerInfo \<Rightarrow> ContainerInfo" where
  "persisted c = toContainer (newRecord c) (ContainerID c)"

lemma files_only_iff:
  "gomap_ok (dir_entries d) \<Longrightarrow>
     files_only d \<longleftrightarrow> (\<forall>n e. map_of (dir_entries d) n = Some e \<longrightarrow> \<not> is_dir e)"
  unfolding files_only_def by (rule gomap_all)

lemma fileName_bare: "bare_file_id i \<Longrightarrow> fileName i = i @ fileExtension"
  by (simp add: fileName_def bare_file_id_def)

lemma written_no_faults:
  assumes "dir_inv d"
  shows "dir_inv (written (no_faults rnd) c d)" "dir_exists (written (no_faults rnd) c d)"
    "map_of (dir_entries (written (no_faults rnd) c d)) (i @ fileExtension) =
       (if i @ fileExtension = fileName (ContainerID c) then Some (RegularFile (JsonRecord (newRecord c)))
        else map_of (dir_entries d) (i @ fileExtension))"
proof -
  let ?t = "tempName (rnd c)"
  define d3 where "d3 = put_entry ?t (RegularFile (JsonRecord (newRecord c)))
      (put_entry ?t (RegularFile Unparsable) (d\<lparr>dir_exists := True\<rparr>))"
  have ok: "gomap_ok (dir_entries d)" and files: "\<And>n e. map_of (dir_entries d) n = Some e \<Longrightarrow> \<not> is_dir e"
    using assms files_only_iff [of d] by (auto simp: dir_inv_def dir_ok_def)
  have "\<not> target_is_dir c d3"
    by (auto simp: target_is_dir_def d3_def dest: files split: option.splits)
  then have w: "written (no_faults rnd) c d = renamed ?t c d3"
    by (simp add: written_def writeRecord_def no_faults_def Let_def d3_def)
  have ok': "gomap_ok (dir_entries (renamed ?t c d3))"
    by (simp add: d3_def ok)
  have "map_of (dir_entries (renamed ?t c d3)) ?t = None"
    by (simp add: renamed_def delete_conv')
  then have "\<not> is_dir e" if "map_of (dir_entries (renamed ?t c d3)) n = Some e" for n e
    using that by (cases "n = ?t") (auto simp: d3_def dest: files split: if_splits)
  then show "dir_inv (written (no_faults rnd) c d)" "dir_exists (written (no_faults rnd) c d)"
    using ok' files_only_iff [OF ok'] by (auto simp: w dir_inv_def dir_ok_def d3_def)
  show "map_of (dir_entries (written (no_faults rnd) c d)) (i @ fileExtension) =
       (if i @ fileExtension = fileName (ContainerID c) then Some (RegularFile (JsonRecord (newRecord c)))
        else map_of (dir_entries d) (i @ fileExtension))"
    by (simp add: w d3_def)
qed

lemma write_all_inv:
  assumes "dir_inv d" "dir_exists d"
  shows "dir_inv (snd (write_all (no_faults rnd) cs D d)) \<and> dir_exists (snd (write_all (no_faults rnd) cs D d))"
  using assms by (induction cs arbitrary: D d) (auto simp: written_no_faults)

lemma write_all_desired:
  "fst (write_all io cs D d) = D \<union> fileName ` (ContainerID ` set cs - {[]})"
  by (induction cs arbitrary: D d) auto

lemma write_all_lookup:
  assumes "dir_inv d" "\<And>c. c \<in> set cs \<Longrightarrow> bare_file_id (ContainerID c)"
  shows "map_of (dir_entries (snd (write_all (no_faults rnd) cs D d))) (i @ fileExtension) =
       (case last_by_id cs i of Some c \<Rightarrow> Some (RegularFile (JsonRecord (newRecord c)))
        | None \<Rightarrow> map_of (dir_entries d) (i @ fileExtension))"
  using assms
proof (induction cs arbitrary: D d)
  case (Cons c cs)
  then have "bare_file_id (ContainerID c)" by simp
  then have "ContainerID c \<noteq> []" "fileName (ContainerID c) = ContainerID c @ fileExtension"
    by (simp_all add: bare_file_id_def fileName_bare)
  with Cons show ?case by (auto simp: written_no_faults split: option.splits)
qed simp

lemma remove_inv: "dir_inv d \<Longrightarrow> dir_inv (remove_entry n d)"
  by (auto simp: dir_inv_def dir_ok_def files_only_def remove_entry_def list_all_iff AList.delete_eq)

lemma fs_Upsert_inv: "dir_inv d \<Longrightarrow> dir_inv (fs_Upsert (no_faults rnd) c d)"
  by (simp add: fs_Upsert_def written_no_faults)

lemma fs_Delete_inv: "dir_inv d \<Longrightarrow> dir_inv (fs_Delete io i d)"
  by (simp add: fs_Delete_def remove_inv)

lemma fs_Replace_inv: "dir_inv d \<Longrightarrow> dir_inv (fs_Replace (no_faults rnd) cs d)"
  using write_all_inv [of "d\<lparr>dir_exists := True\<rparr>" rnd cs "{}"]
  by (auto simp: fs_Replace_def no_faults_def dir_inv_def dir_ok_def files_only_def list_all_iff
      split: prod.splits)

lemma dir_inv_view:
  "dir_inv d \<Longrightarrow> bare_file_id i \<Longrightarrow>
     map_of (scan d) i = decode_entry i (map_of (dir_entries d) (i @ fileExtension))"
  by (cases "dir_exists d") (auto simp: dir_inv_def dir_ok_def scan_lookup bare_file_id_def decode_entry_def)

lemma decode_new [simp]:
  "decode_entry i (Some (RegularFile (JsonRecord (newRecord c)))) = Some (toContainer (newRecord c) i)"
  by (simp add: decode_entry_def newRecord_def)

lemma fs_Upsert_view:
  assumes "dir_inv d" "bare_file_id (ContainerID c)" "bare_file_id i"
  shows "map_of (scan (fs_Upsert (no_faults rnd) c d)) i =
    (if i = ContainerID c then Some (persisted c) else map_of (scan d) i)"
  using assms written_no_faults(1) [OF assms(1), of rnd c] written_no_faults(3) [OF assms(1), of rnd c i]
  by (auto simp: fs_Upsert_def dir_inv_view persisted_def fileName_bare bare_file_id_def)

lemma fs_Delete_view:
  assumes "dir_inv d" "bare_file_id j" "bare_file_id i"
  shows "map_of (scan (fs_Delete (no_faults rnd) j d)) i = (if i = j then None else map_of (scan d) i)"
proof -
  have "map_of (dir_entries d) n \<noteq> Some (Directory b)" for n b
    using assms(1) files_only_iff [of d] by (fastforce simp: dir_inv_def dir_ok_def)
  then have "map_of (dir_entries (remove_entry n d)) m = (if m = n then None else map_of (dir_entries d) m)" for n m
    by (simp add: remove_entry_def delete_conv')
  then show ?thesis
    using assms
    by (auto simp: fs_Delete_def no_faults_def dir_inv_view remove_inv fileName_bare bare_file_id_def decode_entry_def)
qed

lemma fs_Replace_view:
  assumes "dir_inv d" "\<And>c. c \<in> set cs \<Longrightarrow> bare_file_id (ContainerID c)" "bare_file_id i"
  shows "map_of (scan (fs_Replace (no_faults rnd) cs d)) i = map_option persisted (last_by_id cs i)"
proof -
  let ?w = "write_all (no_faults rnd) cs {} (d\<lparr>dir_exists := True\<rparr>)"
  have inv: "dir_inv (d\<lparr>dir_exists := True\<rparr>)" "dir_exists (d\<lparr>dir_exists := True\<rparr>)"
    using assms(1) by (auto simp: dir_inv_def dir_ok_def files_only_def)
  note w = write_all_inv [OF inv, where rnd = rnd and cs = cs and D = "{}"]
  have r: "dir_entries (fs_Replace (no_faults rnd) cs d) =
      filter (\<lambda>(n, e). keep_entry (no_faults rnd) (fst ?w) n e) (dir_entries (snd ?w))"
    by (simp add: fs_Replace_def no_faults_def split: prod.splits)
  have ok: "gomap_ok (dir_entries (snd ?w))" using w by (simp add: dir_inv_def dir_ok_def)
  have files: "\<not> is_dir e" if "map_of (dir_entries (snd ?w)) n = Some e" for n e
    using w files_only_iff [OF ok] that by (auto simp: dir_inv_def)
  have keep: "i @ fileExtension \<in> fst ?w \<longleftrightarrow> last_by_id cs i \<noteq> None"
  proof -
    have "ContainerID ` set cs - {[]} = ContainerID ` set cs"
      using assms(2) by (auto simp: bare_file_id_def)
    then have "fst ?w = (\<lambda>i. i @ fileExtension) ` ContainerID ` set cs"
      using assms(2) by (auto simp: write_all_desired fileName_bare intro!: image_cong)
    then show ?thesis by (auto simp: last_by_id_None)
  qed
  have look: "map_of (dir_entries (snd ?w)) (i @ fileExtension) =
       (case last_by_id cs i of Some c \<Rightarrow> Some (RegularFile (JsonRecord (newRecord c)))
        | None \<Rightarrow> map_of (dir_entries d) (i @ fileExtension))"
    using assms(2) by (subst write_all_lookup [OF inv(1)]) (auto split: option.splits)
  have "map_of (dir_entries (fs_Replace (no_faults rnd) cs d)) (i @ fileExtension) =
      map_option (\<lambda>c. RegularFile (JsonRecord (newRecord c))) (last_by_id cs i)"
    unfolding r gomap_lookup_filter_entry [OF ok] using keep look files
    by (auto simp: keep_entry_def no_faults_def split: option.splits)
  then show ?thesis
    using fs_Replace_inv [OF assms(1)] assms(3)
    by (auto simp: dir_inv_view persisted_def decode_entry_def newRecord_def dest: last_by_id_Some
        split: option.splits)
qed

interpretation fs: mapping_writer "fs_Writer (no_faults rnd)" "\<lambda>d. map_of (scan d)" persisted dir_inv bare_file_id
  for rnd :: "ContainerInfo \<Rightarrow> nat"
  by unfold_locales
     (simp_all add: fs_Writer_def fs_Upsert_view fs_Delete_view fs_Replace_view fs_Delete_inv
       fs_Replace_inv fs_Upsert_inv)

lemma writeRecord_view:
  assumes "dir_ok d" "d' \<in> set (fst (writeRecord fails (tempName r) info d))"
  shows "dir_ok d' \<and>
    (map_of (scan d') i = map_of (scan d) i \<or>
     (snd (writeRecord fails (tempName r) info d) = None \<and>
      i = sanitizeContainerID (ContainerID info) \<and>
      map_of (scan d') i = Some (toContainer (newRecord info) i)))"
proof -
  have ok: "gomap_ok (dir_entries d)" using assms(1) by (simp add: dir_ok_def)
  note st = writeRecord_states [OF ok assms(2)]
  have "map_of (scan d') i = map_of (scan d) i" if "i = [] \<or> hd i = CHR ''.''"
    using that ok st(1) by (cases "i = []") (auto simp: scan_lookup)
  then show ?thesis
    using st(1,2) st(3) [of i] scan_same_entry [OF assms(1) st(1,2), of i]
      scan_new_entry [OF st(1,2), of i info]
    by (auto simp: dir_ok_def fileName_def)
qed

section \<open>Properties\<close>

text \<open>
  C5: a concurrent reader never sees a half-written mapping. In every directory state that a
  write goes through, whichever of its system calls fail, a reader's scan gives for every ID
  either what it gave before the write or, only when the write succeeds and only for the
  written container's ID, the complete new record; and the write never breaks the directory.
\<close>

theorem writeRecord_atomic:
  assumes "dir_ok d" "d' \<in> set (fst (writeRecord fails (tempName r) info d))"
  shows "dir_ok d' \<and>
    (map_of (scan d') i = map_of (scan d) i \<or>
     (snd (writeRecord fails (tempName r) info d) = None \<and>
      i = sanitizeContainerID (ContainerID info) \<and>
      map_of (scan d') i = Some (toContainer (newRecord info) i)))"
  using assms by (rule writeRecord_view)

definition empty_dir :: MapDir where
  "empty_dir = \<lparr>dir_exists = False, dir_entries = []\<rparr>"

lemma empty_dir_inv: "dir_inv empty_dir"
  by (simp add: empty_dir_def dir_inv_def dir_ok_def files_only_def)

theorem writeRecord_atomic_witness:
  "let fails = (\<lambda>s. s = SyncTemp); info = sample_info ''a1'' ''p'';
       states = fst (writeRecord fails (tempName 7) info empty_dir)
   in length states = 4 \<and> map_of (scan (states ! 2)) ''a1'' = None"
proof -
  let ?w = "writeRecord (\<lambda>s. s = SyncTemp) (tempName 7) (sample_info ''a1'' ''p'') empty_dir"
  have "length (fst ?w) = 4" "snd ?w = Some SyncTemp"
    by (simp_all add: writeRecord_def Let_def)
  moreover have "map_of (scan empty_dir) ''a1'' = None"
    by (simp add: scan_def empty_dir_def NewContainerStore_def)
  moreover have "dir_ok empty_dir" using empty_dir_inv by (simp add: dir_inv_def)
  ultimately show ?thesis
    using writeRecord_atomic [of empty_dir "fst ?w ! 2" "\<lambda>s. s = SyncTemp" 7 "sample_info ''a1'' ''p''" "''a1''"]
    by (simp add: Let_def)
qed

text \<open>
  A failed write changes nothing a reader can see. If any step of a write fails, the scan
  after it equals the scan before it, and no staging file of it remains unless removing the
  staging file failed too.
\<close>

theorem writeRecord_failure:
  assumes "dir_ok d" "snd (writeRecord fails (tempName r) info d) = Some e"
    and "map_of (dir_entries d) (tempName r) = None"
  shows "map_of (scan (last (d # fst (writeRecord fails (tempName r) info d)))) i = map_of (scan d) i \<and>
    (fails RemoveTemp \<or>
     map_of (dir_entries (last (d # fst (writeRecord fails (tempName r) info d)))) (tempName r) = None)"
proof
  let ?w = "writeRecord fails (tempName r) info d"
  show "map_of (scan (last (d # fst ?w))) i = map_of (scan d) i"
    using writeRecord_view [OF assms(1), of "last (fst ?w)" fails r info i] assms(2)
    by (cases "fst ?w = []") auto
  show "fails RemoveTemp \<or> map_of (dir_entries (last (d # fst ?w))) (tempName r) = None"
    using assms(2,3)
    by (auto simp: writeRecord_def Let_def discard_temp_def remove_entry_def delete_conv' split: if_splits)
qed

theorem writeRecord_failure_witness:
  "let w = writeRecord (\<lambda>s. s = RenameTemp) (tempName 7) (sample_info ''a1'' ''p'') empty_dir
   in snd w = Some RenameTemp \<and> map_of (dir_entries (last (empty_dir # fst w))) (tempName 7) = None"
proof -
  let ?w = "writeRecord (\<lambda>s. s = RenameTemp) (tempName 7) (sample_info ''a1'' ''p'') empty_dir"
  have "snd ?w = Some RenameTemp" by (simp add: writeRecord_def Let_def)
  moreover have "dir_ok empty_dir" "map_of (dir_entries empty_dir) (tempName 7) = None"
    using empty_dir_inv by (simp_all add: dir_inv_def) (simp add: empty_dir_def)
  ultimately show ?thesis
    using writeRecord_failure [of empty_dir "\<lambda>s. s = RenameTemp" 7 "sample_info ''a1'' ''p''" RenameTemp "''a1''"]
    by (simp add: Let_def)
qed

text \<open>
  C13: the directory implements the same finite map as the in-memory store. Without I/O
  faults, after any sequence of Upsert, Delete and Replace calls on the IDs the runtime
  reports, starting from an absent directory, a reader's scan shows for every such ID the
  abstract map's entry, less the container name and the cgroup path, which are not persisted.
\<close>

theorem fsstore_refines_map:
  assumes "\<And>i. i \<in> \<Union> (op_ids ` set ops) \<Longrightarrow> bare_file_id i" "bare_file_id i"
  shows "map_of (scan (fold (run_op (fs_Writer (no_faults rnd))) ops empty_dir)) i =
    map_option (\<lambda>c. c\<lparr>Container_name := [], CgroupPath := []\<rparr>) (fold spec_op ops Map.empty i)"
proof -
  have "persisted = (\<lambda>c. c\<lparr>Container_name := [], CgroupPath := []\<rparr>)"
    by (simp add: fun_eq_iff persisted_def toContainer_def newRecord_def)
  moreover have "map_of (scan empty_dir) j = None" for j
    by (simp add: scan_def empty_dir_def NewContainerStore_def)
  ultimately show ?thesis
    using fs.run_ops_view [of empty_dir ops i rnd] assms empty_dir_inv by simp
qed

theorem fsstore_refines_map_witness:
  "map_of (scan (fold (run_op (fs_Writer (no_faults (\<lambda>_. 1))))
      [OpUpsert (sample_info ''a1'' ''p''), OpReplace [sample_info ''b2'' ''q'']] empty_dir)) ''a1'' = None"
proof -
  have bare: "bare_file_id ''a1''" "bare_file_id ''b2''" by code_simp+
  show ?thesis
    by (subst fsstore_refines_map) (use bare in auto)
qed

end
