(* ===== verification/Events.thy ===== *)
theory Events
  imports Fsstore
begin

text \<open>
  Package \<^verbatim>\<open>fractiond/internal/events\<close> (events.go): the queue between the runtime callbacks and
  the mapping storage, with its single worker. Callbacks and worker run concurrently; a run is
  a sequence of their atomic actions (channel send, channel receive with the application of
  the event) in any order. A closure handed to the processor either returns a value or panics.
\<close>

section \<open>Definitions\<close>

definition defaultQueueDepth :: nat where
  "defaultQueueDepth = 10 * 1024"

datatype 'a closure = Returns 'a | Panics

datatype event =
    EvUpsert "ContainerInfo option closure"
  | EvRemove string
  | EvReplace "ContainerInfo list closure" bool

text \<open>An item of the queue: an event, or the barrier of a Flush with its done channel.\<close>

datatype item = Event event | Barrier nat

record 's Processor =
  queue :: "item list"
  storage :: 's
  done_closed :: "nat set"

definition NewProcessor :: "'s \<Rightarrow> 's Processor" where
  "NewProcessor s = \<lparr>queue = [], storage = s, done_closed = {}\<rparr>"

definition enqueue :: "item \<Rightarrow> 's Processor \<Rightarrow> 's Processor" where
  "enqueue it p = (if length (queue p) < defaultQueueDepth then p\<lparr>queue := queue p @ [it]\<rparr> else p)"

definition Processor_Upsert :: "ContainerInfo option closure \<Rightarrow> 's Processor \<Rightarrow> 's Processor" where
  "Processor_Upsert adapt p = enqueue (Event (EvUpsert adapt)) p"

definition Processor_Delete :: "string \<Rightarrow> 's Processor \<Rightarrow> 's Processor" where
  "Processor_Delete cid p = enqueue (Event (EvRemove cid)) p"

definition Processor_Synchronize :: "ContainerInfo list closure \<Rightarrow> 's Processor \<Rightarrow> 's Processor" where
  "Processor_Synchronize adapt p = enqueue (Event (EvReplace adapt True)) p"

text \<open>The application of an event; \<open>None\<close> is a panic of its closure.\<close>

fun apply_event :: "'s Writer \<Rightarrow> event \<Rightarrow> 's \<Rightarrow> 's option" where
  "apply_event W (EvUpsert adapt) s =
    (case adapt of Panics \<Rightarrow> None
     | Returns None \<Rightarrow> Some s
     | Returns (Some info) \<Rightarrow> Some (w_Upsert W info s))"
| "apply_event W (EvRemove cid) s = Some (w_Delete W cid s)"
| "apply_event W (EvReplace adapt fromReconnect) s =
    (case adapt of Panics \<Rightarrow> None
     | Returns infos \<Rightarrow>
         if fromReconnect \<and> length infos = 0 then Some s else Some (w_Replace W infos s))"

definition safeApply :: "'s Writer \<Rightarrow> event \<Rightarrow> 's \<Rightarrow> 's" where
  "safeApply W ev s = (case apply_event W ev s of None \<Rightarrow> s | Some s' \<Rightarrow> s')"

text \<open>One iteration of the worker's loop; \<open>None\<close> while it waits on an empty queue.\<close>

fun worker :: "'s Writer \<Rightarrow> 's Processor \<Rightarrow> 's Processor option" where
  "worker W p =
    (case queue p of
       [] \<Rightarrow> None
     | Barrier n # rest \<Rightarrow> Some (p\<lparr>queue := rest, done_closed := insert n (done_closed p)\<rparr>)
     | Event ev # rest \<Rightarrow> Some (p\<lparr>queue := rest, storage := safeApply W ev (storage p)\<rparr>))"

text \<open>
  The first half of a Flush, its blocking send: possible only when the queue has room. Its
  second half waits until the worker has closed the barrier's channel.
\<close>

definition send_barrier :: "nat \<Rightarrow> 's Processor \<Rightarrow> 's Processor option" where
  "send_barrier n p =
    (if length (queue p) < defaultQueueDepth then Some (p\<lparr>queue := queue p @ [Barrier n]\<rparr>) else None)"

text \<open>
  Runs: \<open>steps W p acc q\<close> says that q is reached from p by some interleaving of callbacks and
  worker, and that acc are the items the queue accepted on the way, in order.
\<close>

inductive steps :: "'s Writer \<Rightarrow> 's Processor \<Rightarrow> item list \<Rightarrow> 's Processor \<Rightarrow> bool" for W p where
  start: "steps W p [] p"
| submit: "steps W p acc q \<Longrightarrow> length (queue q) < defaultQueueDepth \<Longrightarrow>
    steps W p (acc @ [Event ev]) (enqueue (Event ev) q)"
| dropped: "steps W p acc q \<Longrightarrow> defaultQueueDepth \<le> length (queue q) \<Longrightarrow>
    steps W p acc (enqueue (Event ev) q)"
| flush: "steps W p acc q \<Longrightarrow> send_barrier n q = Some q' \<Longrightarrow> steps W p (acc @ [Barrier n]) q'"
| work: "steps W p acc q \<Longrightarrow> worker W q = Some q' \<Longrightarrow> steps W p acc q'"

section \<open>Invariant of runs\<close>

fun apply_item :: "'s Writer \<Rightarrow> item \<Rightarrow> 's \<Rightarrow> 's" where
  "apply_item W (Event ev) s = safeApply W ev s"
| "apply_item W (Barrier n) s = s"

definition barriers :: "item list \<Rightarrow> nat set" where
  "barriers its = {n. Barrier n \<in> set its}"

lemma barriers_simps [simp]:
  "barriers [] = {}" "barriers (Barrier n # its) = insert n (barriers its)"
  "barriers (Event ev # its) = barriers its" "barriers (xs @ ys) = barriers xs \<union> barriers ys"
  by (auto simp: barriers_def)

definition fifo_inv :: "'s Writer \<Rightarrow> 's \<Rightarrow> item list \<Rightarrow> 's Processor \<Rightarrow> bool" where
  "fifo_inv W s0 acc q \<longleftrightarrow>
     (\<exists>applied. acc = applied @ queue q \<and> storage q = fold (apply_item W) applied s0 \<and>
        done_closed q = barriers applied) \<and>
     length (queue q) \<le> defaultQueueDepth"

lemma worker_fifo: "fifo_inv W s0 acc q \<Longrightarrow> worker W q = Some q' \<Longrightarrow> fifo_inv W s0 acc q'"
proof -
  assume inv: "fifo_inv W s0 acc q" and w: "worker W q = Some q'"
  obtain it rest where q: "queue q = it # rest" using w by (cases "queue q") auto
  then have q': "queue q' = rest" "storage q' = apply_item W it (storage q)"
      "done_closed q' = done_closed q \<union> barriers [it]"
    using w by (cases it; force)+
  obtain applied where a: "acc = applied @ it # rest" "storage q = fold (apply_item W) applied s0"
      "done_closed q = barriers applied" "length (it # rest) \<le> defaultQueueDepth"
    using inv q by (auto simp: fifo_inv_def)
  then have "acc = (applied @ [it]) @ queue q' \<and> storage q' = fold (apply_item W) (applied @ [it]) s0 \<and>
      done_closed q' = barriers (applied @ [it])" by (simp add: q')
  then show ?thesis using a(4) q' unfolding fifo_inv_def by auto
qed

lemma steps_fifo: "steps W (NewProcessor s0) acc q \<Longrightarrow> fifo_inv W s0 acc q"
proof (induction rule: steps.induct)
  case (work acc q q')
  show ?case by (rule worker_fifo [OF work.IH work.hyps(2)])
qed (auto simp: fifo_inv_def NewProcessor_def enqueue_def send_barrier_def split: if_splits)

section \<open>Events as mapping operations\<close>

text \<open>What an event does to the mapping; \<open>None\<close> when it is dropped or skipped.\<close>

fun event_op :: "event \<Rightarrow> mapping_op option" where
  "event_op (EvUpsert (Returns (Some c))) = Some (OpUpsert c)"
| "event_op (EvUpsert (Returns None)) = None"
| "event_op (EvUpsert Panics) = None"
| "event_op (EvRemove i) = Some (OpDelete i)"
| "event_op (EvReplace Panics b) = None"
| "event_op (EvReplace (Returns cs) b) = (if b \<and> cs = [] then None else Some (OpReplace cs))"

lemma safeApply_op:
  "safeApply W ev s = (case event_op ev of None \<Rightarrow> s | Some op \<Rightarrow> run_op W op s)"
  by (cases ev rule: event_op.cases) (auto simp: safeApply_def)

definition item_ops :: "item list \<Rightarrow> mapping_op list" where
  "item_ops its = List.map_filter (\<lambda>it. case it of Event ev \<Rightarrow> event_op ev | Barrier _ \<Rightarrow> None) its"

lemma item_ops_simps [simp]:
  "item_ops [] = []"
  "item_ops (Event ev # its) = (case event_op ev of None \<Rightarrow> item_ops its | Some op \<Rightarrow> op # item_ops its)"
  "item_ops (Barrier n # its) = item_ops its"
  by (simp_all add: item_ops_def map_filter_simps split: option.splits)

lemma apply_items_ops: "fold (apply_item W) its s = fold (run_op W) (item_ops its) s"
proof (induction its arbitrary: s)
  case (Cons it its)
  then show ?case by (cases it) (auto simp: safeApply_op split: option.splits)
qed simp

lemma steps_drain:
  assumes "steps W p acc q"
  shows "\<exists>q'. steps W p acc q' \<and> queue q' = []"
  using assms
proof (induction "length (queue q)" arbitrary: q)
  case (Suc n)
  then obtain it rest where q: "queue q = it # rest" by (cases "queue q") auto
  then obtain q' where w: "worker W q = Some q'" "queue q' = rest"
    by (cases it) auto
  then have "n = length (queue q')" using Suc(2) q by simp
  then show ?case using Suc(1) steps.work [OF Suc.prems w(1)] by blast
qed auto

section \<open>Properties\<close>

text \<open>
  C9: mapping events are applied once, in the order in which they were accepted, whatever the
  interleaving of callbacks and worker. At every moment of a run the items accepted so far
  are the applied ones followed by the queued ones, the storage is the result of applying the
  former in order, the done channels closed are those of the applied barriers, and the queue
  never exceeds its depth.
\<close>

theorem events_fifo:
  assumes "steps W (NewProcessor s0) acc q"
  shows "\<exists>applied. acc = applied @ queue q \<and>
      storage q = fold (run_op W) (item_ops applied) s0 \<and>
      done_closed q = barriers applied \<and> length (queue q) \<le> 10240"
  using steps_fifo [OF assms]
  by (auto simp: fifo_inv_def apply_items_ops defaultQueueDepth_def)

theorem events_fifo_witness:
  "\<exists>q. steps store_Writer (NewProcessor NewContainerStore) [Event (EvRemove ''a''), Barrier 1] q \<and>
     length (queue q) \<le> 10240"
proof -
  have "steps store_Writer (NewProcessor NewContainerStore) ([] @ [Event (EvRemove ''a'')])
      (enqueue (Event (EvRemove ''a'')) (NewProcessor NewContainerStore))"
    by (rule steps.submit [OF steps.start]) (simp add: NewProcessor_def defaultQueueDepth_def)
  moreover have "send_barrier 1 (enqueue (Event (EvRemove ''a'')) (NewProcessor NewContainerStore)) =
      Some \<lparr>queue = [Event (EvRemove ''a''), Barrier 1], storage = NewContainerStore, done_closed = {}\<rparr>"
    by (simp add: send_barrier_def enqueue_def NewProcessor_def defaultQueueDepth_def)
  ultimately have "steps store_Writer (NewProcessor NewContainerStore) [Event (EvRemove ''a''), Barrier 1]
     \<lparr>queue = [Event (EvRemove ''a''), Barrier 1], storage = NewContainerStore, done_closed = {}\<rparr>"
    using steps.flush by fastforce
  from this events_fifo [OF this] show ?thesis by blast
qed

text \<open>
  C17: a Flush that returns has waited for everything before it. Once the done channel of a
  barrier is closed, the storage is the result of applying every item accepted before the
  barrier, followed only by items accepted after it. (Each Flush makes a channel of its own.)
\<close>

theorem flush_waits:
  assumes "steps W (NewProcessor s0) (before @ Barrier n # after) q"
    and "n \<notin> barriers before \<union> barriers after" "n \<in> done_closed q"
  shows "\<exists>later rest. after = later @ rest \<and>
    storage q = fold (run_op W) (item_ops later) (fold (run_op W) (item_ops before) s0)"
proof -
  obtain applied where a: "before @ Barrier n # after = applied @ queue q"
      "storage q = fold (apply_item W) applied s0" "done_closed q = barriers applied"
    using steps_fifo [OF assms(1)] by (auto simp: fifo_inv_def)
  then consider (early) u where "before = applied @ u" "u @ Barrier n # after = queue q"
    | (past) later where "applied = before @ Barrier n # later" "after = later @ queue q"
    by (auto simp: append_eq_append_conv2 Cons_eq_append_conv)
  then have "\<exists>later. applied = before @ Barrier n # later \<and> after = later @ queue q"
  proof cases
    case early
    then show ?thesis using assms(2,3) a(3) by auto
  qed blast
  then show ?thesis using a(2) by (auto simp: apply_items_ops [symmetric])
qed

lemma sample_flush_run:
  defines "p0 \<equiv> NewProcessor NewContainerStore"
  shows "steps store_Writer p0 ([Event (EvUpsert (Returns (Some (sample_info ''a1'' ''p''))))] @ Barrier 1 # [])
    \<lparr>queue = [], storage = [(''a1'', sample_info ''a1'' ''p'')], done_closed = {1}\<rparr>"
proof -
  let ?ev = "EvUpsert (Returns (Some (sample_info ''a1'' ''p'')))"
  let ?q1 = "\<lparr>queue = [Event ?ev], storage = NewContainerStore, done_closed = {}\<rparr>"
  let ?q2 = "\<lparr>queue = [Event ?ev, Barrier 1], storage = NewContainerStore, done_closed = {}\<rparr>"
  let ?q3 = "\<lparr>queue = [Barrier 1], storage = [(''a1'', sample_info ''a1'' ''p'')], done_closed = {}\<rparr>"
  have "steps store_Writer p0 [Event ?ev] ?q1"
    using steps.submit [OF steps.start, of p0 store_Writer ?ev]
    by (simp add: p0_def NewProcessor_def enqueue_def defaultQueueDepth_def)
  then have "steps store_Writer p0 ([Event ?ev] @ [Barrier 1]) ?q2"
    by (rule steps.flush) (simp add: send_barrier_def defaultQueueDepth_def)
  then have "steps store_Writer p0 ([Event ?ev] @ [Barrier 1]) ?q3"
    by (rule steps.work)
       (simp add: safeApply_op store_Writer_def store_Upsert_def NewContainerStore_def)
  then show ?thesis by (rule steps.work) simp
qed

theorem flush_waits_witness:
  "\<exists>q. steps store_Writer (NewProcessor NewContainerStore)
     ([Event (EvUpsert (Returns (Some (sample_info ''a1'' ''p''))))] @ Barrier 1 # []) q \<and>
     storage q = store_Upsert (sample_info ''a1'' ''p'') NewContainerStore"
proof -
  let ?q = "\<lparr>queue = [], storage = [(''a1'', sample_info ''a1'' ''p'')], done_closed = {1::nat}\<rparr>"
  have "w_Upsert store_Writer = store_Upsert" by (simp add: store_Writer_def)
  then have "storage ?q = store_Upsert (sample_info ''a1'' ''p'') NewContainerStore"
    using flush_waits [OF sample_flush_run] by auto
  then show ?thesis using sample_flush_run by blast
qed

text \<open>
  C4: the queue always drains, and what the metrics sidecar then reads is the mapping that
  the accepted events describe. From every reachable state the worker can empty the queue
  (it never gets stuck, a panicking closure included), and then, if the events carry IDs as
  the runtime reports them and no I/O call fails, a scan of the shared directory shows for
  every such ID exactly what the accepted events, applied in order to an empty mapping, leave
  for it: an empty resynchronisation leaves the mapping alone, any other replaces it.
\<close>

theorem events_reach_directory:
  assumes "steps (fs_Writer (no_faults rnd)) (NewProcessor empty_dir) acc q"
    and "\<And>i. i \<in> \<Union> (op_ids ` set (item_ops acc)) \<Longrightarrow> bare_file_id i" "bare_file_id i"
  shows "\<exists>q'. steps (fs_Writer (no_faults rnd)) (NewProcessor empty_dir) acc q' \<and> queue q' = [] \<and>
    map_of (scan (storage q')) i = map_option persisted (fold spec_op (item_ops acc) Map.empty i)"
proof -
  obtain q' where q': "steps (fs_Writer (no_faults rnd)) (NewProcessor empty_dir) acc q'" "queue q' = []"
    using steps_drain [OF assms(1)] by blast
  then have "storage q' = fold (run_op (fs_Writer (no_faults rnd))) (item_ops acc) empty_dir"
    using steps_fifo [OF q'(1)] by (auto simp: fifo_inv_def apply_items_ops)
  moreover have "map_of (scan empty_dir) j = None" for j
    by (simp add: scan_def empty_dir_def NewContainerStore_def)
  ultimately show ?thesis
    using q' fs.run_ops_view [of empty_dir "item_ops acc" i rnd] assms(2,3) empty_dir_inv by auto
qed

theorem events_reach_directory_witness:
  "\<exists>q'. steps (fs_Writer (no_faults (\<lambda>_. 0))) (NewProcessor empty_dir)
      [Event (EvUpsert (Returns (Some (sample_info ''a1'' ''p''))))] q' \<and>
     map_of (scan (storage q')) ''a1'' = Some (persisted (sample_info ''a1'' ''p''))"
proof -
  let ?ev = "EvUpsert (Returns (Some (sample_info ''a1'' ''p'')))"
  have "steps (fs_Writer (no_faults (\<lambda>_. 0))) (NewProcessor empty_dir) ([] @ [Event ?ev])
      (enqueue (Event ?ev) (NewProcessor empty_dir))"
    by (rule steps.submit [OF steps.start]) (simp add: NewProcessor_def defaultQueueDepth_def)
  moreover have "bare_file_id ''a1''" by code_simp
  ultimately show ?thesis
    using events_reach_directory [of "\<lambda>_. 0" "[Event ?ev]" _ "''a1''"] by auto
qed

end
