(* ===== verification/Injection_Audit.thy ===== *)
theory Injection_Audit
  imports Injection Nri
begin

text \<open>
  Package \<^verbatim>\<open>fractiond/internal/audit\<close> (detector.go, remediate.go, sentinel.go, cri_stopper.go):
  detection of running containers that lack the injection the create hook would have made,
  and the background stop of each of them. The runtime behind the stopper (its gRPC dial and
  its StopContainer call) is a parameter.
\<close>

section \<open>Detection\<close>

record violator =
  v_containerID :: string
  v_container :: string
  v_pod :: string
  v_namespace :: string
  v_missing :: "string list"

record detector =
  d_annotationPrefix :: string
  d_mpsPipeDirectory :: string
  d_smSharingEnabled :: bool
  d_failOpen :: bool

definition env_name :: "string \<Rightarrow> string" where
  "env_name kv = fst (Cut kv CHR ''='')"

definition presentEnv :: "string list \<Rightarrow> string set" where
  "presentEnv env = set (filter (\<lambda>k. k \<in> set AllEnvKeys) (map env_name env))"

definition hasMount :: "Mount list \<Rightarrow> string \<Rightarrow> string \<Rightarrow> bool" where
  "hasMount mounts source destination =
    list_ex (\<lambda>m. mount_source m = source \<and> mount_destination m = destination) mounts"

definition missingInjection ::
  "detector \<Rightarrow> GPUMemoryConfig \<Rightarrow> string \<Rightarrow> ComputeMode \<Rightarrow> Container \<Rightarrow> string list" where
  "missingInjection d cfg visibleDevices mode ctr =
    (let env = presentEnv (ctr_env ctr) in
     case MPSPipeMount (d_mpsPipeDirectory d) mode of (source, destination) \<Rightarrow>
       (if EnvMPSPipeDirectory \<notin> env then [''env:'' @ EnvMPSPipeDirectory] else []) @
       (if Limit cfg \<noteq> [] \<and> EnvGPUMemoryLimit \<notin> env then [''env:'' @ EnvGPUMemoryLimit] else []) @
       (if Request cfg \<noteq> [] \<and> EnvGPUMemoryRequest \<notin> env then [''env:'' @ EnvGPUMemoryRequest] else []) @
       (if visibleDevices \<noteq> [] \<and> EnvVisibleDevices \<notin> env then [''env:'' @ EnvVisibleDevices] else []) @
       (if \<not> hasMount (ctr_mounts ctr) source destination
        then [''mount:'' @ source @ '':'' @ destination] else []))"

definition enforceable :: "ContainerState \<Rightarrow> bool" where
  "enforceable st \<longleftrightarrow> st = CONTAINER_CREATED \<or> st = CONTAINER_RUNNING"

definition check ::
  "quantity_parser \<Rightarrow> detector \<Rightarrow> PodSandbox option \<Rightarrow> Container option \<Rightarrow> violator option" where
  "check pq d pod ctr =
    (case (ctr, pod) of
       (Some ctr, Some pod) \<Rightarrow>
         if ctr_id ctr = [] then None
         else if \<not> enforceable (ctr_state ctr) then None
         else (case ParseGPUMemoryAnnotations pq (pod_annotations pod) (ctr_name ctr) (d_annotationPrefix d) of
             Inl _ \<Rightarrow> None
           | Inr cfg \<Rightarrow>
               if IsEmpty cfg then None
               else let cfg = ApplyDefaults cfg in
                 (case (case ParseComputeMode (pod_annotations pod) (ctr_name ctr) (d_annotationPrefix d)
                              (d_smSharingEnabled d) of
                          Inl _ \<Rightarrow> if \<not> d_failOpen d then None else Some ComputeModeTimeSlicing
                        | Inr mode \<Rightarrow> Some mode) of
                    None \<Rightarrow> None
                  | Some mode \<Rightarrow>
                      let visibleDevices = ParseVisibleDevices (pod_annotations pod) (ctr_name ctr) (d_annotationPrefix d);
                          missing = missingInjection d cfg visibleDevices mode ctr
                      in if missing = [] then None
                         else Some \<lparr>v_containerID = ctr_id ctr, v_container = ctr_name ctr,
                                v_pod = pod_name pod, v_namespace = pod_namespace pod, v_missing = missing\<rparr>))
     | _ \<Rightarrow> None)"

definition sandbox_of :: "Container option \<Rightarrow> string" where
  "sandbox_of ctr = (case ctr of None \<Rightarrow> [] | Some c \<Rightarrow> ctr_pod_sandbox_id c)"

fun check_all ::
  "quantity_parser \<Rightarrow> detector \<Rightarrow> (string, PodSandbox) gomap \<Rightarrow> Container option list \<Rightarrow> violator list" where
  "check_all pq d podsByID [] = []"
| "check_all pq d podsByID (ctr # ctrs) =
    (case check pq d (map_of podsByID (sandbox_of ctr)) ctr of
       None \<Rightarrow> check_all pq d podsByID ctrs
     | Some v \<Rightarrow> v # check_all pq d podsByID ctrs)"

definition violators ::
  "quantity_parser \<Rightarrow> detector \<Rightarrow> PodSandbox option list \<Rightarrow> Container option list \<Rightarrow> violator list" where
  "violators pq d pods ctrs = check_all pq d (podSandboxLookup pods) ctrs"

section \<open>Remediation\<close>

text \<open>
  A stopper is an effect on a runtime state, with a flag that says whether the stop failed.
  The remediator attempts every violator and reports, in order, which attempts failed.
\<close>

type_synonym 'r stopper = "string \<Rightarrow> 'r \<Rightarrow> 'r \<times> bool"

fun remediate :: "'r stopper \<Rightarrow> violator list \<Rightarrow> 'r \<Rightarrow> 'r \<times> (string \<times> bool) list" where
  "remediate stop [] r = (r, [])"
| "remediate stop (v # vs) r =
    (case stop (v_containerID v) r of
       (r', failed) \<Rightarrow> (case remediate stop vs r' of
          (r'', attempts) \<Rightarrow> (r'', (v_containerID v, failed) # attempts)))"

section \<open>The CRI stopper\<close>

definition defaultCRIStopTimeout :: int where
  "defaultCRIStopTimeout = 30 * 10 ^ 9"

record CRIStopper =
  cri_endpoint :: string
  cri_timeout :: int
  cri_connected :: bool
  cri_dials :: nat

definition NewCRIStopper :: "string \<Rightarrow> int \<Rightarrow> CRIStopper" where
  "NewCRIStopper endpoint timeout =
    \<lparr>cri_endpoint = endpoint,
     cri_timeout = (if timeout \<le> 0 then defaultCRIStopTimeout else timeout),
     cri_connected = False, cri_dials = 0\<rparr>"

text \<open>\<^verbatim>\<open>runtimeClient\<close>: dial unless a client is cached; \<open>dialFails\<close> says what the nth dial does.\<close>

definition runtimeClient :: "(nat \<Rightarrow> bool) \<Rightarrow> CRIStopper \<Rightarrow> CRIStopper \<times> bool" where
  "runtimeClient dialFails s =
    (if cri_connected s then (s, True)
     else let s' = s\<lparr>cri_dials := cri_dials s + 1\<rparr> in
       if dialFails (cri_dials s) then (s', False) else (s'\<lparr>cri_connected := True\<rparr>, True))"

text \<open>
  \<^verbatim>\<open>Stop\<close>: the request sent to the runtime (container ID, grace period in whole seconds), if
  the connection could be made, and whether the stop failed.
\<close>

definition CRIStopper_Stop ::
  "(nat \<Rightarrow> bool) \<Rightarrow> (string \<Rightarrow> int \<Rightarrow> bool) \<Rightarrow> string \<Rightarrow> CRIStopper \<Rightarrow> CRIStopper \<times> (string \<times> int) option \<times> bool" where
  "CRIStopper_Stop dialFails rpcFails cid s =
    (case runtimeClient dialFails s of
       (s', False) \<Rightarrow> (s', None, True)
     | (s', True) \<Rightarrow>
         let secs = cri_timeout s' sdiv 10 ^ 9 in (s', Some (cid, secs), rpcFails cid secs))"

definition CRIStopper_Close :: "CRIStopper \<Rightarrow> CRIStopper" where
  "CRIStopper_Close s = (if \<not> cri_connected s then s else s\<lparr>cri_connected := False\<rparr>)"

section \<open>Sentinel\<close>

record audit_Config =
  a_AnnotationPrefix :: string
  a_MPSPipeDirectory :: string
  a_SMSharingEnabled :: bool
  a_FailOpen :: bool

text \<open>A sentinel with the remediation passes it has started in the background.\<close>

record Sentinel =
  s_detector :: detector
  s_running :: "violator list list"

definition NewSentinel :: "audit_Config \<Rightarrow> Sentinel" where
  "NewSentinel cfg =
    \<lparr>s_detector = \<lparr>d_annotationPrefix = a_AnnotationPrefix cfg, d_mpsPipeDirectory = a_MPSPipeDirectory cfg,
       d_smSharingEnabled = a_SMSharingEnabled cfg, d_failOpen = a_FailOpen cfg\<rparr>, s_running = []\<rparr>"

definition Audit_pass ::
  "quantity_parser \<Rightarrow> PodSandbox option list \<Rightarrow> Container option list \<Rightarrow> Sentinel \<Rightarrow> Sentinel" where
  "Audit_pass pq pods ctrs s =
    (let vs = violators pq (s_detector s) pods ctrs
     in if length vs = 0 then s else s\<lparr>s_running := s_running s @ [vs]\<rparr>)"

section \<open>Lemmas\<close>

lemma env_name_entry [simp]: "CHR ''='' \<notin> set k \<Longrightarrow> env_name (env_entry k v) = k"
  by (simp add: env_name_def env_entry_def Cut_found)

lemma presentEnv_entry:
  "env_entry k v \<in> set env \<Longrightarrow> CHR ''='' \<notin> set k \<Longrightarrow> k \<in> set AllEnvKeys \<Longrightarrow> k \<in> presentEnv env"
  by (force simp: presentEnv_def)

lemma hasMount_iff:
  "hasMount ms s t \<longleftrightarrow> (\<exists>m \<in> set ms. mount_source m = s \<and> mount_destination m = t)"
  by (auto simp: hasMount_def list_ex_iff)

lemma missingInjection_Nil:
  "missingInjection d cfg vis mode ctr = [] \<longleftrightarrow>
     EnvMPSPipeDirectory \<in> presentEnv (ctr_env ctr) \<and>
     (Limit cfg \<noteq> [] \<longrightarrow> EnvGPUMemoryLimit \<in> presentEnv (ctr_env ctr)) \<and>
     (Request cfg \<noteq> [] \<longrightarrow> EnvGPUMemoryRequest \<in> presentEnv (ctr_env ctr)) \<and>
     (vis \<noteq> [] \<longrightarrow> EnvVisibleDevices \<in> presentEnv (ctr_env ctr)) \<and>
     hasMount (ctr_mounts ctr) (fst (MPSPipeMount (d_mpsPipeDirectory d) mode))
       (snd (MPSPipeMount (d_mpsPipeDirectory d) mode))"
  by (auto simp: missingInjection_def Let_def split: prod.splits)

lemma check_Some:
  assumes "check pq d pod ctr = Some v"
  shows "\<exists>p c. pod = Some p \<and> ctr = Some c \<and> ctr_id c \<noteq> [] \<and> enforceable (ctr_state c) \<and>
    v_containerID v = ctr_id c \<and> v_missing v \<noteq> []"
  using assms
  by (auto simp: check_def Let_def split: option.splits if_splits sum.splits)

lemma check_all_set:
  "set (check_all pq d m ctrs) = {v. \<exists>ctr \<in> set ctrs. check pq d (map_of m (sandbox_of ctr)) ctr = Some v}"
  by (induction ctrs) (auto split: option.splits)

lemma remediate_attempts:
  "map fst (snd (remediate stop vs r)) = map v_containerID vs"
  by (induction vs arbitrary: r) (simp_all add: case_prod_beta)

lemma remediate_state:
  "fst (remediate stop vs r) = fold (\<lambda>v r. fst (stop (v_containerID v) r)) vs r"
  by (induction vs arbitrary: r) (simp_all add: case_prod_beta)

section \<open>Properties\<close>

text \<open>
  The audit stops only what it must. A container is reported only if it is present in the
  snapshot with an ID, is created or running, and its sandbox is in the snapshot; every
  reported container is attempted exactly once and in order, also after failed stops.
\<close>

theorem audit_targets:
  "set (map v_containerID (violators pq d pods ctrs)) \<subseteq>
     {ctr_id c | c. Some c \<in> set ctrs \<and> ctr_id c \<noteq> [] \<and>
        (ctr_state c = CONTAINER_CREATED \<or> ctr_state c = CONTAINER_RUNNING) \<and>
        (\<exists>p. Some p \<in> set pods \<and> pod_id p = ctr_pod_sandbox_id c)} \<and>
   map fst (snd (remediate stop (violators pq d pods ctrs) r)) = map v_containerID (violators pq d pods ctrs) \<and>
   fst (remediate stop (violators pq d pods ctrs) r) =
     fold (\<lambda>v r. fst (stop (v_containerID v) r)) (violators pq d pods ctrs) r"
  by (auto simp: violators_def check_all_set remediate_attempts remediate_state sandbox_of_def
      dest!: check_Some podSandboxLookup_Some simp: enforceable_def) blast+

text \<open>
  The CRI stopper dials at most once per connection and asks for a positive grace
  period. After a Stop that reached the runtime, another Stop sends its request without
  dialling again; every request carries the configured timeout in whole seconds, which is
  the default of 30 seconds when a non-positive timeout was configured.
\<close>

theorem cri_stop_reuses_connection:
  assumes "CRIStopper_Stop df rf cid s = (s', Some req, failed)"
  shows "fst req = cid \<and> snd req = cri_timeout s sdiv 10 ^ 9 \<and> cri_connected s' \<and>
    CRIStopper_Stop df rf cid' s' = (s', Some (cid', snd req), rf cid' (snd req)) \<and>
    cri_dials s' \<le> cri_dials s + 1 \<and>
    cri_timeout (NewCRIStopper ep t) = (if t \<le> 0 then 30000000000 else t)"
  using assms
  by (auto simp: CRIStopper_Stop_def runtimeClient_def NewCRIStopper_def defaultCRIStopTimeout_def Let_def
      split: if_splits bool.splits prod.splits)

theorem cri_stop_reuses_connection_witness:
  "let s = NewCRIStopper ''/run/containerd/containerd.sock'' 0;
       r = CRIStopper_Stop (\<lambda>_. False) (\<lambda>_ _. False) ''a1'' s
   in r = (fst r, Some (''a1'', 30), False) \<and>
      CRIStopper_Stop (\<lambda>_. False) (\<lambda>_ _. False) ''b2'' (fst r) = (fst r, Some (''b2'', 30), False)"
proof -
  let ?s = "NewCRIStopper ''/run/containerd/containerd.sock'' 0"
  have r: "CRIStopper_Stop (\<lambda>_. False) (\<lambda>_ _. False) ''a1'' ?s =
      (?s\<lparr>cri_connected := True, cri_dials := 1\<rparr>, Some (''a1'', 30), False)"
    by code_simp
  show ?thesis using cri_stop_reuses_connection [OF r, of "''b2''"] by (simp add: r Let_def)
qed

end
