(* ===== verification/Adapter.thy ===== *)
theory Adapter
  imports Annotations Nri Container_Store
begin

text \<open>
  Package \<^verbatim>\<open>fractiond/internal/gpudevices\<close> (gpudevices.go) and the adapter of
  \<^verbatim>\<open>fractiond/internal\<close> (adapter.go): from runtime objects to mapping entries.
\<close>

section \<open>GPU devices of a container\<close>

definition nvidiaDeviceMajor :: int where "nvidiaDeviceMajor = 195"
definition maxNVIDIAGPUMinor :: int where "maxNVIDIAGPUMinor = 32"

definition gpuIndexFromLinuxDevice :: "LinuxDevice \<Rightarrow> int option" where
  "gpuIndexFromLinuxDevice device =
    (if dev_major device \<noteq> nvidiaDeviceMajor then None
     else if dev_minor device < 0 \<or> dev_minor device > maxNVIDIAGPUMinor then None
     else Some (dev_minor device))"

fun gpu_loop :: "LinuxDevice list \<Rightarrow> int set \<Rightarrow> GPUDevice list" where
  "gpu_loop [] seen = []"
| "gpu_loop (device # devices) seen =
    (case gpuIndexFromLinuxDevice device of
       None \<Rightarrow> gpu_loop devices seen
     | Some index \<Rightarrow>
         if index \<in> seen then gpu_loop devices seen
         else \<lparr>Index = 0, MinorNumber = index, UUID = []\<rparr> # gpu_loop devices (insert index seen))"

definition FromContainer :: "Container \<Rightarrow> GPUDevice list" where
  "FromContainer ctr = (case ctr_linux ctr of None \<Rightarrow> [] | Some linux \<Rightarrow> gpu_loop (linux_devices linux) {})"

section \<open>Adapter\<close>

text \<open>The getters of a pod sandbox that may be nil.\<close>

definition GetAnnotations :: "PodSandbox option \<Rightarrow> annotation_map" where
  "GetAnnotations pod = (case pod of None \<Rightarrow> Map.empty | Some p \<Rightarrow> pod_annotations p)"

definition pod_text :: "(PodSandbox \<Rightarrow> string) \<Rightarrow> PodSandbox option \<Rightarrow> string" where
  "pod_text get pod = (case pod of None \<Rightarrow> [] | Some p \<Rightarrow> get p)"

definition isFractionalGPUContainer ::
  "quantity_parser \<Rightarrow> string \<Rightarrow> PodSandbox option \<Rightarrow> string \<Rightarrow> GPUMemoryConfig option" where
  "isFractionalGPUContainer pq pre pod cname =
    (case ParseGPUMemoryAnnotations pq (GetAnnotations pod) cname pre of
       Inl _ \<Rightarrow> None
     | Inr cfg \<Rightarrow> if IsEmpty cfg then None else Some cfg)"

definition adapter_container ::
  "quantity_parser \<Rightarrow> string \<Rightarrow> PodSandbox option \<Rightarrow> Container option \<Rightarrow> ContainerInfo option" where
  "adapter_container pq pre pod container =
    (case container of
       None \<Rightarrow> None
     | Some ctr \<Rightarrow>
         if ctr_id ctr = [] then None
         else (case isFractionalGPUContainer pq pre pod (ctr_name ctr) of
             None \<Rightarrow> None
           | Some cfg \<Rightarrow> Some
               \<lparr>ContainerID = ctr_id ctr, Container_name = ctr_name ctr, Pod = pod_text pod_name pod,
                Namespace = pod_text pod_namespace pod, PodUID = pod_text pod_uid pod,
                CgroupPath = (case ctr_linux ctr of None \<Rightarrow> [] | Some linux \<Rightarrow> linux_cgroups_path linux),
                GPUDevices = FromContainer ctr, RequestedMemoryMiB = EffectiveMemoryMiB cfg\<rparr>))"

fun adapter_loop ::
  "quantity_parser \<Rightarrow> string \<Rightarrow> (string, PodSandbox) gomap \<Rightarrow> Container option list \<Rightarrow> ContainerInfo list" where
  "adapter_loop pq pre podsByID [] = []"
| "adapter_loop pq pre podsByID (ctr # ctrs) =
    (let pod = map_of podsByID (case ctr of None \<Rightarrow> [] | Some c \<Rightarrow> ctr_pod_sandbox_id c) in
     case adapter_container pq pre pod ctr of
       None \<Rightarrow> adapter_loop pq pre podsByID ctrs
     | Some info \<Rightarrow> info # adapter_loop pq pre podsByID ctrs)"

definition adapter_containers ::
  "quantity_parser \<Rightarrow> string \<Rightarrow> PodSandbox option list \<Rightarrow> Container option list \<Rightarrow> ContainerInfo list" where
  "adapter_containers pq pre pods ctrs = adapter_loop pq pre (podSandboxLookup pods) ctrs"

section \<open>Lemmas\<close>

lemma gpuIndex_Some:
  "gpuIndexFromLinuxDevice d = Some m \<longleftrightarrow> dev_major d = 195 \<and> 0 \<le> m \<and> m \<le> 32 \<and> m = dev_minor d"
  by (auto simp: gpuIndexFromLinuxDevice_def nvidiaDeviceMajor_def maxNVIDIAGPUMinor_def)

lemma gpu_loop_minors:
  "set (map MinorNumber (gpu_loop ds seen)) =
     {m. \<exists>d \<in> set ds. gpuIndexFromLinuxDevice d = Some m} - seen"
  by (induction ds arbitrary: seen) (auto split: option.splits)

lemma gpu_loop_distinct: "distinct (map MinorNumber (gpu_loop ds seen))"
proof (induction ds arbitrary: seen)
  case (Cons d ds)
  have "m \<notin> set (map MinorNumber (gpu_loop ds (insert m seen)))" for m
    unfolding gpu_loop_minors by simp
  with Cons show ?case by (auto split: option.splits)
qed simp

lemma adapter_container_Some:
  assumes "adapter_container pq pre pod container = Some info"
  shows "\<exists>ctr cfg. container = Some ctr \<and> ContainerID info = ctr_id ctr \<and> ctr_id ctr \<noteq> [] \<and>
    ParseGPUMemoryAnnotations pq (GetAnnotations pod) (ctr_name ctr) pre = Inr cfg \<and> \<not> IsEmpty cfg \<and>
    RequestedMemoryMiB info = EffectiveMemoryMiB cfg"
  using assms
  by (auto simp: adapter_container_def isFractionalGPUContainer_def split: option.splits if_splits sum.splits)

section \<open>Properties\<close>

text \<open>
  The GPUs recorded for a container are its NVIDIA device nodes, each once. The minors
  listed are exactly the minors 0 to 32 of the container's device nodes of major 195, without
  repetition; control and MIG nodes and other majors are left out, and a container without a
  Linux section has none.
\<close>

theorem FromContainer_devices:
  "distinct (map MinorNumber (FromContainer ctr)) \<and>
   set (map MinorNumber (FromContainer ctr)) =
     {dev_minor d | d. \<exists>l. ctr_linux ctr = Some l \<and> d \<in> set (linux_devices l) \<and>
        dev_major d = 195 \<and> 0 \<le> dev_minor d \<and> dev_minor d \<le> 32}"
  unfolding FromContainer_def
  by (cases "ctr_linux ctr")
     (auto simp: gpu_loop_distinct gpu_loop_minors [unfolded set_map] gpuIndex_Some)

end
