(* ===== verification/Plugin.thy ===== *)
theory Plugin
  imports Adapter Events Injection_Audit
begin

text \<open>
  The NRI plugin of fractiond (plugin.go): the mutation of containers at creation, the
  mapping handed to the metrics sidecar and the audit on reconnect. The state of a plugin is
  its configuration, its event processor over the mapping directory, its readiness flag (when
  one is configured) and its sentinel (when retroactive enforcement is on).
\<close>

section \<open>State\<close>

record Config =
  cfg_AnnotationPrefix :: string
  cfg_MPSPipeDirectory :: string
  cfg_FailOpen :: bool
  cfg_SupportSMSharing :: bool
  cfg_InjectCDIDevice :: bool
  cfg_RetroactiveEnforcement :: bool
  cfg_MapDir :: string
  cfg_Readiness :: "bool option"

record Plugin =
  AnnotationPrefix :: string
  MPSPipeDirectory :: string
  FailOpen :: bool
  SupportSMSharing :: bool
  InjectCDIDevice :: bool
  map_dir :: string
  events :: "MapDir Processor"
  readiness :: "bool option"
  sentinel :: "Sentinel option"

datatype plugin_error =
    NoStopper
  | BlockedContainer string string annotation_error

section \<open>Construction\<close>

definition NewPlugin :: "Config \<Rightarrow> bool \<Rightarrow> MapDir \<Rightarrow> (plugin_error, Plugin) result" where
  "NewPlugin cfg hasStopper dir =
    (if cfg_RetroactiveEnforcement cfg \<and> \<not> hasStopper then Inl NoStopper
     else Inr
      \<lparr>AnnotationPrefix = cfg_AnnotationPrefix cfg,
       MPSPipeDirectory = cfg_MPSPipeDirectory cfg,
       FailOpen = cfg_FailOpen cfg,
       SupportSMSharing = cfg_SupportSMSharing cfg,
       InjectCDIDevice = cfg_InjectCDIDevice cfg,
       map_dir = (if cfg_MapDir cfg = [] then DefaultMapDir else cfg_MapDir cfg),
       events = NewProcessor dir,
       readiness = cfg_Readiness cfg,
       sentinel =
         (if cfg_RetroactiveEnforcement cfg
          then Some (NewSentinel
            \<lparr>a_AnnotationPrefix = cfg_AnnotationPrefix cfg, a_MPSPipeDirectory = cfg_MPSPipeDirectory cfg,
             a_SMSharingEnabled = cfg_SupportSMSharing cfg, a_FailOpen = cfg_FailOpen cfg\<rparr>)
          else None)\<rparr>)"

definition setReady :: "bool \<Rightarrow> Plugin \<Rightarrow> Plugin" where
  "setReady ready p = (case readiness p of None \<Rightarrow> p | Some _ \<Rightarrow> p\<lparr>readiness := Some ready\<rparr>)"

section \<open>Mutation\<close>

definition containerHasEnv :: "Container \<Rightarrow> string \<Rightarrow> bool" where
  "containerHasEnv ctr key =
    list_ex (\<lambda>kv. kv = key \<or> HasPrefix kv (key @ ''='')) (ctr_env ctr)"

definition buildAdjustment ::
  "quantity_parser \<Rightarrow> Plugin \<Rightarrow> PodSandbox \<Rightarrow> Container \<Rightarrow> (plugin_error, ContainerAdjustment option) result" where
  "buildAdjustment pq p pod ctr =
    (case ParseGPUMemoryAnnotations pq (pod_annotations pod) (ctr_name ctr) (AnnotationPrefix p) of
       Inl err \<Rightarrow>
         if \<not> FailOpen p then Inl (BlockedContainer (ctr_name ctr) (pod_name pod) err) else Inr None
     | Inr cfg \<Rightarrow>
         if IsEmpty cfg then Inr None
         else let cfg = ApplyDefaults cfg in
           (case (case ParseComputeMode (pod_annotations pod) (ctr_name ctr) (AnnotationPrefix p) (SupportSMSharing p) of
                    Inl err \<Rightarrow>
                      if \<not> FailOpen p then Inl (BlockedContainer (ctr_name ctr) (pod_name pod) err)
                      else Inr ComputeModeTimeSlicing
                  | Inr mode \<Rightarrow> Inr mode) of
              Inl err \<Rightarrow> Inl err
            | Inr mode \<Rightarrow>
                (case MPSPipeMount (MPSPipeDirectory p) mode of (pipeSource, pipeDestination) \<Rightarrow>
                  let visibleDevices = ParseVisibleDevices (pod_annotations pod) (ctr_name ctr) (AnnotationPrefix p)
                  in Inr (Some
                    \<lparr>adj_env =
                       (if Request cfg \<noteq> [] then [AddEnv EnvGPUMemoryRequest (Request cfg)] else []) @
                       (if Limit cfg \<noteq> [] then [AddEnv EnvGPUMemoryLimit (Limit cfg)] else []) @
                       [AddEnv EnvMPSPipeDirectory pipeDestination] @
                       (if visibleDevices \<noteq> []
                        then (if containerHasEnv ctr EnvVisibleDevices then [RemoveEnv EnvVisibleDevices] else []) @
                             [AddEnv EnvVisibleDevices visibleDevices]
                        else []),
                     adj_mounts =
                       [\<lparr>mount_source = pipeSource, mount_destination = pipeDestination,
                         mount_type = ''bind'', mount_options = [''bind'', ''rw'']\<rparr>],
                     adj_cdi_devices =
                       (if visibleDevices \<noteq> [] \<and> InjectCDIDevice p then CDIDeviceNames visibleDevices else [])\<rparr>))))"

section \<open>Handlers\<close>

definition CreateContainer ::
  "quantity_parser \<Rightarrow> PodSandbox \<Rightarrow> Container \<Rightarrow> Plugin \<Rightarrow> Plugin \<times> (plugin_error, ContainerAdjustment option) result" where
  "CreateContainer pq pod ctr p =
    (case buildAdjustment pq p pod ctr of
       Inl err \<Rightarrow> (p, Inl err)
     | Inr adj \<Rightarrow>
         (p\<lparr>events := Processor_Upsert
              (Returns (adapter_container pq (AnnotationPrefix p) (Some pod) (Some ctr))) (events p)\<rparr>,
          Inr adj))"

definition Synchronize ::
  "quantity_parser \<Rightarrow> PodSandbox option list \<Rightarrow> Container option list \<Rightarrow> Plugin \<Rightarrow> Plugin" where
  "Synchronize pq pods ctrs p =
    (let p = p\<lparr>events := Processor_Synchronize
           (Returns (adapter_containers pq (AnnotationPrefix p) pods ctrs)) (events p)\<rparr>;
         p = setReady True p
     in case sentinel p of None \<Rightarrow> p | Some s \<Rightarrow> p\<lparr>sentinel := Some (Audit_pass pq pods ctrs s)\<rparr>)"

definition RemoveContainer :: "Container \<Rightarrow> Plugin \<Rightarrow> Plugin" where
  "RemoveContainer ctr p = p\<lparr>events := Processor_Delete (ctr_id ctr) (events p)\<rparr>"

text \<open>
  A Flush waits until the worker has drained the queue and every background remediation has
  ended; as a function on the state it is that draining. \<^verbatim>\<open>Shutdown\<close> clears readiness first.
\<close>

function drain :: "'s Writer \<Rightarrow> 's Processor \<Rightarrow> 's Processor" where
  "drain W q = (case worker W q of None \<Rightarrow> q | Some q' \<Rightarrow> drain W q')"
  by pat_completeness auto
termination
  by (relation "measure (\<lambda>(W, q). length (queue q))") (auto split: list.splits item.splits)

declare drain.simps [simp del]

definition Flush :: "MapDir Writer \<Rightarrow> Plugin \<Rightarrow> Plugin" where
  "Flush W p = p\<lparr>events := drain W (events p),
     sentinel := map_option (\<lambda>s. s\<lparr>s_running := []\<rparr>) (sentinel p)\<rparr>"

definition Shutdown :: "MapDir Writer \<Rightarrow> Plugin \<Rightarrow> Plugin" where
  "Shutdown W p = Flush W (setReady False p)"

section \<open>Reachable plugins\<close>

text \<open>Every state of a plugin, with handlers and the event worker interleaved in any order.\<close>

inductive reachable :: "quantity_parser \<Rightarrow> MapDir Writer \<Rightarrow> Plugin \<Rightarrow> bool" for pq W where
  new: "NewPlugin cfg hasStopper dir = Inr p \<Longrightarrow> reachable pq W p"
| create: "reachable pq W p \<Longrightarrow> reachable pq W (fst (CreateContainer pq pod ctr p))"
| sync: "reachable pq W p \<Longrightarrow> reachable pq W (Synchronize pq pods ctrs p)"
| remove: "reachable pq W p \<Longrightarrow> reachable pq W (RemoveContainer ctr p)"
| shutdown: "reachable pq W p \<Longrightarrow> reachable pq W (Shutdown W p)"
| flush: "reachable pq W p \<Longrightarrow> reachable pq W (Flush W p)"
| work: "reachable pq W p \<Longrightarrow> worker W (events p) = Some q \<Longrightarrow> reachable pq W (p\<lparr>events := q\<rparr>)"

definition detector_of :: "Plugin \<Rightarrow> detector" where
  "detector_of p =
    \<lparr>d_annotationPrefix = AnnotationPrefix p, d_mpsPipeDirectory = MPSPipeDirectory p,
     d_smSharingEnabled = SupportSMSharing p, d_failOpen = FailOpen p\<rparr>"

definition same_policy :: "Plugin \<Rightarrow> bool" where
  "same_policy p \<longleftrightarrow> (case sentinel p of None \<Rightarrow> True | Some s \<Rightarrow> s_detector s = detector_of p)"

lemma setReady_fields [simp]:
  "AnnotationPrefix (setReady b p) = AnnotationPrefix p" "MPSPipeDirectory (setReady b p) = MPSPipeDirectory p"
  "SupportSMSharing (setReady b p) = SupportSMSharing p" "FailOpen (setReady b p) = FailOpen p"
  "InjectCDIDevice (setReady b p) = InjectCDIDevice p"
  "sentinel (setReady b p) = sentinel p" "events (setReady b p) = events p"
  by (simp_all add: setReady_def split: option.splits)

lemma detector_of_setReady [simp]: "detector_of (setReady b p) = detector_of p"
  by (simp add: detector_of_def)

lemma detector_of_updates [simp]:
  "detector_of (p\<lparr>events := e\<rparr>) = detector_of p" "detector_of (p\<lparr>sentinel := s\<rparr>) = detector_of p"
  by (simp_all add: detector_of_def)

lemma Audit_pass_detector [simp]: "s_detector (Audit_pass pq pods ctrs s) = s_detector s"
  by (simp add: Audit_pass_def Let_def)

lemma reachable_same_policy: "reachable pq W p \<Longrightarrow> same_policy p"
proof (induction rule: reachable.induct)
  case (new cfg hasStopper dir p)
  then show ?case
    by (auto simp: same_policy_def NewPlugin_def NewSentinel_def detector_of_def split: if_splits)
qed (auto simp: same_policy_def CreateContainer_def Synchronize_def RemoveContainer_def Shutdown_def
    Flush_def Let_def split: option.splits sum.splits)

section \<open>Mutation lemmas\<close>

text \<open>What decides the injection: the parsed memory amounts and the compute mode.\<close>

definition fraction_plan :: "quantity_parser \<Rightarrow> Plugin \<Rightarrow> PodSandbox \<Rightarrow> string \<Rightarrow> (GPUMemoryConfig \<times> ComputeMode) option" where
  "fraction_plan pq p pod cname =
    (case ParseGPUMemoryAnnotations pq (pod_annotations pod) cname (AnnotationPrefix p) of
       Inl _ \<Rightarrow> None
     | Inr cfg \<Rightarrow>
         if IsEmpty cfg then None
         else (case ParseComputeMode (pod_annotations pod) cname (AnnotationPrefix p) (SupportSMSharing p) of
             Inl _ \<Rightarrow> if FailOpen p then Some (ApplyDefaults cfg, ComputeModeTimeSlicing) else None
           | Inr mode \<Rightarrow> Some (ApplyDefaults cfg, mode)))"

lemma fraction_plan_full:
  "fraction_plan pq p pod cname = Some (cfg, mode) \<Longrightarrow> Request cfg \<noteq> [] \<and> Limit cfg \<noteq> []"
  by (auto simp: fraction_plan_def ApplyDefaults_nonempty split: sum.splits if_splits)

lemma buildAdjustment_plan:
  assumes "fraction_plan pq p pod (ctr_name ctr) = Some (cfg, mode)"
  defines "vis \<equiv> ParseVisibleDevices (pod_annotations pod) (ctr_name ctr) (AnnotationPrefix p)"
    and "pipe \<equiv> MPSPipeMount (MPSPipeDirectory p) mode"
  shows "buildAdjustment pq p pod ctr = Inr (Some
    \<lparr>adj_env = [AddEnv EnvGPUMemoryRequest (Request cfg), AddEnv EnvGPUMemoryLimit (Limit cfg),
         AddEnv EnvMPSPipeDirectory (snd pipe)] @
       (if vis = [] then []
        else (if containerHasEnv ctr EnvVisibleDevices then [RemoveEnv EnvVisibleDevices] else []) @
             [AddEnv EnvVisibleDevices vis]),
     adj_mounts = [\<lparr>mount_source = fst pipe, mount_destination = snd pipe, mount_type = ''bind'',
         mount_options = [''bind'', ''rw'']\<rparr>],
     adj_cdi_devices = (if vis \<noteq> [] \<and> InjectCDIDevice p then CDIDeviceNames vis else [])\<rparr>)"
  using assms(1) fraction_plan_full [OF assms(1)]
  by (auto simp: fraction_plan_def buildAdjustment_def Let_def vis_def pipe_def
      split: sum.splits if_splits prod.splits)

lemma buildAdjustment_no_plan:
  "fraction_plan pq p pod (ctr_name ctr) = None \<Longrightarrow> buildAdjustment pq p pod ctr \<noteq> Inr (Some adj)"
  by (auto simp: fraction_plan_def buildAdjustment_def Let_def split: sum.splits if_splits prod.splits)

lemma check_plan:
  assumes "s_detector s = detector_of p"
  shows "check pq (s_detector s) (Some pod) (Some ctr) =
    (if ctr_id ctr = [] \<or> \<not> enforceable (ctr_state ctr) then None
     else case fraction_plan pq p pod (ctr_name ctr) of
         None \<Rightarrow> None
       | Some (cfg, mode) \<Rightarrow>
           let missing = missingInjection (detector_of p) cfg
                 (ParseVisibleDevices (pod_annotations pod) (ctr_name ctr) (AnnotationPrefix p)) mode ctr
           in if missing = [] then None
              else Some \<lparr>v_containerID = ctr_id ctr, v_container = ctr_name ctr, v_pod = pod_name pod,
                v_namespace = pod_namespace pod, v_missing = missing\<rparr>)"
  using assms by (auto simp: check_def fraction_plan_def detector_of_def Let_def split: sum.splits if_splits)

lemma carries_not_missing:
  assumes "fraction_plan pq p pod (ctr_name ctr) = Some (cfg, mode)"
    and "buildAdjustment pq p pod ctr = Inr (Some adj)" "carries adj ctr'" "ctr_name ctr' = ctr_name ctr"
  shows "missingInjection (detector_of p) cfg
      (ParseVisibleDevices (pod_annotations pod) (ctr_name ctr) (AnnotationPrefix p)) mode ctr' = []"
proof -
  have adj: "buildAdjustment pq p pod ctr = Inr (Some adj)" by fact
  have env: "k \<in> presentEnv (ctr_env ctr')"
    if "AddEnv k v \<in> set (adj_env adj)" "CHR ''='' \<notin> set k" "k \<in> set AllEnvKeys" for k v
    using that carries_env [OF assms(3)] presentEnv_entry by blast
  let ?pipe = "MPSPipeMount (MPSPipeDirectory p) mode"
  have "hasMount (ctr_mounts ctr') (fst ?pipe) (snd ?pipe)"
    using adj carries_mount [OF assms(3)] unfolding buildAdjustment_plan [OF assms(1)]
    by (force simp: hasMount_iff)
  moreover have "EnvGPUMemoryRequest \<in> presentEnv (ctr_env ctr')" "EnvGPUMemoryLimit \<in> presentEnv (ctr_env ctr')"
      "EnvMPSPipeDirectory \<in> presentEnv (ctr_env ctr')"
    using adj unfolding buildAdjustment_plan [OF assms(1)]
    by (auto intro!: env env_keys_no_equals simp: AllEnvKeys_def)
  moreover have "EnvVisibleDevices \<in> presentEnv (ctr_env ctr')"
    if "ParseVisibleDevices (pod_annotations pod) (ctr_name ctr) (AnnotationPrefix p) \<noteq> []"
    using adj that unfolding buildAdjustment_plan [OF assms(1)]
    by (auto intro!: env env_keys_no_equals simp: AllEnvKeys_def)
  ultimately show ?thesis by (auto simp: missingInjection_Nil detector_of_def)
qed

lemma not_adjusted:
  "buildAdjustment pq p pod ctr = Inr None \<Longrightarrow>
     isFractionalGPUContainer pq (AnnotationPrefix p) (Some pod) (ctr_name ctr) = None"
  by (auto simp: buildAdjustment_def isFractionalGPUContainer_def GetAnnotations_def Let_def
      split: sum.splits if_splits prod.splits)

lemma adjusted_limit:
  assumes "buildAdjustment pq p pod ctr = Inr (Some adj)" "quantities_int64 pq"
  shows "\<exists>cfg. isFractionalGPUContainer pq (AnnotationPrefix p) (Some pod) (ctr_name ctr) = Some cfg \<and>
    AddEnv EnvGPUMemoryLimit (FormatInt (EffectiveMemoryMiB cfg)) \<in> set (adj_env adj)"
proof -
  obtain cfg' mode where plan: "fraction_plan pq p pod (ctr_name ctr) = Some (cfg', mode)"
    using assms(1) buildAdjustment_no_plan by fastforce
  then obtain cfg where cfg: "ParseGPUMemoryAnnotations pq (pod_annotations pod) (ctr_name ctr) (AnnotationPrefix p) = Inr cfg"
      "\<not> IsEmpty cfg" "cfg' = ApplyDefaults cfg"
    by (auto simp: fraction_plan_def split: sum.splits if_splits)
  have "AddEnv EnvGPUMemoryLimit (Limit cfg') \<in> set (adj_env adj)"
    using assms(1) by (auto simp: buildAdjustment_plan [OF plan])
  then show ?thesis
    using cfg Limit_text [OF cfg(1,2) assms(2)] by (simp add: isFractionalGPUContainer_def GetAnnotations_def)
qed

section \<open>Properties\<close>

text \<open>
  C1: hook and audit agree. In every reachable state of a plugin with retroactive
  enforcement, a container that carries the adjustment the create hook returned for it (under
  the same pod annotations and container name) is never reported by the audit, whatever else
  its environment and mounts hold and whatever its state: enforcement never stops a container
  that was injected.
\<close>

theorem injected_never_reported:
  assumes "reachable pq W p" "sentinel p = Some s"
    and "buildAdjustment pq p pod ctr = Inr (Some adj)"
    and "carries adj ctr'" "ctr_name ctr' = ctr_name ctr"
  shows "check pq (s_detector s) (Some pod) (Some ctr') = None"
proof -
  have d: "s_detector s = detector_of p"
    using reachable_same_policy [OF assms(1)] assms(2) by (simp add: same_policy_def)
  obtain cfg mode where plan: "fraction_plan pq p pod (ctr_name ctr) = Some (cfg, mode)"
    using assms(3) buildAdjustment_no_plan by fastforce
  show ?thesis
    using carries_not_missing [OF plan assms(3-5)] plan assms(5) by (simp add: check_plan [OF d])
qed

definition sample_config :: Config where
  "sample_config =
    \<lparr>cfg_AnnotationPrefix = ''x/'', cfg_MPSPipeDirectory = ''/mps'',
     cfg_FailOpen = False, cfg_SupportSMSharing = True, cfg_InjectCDIDevice = True,
     cfg_RetroactiveEnforcement = True, cfg_MapDir = [], cfg_Readiness = Some False\<rparr>"

definition sample_plugin :: Plugin where
  "sample_plugin =
    \<lparr>AnnotationPrefix = ''x/'', MPSPipeDirectory = ''/mps'', FailOpen = False, SupportSMSharing = True,
     InjectCDIDevice = True, map_dir = DefaultMapDir, events = NewProcessor empty_dir,
     readiness = Some False,
     sentinel = Some \<lparr>s_detector = \<lparr>d_annotationPrefix = ''x/'', d_mpsPipeDirectory = ''/mps'',
       d_smSharingEnabled = True, d_failOpen = False\<rparr>, s_running = []\<rparr>\<rparr>"

definition sample_pod :: PodSandbox where
  "sample_pod = \<lparr>pod_id = ''s1'', pod_name = ''pod'', pod_uid = ''u1'', pod_namespace = ''ns'',
     pod_annotations = [LimitAnnotationKey ''x/'' ''main'' \<mapsto> ''1500k'']\<rparr>"

definition sample_container :: "string list \<Rightarrow> Mount list \<Rightarrow> Container" where
  "sample_container env mounts =
    \<lparr>ctr_id = ''a1'', ctr_pod_sandbox_id = ''s1'', ctr_name = ''main'', ctr_state = CONTAINER_RUNNING,
     ctr_env = env, ctr_mounts = mounts, ctr_linux = None\<rparr>"

lemma sample_plugin_reachable: "reachable pq W sample_plugin" "\<exists>s. sentinel sample_plugin = Some s"
  by (rule reachable.new [of sample_config True empty_dir])
     (simp_all add: sample_plugin_def NewPlugin_def NewSentinel_def sample_config_def)

definition sample_mount :: Mount where
  "sample_mount = \<lparr>mount_source = ''/mps'', mount_destination = ''/mps'',
     mount_type = ''bind'', mount_options = [''bind'', ''rw'']\<rparr>"

definition sample_adjustment :: ContainerAdjustment where
  "sample_adjustment =
    \<lparr>adj_env = [AddEnv EnvGPUMemoryRequest ''2'', AddEnv EnvGPUMemoryLimit ''2'',
       AddEnv EnvMPSPipeDirectory ''/mps''],
     adj_mounts = [sample_mount], adj_cdi_devices = []\<rparr>"

lemma sample_adjusted:
  "buildAdjustment sample_quantity sample_plugin sample_pod (sample_container [] []) = Inr (Some sample_adjustment)"
proof -
  have "ParseGPUMemoryAnnotations sample_quantity (pod_annotations sample_pod) ''main'' ''x/'' =
      Inr \<lparr>Request = [], Limit = ''2''\<rparr>" by code_simp
  moreover have "ParseComputeMode (pod_annotations sample_pod) ''main'' ''x/'' True = Inr ComputeModeTimeSlicing"
      "ParseVisibleDevices (pod_annotations sample_pod) ''main'' ''x/'' = []" by code_simp+
  ultimately show ?thesis
    by (simp add: buildAdjustment_def sample_plugin_def sample_container_def IsEmpty_def ApplyDefaults_def
        MPSPipeMount_def sample_adjustment_def sample_mount_def)
qed

theorem injected_never_reported_witness:
  "\<exists>s. sentinel sample_plugin = Some s \<and>
     check sample_quantity (s_detector s) (Some sample_pod) (Some (sample_container
       [''NVIDIA_GPU_MEMORY_REQUEST=2'', ''NVIDIA_GPU_MEMORY_LIMIT=2'',
        ''CUDA_MPS_PIPE_DIRECTORY=/mps'', ''PATH=/bin''] [sample_mount])) = None"
proof -
  obtain s where s: "sentinel sample_plugin = Some s" using sample_plugin_reachable(2) by blast
  have "carries sample_adjustment (sample_container
       [''NVIDIA_GPU_MEMORY_REQUEST=2'', ''NVIDIA_GPU_MEMORY_LIMIT=2'',
        ''CUDA_MPS_PIPE_DIRECTORY=/mps'', ''PATH=/bin''] [sample_mount])"
    by (simp add: carries_def sample_adjustment_def sample_container_def env_entry_def env_key)
  then show ?thesis
    using s injected_never_reported [OF sample_plugin_reachable(1) s sample_adjusted]
    by (auto simp: sample_container_def)
qed

text \<open>
  C2: the audit reports exactly the running fractioning containers that lack an injected
  piece. In every reachable state, a container is reported if and only if it has an ID, is
  created or running, the create hook would adjust a container of its name under its pod's
  annotations, and one of the variables or the mount of that adjustment is absent from it; so
  a stopped container, once recreated through the hook, gets what it lacked.
\<close>

theorem reported_iff_lacking:
  assumes "reachable pq W p" "sentinel p = Some s"
  shows "check pq (s_detector s) (Some pod) (Some ctr) \<noteq> None \<longleftrightarrow>
    ctr_id ctr \<noteq> [] \<and> (ctr_state ctr = CONTAINER_CREATED \<or> ctr_state ctr = CONTAINER_RUNNING) \<and>
    (\<exists>adj. buildAdjustment pq p pod ctr = Inr (Some adj) \<and>
       ((\<exists>k v. AddEnv k v \<in> set (adj_env adj) \<and> k \<notin> env_name ` set (ctr_env ctr)) \<or>
        (\<exists>m \<in> set (adj_mounts adj). \<not> hasMount (ctr_mounts ctr) (mount_source m) (mount_destination m))))"
proof -
  have d: "s_detector s = detector_of p"
    using reachable_same_policy [OF assms(1)] assms(2) by (simp add: same_policy_def)
  have present: "k \<in> presentEnv env \<longleftrightarrow> k \<in> env_name ` set env" if "k \<in> set AllEnvKeys" for k env
    using that by (auto simp: presentEnv_def)
  show ?thesis
  proof (cases "fraction_plan pq p pod (ctr_name ctr)")
    case None
    then show ?thesis by (auto simp: check_plan [OF d] buildAdjustment_no_plan)
  next
    case (Some plan)
    obtain cfg mode where plan: "plan = (cfg, mode)" by (cases plan)
    note adj = buildAdjustment_plan [OF Some [unfolded plan]]
    have full: "Request cfg \<noteq> []" "Limit cfg \<noteq> []" using fraction_plan_full Some plan by auto
    show ?thesis
      using full
      by (simp add: check_plan [OF d] Some plan adj missingInjection_Nil Let_def enforceable_def
            AllEnvKeys_def present detector_of_def) blast
  qed
qed

theorem reported_iff_lacking_witness:
  "\<exists>s. sentinel sample_plugin = Some s \<and>
     check sample_quantity (s_detector s) (Some sample_pod) (Some (sample_container [] [])) \<noteq> None"
proof -
  obtain s where s: "sentinel sample_plugin = Some s" using sample_plugin_reachable(2) by blast
  then show ?thesis
    using reported_iff_lacking [OF sample_plugin_reachable(1) s] sample_adjusted
    by (auto simp: sample_container_def sample_adjustment_def)
qed

text \<open>
  C8: what is recorded at creation is what is mutated. When the hook blocks a creation the
  plugin's state does not change, so nothing is recorded; when it lets it pass and the event
  queue has room, exactly one event is queued, and it records the container if and only if
  the container was adjusted (and has an ID), with the memory amount that was injected as the
  limit: the value of the injected variable is the recorded number in decimal.
\<close>

theorem recorded_iff_mutated:
  assumes "length (queue (events p)) < defaultQueueDepth" "quantities_int64 pq"
  shows "case CreateContainer pq pod ctr p of
      (p', Inl _) \<Rightarrow> p' = p
    | (p', Inr adj) \<Rightarrow> (\<exists>rec. queue (events p') = queue (events p) @ [Event (EvUpsert (Returns rec))] \<and>
        (rec \<noteq> None \<longleftrightarrow> adj \<noteq> None \<and> ctr_id ctr \<noteq> []) \<and>
        (case (rec, adj) of
           (Some info, Some a) \<Rightarrow> ContainerID info = ctr_id ctr \<and>
             AddEnv EnvGPUMemoryLimit (FormatInt (RequestedMemoryMiB info)) \<in> set (adj_env a)
         | _ \<Rightarrow> True))"
proof (cases "buildAdjustment pq p pod ctr")
  case (Inl e)
  then show ?thesis by (simp add: CreateContainer_def)
next
  case (Inr adj)
  let ?rec = "adapter_container pq (AnnotationPrefix p) (Some pod) (Some ctr)"
  have q: "queue (events (fst (CreateContainer pq pod ctr p))) = queue (events p) @ [Event (EvUpsert (Returns ?rec))]"
    using Inr assms(1) by (simp add: CreateContainer_def Processor_Upsert_def enqueue_def)
  have "(?rec \<noteq> None \<longleftrightarrow> adj \<noteq> None \<and> ctr_id ctr \<noteq> []) \<and>
      (\<forall>info a. ?rec = Some info \<longrightarrow> adj = Some a \<longrightarrow> ContainerID info = ctr_id ctr \<and>
         AddEnv EnvGPUMemoryLimit (FormatInt (RequestedMemoryMiB info)) \<in> set (adj_env a))"
  proof (cases adj)
    case None
    with Inr have "isFractionalGPUContainer pq (AnnotationPrefix p) (Some pod) (ctr_name ctr) = None"
      using not_adjusted by simp
    with None show ?thesis by (simp add: adapter_container_def)
  next
    case (Some a)
    with Inr obtain cfg where cfg: "isFractionalGPUContainer pq (AnnotationPrefix p) (Some pod) (ctr_name ctr) = Some cfg"
        "AddEnv EnvGPUMemoryLimit (FormatInt (EffectiveMemoryMiB cfg)) \<in> set (adj_env a)"
      using adjusted_limit assms(2) by blast
    with Some show ?thesis by (auto simp: adapter_container_def)
  qed
  with q Inr show ?thesis
    by (auto simp: CreateContainer_def split: option.splits)
qed

theorem recorded_iff_mutated_witness:
  "case CreateContainer sample_quantity sample_pod (sample_container [] []) sample_plugin of
      (p', Inl _) \<Rightarrow> False
    | (p', Inr adj) \<Rightarrow> adj = Some sample_adjustment \<and>
        (\<exists>info. queue (events p') = [Event (EvUpsert (Returns (Some info)))])"
proof -
  have "length (queue (events sample_plugin)) < defaultQueueDepth" "queue (events sample_plugin) = []"
    by (simp_all add: sample_plugin_def NewProcessor_def defaultQueueDepth_def)
  then show ?thesis
    using recorded_iff_mutated [where p = sample_plugin and pq = sample_quantity and pod = sample_pod
        and ctr = "sample_container [] []"]
      sample_adjusted sample_quantity_int64
    by (auto simp: CreateContainer_def sample_container_def)
qed

text \<open>
  C15: the two failure policies of the create hook. Under fail-open no container is ever
  blocked. Under fail-closed a container is blocked exactly when its memory annotations are
  malformed, or they ask for a fraction and its compute mode is unusable; the error names the
  container, its pod and the annotation error. A container without memory annotations always
  passes unchanged, whatever its compute mode says.
\<close>

theorem create_hook_failures:
  "(FailOpen p \<longrightarrow> is_ok (buildAdjustment pq p pod ctr)) \<and>
   (\<not> FailOpen p \<longrightarrow> (buildAdjustment pq p pod ctr = Inl e \<longleftrightarrow>
      (\<exists>err. e = BlockedContainer (ctr_name ctr) (pod_name pod) err \<and>
        (ParseGPUMemoryAnnotations pq (pod_annotations pod) (ctr_name ctr) (AnnotationPrefix p) = Inl err \<or>
         (\<exists>cfg. ParseGPUMemoryAnnotations pq (pod_annotations pod) (ctr_name ctr) (AnnotationPrefix p) = Inr cfg \<and>
            \<not> IsEmpty cfg \<and>
            ParseComputeMode (pod_annotations pod) (ctr_name ctr) (AnnotationPrefix p) (SupportSMSharing p) = Inl err))))) \<and>
   (ParseGPUMemoryAnnotations pq (pod_annotations pod) (ctr_name ctr) (AnnotationPrefix p) = Inr \<lparr>Request = [], Limit = []\<rparr> \<longrightarrow>
      buildAdjustment pq p pod ctr = Inr None)"
  by (auto simp: buildAdjustment_def Let_def IsEmpty_def split: sum.splits if_splits prod.splits)

definition bare_pod :: PodSandbox where
  "bare_pod = sample_pod\<lparr>pod_annotations := Map.empty\<rparr>"

theorem create_hook_failures_witness:
  "buildAdjustment sample_quantity sample_plugin bare_pod (sample_container [] []) = Inr None"
proof -
  have "ParseGPUMemoryAnnotations sample_quantity (pod_annotations bare_pod)
      (ctr_name (sample_container [] [])) (AnnotationPrefix sample_plugin) = Inr \<lparr>Request = [], Limit = []\<rparr>"
    by (simp add: bare_pod_def ParseGPUMemoryAnnotations_def memoryAnnotation_def)
  then show ?thesis using create_hook_failures [of sample_plugin] by blast
qed

end
