(* ===== verification/Retry_Loop.thy ===== *)
theory Retry_Loop
  imports Prelude
begin

text \<open>
  The restart discipline that the NRI connection loop of fractiond and the MPS supervisor of
  mpsd share: an attempt counter and an exponential backoff, both reset by a stable run. An
  infinite loop is run over a finite list of what its surroundings do, one element per
  iteration; the locale \<open>restart_loop\<close> is the contract of one iteration, and its lemmas hold
  for both loops. Durations are nanoseconds in \<^verbatim>\<open>int64\<close>.
\<close>

section \<open>Loops\<close>

definition maxBackoff :: int where
  "maxBackoff = 60 * 10 ^ 9"

record retry_state =
  attempt :: int
  backoff :: int

text \<open>An iteration yields its actions and either the loop's result or the next state.\<close>

fun loop :: "('e \<Rightarrow> 's \<Rightarrow> 'a list \<times> ('o + 's)) \<Rightarrow> 'e list \<Rightarrow> 's \<Rightarrow> 'a list \<times> ('o + 's)" where
  "loop f [] s = ([], Inr s)"
| "loop f (e # es) s =
    (case f e s of
       (acts, Inl out) \<Rightarrow> (acts, Inl out)
     | (acts, Inr s') \<Rightarrow> (case loop f es s' of (acts', r) \<Rightarrow> (acts @ acts', r)))"

lemma loop_append:
  "loop f (xs @ ys) s =
    (case loop f xs s of
       (acts, Inl out) \<Rightarrow> (acts, Inl out)
     | (acts, Inr s') \<Rightarrow> (case loop f ys s' of (acts', r) \<Rightarrow> (acts @ acts', r)))"
  by (induction xs arbitrary: s) (auto split: prod.splits sum.splits)

text \<open>The next wait: doubled with \<^verbatim>\<open>int64\<close> wrap-around, capped.\<close>

definition next_backoff :: "int \<Rightarrow> int" where
  "next_backoff b = min (wrap64 (b * 2)) maxBackoff"

lemma wrap64_id [simp]: "in_int64 i \<Longrightarrow> wrap64 i = i"
  by (auto simp: wrap64_def in_int64_def min_int64_def max_int64_def)

definition sane_interval :: "int \<Rightarrow> bool" where
  "sane_interval b \<longleftrightarrow> 0 < b \<and> b \<le> 4611686018427387903"

lemma next_backoff_sane:
  assumes "sane_interval b" shows "next_backoff b = min (b * 2) maxBackoff" "sane_interval (next_backoff b)"
proof -
  have "wrap64 (b * 2) = b * 2"
    using assms by (intro wrap64_id) (simp add: sane_interval_def in_int64_def min_int64_def max_int64_def)
  then show "next_backoff b = min (b * 2) maxBackoff" by (simp add: next_backoff_def)
  then show "sane_interval (next_backoff b)"
    using assms by (auto simp: sane_interval_def maxBackoff_def)
qed

section \<open>The contract of an iteration\<close>

text \<open>
  \<open>ends e\<close>: the run of the iteration ends the loop, whatever the counters; \<open>cancelled e\<close>: the
  wait after it is cut short by a shutdown; \<open>up e\<close>: how long the run lasted.
\<close>

locale restart_loop =
  fixes iter :: "'e \<Rightarrow> retry_state \<Rightarrow> 'a list \<times> ('o + retry_state)"
    and ends cancelled :: "'e \<Rightarrow> bool"
    and up :: "'e \<Rightarrow> int"
    and interval threshold budget :: int
    and gave_up :: "int \<Rightarrow> 'e \<Rightarrow> 'o"
    and stopped :: "'e \<Rightarrow> 'o"
  assumes iter_ends: "ends e \<Longrightarrow> \<exists>out. snd (iter e s) = Inl out \<and> (\<forall>n e'. out \<noteq> gave_up n e')"
    and iter_stable: "\<not> ends e \<Longrightarrow> threshold \<le> up e \<Longrightarrow>
      snd (iter e s) = (if cancelled e then Inl (stopped e) else Inr \<lparr>attempt = 0, backoff = next_backoff interval\<rparr>)"
    and iter_exhausted: "\<not> ends e \<Longrightarrow> up e < threshold \<Longrightarrow> 0 < budget \<Longrightarrow> budget \<le> attempt s + 1 \<Longrightarrow>
      snd (iter e s) = Inl (gave_up (attempt s + 1) e)"
    and iter_again: "\<not> ends e \<Longrightarrow> up e < threshold \<Longrightarrow> budget \<le> 0 \<or> attempt s + 1 < budget \<Longrightarrow>
      snd (iter e s) = (if cancelled e then Inl (stopped e)
        else Inr \<lparr>attempt = attempt s + 1, backoff = next_backoff (backoff s)\<rparr>)"
    and stopped_not_gave_up: "stopped e \<noteq> gave_up n e'"
begin

lemma iter_cases:
  "ends e \<or> threshold \<le> up e \<or> (0 < budget \<and> budget \<le> attempt s + 1) \<or>
   (budget \<le> 0 \<or> attempt s + 1 < budget)"
  by linarith

lemma loop_step: "snd (loop iter (e # es) s) = (case snd (iter e s) of Inl out \<Rightarrow> Inl out | Inr s' \<Rightarrow> snd (loop iter es s'))"
  by (auto split: prod.splits sum.splits)

text \<open>Runs that never are stable and never cut short: the k-th wait is the doubled interval, capped.\<close>

lemma unstable_backoff:
  assumes "\<forall>e \<in> set es. \<not> ends e \<and> \<not> cancelled e \<and> up e < threshold"
    and "budget \<le> 0 \<or> attempt s + int (length es) < budget" "sane_interval (backoff s)"
  shows "snd (loop iter es s) = Inr \<lparr>attempt = attempt s + int (length es), backoff = (next_backoff ^^ length es) (backoff s)\<rparr>"
  using assms
proof (induction es arbitrary: s)
  case (Cons e es)
  then have step: "snd (iter e s) = Inr \<lparr>attempt = attempt s + 1, backoff = next_backoff (backoff s)\<rparr>"
    by (subst iter_again) auto
  show ?case
    unfolding loop_step step using Cons.prems
    by (simp, subst Cons.IH) (auto simp: next_backoff_sane(2) funpow_swap1)
qed simp

text \<open>A positive budget is exhausted by that many unstable runs in a row.\<close>

lemma budget_exhausted:
  assumes "\<forall>e \<in> set es. \<not> ends e \<and> \<not> cancelled e \<and> up e < threshold"
    and "0 < budget" "budget \<le> attempt s + int (length es)" "attempt s < budget"
  shows "\<exists>e \<in> set es. snd (loop iter es s) = Inl (gave_up budget e)"
  using assms
proof (induction es arbitrary: s)
  case (Cons e es)
  show ?case
  proof (cases "budget \<le> attempt s + 1")
    case True
    then have "snd (iter e s) = Inl (gave_up (attempt s + 1) e)" "attempt s + 1 = budget"
      using Cons.prems iter_exhausted by auto
    then show ?thesis unfolding loop_step by auto
  next
    case False
    then have step: "snd (iter e s) = Inr \<lparr>attempt = attempt s + 1, backoff = next_backoff (backoff s)\<rparr>"
      using Cons.prems by (subst iter_again) auto
    show ?thesis
      unfolding loop_step step using Cons.prems Cons.IH [of "\<lparr>attempt = attempt s + 1, backoff = next_backoff (backoff s)\<rparr>"] False
      by auto
  qed
qed simp

text \<open>Without a budget the loop never gives up.\<close>

lemma unlimited_never_gives_up:
  assumes "budget \<le> 0" shows "snd (loop iter es s) \<noteq> Inl (gave_up n e)"
proof (induction es arbitrary: s)
  case (Cons e' es)
  consider "ends e'" | "\<not> ends e'" "threshold \<le> up e'" | "\<not> ends e'" "up e' < threshold" by linarith
  then show ?case
    unfolding loop_step using Cons assms iter_ends [of e' s] stopped_not_gave_up
    by cases (auto simp: iter_stable iter_again)
qed simp

text \<open>The counters stay in bounds in every state the loop reaches.\<close>

lemma counters_bounded:
  assumes "snd (loop iter es s) = Inr s'" "sane_interval interval"
    and "0 \<le> attempt s" "0 < budget \<Longrightarrow> attempt s < budget" "sane_interval (backoff s)"
    and "es \<noteq> []"
  shows "0 \<le> attempt s' \<and> (0 < budget \<longrightarrow> attempt s' < budget) \<and> 0 < backoff s' \<and> backoff s' \<le> maxBackoff"
  using assms
proof (induction es arbitrary: s)
  case (Cons e es)
  note prems = Cons.prems and IH = Cons.IH
  have cap: "0 < next_backoff b \<and> next_backoff b \<le> maxBackoff" if "sane_interval b" for b
    using next_backoff_sane(2) [OF that] by (auto simp: sane_interval_def next_backoff_def)
  obtain s1 where s1: "snd (iter e s) = Inr s1"
    using Cons.prems(1) unfolding loop_step by (auto split: sum.splits)
  have no_end: "\<not> ends e" using iter_ends [of e s] s1 by auto
  have inv: "0 \<le> attempt s1 \<and> (0 < budget \<longrightarrow> attempt s1 < budget) \<and> sane_interval (backoff s1) \<and>
      0 < backoff s1 \<and> backoff s1 \<le> maxBackoff"
  proof (cases "threshold \<le> up e")
    case True
    then have "s1 = \<lparr>attempt = 0, backoff = next_backoff interval\<rparr>"
      using s1 iter_stable [OF no_end, of s] by (simp split: if_splits)
    then show ?thesis using cap [OF prems(2)] next_backoff_sane(2) [OF prems(2)] by simp
  next
    case False
    then have "budget \<le> 0 \<or> attempt s + 1 < budget"
      using s1 iter_exhausted [OF no_end, of s] by force
    moreover from this have "s1 = \<lparr>attempt = attempt s + 1, backoff = next_backoff (backoff s)\<rparr>"
      using False s1 iter_again [OF no_end, of s] by (simp split: if_splits)
    ultimately show ?thesis
      using cap [OF prems(5)] next_backoff_sane(2) [OF prems(5)] prems(3) by auto
  qed
  show ?case
  proof (cases es)
    case Nil
    then show ?thesis using Cons.prems(1) s1 inv unfolding loop_step by simp
  next
    case (Cons _ _)
    then show ?thesis
      using IH [of s1] prems(1,2) s1 inv unfolding loop_step by simp
  qed
qed simp

end

end
