(* ===== verification/Fractiond_Run.thy ===== *)
theory Fractiond_Run
  imports Plugin Retry_Loop
begin

text \<open>
  The fractiond process: the connection loop of \<^verbatim>\<open>fractiond/cmd/main.go\<close>, the readiness
  endpoint of \<^verbatim>\<open>fractiond/internal/readiness\<close> and the exit status of main. The NRI stub
  library and the clock are the surroundings of the loop: for each iteration, whether the stub
  could be made, whether a shutdown signal arrived during the run or during the wait, and how
  long the run lasted.
\<close>

section \<open>Readiness\<close>

type_synonym readiness_state = bool

definition NewState :: readiness_state where "NewState = False"
definition SetReady :: "bool \<Rightarrow> readiness_state \<Rightarrow> readiness_state" where "SetReady ready s = ready"
definition Ready :: "readiness_state \<Rightarrow> bool" where "Ready s = s"

definition readyz_status :: "readiness_state \<Rightarrow> nat" where
  "readyz_status s = (if \<not> Ready s then 503 else 200)"

section \<open>The connection loop\<close>

record retry_flags =
  retryInterval :: int
  stableThreshold :: int
  maxRetries :: int

record nri_env =
  stub_fails :: bool
  signal_in_run :: bool
  uptime :: int
  signal_in_wait :: bool

datatype nri_outcome = StubError | CleanExit | ConnectionFailed int

datatype nri_action = Connect int | ClearReady | Wait int

definition nri_iteration :: "retry_flags \<Rightarrow> nri_env \<Rightarrow> retry_state \<Rightarrow> nri_action list \<times> (nri_outcome + retry_state)" where
  "nri_iteration flags e s =
    (let a = attempt s + 1 in
     if stub_fails e then ([Connect a], Inl StubError)
     else if signal_in_run e then ([Connect a, ClearReady], Inl CleanExit)
     else let stable = (uptime e \<ge> stableThreshold flags);
              a' = (if stable then 0 else a);
              b = (if stable then retryInterval flags else backoff s)
          in if maxRetries flags > 0 \<and> a' \<ge> maxRetries flags
             then ([Connect a, ClearReady], Inl (ConnectionFailed a'))
             else if signal_in_wait e then ([Connect a, ClearReady, Wait b], Inl CleanExit)
             else ([Connect a, ClearReady, Wait b], Inr \<lparr>attempt = a', backoff = next_backoff b\<rparr>))"

definition runWithRetry :: "retry_flags \<Rightarrow> nri_env list \<Rightarrow> nri_action list \<times> (nri_outcome + retry_state)" where
  "runWithRetry flags es = loop (nri_iteration flags) es \<lparr>attempt = 0, backoff = retryInterval flags\<rparr>"

text \<open>The process's exit status once the loop has returned; queued mapping writes are flushed first.\<close>

definition main_exit :: "MapDir Writer \<Rightarrow> nri_outcome \<Rightarrow> Plugin \<Rightarrow> Plugin \<times> nat" where
  "main_exit W out p = (Flush W p, if out = CleanExit then 0 else 1)"

section \<open>The loop meets the restart contract\<close>

interpretation nri: restart_loop "nri_iteration flags" "\<lambda>e. stub_fails e \<or> signal_in_run e" signal_in_wait uptime
    "retryInterval flags" "stableThreshold flags" "maxRetries flags" "\<lambda>n _. ConnectionFailed n" "\<lambda>_. CleanExit"
  for flags
  by unfold_locales (auto simp: nri_iteration_def Let_def)

lemma nri_survivors:
  "snd (loop (nri_iteration flags) es s) = Inr s' \<Longrightarrow> e \<in> set es \<Longrightarrow>
     \<not> (stub_fails e \<or> signal_in_run e) \<and> \<not> signal_in_wait e"
proof (induction es arbitrary: s)
  case (Cons e' es)
  then obtain s1 where s1: "snd (nri_iteration flags e' s) = Inr s1" "snd (loop (nri_iteration flags) es s1) = Inr s'"
    by (auto split: prod.splits sum.splits)
  then have "\<not> (stub_fails e' \<or> signal_in_run e') \<and> \<not> signal_in_wait e'"
    by (auto simp: nri_iteration_def Let_def split: if_splits)
  with Cons s1 show ?case by auto
qed simp

lemma next_backoff_pow:
  assumes "sane_interval b"
  shows "(next_backoff ^^ n) b = (if n = 0 then b else min (b * 2 ^ n) maxBackoff)" "sane_interval ((next_backoff ^^ n) b)"
proof (induction n)
  case (Suc n)
  {
    case 1
    have "0 < b" using assms by (simp add: sane_interval_def)
    then have "b * 2 \<le> b * 2 ^ Suc n" by simp
    moreover have "0 < maxBackoff" by (simp add: maxBackoff_def)
    ultimately show ?case using Suc next_backoff_sane(1) [OF Suc(2)] by (auto simp: min_def)
  next
    case 2
    show ?case using next_backoff_sane(2) [OF Suc(2)] by simp
  }
qed (use assms in auto)

section \<open>Properties\<close>

text \<open>
  The connection loop backs off exponentially and stays within bounds. After n
  consecutive unstable connections (with no shutdown and budget left) the next wait is the
  configured interval doubled n times, capped at 60 seconds; and in every state the loop
  reaches after an iteration, whatever happened, the wait lies between 1 ns and 60 seconds and
  the attempt counter is below the budget.
\<close>

theorem retry_backoff:
  assumes "sane_interval (retryInterval flags)" "snd (runWithRetry flags es) = Inr s" "es \<noteq> []"
  shows "0 < backoff s \<and> backoff s \<le> 60000000000 \<and> 0 \<le> attempt s \<and>
    (0 < maxRetries flags \<longrightarrow> attempt s < maxRetries flags) \<and>
    ((\<forall>e \<in> set es. uptime e < stableThreshold flags) \<longrightarrow>
       attempt s = int (length es) \<and> backoff s = min (retryInterval flags * 2 ^ length es) 60000000000)"
proof -
  let ?s0 = "\<lparr>attempt = 0, backoff = retryInterval flags\<rparr>"
  have run: "snd (loop (nri_iteration flags) es ?s0) = Inr s" using assms(2) by (simp add: runWithRetry_def)
  have bounds: "0 \<le> attempt s \<and> (0 < maxRetries flags \<longrightarrow> attempt s < maxRetries flags) \<and>
      0 < backoff s \<and> backoff s \<le> maxBackoff"
    using nri.counters_bounded [OF run assms(1)] assms(1,3) by simp
  have quiet: "\<not> (stub_fails e \<or> signal_in_run e) \<and> \<not> signal_in_wait e" if "e \<in> set es" for e
    using run that nri_survivors by blast
  have "attempt s = int (length es) \<and> backoff s = min (retryInterval flags * 2 ^ length es) 60000000000"
    if un: "\<forall>e \<in> set es. uptime e < stableThreshold flags"
  proof -
    have "maxRetries flags \<le> 0 \<or> int (length es) < maxRetries flags"
      using nri.budget_exhausted [of es flags ?s0] un quiet run by force
    then have "snd (loop (nri_iteration flags) es ?s0) =
        Inr \<lparr>attempt = int (length es), backoff = (next_backoff ^^ length es) (retryInterval flags)\<rparr>"
      using nri.unstable_backoff [of es flags ?s0] un quiet assms(1) by auto
    then show ?thesis
      using run next_backoff_pow(1) [OF assms(1), of "length es"] assms(3) by (simp add: maxBackoff_def)
  qed
  with bounds show ?thesis by (simp add: maxBackoff_def)
qed

definition sample_flags :: retry_flags where
  "sample_flags = \<lparr>retryInterval = 5000000000, stableThreshold = 300000000000, maxRetries = 3\<rparr>"

definition crash :: "int \<Rightarrow> nri_env" where
  "crash t = \<lparr>stub_fails = False, signal_in_run = False, uptime = t, signal_in_wait = False\<rparr>"

theorem retry_backoff_witness:
  "\<exists>s. snd (runWithRetry sample_flags [crash 1, crash 2]) = Inr s \<and> backoff s = 20000000000"
proof -
  obtain s where s: "snd (runWithRetry sample_flags [crash 1, crash 2]) = Inr s"
    by (simp add: runWithRetry_def nri_iteration_def sample_flags_def crash_def Let_def)
  have "sane_interval (retryInterval sample_flags)" by (simp add: sample_flags_def sane_interval_def)
  from retry_backoff [OF this s] have "backoff s = 20000000000"
    by (simp add: sample_flags_def crash_def)
  with s show ?thesis by blast
qed

lemma nri_trace:
  "fst (nri_iteration flags e s) \<in> {[Connect (attempt s + 1)], [Connect (attempt s + 1), ClearReady]} \<or>
   (\<exists>b. fst (nri_iteration flags e s) = [Connect (attempt s + 1), ClearReady, Wait b])"
  by (auto simp: nri_iteration_def Let_def)

text \<open>Every wait comes right after readiness was cleared.\<close>

fun waits_unready :: "nri_action list \<Rightarrow> bool" where
  "waits_unready (ClearReady # Wait b # acts) = waits_unready acts"
| "waits_unready (Wait b # acts) = False"
| "waits_unready (a # acts) = waits_unready acts"
| "waits_unready [] = True"

lemma waits_unready_step:
  "waits_unready acts \<Longrightarrow> waits_unready (fst (nri_iteration flags e s) @ acts)"
  using nri_trace [of flags e s] by (cases acts rule: waits_unready.cases) auto

lemma waits_unready_loop: "waits_unready (fst (loop (nri_iteration flags) es s))"
proof (induction es arbitrary: s)
  case (Cons e es)
  have "waits_unready (fst (nri_iteration flags e s))"
    using waits_unready_step [of "[]"] by simp
  with Cons show ?case
    by (auto split: prod.splits sum.splits) (metis fst_conv waits_unready_step)
qed simp

text \<open>
  C19: the connection loop gives up once its budget is spent. With a positive budget, that many
  unstable connections in a row end the process with an error and exit status 1; without a budget
  no sequence of events does; a clean exit has status 0. The loop only waits to reconnect while
  marked not ready, and the readiness endpoint then answers 503.
\<close>

theorem retry_gives_up:
  assumes "\<forall>e \<in> set es. \<not> stub_fails e \<and> \<not> signal_in_run e \<and> \<not> signal_in_wait e \<and> uptime e < stableThreshold flags"
    and "0 < maxRetries flags" "maxRetries flags \<le> int (length es)"
  shows "snd (runWithRetry flags es) = Inl (ConnectionFailed (maxRetries flags)) \<and>
    snd (main_exit W (ConnectionFailed (maxRetries flags)) p) = 1 \<and>
    (\<forall>es' n. snd (runWithRetry (flags\<lparr>maxRetries := 0\<rparr>) es') \<noteq> Inl (ConnectionFailed n)) \<and>
    snd (main_exit W CleanExit p) = 0 \<and>
    waits_unready (fst (runWithRetry flags es)) \<and> readyz_status (SetReady False r) = 503"
  using assms nri.budget_exhausted [of es flags "\<lparr>attempt = 0, backoff = retryInterval flags\<rparr>"]
    nri.unlimited_never_gives_up [of "flags\<lparr>maxRetries := 0\<rparr>"] waits_unready_loop
  by (force simp: runWithRetry_def main_exit_def readyz_status_def SetReady_def Ready_def)

theorem retry_gives_up_witness:
  "snd (runWithRetry sample_flags [crash 1, crash 2, crash 3]) = Inl (ConnectionFailed 3)"
  using retry_gives_up [of "[crash 1, crash 2, crash 3]" sample_flags undefined undefined undefined]
  by (simp add: sample_flags_def crash_def)

end
