(* ===== verification/Pkg.thy ===== *)
theory Pkg
  imports Prelude
begin

text \<open>
  The shared packages under \<^verbatim>\<open>pkg\<close>: typed environment variables with defaults (env.go) and the
  driver-version label that mpsd writes and the operator reads (driver.go). The environment is
  a function from names to values, empty when unset. Durations are read by \<^verbatim>\<open>time.ParseDuration\<close>,
  here a parameter.
\<close>

section \<open>Package env\<close>

type_synonym getenv = "string \<Rightarrow> string"

definition env_String :: "getenv \<Rightarrow> string \<Rightarrow> string \<Rightarrow> string" where
  "env_String ge key fallback = (if ge key \<noteq> [] then ge key else fallback)"

definition env_Bool :: "getenv \<Rightarrow> string \<Rightarrow> bool \<Rightarrow> bool" where
  "env_Bool ge key fallback =
    (if ge key = [] then fallback
     else case ParseBool (ge key) of None \<Rightarrow> fallback | Some b \<Rightarrow> b)"

definition env_Int :: "getenv \<Rightarrow> string \<Rightarrow> int \<Rightarrow> int" where
  "env_Int ge key fallback =
    (if ge key = [] then fallback
     else case Atoi (ge key) of None \<Rightarrow> fallback | Some i \<Rightarrow> i)"

definition env_Duration :: "(string \<Rightarrow> int option) \<Rightarrow> getenv \<Rightarrow> string \<Rightarrow> int \<Rightarrow> int" where
  "env_Duration parseDuration ge key fallback =
    (if ge key = [] then fallback
     else case parseDuration (ge key) of None \<Rightarrow> fallback | Some d \<Rightarrow> d)"

section \<open>Package driverinfo\<close>

definition NVIDIADriverMajorLabel :: string where
  "NVIDIADriverMajorLabel = ''gpu-fractioning.kai.scheduler/nvidia-driver-version.major''"

datatype driver_error = EmptyVersion | EmptyValue | NotAnInteger string | NotPositive int

definition parsePositiveInt :: "string \<Rightarrow> (driver_error, int) result" where
  "parsePositiveInt v =
    (if v = [] then Inl EmptyValue
     else case Atoi v of
         None \<Rightarrow> Inl (NotAnInteger v)
       | Some i \<Rightarrow> if i \<le> 0 then Inl (NotPositive i) else Inr i)"

definition ParseDriverVersionMajor :: "string \<Rightarrow> (driver_error, int) result" where
  "ParseDriverVersionMajor version =
    (let version = TrimSpace version in
     if version = [] then Inl EmptyVersion
     else parsePositiveInt (fst (Cut version CHR ''.'')))"

definition ParseDriverMajorLabel :: "string \<Rightarrow> (driver_error, int) result" where
  "ParseDriverMajorLabel v = parsePositiveInt (TrimSpace v)"

section \<open>Lemmas\<close>

lemma parsePositiveInt_Inr:
  "parsePositiveInt v = Inr i \<longleftrightarrow> v \<noteq> [] \<and> Atoi v = Some i \<and> 0 < i"
  by (auto simp: parsePositiveInt_def split: option.splits)

lemma parsePositiveInt_range: "parsePositiveInt v = Inr i \<Longrightarrow> 0 < i \<and> in_int64 i"
  by (auto simp: parsePositiveInt_Inr Atoi_def dest: ParseInt64_range)

lemma label_parses: "0 < i \<Longrightarrow> in_int64 i \<Longrightarrow> ParseDriverMajorLabel (Itoa i) = Inr i"
  by (simp add: ParseDriverMajorLabel_def Itoa_def TrimSpace_id FormatInt_no_space parsePositiveInt_Inr Atoi_def)

lemma parsed_major_label:
  "ParseDriverVersionMajor v = Inr i \<Longrightarrow> 0 < i \<and> ParseDriverMajorLabel (Itoa i) = Inr i"
  by (auto simp: ParseDriverVersionMajor_def Let_def label_parses split: if_splits dest!: parsePositiveInt_range)

section \<open>Properties\<close>

text \<open>
  The driver label round-trips. The label value written for any positive driver branch is
  read back as that branch, and the branch read from a dotted driver version is the integer
  before the first dot, always positive.
\<close>

theorem driver_label_roundtrip:
  assumes "0 < major" "major \<le> max_int64" "no_space_bytes rest"
  shows "ParseDriverMajorLabel (Itoa major) = Inr major \<and>
    ParseDriverVersionMajor (Itoa major @ ''.'' @ rest) = Inr major \<and>
    (\<forall>v i. ParseDriverVersionMajor v = Inr i \<longrightarrow> 0 < i \<and> ParseDriverMajorLabel (Itoa i) = Inr i)"
proof -
  have r: "in_int64 major" using assms by (simp add: in_int64_def min_int64_def)
  have "CHR ''.'' \<notin> set (FormatInt major)"
    using assms show_nat_digits [of "nat major"] by (auto simp: FormatInt_def list_all_iff is_digit_def)
  moreover have "no_space_bytes (FormatInt major @ ''.'' @ rest)"
    using assms(3) FormatInt_no_space [of major] by (simp add: no_space_bytes_def)
  ultimately have "ParseDriverVersionMajor (Itoa major @ ''.'' @ rest) = Inr major"
    using assms r
    by (simp add: ParseDriverVersionMajor_def Itoa_def TrimSpace_id parsePositiveInt_Inr Atoi_def Cut_found)
  with label_parses [OF assms(1) r] parsed_major_label show ?thesis by blast
qed

theorem driver_label_roundtrip_witness:
  "ParseDriverVersionMajor ''615.43.02'' = Inr 615 \<and> ParseDriverMajorLabel ''615'' = Inr 615"
proof -
  have "Itoa 615 = ''615''" by code_simp
  then show ?thesis
    using driver_label_roundtrip [of 615 "''43.02''"] by (simp add: max_int64_def no_space_bytes_def)
qed

end
