(* ===== verification/Goflag.thy ===== *)
theory Goflag
  imports Pkg
begin

text \<open>
  Go's package \<^verbatim>\<open>flag\<close> as the daemons use it: the arguments are read from the left, a flag takes its
  value after an equals sign or from the next argument (a boolean flag only after an equals
  sign), and the first argument that is no flag ends the reading. Number and duration syntax is
  a parameter, of which only that written values are read back is assumed.
\<close>

datatype flag_error = BadSyntax string | Undefined string | NeedsArgument string | BadValue string string

text \<open>A flag set: is the flag defined, and boolean; and the effect of a value, \<open>None\<close> if it is rejected.\<close>

record 'f flag_set =
  is_bool :: "string \<Rightarrow> bool option"
  set_value :: "string \<Rightarrow> string \<Rightarrow> 'f \<Rightarrow> 'f option"

text \<open>The name and value of one flag argument; the value starts after the first equals sign but one at the front.\<close>

definition split_flag :: "string \<Rightarrow> string \<times> string option" where
  "split_flag s =
    (case s of [] \<Rightarrow> ([], None)
     | c # cs \<Rightarrow> (case Cut cs CHR ''='' of (n, v, found) \<Rightarrow> (c # n, if found then Some v else None)))"

text \<open>What one argument is: the end of the flags, an error, or a flag with its value if it carries one.\<close>

datatype flag_arg = EndOfFlags | Terminator | Malformed | FlagArg string "string option"

definition classify :: "string \<Rightarrow> flag_arg" where
  "classify s =
    (if length s < 2 \<or> hd s \<noteq> CHR ''-'' then EndOfFlags
     else if s = ''--'' then Terminator
     else let body = (if s ! 1 = CHR ''-'' then drop 2 s else drop 1 s) in
       if body = [] \<or> hd body = CHR ''-'' \<or> hd body = CHR ''='' then Malformed
       else case split_flag body of (n, v) \<Rightarrow> FlagArg n v)"

fun flag_parse :: "'f flag_set \<Rightarrow> string list \<Rightarrow> 'f \<Rightarrow> (flag_error, 'f) result" where
  "flag_parse fs [] f = Inr f"
| "flag_parse fs (a # rest) f =
    (case classify a of
       EndOfFlags \<Rightarrow> Inr f
     | Terminator \<Rightarrow> Inr f
     | Malformed \<Rightarrow> Inl (BadSyntax a)
     | FlagArg n v \<Rightarrow>
         (case is_bool fs n of
            None \<Rightarrow> Inl (Undefined n)
          | Some True \<Rightarrow>
              (case set_value fs n (case v of None \<Rightarrow> ''true'' | Some w \<Rightarrow> w) f of
                 None \<Rightarrow> Inl (BadValue n (case v of None \<Rightarrow> ''true'' | Some w \<Rightarrow> w))
               | Some f' \<Rightarrow> flag_parse fs rest f')
          | Some False \<Rightarrow>
              (case v of
                 Some w \<Rightarrow> (case set_value fs n w f of None \<Rightarrow> Inl (BadValue n w) | Some f' \<Rightarrow> flag_parse fs rest f')
               | None \<Rightarrow>
                   (case rest of
                      [] \<Rightarrow> Inl (NeedsArgument n)
                    | w # rest' \<Rightarrow>
                        (case set_value fs n w f of None \<Rightarrow> Inl (BadValue n w) | Some f' \<Rightarrow> flag_parse fs rest' f')))))"

text \<open>The arguments that remain after a reading that succeeds.\<close>

fun flag_args :: "'f flag_set \<Rightarrow> string list \<Rightarrow> string list" where
  "flag_args fs [] = []"
| "flag_args fs (a # rest) =
    (case classify a of
       EndOfFlags \<Rightarrow> a # rest
     | Terminator \<Rightarrow> rest
     | Malformed \<Rightarrow> []
     | FlagArg n v \<Rightarrow>
         if is_bool fs n = Some False \<and> v = None then (case rest of [] \<Rightarrow> [] | _ # rest' \<Rightarrow> flag_args fs rest')
         else flag_args fs rest)"

text \<open>The syntax of numbers and durations, and what is written is read back.\<close>

record texts =
  parse_int :: "string \<Rightarrow> int option"
  parse_duration :: "string \<Rightarrow> int option"
  Duration_String :: "int \<Rightarrow> string"

definition texts_ok :: "texts \<Rightarrow> bool" where
  "texts_ok t \<longleftrightarrow> (\<forall>i. in_int64 i \<longrightarrow> parse_int t (Itoa i) = Some i \<and> parse_duration t (Duration_String t i) = Some i)"

section \<open>Reading what was written\<close>

definition plain_name :: "string \<Rightarrow> bool" where
  "plain_name n \<longleftrightarrow> n \<noteq> [] \<and> hd n \<noteq> CHR ''-'' \<and> CHR ''='' \<notin> set n"

lemma classify_plain:
  assumes "plain_name n" shows "classify (''--'' @ n) = FlagArg n None"
proof -
  obtain c cs where n: "n = c # cs" using assms by (cases n) (auto simp: plain_name_def)
  then show ?thesis
    using assms by (auto simp: classify_def split_flag_def plain_name_def Cut_absent)
qed

lemma classify_value:
  assumes "plain_name n" shows "classify (''--'' @ n @ ''='' @ v) = FlagArg n (Some v)"
proof -
  obtain c cs where n: "n = c # cs" using assms by (cases n) (auto simp: plain_name_def)
  then show ?thesis
    using assms by (auto simp: classify_def split_flag_def plain_name_def Cut_found)
qed

lemma parse_pair:
  assumes "plain_name n" "is_bool fs n = Some False" "set_value fs n v f = Some f'"
  shows "flag_parse fs ((''--'' @ n) # v # rest) f = flag_parse fs rest f'"
  using assms by (simp only: flag_parse.simps classify_plain) simp

lemma parse_bool_value:
  assumes "plain_name n" "is_bool fs n = Some True" "set_value fs n v f = Some f'"
  shows "flag_parse fs ((''--'' @ n @ ''='' @ v) # rest) f = flag_parse fs rest f'"
  using assms by (simp only: flag_parse.simps classify_value) simp

lemma parse_switch:
  assumes "plain_name n" "is_bool fs n = Some True" "set_value fs n ''true'' f = Some f'"
  shows "flag_parse fs ((''--'' @ n) # rest) f = flag_parse fs rest f'"
  using assms by (simp only: flag_parse.simps classify_plain) simp

text \<open>Optional arguments, as the operator writes them: present or not, the reading goes on with the value.\<close>

definition opt_arg :: "string \<Rightarrow> string option \<Rightarrow> string list" where
  "opt_arg n v = (case v of None \<Rightarrow> [] | Some w \<Rightarrow> [''--'' @ n, w])"

definition bool_arg :: "string \<Rightarrow> bool \<Rightarrow> string" where
  "bool_arg n b = ''--'' @ n @ ''='' @ FormatBool b"

definition set_opt :: "'f flag_set \<Rightarrow> string \<Rightarrow> string option \<Rightarrow> 'f \<Rightarrow> 'f option" where
  "set_opt fs n v f = (case v of None \<Rightarrow> Some f | Some w \<Rightarrow> set_value fs n w f)"

lemma parse_opt_arg:
  assumes "plain_name n" "is_bool fs n = Some False" "set_opt fs n v f = Some f'"
  shows "flag_parse fs (opt_arg n v @ rest) f = flag_parse fs rest f'"
  using assms parse_pair [of n fs _ f f' rest] by (auto simp: opt_arg_def set_opt_def split: option.splits)

lemma parse_bool_arg:
  assumes "plain_name n" "is_bool fs n = Some True" "set_value fs n (FormatBool b) f = Some f'"
  shows "flag_parse fs (bool_arg n b # rest) f = flag_parse fs rest f'"
  unfolding bool_arg_def by (rule parse_bool_value [OF assms])

declare flag_parse.simps(2) [simp del]

definition nonempty :: "string \<Rightarrow> string option" where
  "nonempty s = (if s = [] then None else Some s)"

definition given :: "'a option \<Rightarrow> 'a \<Rightarrow> 'a" where
  "given x y = (case x of None \<Rightarrow> y | Some z \<Rightarrow> z)"

lemma given_simps [simp]: "given None y = y" "given (Some z) y = z"
  by (simp_all add: given_def)

definition int64_opt :: "int option \<Rightarrow> bool" where
  "int64_opt x \<longleftrightarrow> (case x of None \<Rightarrow> True | Some i \<Rightarrow> in_int64 i)"

text \<open>Texts for the witnesses: durations written as their number of nanoseconds.\<close>

definition sample_texts :: texts where
  "sample_texts = \<lparr>parse_int = ParseInt64, parse_duration = ParseInt64, Duration_String = Itoa\<rparr>"

lemma texts_ok_sample: "texts_ok sample_texts"
  by (simp add: texts_ok_def sample_texts_def Itoa_def)

end
