(* ===== verification/Mpsd.thy ===== *)
theory Mpsd
  imports Goflag Retry_Loop Injection
begin

text \<open>
  The MPS daemon supervisor \<^verbatim>\<open>mpsd\<close>: rendering of the control daemon's configuration (config.go),
  its argument list, setup and restart loop (supervisor.go), the label of the node's driver
  branch (driverlabel/labeler.go) and the assembly of them in main.go. The MPS process, the
  file system, NVML and the Kubernetes API are the surroundings: what the supervisor does to
  them is a sequence of actions, what they answer is an argument.
\<close>

section \<open>Configuration file\<close>

record MPSConfig =
  MemacctEnabled :: bool
  MemacctAuditLog :: bool
  ContextShareEnabled :: bool
  ContextShareDefaultSocket :: string
  SharedServerName :: string

definition TOML :: "MPSConfig \<Rightarrow> string list" where
  "TOML c =
    [''[features.memacct]'', ''enabled='' @ FormatBool (MemacctEnabled c),
     ''audit_log='' @ FormatBool (MemacctAuditLog c), [],
     ''[features.context-share]'', ''enabled='' @ FormatBool (ContextShareEnabled c)] @
    (if ContextShareDefaultSocket c \<noteq> [] then [''default_socket='' @ Quote (ContextShareDefaultSocket c)] else []) @
    (if SharedServerName c \<noteq> [] then [[], ''[servers.'' @ SharedServerName c @ '']''] else [])"

text \<open>The rendered text: each line followed by a line feed.\<close>

definition TOML_text :: "MPSConfig \<Rightarrow> string" where
  "TOML_text c = concat (map (\<lambda>l. l @ [CHR 0x0A]) (TOML c))"

section \<open>Supervisor\<close>

definition DefaultMPSBinary :: string where "DefaultMPSBinary = ''/usr/bin/nvidia-cuda-mps-control''"
definition DefaultLogDir :: string where "DefaultLogDir = ''/var/log/nvidia-mps''"
definition DefaultBackoff :: int where "DefaultBackoff = 5 * 10 ^ 9"
definition DefaultMaxRetries :: int where "DefaultMaxRetries = 5"
definition DefaultStableThreshold :: int where "DefaultStableThreshold = 5 * 60 * 10 ^ 9"
definition DefaultGracefulStopDelay :: int where "DefaultGracefulStopDelay = 60 * 10 ^ 9"
definition DefaultMPSControlPort :: string where "DefaultMPSControlPort = ''3''"
definition DefaultMPSConfigPath :: string where "DefaultMPSConfigPath = ''/etc/nvidia-mps/mps-control.toml''"
definition DefaultContextShareDefaultSocket :: string where "DefaultContextShareDefaultSocket = ''off''"
definition DefaultSharedServerName :: string where "DefaultSharedServerName = ''shared''"
definition mpsControlSocket :: string where "mpsControlSocket = ''control''"

record SupervisorConfig =
  MPSBinary :: string
  ControlPort :: string
  ConfigPath :: string
  ConfigContent :: string
  Multiuser :: bool
  PipeDir :: string
  LogDir :: string
  Backoff :: int
  MaxRetries :: int
  StableThreshold :: int
  GracefulStopDelay :: int

definition buildMPSArgs :: "string \<Rightarrow> string \<Rightarrow> bool \<Rightarrow> string list" where
  "buildMPSArgs controlPort configPath multiuser =
    (if controlPort \<noteq> [] then [''-p'', controlPort] else []) @
    (if multiuser then [''-m''] else []) @
    [''-f''] @
    (if configPath \<noteq> [] then [''-a'', configPath] else [])"

datatype sup_action =
    MakeDir string
  | WriteFile string string
  | RemoveSocket string bool
  | StartMPS "string list" "string list"
  | SendQuit
  | KillMPS
  | SupWait int

datatype sup_error = DirError string | ConfigDirError | ConfigWriteError

text \<open>Which of the setup's file operations fail.\<close>

record setup_io =
  mkdir_fails :: "string \<Rightarrow> bool"
  write_fails :: bool
  remove_fails :: bool

fun make_dirs :: "setup_io \<Rightarrow> string list \<Rightarrow> sup_action list \<times> sup_error option" where
  "make_dirs io [] = ([], None)"
| "make_dirs io (d # ds) =
    (if mkdir_fails io d then ([MakeDir d], Some (DirError d))
     else case make_dirs io ds of (acts, r) \<Rightarrow> (MakeDir d # acts, r))"

definition writeConfig :: "setup_io \<Rightarrow> SupervisorConfig \<Rightarrow> sup_action list \<times> sup_error option" where
  "writeConfig io cfg =
    (if ConfigPath cfg = [] \<or> ConfigContent cfg = [] then ([], None)
     else let dir = filepath_Dir (ConfigPath cfg) in
       if mkdir_fails io dir then ([MakeDir dir], Some ConfigDirError)
       else if write_fails io then ([MakeDir dir, WriteFile (ConfigPath cfg) (ConfigContent cfg)], Some ConfigWriteError)
       else ([MakeDir dir, WriteFile (ConfigPath cfg) (ConfigContent cfg)], None))"

text \<open>
  The removal of the control socket. It may fail, which the code only logs; the flag of the action
  says that nothing is left at the path, because it was removed or was not there.
\<close>

definition removeStaleSocket :: "SupervisorConfig \<Rightarrow> bool \<Rightarrow> sup_action list" where
  "removeStaleSocket cfg fails = [RemoveSocket (filepath_Join [PipeDir cfg, mpsControlSocket]) (\<not> fails)]"

definition Supervisor_setup :: "setup_io \<Rightarrow> SupervisorConfig \<Rightarrow> sup_action list \<times> sup_error option" where
  "Supervisor_setup io cfg =
    (case make_dirs io [PipeDir cfg, LogDir cfg] of
       (acts, Some err) \<Rightarrow> (acts, Some err)
     | (acts, None) \<Rightarrow>
         (case writeConfig io cfg of
            (acts', Some err) \<Rightarrow> (acts @ acts', Some err)
          | (acts', None) \<Rightarrow> (acts @ acts' @ removeStaleSocket cfg (remove_fails io), None)))"

text \<open>
  What happens around one iteration: the environment of this process; whether the standard-input
  pipe or the process start fails (a start also fails once the context is cancelled); whether the
  context is cancelled by the time the run returns, and then whether the process was still running,
  and for how long it goes on; how long the run lasted; whether the socket cannot be
  removed; and whether the context is cancelled in the wait.
\<close>

record sup_env =
  sup_environ :: "string list"
  sup_pipe_fails :: bool
  sup_start_fails :: bool
  sup_signal_in_run :: bool
  sup_alive_at_signal :: bool
  sup_linger :: int
  sup_uptime :: int
  sup_remove_fails :: bool
  sup_signal_in_wait :: bool

text \<open>
  \<^verbatim>\<open>Cmd.Run\<close> of Go's os/exec for a command with a \<^verbatim>\<open>Cancel\<close> function and a \<^verbatim>\<open>WaitDelay\<close>: a process that
  runs when the context is cancelled gets the actions of \<^verbatim>\<open>Cancel\<close>, and is killed if it outlives the
  delay; a delay of zero waits without bound, and a negative one is over at once.
\<close>

definition cmd_Run :: "string list \<Rightarrow> string list \<Rightarrow> sup_action list \<Rightarrow> int \<Rightarrow> sup_env \<Rightarrow> sup_action list" where
  "cmd_Run argv env cancel waitDelay e =
    (if sup_start_fails e then []
     else StartMPS argv env #
       (if sup_signal_in_run e \<and> sup_alive_at_signal e
        then cancel @ (if waitDelay \<noteq> 0 \<and> waitDelay \<le> sup_linger e then [KillMPS] else [])
        else []))"

definition runMPS :: "SupervisorConfig \<Rightarrow> sup_env \<Rightarrow> sup_action list" where
  "runMPS cfg e =
    (if sup_pipe_fails e then []
     else cmd_Run (MPSBinary cfg # buildMPSArgs (ControlPort cfg) (ConfigPath cfg) (Multiuser cfg))
            (sup_environ e @ [''CUDA_MPS_PIPE_DIRECTORY='' @ PipeDir cfg, ''CUDA_MPS_LOG_DIRECTORY='' @ LogDir cfg])
            [SendQuit] (GracefulStopDelay cfg) e)"

datatype sup_outcome = SetupFailed sup_error | ShutDown | DaemonFailed int

definition sup_iteration :: "SupervisorConfig \<Rightarrow> sup_env \<Rightarrow> retry_state \<Rightarrow> sup_action list \<times> (sup_outcome + retry_state)" where
  "sup_iteration cfg e s =
    (let a = attempt s + 1 in
     if sup_signal_in_run e then (runMPS cfg e, Inl ShutDown)
     else let stable = (sup_uptime e \<ge> StableThreshold cfg);
              a' = (if stable then 0 else a);
              b = (if stable then Backoff cfg else backoff s)
          in if MaxRetries cfg > 0 \<and> a' \<ge> MaxRetries cfg then (runMPS cfg e, Inl (DaemonFailed a'))
             else let acts = runMPS cfg e @ removeStaleSocket cfg (sup_remove_fails e) @ [SupWait b] in
               if sup_signal_in_wait e then (acts, Inl ShutDown)
               else (acts, Inr \<lparr>attempt = a', backoff = next_backoff b\<rparr>))"

definition Supervisor_Run :: "setup_io \<Rightarrow> SupervisorConfig \<Rightarrow> sup_env list \<Rightarrow> sup_action list \<times> (sup_outcome + retry_state)" where
  "Supervisor_Run io cfg es =
    (case Supervisor_setup io cfg of
       (acts, Some err) \<Rightarrow> (acts, Inl (SetupFailed err))
     | (acts, None) \<Rightarrow>
         (case loop (sup_iteration cfg) es \<lparr>attempt = 0, backoff = Backoff cfg\<rparr> of
            (acts', r) \<Rightarrow> (acts @ acts', r)))"

section \<open>Driver label\<close>

text \<open>
  What NVML answers: whether it initialises (or already was), and the driver version or a
  failure to read it. The node's labels are a map that a merge patch extends.
\<close>

record nvml_answer =
  nvml_init_ok :: bool
  nvml_version :: "string option"

datatype label_error =
    NodeNameRequired | NVMLInit | NVMLVersion | NVMLEmptyVersion
  | BadDriverVersion string driver_error | BadMajor | NoClient | PatchFailed

definition driverVersionFromNVML :: "nvml_answer \<Rightarrow> (label_error, string) result" where
  "driverVersionFromNVML a =
    (if \<not> nvml_init_ok a then Inl NVMLInit
     else case nvml_version a of
         None \<Rightarrow> Inl NVMLVersion
       | Some v \<Rightarrow> if TrimSpace v = [] then Inl NVMLEmptyVersion else Inr (TrimSpace v))"

definition driverMajorLabelPatch :: "int \<Rightarrow> (label_error, string \<times> string) result" where
  "driverMajorLabelPatch major =
    (if major \<le> 0 then Inl BadMajor else Inr (NVIDIADriverMajorLabel, Itoa major))"

definition patchNodeDriverMajor ::
  "bool \<Rightarrow> bool \<Rightarrow> int \<Rightarrow> (string \<rightharpoonup> string) \<Rightarrow> (string \<rightharpoonup> string) \<times> label_error option" where
  "patchNodeDriverMajor clientFails patchFails major labels =
    (if clientFails then (labels, Some NoClient)
     else case driverMajorLabelPatch major of
         Inl err \<Rightarrow> (labels, Some err)
       | Inr (k, v) \<Rightarrow> if patchFails then (labels, Some PatchFailed) else (labels(k \<mapsto> v), None))"

definition LabelCurrentNode ::
  "getenv \<Rightarrow> nvml_answer \<Rightarrow> bool \<Rightarrow> bool \<Rightarrow> (string \<rightharpoonup> string) \<Rightarrow> (string \<rightharpoonup> string) \<times> label_error option" where
  "LabelCurrentNode ge nvml clientFails patchFails labels =
    (if ge ''NODE_NAME'' = [] then (labels, Some NodeNameRequired)
     else case driverVersionFromNVML nvml of
         Inl err \<Rightarrow> (labels, Some err)
       | Inr version \<Rightarrow>
           (case ParseDriverVersionMajor version of
              Inl err \<Rightarrow> (labels, Some (BadDriverVersion version err))
            | Inr major \<Rightarrow> patchNodeDriverMajor clientFails patchFails major labels))"

section \<open>Flags and main\<close>

record mpsd_flags =
  mpsBinary :: string
  controlPort :: string
  configPath :: string
  memacctAuditLog :: bool
  mpsd_supportSMSharing :: bool
  pipeDir :: string
  logDir :: string
  mpsd_logLevel :: string
  mpsd_backoff :: int
  mpsd_maxRetries :: int
  mpsd_stableThreshold :: int
  gracefulStopDelay :: int

text \<open>The flags before the command line is read: environment variables over the defaults.\<close>

definition mpsd_flag_defaults :: "(string \<Rightarrow> int option) \<Rightarrow> getenv \<Rightarrow> mpsd_flags" where
  "mpsd_flag_defaults pd ge =
    \<lparr>mpsBinary = env_String ge ''MPS_CONTROL_BINARY'' DefaultMPSBinary,
     controlPort = env_String ge ''MPS_CONTROL_PORT'' DefaultMPSControlPort,
     configPath = env_String ge ''MPS_CONFIG_PATH'' DefaultMPSConfigPath,
     memacctAuditLog = env_Bool ge ''MPS_MEMACCT_AUDIT_LOG'' True,
     mpsd_supportSMSharing = env_Bool ge ''MPS_SUPPORT_SM_SHARING'' True,
     pipeDir = env_String ge ''CUDA_MPS_PIPE_DIRECTORY'' DefaultMPSPipeDirectory,
     logDir = env_String ge ''CUDA_MPS_LOG_DIRECTORY'' DefaultLogDir,
     mpsd_logLevel = env_String ge ''LOG_LEVEL'' ''info'',
     mpsd_backoff = env_Duration pd ge ''MPS_RESTART_BACKOFF'' DefaultBackoff,
     mpsd_maxRetries = env_Int ge ''MPS_MAX_RETRIES'' DefaultMaxRetries,
     mpsd_stableThreshold = env_Duration pd ge ''MPS_STABLE_THRESHOLD'' DefaultStableThreshold,
     gracefulStopDelay = env_Duration pd ge ''MPS_GRACEFUL_STOP_DELAY'' DefaultGracefulStopDelay\<rparr>"

definition mpsd_flag_set :: "texts \<Rightarrow> mpsd_flags flag_set" where
  "mpsd_flag_set t =
    \<lparr>is_bool = map_of [(''mps-binary'', False), (''mps-control-port'', False), (''mps-config-path'', False),
       (''memacct-audit-log'', True), (''support-sm-sharing'', True), (''pipe-dir'', False), (''log-dir'', False),
       (''log-level'', False), (''backoff'', False), (''max-retries'', False), (''stable-threshold'', False),
       (''graceful-stop-delay'', False)],
     set_value = (\<lambda>n v f.
       if n = ''mps-binary'' then Some (f\<lparr>mpsBinary := v\<rparr>)
       else if n = ''mps-control-port'' then Some (f\<lparr>controlPort := v\<rparr>)
       else if n = ''mps-config-path'' then Some (f\<lparr>configPath := v\<rparr>)
       else if n = ''memacct-audit-log'' then map_option (\<lambda>b. f\<lparr>memacctAuditLog := b\<rparr>) (ParseBool v)
       else if n = ''support-sm-sharing'' then map_option (\<lambda>b. f\<lparr>mpsd_supportSMSharing := b\<rparr>) (ParseBool v)
       else if n = ''pipe-dir'' then Some (f\<lparr>pipeDir := v\<rparr>)
       else if n = ''log-dir'' then Some (f\<lparr>logDir := v\<rparr>)
       else if n = ''log-level'' then Some (f\<lparr>mpsd_logLevel := v\<rparr>)
       else if n = ''backoff'' then map_option (\<lambda>i. f\<lparr>mpsd_backoff := i\<rparr>) (parse_duration t v)
       else if n = ''max-retries'' then map_option (\<lambda>i. f\<lparr>mpsd_maxRetries := i\<rparr>) (parse_int t v)
       else if n = ''stable-threshold'' then map_option (\<lambda>i. f\<lparr>mpsd_stableThreshold := i\<rparr>) (parse_duration t v)
       else if n = ''graceful-stop-delay'' then map_option (\<lambda>i. f\<lparr>gracefulStopDelay := i\<rparr>) (parse_duration t v)
       else None)\<rparr>"

text \<open>The command line over the defaults.\<close>

definition mpsd_parseFlags :: "texts \<Rightarrow> getenv \<Rightarrow> string list \<Rightarrow> (flag_error, mpsd_flags) result" where
  "mpsd_parseFlags t ge args = flag_parse (mpsd_flag_set t) args (mpsd_flag_defaults (parse_duration t) ge)"

definition mpsd_mpsConfig :: "mpsd_flags \<Rightarrow> MPSConfig" where
  "mpsd_mpsConfig f =
    (if mpsd_supportSMSharing f
     then \<lparr>MemacctEnabled = True, MemacctAuditLog = memacctAuditLog f, ContextShareEnabled = True,
           ContextShareDefaultSocket = DefaultContextShareDefaultSocket, SharedServerName = DefaultSharedServerName\<rparr>
     else \<lparr>MemacctEnabled = True, MemacctAuditLog = memacctAuditLog f, ContextShareEnabled = False,
           ContextShareDefaultSocket = [], SharedServerName = []\<rparr>)"

definition mpsd_supervisor :: "mpsd_flags \<Rightarrow> SupervisorConfig" where
  "mpsd_supervisor f =
    \<lparr>MPSBinary = mpsBinary f, ControlPort = controlPort f, ConfigPath = configPath f,
     ConfigContent = TOML_text (mpsd_mpsConfig f), Multiuser = mpsd_supportSMSharing f,
     PipeDir = pipeDir f, LogDir = logDir f, Backoff = mpsd_backoff f, MaxRetries = mpsd_maxRetries f,
     StableThreshold = mpsd_stableThreshold f, GracefulStopDelay = gracefulStopDelay f\<rparr>"

text \<open>The process: label the node, then supervise; the exit status once the supervisor has returned.\<close>

definition mpsd_main ::
  "mpsd_flags \<Rightarrow> getenv \<Rightarrow> nvml_answer \<Rightarrow> bool \<Rightarrow> bool \<Rightarrow> setup_io \<Rightarrow> sup_env list \<Rightarrow>
    (string \<rightharpoonup> string) \<Rightarrow> (string \<rightharpoonup> string) \<times> sup_action list \<times> nat option" where
  "mpsd_main f ge nvml clientFails patchFails io es labels =
    (case LabelCurrentNode ge nvml clientFails patchFails labels of
       (labels', Some err) \<Rightarrow> (labels', [], Some 1)
     | (labels', None) \<Rightarrow>
         (case Supervisor_Run io (mpsd_supervisor f) es of
            (acts, r) \<Rightarrow> (labels', acts, case r of Inr _ \<Rightarrow> None | Inl out \<Rightarrow> Some (if out = ShutDown then 0 else 1))))"

section \<open>The supervisor meets the restart contract\<close>

interpretation sup: restart_loop "sup_iteration cfg" sup_signal_in_run sup_signal_in_wait sup_uptime
    "Backoff cfg" "StableThreshold cfg" "MaxRetries cfg" "\<lambda>n _. DaemonFailed n" "\<lambda>_. ShutDown"
  for cfg
  by unfold_locales (auto simp: sup_iteration_def Let_def)

text \<open>
  The specification of a trace: every start comes after an action with \<open>P\<close> that no other start
  separates from it; \<open>seen\<close> says that such an action came before the trace.
\<close>

fun is_start :: "sup_action \<Rightarrow> bool" where
  "is_start (StartMPS a v) = True"
| "is_start _ = False"

fun each_start_after :: "(sup_action \<Rightarrow> bool) \<Rightarrow> bool \<Rightarrow> sup_action list \<Rightarrow> bool" where
  "each_start_after P seen [] = True"
| "each_start_after P seen (x # acts) =
    (if is_start x then seen \<and> each_start_after P False acts else each_start_after P (seen \<or> P x) acts)"

lemma each_start_after_append:
  "\<not> list_ex is_start xs \<Longrightarrow> each_start_after P seen (xs @ ys) = each_start_after P (seen \<or> list_ex P xs) ys"
  by (induction xs arbitrary: seen) (auto simp: disj_assoc)

lemmas run_defs = runMPS_def cmd_Run_def removeStaleSocket_def

lemma sup_loop_after:
  assumes "\<forall>e \<in> set es. P (RemoveSocket (filepath_Join [PipeDir cfg, mpsControlSocket]) (\<not> sup_remove_fails e))"
  shows "each_start_after P True (fst (loop (sup_iteration cfg) es s))"
  using assms
proof (induction es arbitrary: s)
  case (Cons e es)
  show ?case
  proof (cases "snd (sup_iteration cfg e s)")
    case (Inl out)
    then show ?thesis
      by (auto simp: sup_iteration_def Let_def run_defs split: prod.splits if_splits)
  next
    case (Inr s')
    then have "\<exists>b. fst (sup_iteration cfg e s) = runMPS cfg e @ removeStaleSocket cfg (sup_remove_fails e) @ [SupWait b]"
      by (auto simp: sup_iteration_def Let_def split: if_splits)
    with Inr Cons.IH [of s'] Cons.prems show ?thesis
      by (auto simp: run_defs split: prod.splits)
  qed
qed simp

lemma sup_loop_starts:
  assumes "StartMPS a v \<in> set (fst (loop (sup_iteration cfg) es s))"
  shows "a = MPSBinary cfg # buildMPSArgs (ControlPort cfg) (ConfigPath cfg) (Multiuser cfg) \<and>
    (\<exists>e \<in> set es. v = sup_environ e @ [''CUDA_MPS_PIPE_DIRECTORY='' @ PipeDir cfg, ''CUDA_MPS_LOG_DIRECTORY='' @ LogDir cfg])"
  using assms
proof (induction es arbitrary: s)
  case (Cons x es)
  have here: "a = MPSBinary cfg # buildMPSArgs (ControlPort cfg) (ConfigPath cfg) (Multiuser cfg) \<and>
      v = sup_environ x @ [''CUDA_MPS_PIPE_DIRECTORY='' @ PipeDir cfg, ''CUDA_MPS_LOG_DIRECTORY='' @ LogDir cfg]"
    if "StartMPS a v \<in> set (fst (sup_iteration cfg x s))"
    using that by (auto simp: sup_iteration_def Let_def run_defs split: if_splits)
  show ?case
  proof (cases "snd (sup_iteration cfg x s)")
    case (Inl out)
    with Cons.prems here show ?thesis by (auto split: prod.splits)
  next
    case (Inr s')
    with Cons.prems here Cons.IH [of s'] show ?thesis by (auto split: prod.splits)
  qed
qed simp

text \<open>A removal that fails has no influence on how the supervisor goes on.\<close>

lemma sup_loop_removal:
  "snd (loop (sup_iteration cfg) (map (\<lambda>e. e\<lparr>sup_remove_fails := False\<rparr>) es) s) = snd (loop (sup_iteration cfg) es s)"
proof (induction es arbitrary: s)
  case (Cons e es)
  have "snd (sup_iteration cfg (e\<lparr>sup_remove_fails := False\<rparr>) s) = snd (sup_iteration cfg e s)"
    by (simp add: sup_iteration_def Let_def)
  with Cons show ?case unfolding list.map sup.loop_step by (simp split: sum.splits)
qed simp

lemma setup_writes_config:
  assumes "snd (Supervisor_setup io cfg) = None" "ConfigPath cfg \<noteq> []" "ConfigContent cfg \<noteq> []"
  shows "WriteFile (ConfigPath cfg) (ConfigContent cfg) \<in> set (fst (Supervisor_setup io cfg))"
  using assms
  by (auto simp: Supervisor_setup_def writeConfig_def Let_def split: prod.splits option.splits if_splits)

lemma setup_actions:
  "\<not> list_ex is_start (fst (Supervisor_setup io cfg))"
  "{SendQuit, KillMPS} \<inter> set (fst (Supervisor_setup io cfg)) = {}"
  "snd (Supervisor_setup io cfg) = None \<Longrightarrow>
    RemoveSocket (filepath_Join [PipeDir cfg, mpsControlSocket]) (\<not> remove_fails io) \<in> set (fst (Supervisor_setup io cfg))"
  "snd (Supervisor_setup (io\<lparr>remove_fails := r\<rparr>) cfg) = snd (Supervisor_setup io cfg)"
  by (auto simp: Supervisor_setup_def writeConfig_def removeStaleSocket_def Let_def
      split: prod.splits option.splits if_splits)

lemma Supervisor_Run_simps:
  "snd (Supervisor_setup io cfg) = Some err \<Longrightarrow>
    Supervisor_Run io cfg es = (fst (Supervisor_setup io cfg), Inl (SetupFailed err))"
  "snd (Supervisor_setup io cfg) = None \<Longrightarrow>
    Supervisor_Run io cfg es =
      (fst (Supervisor_setup io cfg) @ fst (loop (sup_iteration cfg) es \<lparr>attempt = 0, backoff = Backoff cfg\<rparr>),
       snd (loop (sup_iteration cfg) es \<lparr>attempt = 0, backoff = Backoff cfg\<rparr>))"
  by (auto simp: Supervisor_Run_def split: prod.splits)

lemma Supervisor_Run_after:
  assumes "P (RemoveSocket (filepath_Join [PipeDir cfg, mpsControlSocket]) (\<not> remove_fails io))"
    and "\<forall>e \<in> set es. P (RemoveSocket (filepath_Join [PipeDir cfg, mpsControlSocket]) (\<not> sup_remove_fails e))"
  shows "each_start_after P False (fst (Supervisor_Run io cfg es))"
proof (cases "snd (Supervisor_setup io cfg)")
  case None
  then have "list_ex P (fst (Supervisor_setup io cfg))"
    using assms(1) setup_actions(3) by (auto simp: list_ex_iff)
  then show ?thesis
    using None sup_loop_after [OF assms(2)] setup_actions(1) by (simp add: Supervisor_Run_simps each_start_after_append)
next
  case (Some err)
  then show ?thesis
    using each_start_after_append [OF setup_actions(1), of P False io cfg "[]"] by (simp add: Supervisor_Run_simps)
qed

section \<open>Properties\<close>

text \<open>
  C18: every start of the MPS daemon finds its control socket cleaned up and its configuration
  written. Between two starts, and before the first, the supervisor removes the file \<open>control\<close> of
  the very directory that the start is given as its pipe directory; where removals do not fail,
  nothing is left there at any start, and a removal that fails does not change how the supervisor
  goes on or ends. A failed setup starts nothing and its error is returned; a successful one comes
  before every start and has written the configuration, where there is one. Every start runs the
  configured binary in the foreground, with the process's own environment and, after it, the pipe
  and log directories.
\<close>

theorem supervisor_starts_clean:
  assumes "p = filepath_Join [PipeDir cfg, ''control'']"
  shows "each_start_after (\<lambda>x. \<exists>gone. x = RemoveSocket p gone) False (fst (Supervisor_Run io cfg es)) \<and>
   (\<not> remove_fails io \<and> (\<forall>e \<in> set es. \<not> sup_remove_fails e) \<longrightarrow>
      each_start_after (\<lambda>x. x = RemoveSocket p True) False (fst (Supervisor_Run io cfg es))) \<and>
   snd (Supervisor_Run io cfg es) =
      snd (Supervisor_Run (io\<lparr>remove_fails := False\<rparr>) cfg (map (\<lambda>e. e\<lparr>sup_remove_fails := False\<rparr>) es)) \<and>
   (snd (Supervisor_setup io cfg) \<noteq> None \<longrightarrow>
      (\<forall>a v. StartMPS a v \<notin> set (fst (Supervisor_Run io cfg es))) \<and>
      snd (Supervisor_Run io cfg es) = Inl (SetupFailed (the (snd (Supervisor_setup io cfg))))) \<and>
   (snd (Supervisor_setup io cfg) = None \<longrightarrow>
      (\<exists>rest. fst (Supervisor_Run io cfg es) = fst (Supervisor_setup io cfg) @ rest) \<and>
      (\<forall>a v. StartMPS a v \<notin> set (fst (Supervisor_setup io cfg))) \<and>
      (ConfigPath cfg \<noteq> [] \<and> ConfigContent cfg \<noteq> [] \<longrightarrow>
         WriteFile (ConfigPath cfg) (ConfigContent cfg) \<in> set (fst (Supervisor_setup io cfg)))) \<and>
   (\<forall>a v. StartMPS a v \<in> set (fst (Supervisor_Run io cfg es)) \<longrightarrow> ''-f'' \<in> set a \<and> hd a = MPSBinary cfg \<and>
      (\<exists>e \<in> set es. v = sup_environ e @
         [''CUDA_MPS_PIPE_DIRECTORY='' @ PipeDir cfg, ''CUDA_MPS_LOG_DIRECTORY='' @ LogDir cfg]))"
proof -
  let ?s0 = "\<lparr>attempt = 0, backoff = Backoff cfg\<rparr>"
  have p: "filepath_Join [PipeDir cfg, mpsControlSocket] = p" using assms by (simp add: mpsControlSocket_def)
  have no_start: "StartMPS a v \<notin> set (fst (Supervisor_setup io cfg))" for a v
    using setup_actions(1) [of io cfg] by (force simp: list_ex_iff)
  have tried: "each_start_after (\<lambda>x. \<exists>gone. x = RemoveSocket p gone) False (fst (Supervisor_Run io cfg es))"
    by (rule Supervisor_Run_after) (simp_all add: p)
  have gone: "each_start_after (\<lambda>x. x = RemoveSocket p True) False (fst (Supervisor_Run io cfg es))"
    if "\<not> remove_fails io" "\<forall>e \<in> set es. \<not> sup_remove_fails e"
    by (rule Supervisor_Run_after) (simp_all add: p that)
  have start: "''-f'' \<in> set a \<and> hd a = MPSBinary cfg \<and>
      (\<exists>e \<in> set es. v = sup_environ e @ [''CUDA_MPS_PIPE_DIRECTORY='' @ PipeDir cfg, ''CUDA_MPS_LOG_DIRECTORY='' @ LogDir cfg])"
    if "StartMPS a v \<in> set (fst (loop (sup_iteration cfg) es ?s0))" for a v
    using sup_loop_starts [OF that] by (simp add: buildMPSArgs_def)
  show ?thesis
  proof (cases "snd (Supervisor_setup io cfg)")
    case None
    with tried gone no_start start setup_writes_config [OF None] sup_loop_removal [of cfg es ?s0] show ?thesis
      by (simp add: Supervisor_Run_simps setup_actions(4))
  next
    case (Some err)
    with tried gone no_start show ?thesis by (simp add: Supervisor_Run_simps setup_actions(4))
  qed
qed

definition sample_supervisor :: SupervisorConfig where
  "sample_supervisor = \<lparr>MPSBinary = ''mps'', ControlPort = ''3'', ConfigPath = [], ConfigContent = [],
     Multiuser = True, PipeDir = ''/p'', LogDir = ''/l'', Backoff = 5000000000, MaxRetries = 2,
     StableThreshold = 300000000000, GracefulStopDelay = 60000000000\<rparr>"

definition daemon_crash :: sup_env where
  "daemon_crash = \<lparr>sup_environ = [''HOME=/''], sup_pipe_fails = False, sup_start_fails = False, sup_signal_in_run = False,
     sup_alive_at_signal = False, sup_linger = 0, sup_uptime = 7, sup_remove_fails = True, sup_signal_in_wait = False\<rparr>"

definition daemon_stuck :: sup_env where
  "daemon_stuck = daemon_crash\<lparr>sup_signal_in_run := True, sup_alive_at_signal := True, sup_linger := 60000000000\<rparr>"

definition sample_io :: setup_io where
  "sample_io = \<lparr>mkdir_fails = (\<lambda>_. False), write_fails = False, remove_fails = False\<rparr>"

text \<open>A daemon that crashes, whose socket cannot be removed, and that is started again until the shutdown.\<close>

theorem supervisor_starts_clean_witness:
  "each_start_after (\<lambda>x. \<exists>gone. x = RemoveSocket ''/p/control'' gone) False
     (fst (Supervisor_Run sample_io sample_supervisor [daemon_crash, daemon_stuck])) \<and>
   length (filter is_start (fst (Supervisor_Run sample_io sample_supervisor [daemon_crash, daemon_stuck]))) = 2 \<and>
   RemoveSocket ''/p/control'' False \<in> set (fst (Supervisor_Run sample_io sample_supervisor [daemon_crash, daemon_stuck]))"
proof -
  have p: "''/p/control'' = filepath_Join [PipeDir sample_supervisor, ''control'']" by code_simp
  have "length (filter is_start (fst (Supervisor_Run sample_io sample_supervisor [daemon_crash, daemon_stuck]))) = 2"
    "RemoveSocket ''/p/control'' False \<in> set (fst (Supervisor_Run sample_io sample_supervisor [daemon_crash, daemon_stuck]))"
    by code_simp+
  with supervisor_starts_clean [OF p, of sample_io "[daemon_crash, daemon_stuck]"] show ?thesis by blast
qed

text \<open>
  The supervisor's restart budget. Once set up, with a positive budget, that many
  unstable daemon runs in a row make it return an error; without a budget it never gives up;
  and in every state it reaches after a run the next delay is at most 60 seconds and
  positive, and the attempt counter is within the budget.
\<close>

theorem supervisor_budget:
  assumes "snd (Supervisor_setup io cfg) = None" "sane_interval (Backoff cfg)"
  shows "(0 < MaxRetries cfg \<and> MaxRetries cfg \<le> int (length es) \<and>
       (\<forall>e \<in> set es. \<not> sup_signal_in_run e \<and> \<not> sup_signal_in_wait e \<and> sup_uptime e < StableThreshold cfg) \<longrightarrow>
       snd (Supervisor_Run io cfg es) = Inl (DaemonFailed (MaxRetries cfg))) \<and>
    (MaxRetries cfg \<le> 0 \<longrightarrow> (\<forall>n. snd (Supervisor_Run io cfg es) \<noteq> Inl (DaemonFailed n))) \<and>
    (\<forall>s. es \<noteq> [] \<longrightarrow> snd (Supervisor_Run io cfg es) = Inr s \<longrightarrow>
       0 < backoff s \<and> backoff s \<le> 60000000000 \<and> 0 \<le> attempt s \<and>
       (0 < MaxRetries cfg \<longrightarrow> attempt s < MaxRetries cfg))"
proof -
  let ?s0 = "\<lparr>attempt = 0, backoff = Backoff cfg\<rparr>"
  have run: "snd (Supervisor_Run io cfg es) = snd (loop (sup_iteration cfg) es ?s0)"
    using assms(1) by (auto simp: Supervisor_Run_def split: prod.splits)
  show ?thesis
    unfolding run
    using sup.budget_exhausted [of es cfg ?s0] sup.unlimited_never_gives_up [of cfg es ?s0]
      sup.counters_bounded [of cfg es ?s0] assms(2)
    by (auto simp: maxBackoff_def)
qed

theorem supervisor_budget_witness:
  "snd (Supervisor_Run sample_io sample_supervisor [daemon_crash, daemon_crash]) = Inl (DaemonFailed 2)"
proof -
  have "snd (Supervisor_setup sample_io sample_supervisor) = None"
    by (simp add: Supervisor_setup_def sample_supervisor_def sample_io_def writeConfig_def)
  moreover have "sane_interval (Backoff sample_supervisor)"
    by (simp add: sample_supervisor_def sane_interval_def)
  ultimately show ?thesis
    using supervisor_budget [of sample_io sample_supervisor "[daemon_crash, daemon_crash]"]
    by (simp add: sample_supervisor_def daemon_crash_def)
qed

text \<open>
  The sm-sharing toggle moves both daemons together. With the toggle on, mpsd starts the
  control daemon multi-user and configures a server whose socket directory is the one that
  fractiond mounts into sm-sharing containers; with the toggle off, neither the multi-user
  flag nor a server block nor an enabled context-share section is left.
\<close>

theorem sm_sharing_toggle:
  assumes "controlPort f \<noteq> ''-m''" "configPath f \<noteq> ''-m''"
  shows "(''-m'' \<in> set (buildMPSArgs (ControlPort (mpsd_supervisor f)) (ConfigPath (mpsd_supervisor f))
        (Multiuser (mpsd_supervisor f))) \<longleftrightarrow> mpsd_supportSMSharing f) \<and>
    (mpsd_supportSMSharing f \<longrightarrow>
       ''[servers.'' @ DefaultSharedServerName @ '']'' \<in> set (TOML (mpsd_mpsConfig f)) \<and>
       fst (MPSPipeMount (pipeDir f) ComputeModeSMSharing) =
         filepath_Join [pipeDir f, DefaultSharedServerName @ ''/default'']) \<and>
    (\<not> mpsd_supportSMSharing f \<longrightarrow>
       TOML (mpsd_mpsConfig f) =
         [''[features.memacct]'', ''enabled=true'', ''audit_log='' @ FormatBool (memacctAuditLog f), [],
          ''[features.context-share]'', ''enabled=false''])"
  using assms
  by (auto simp: mpsd_supervisor_def mpsd_mpsConfig_def buildMPSArgs_def TOML_def FormatBool_def
      MPSPipeMount_def DefaultSharedServerName_def SharedMPSSocketPath_def)

theorem sm_sharing_toggle_witness:
  "''-m'' \<notin> set (buildMPSArgs ''3'' DefaultMPSConfigPath
     (Multiuser (mpsd_supervisor (mpsd_flag_defaults (\<lambda>_. None)
        (\<lambda>k. if k = ''MPS_SUPPORT_SM_SHARING'' then ''false'' else [])))))"
  using sm_sharing_toggle [of "mpsd_flag_defaults (\<lambda>_. None) (\<lambda>k. if k = ''MPS_SUPPORT_SM_SHARING'' then ''false'' else [])"]
  by (simp add: mpsd_flag_defaults_def mpsd_supervisor_def env_String_def env_Bool_def ParseBool_def
      DefaultMPSControlPort_def DefaultMPSConfigPath_def)

text \<open>
  The node label carries the driver branch NVML reported, or nothing changes. When
  labelling succeeds, the label parses back to the branch of the trimmed NVML version and no
  other label is touched; on every failure the labels are untouched.
\<close>

theorem node_label_written:
  "case LabelCurrentNode ge nvml clientFails patchFails labels of
     (labels', Some err) \<Rightarrow> labels' = labels
   | (labels', None) \<Rightarrow> (\<exists>v major. nvml_version nvml = Some v \<and>
        ParseDriverVersionMajor v = Inr major \<and> 0 < major \<and>
        labels' = labels(NVIDIADriverMajorLabel \<mapsto> Itoa major) \<and>
        ParseDriverMajorLabel (the (labels' NVIDIADriverMajorLabel)) = Inr major)"
proof -
  have trim: "ParseDriverVersionMajor (TrimSpace v) = ParseDriverVersionMajor v" for v
    by (simp add: ParseDriverVersionMajor_def)
  have label: "ParseDriverMajorLabel (Itoa i) = Inr i" if "ParseDriverVersionMajor v = Inr i" for v i
    using that parsed_major_label by blast
  show ?thesis
    by (auto simp: LabelCurrentNode_def driverVersionFromNVML_def patchNodeDriverMajor_def driverMajorLabelPatch_def
        trim not_le label split: option.splits sum.splits if_splits prod.splits)
qed

text \<open>The end of a run of the supervisor: whether the daemon runs when the shutdown comes, and what it then gets.\<close>

definition stopping :: "sup_env \<Rightarrow> bool" where
  "stopping e \<longleftrightarrow> sup_signal_in_run e \<and> sup_alive_at_signal e \<and> \<not> sup_pipe_fails e \<and> \<not> sup_start_fails e"

lemma runMPS_stopping:
  "stopping e \<Longrightarrow> \<exists>a v. runMPS cfg e = [StartMPS a v, SendQuit] @
     (if GracefulStopDelay cfg \<noteq> 0 \<and> GracefulStopDelay cfg \<le> sup_linger e then [KillMPS] else [])"
  by (simp add: stopping_def runMPS_def cmd_Run_def)

lemma sup_loop_stop:
  "{SendQuit, KillMPS} \<inter> set (fst (loop (sup_iteration cfg) es s)) = {} \<or>
   (\<exists>e \<in> set es. \<exists>pre. stopping e \<and> fst (loop (sup_iteration cfg) es s) = pre @ runMPS cfg e \<and>
      {SendQuit, KillMPS} \<inter> set pre = {} \<and> snd (loop (sup_iteration cfg) es s) = Inl ShutDown)"
proof (induction es arbitrary: s)
  case (Cons e es)
  obtain acts r where it: "sup_iteration cfg e s = (acts, r)" by (meson surj_pair)
  show ?case
  proof (cases "stopping e")
    case True
    with it have "acts = runMPS cfg e" "r = Inl ShutDown"
      by (auto simp: stopping_def sup_iteration_def Let_def)
    with True it show ?thesis by (intro disjI2 bexI [of _ e] exI [of _ "[]"]) simp_all
  next
    case False
    with it have quiet: "{SendQuit, KillMPS} \<inter> set acts = {}"
      by (auto simp: stopping_def sup_iteration_def Let_def run_defs split: if_splits)
    show ?thesis
    proof (cases r)
      case (Inl out)
      with it quiet show ?thesis by simp
    next
      case (Inr s')
      with it have lp: "loop (sup_iteration cfg) (e # es) s =
          (acts @ fst (loop (sup_iteration cfg) es s'), snd (loop (sup_iteration cfg) es s'))"
        by (simp split: prod.splits)
      from Cons.IH [of s'] show ?thesis
      proof (elim disjE bexE exE conjE)
        assume "{SendQuit, KillMPS} \<inter> set (fst (loop (sup_iteration cfg) es s')) = {}"
        with quiet show ?thesis unfolding lp by auto
      next
        fix x pre
        assume "x \<in> set es" "stopping x" "fst (loop (sup_iteration cfg) es s') = pre @ runMPS cfg x"
          "{SendQuit, KillMPS} \<inter> set pre = {}" "snd (loop (sup_iteration cfg) es s') = Inl ShutDown"
        with quiet show ?thesis unfolding lp by (intro disjI2 bexI [of _ x] exI [of _ "acts @ pre"]) auto
      qed
    qed
  qed
qed simp

lemma Supervisor_Run_stop:
  assumes "SendQuit \<in> set (fst (Supervisor_Run io cfg es)) \<or> KillMPS \<in> set (fst (Supervisor_Run io cfg es))"
  shows "\<exists>e \<in> set es. \<exists>pre a v. stopping e \<and> {SendQuit, KillMPS} \<inter> set pre = {} \<and>
    fst (Supervisor_Run io cfg es) = pre @ [StartMPS a v, SendQuit] @
      (if GracefulStopDelay cfg \<noteq> 0 \<and> GracefulStopDelay cfg \<le> sup_linger e then [KillMPS] else []) \<and>
    snd (Supervisor_Run io cfg es) = Inl ShutDown"
proof -
  let ?lp = "loop (sup_iteration cfg) es \<lparr>attempt = 0, backoff = Backoff cfg\<rparr>"
  have ok: "snd (Supervisor_setup io cfg) = None"
    using assms setup_actions(2) [of io cfg] by (cases "snd (Supervisor_setup io cfg)") (auto simp: Supervisor_Run_simps)
  with assms setup_actions(2) [of io cfg] have "\<not> {SendQuit, KillMPS} \<inter> set (fst ?lp) = {}"
    by (auto simp: Supervisor_Run_simps)
  then obtain e pre where e: "e \<in> set es" "stopping e" "fst ?lp = pre @ runMPS cfg e"
      "{SendQuit, KillMPS} \<inter> set pre = {}" "snd ?lp = Inl ShutDown"
    using sup_loop_stop [of cfg es "\<lparr>attempt = 0, backoff = Backoff cfg\<rparr>"] by blast
  obtain a v where run: "runMPS cfg e = [StartMPS a v, SendQuit] @
      (if GracefulStopDelay cfg \<noteq> 0 \<and> GracefulStopDelay cfg \<le> sup_linger e then [KillMPS] else [])"
    using runMPS_stopping [OF e(2)] by blast
  show ?thesis
    using e(1,2,5) setup_actions(2) [of io cfg] e(4)
    by (intro bexI [of _ e] exI [of _ "fst (Supervisor_setup io cfg) @ pre"] exI [of _ a] exI [of _ v])
      (auto simp: Supervisor_Run_simps(2) [OF ok] e(3) run)
qed

lemma Supervisor_Run_quit:
  assumes "fst (Supervisor_Run io cfg es) = pre @ SendQuit # post"
  shows "snd (Supervisor_Run io cfg es) = Inl ShutDown \<and> (\<exists>pre' a v. pre = pre' @ [StartMPS a v]) \<and>
    (\<exists>e \<in> set es. stopping e \<and>
       post = (if GracefulStopDelay cfg \<noteq> 0 \<and> GracefulStopDelay cfg \<le> sup_linger e then [KillMPS] else []))"
proof -
  have "SendQuit \<in> set (fst (Supervisor_Run io cfg es))" using assms by simp
  from Supervisor_Run_stop [OF disjI1 [OF this]] show ?thesis
  proof (elim bexE exE conjE)
    fix e pre' a v
    assume e: "e \<in> set es" "stopping e" "{SendQuit, KillMPS} \<inter> set pre' = {}" "snd (Supervisor_Run io cfg es) = Inl ShutDown"
    let ?kill = "if GracefulStopDelay cfg \<noteq> 0 \<and> GracefulStopDelay cfg \<le> sup_linger e then [KillMPS] else []"
    assume "fst (Supervisor_Run io cfg es) = pre' @ [StartMPS a v, SendQuit] @ ?kill"
    with assms have "(pre' @ [StartMPS a v]) @ SendQuit # ?kill = pre @ SendQuit # post" by simp
    moreover have "SendQuit \<notin> set (pre' @ [StartMPS a v])" "SendQuit \<notin> set ?kill" using e(3) by auto
    ultimately have "pre = pre' @ [StartMPS a v]" "post = ?kill"
      using append_Cons_eq_iff [of SendQuit "pre' @ [StartMPS a v]" ?kill pre post] by blast+
    with e(1,2,4) show ?thesis by blast
  qed
qed

lemma Supervisor_Run_kill:
  assumes "fst (Supervisor_Run io cfg es) = pre @ KillMPS # post"
  shows "(\<exists>pre'. pre = pre' @ [SendQuit]) \<and> post = []"
proof -
  have mem: "KillMPS \<in> set (fst (Supervisor_Run io cfg es))" using assms by simp
  from Supervisor_Run_stop [OF disjI2 [OF mem]] show ?thesis
  proof (elim bexE exE conjE)
    fix e pre' a v
    assume quiet: "{SendQuit, KillMPS} \<inter> set pre' = {}"
    assume run: "fst (Supervisor_Run io cfg es) = pre' @ [StartMPS a v, SendQuit] @
      (if GracefulStopDelay cfg \<noteq> 0 \<and> GracefulStopDelay cfg \<le> sup_linger e then [KillMPS] else [])"
    with mem quiet have "fst (Supervisor_Run io cfg es) = (pre' @ [StartMPS a v, SendQuit]) @ KillMPS # []"
      by (simp split: if_splits)
    with assms have "(pre' @ [StartMPS a v, SendQuit]) @ KillMPS # [] = pre @ KillMPS # post" by simp
    moreover have "KillMPS \<notin> set (pre' @ [StartMPS a v, SendQuit])" using quiet by auto
    ultimately have "pre = pre' @ [StartMPS a v, SendQuit]" "post = []"
      using append_Cons_eq_iff [of KillMPS "pre' @ [StartMPS a v, SendQuit]" "[]" pre post] by simp_all
    then show ?thesis by simp
  qed
qed

text \<open>A daemon that runs when the shutdown comes is asked to quit.\<close>

lemma stopping_quits:
  assumes "snd (Supervisor_Run io cfg es1) = Inr s" "stopping e"
  shows "SendQuit \<in> set (fst (Supervisor_Run io cfg (es1 @ e # es2)))"
proof -
  have ok: "snd (Supervisor_setup io cfg) = None"
    using assms(1) by (cases "snd (Supervisor_setup io cfg)") (auto simp: Supervisor_Run_simps)
  have lp: "snd (loop (sup_iteration cfg) es1 \<lparr>attempt = 0, backoff = Backoff cfg\<rparr>) = Inr s"
    using assms(1) ok by (simp add: Supervisor_Run_simps)
  have it: "sup_iteration cfg e s = (runMPS cfg e, Inl ShutDown)"
    using assms(2) by (simp add: stopping_def sup_iteration_def Let_def)
  have "SendQuit \<in> set (runMPS cfg e)"
    using assms(2) by (simp add: stopping_def runMPS_def cmd_Run_def)
  with lp it show ?thesis
    by (auto simp: Supervisor_Run_simps(2) [OF ok] loop_append split: prod.splits)
qed

text \<open>
  C20: the life of the process. If labelling the node fails, it performs no action, leaves the labels
  alone and exits with status 1; otherwise, before any action, the node carries the branch of the driver
  that NVML reported. It exits with status 0 exactly when the supervisor ends by a shutdown, and with
  status 1 exactly for a failed labelling, a failed setup or a spent restart budget. A daemon that runs
  when the shutdown comes is asked to quit. It is killed only directly after that request, only if it
  then outlives the configured delay, and nothing is done after it; a daemon that quits in time is not
  killed.
\<close>

theorem mpsd_lifecycle:
  assumes "mpsd_main f ge nvml cf pf io es labels = (labels', acts, exit)"
  shows "(snd (LabelCurrentNode ge nvml cf pf labels) \<noteq> None \<longrightarrow> acts = [] \<and> labels' = labels \<and> exit = Some 1) \<and>
    (acts \<noteq> [] \<longrightarrow> (\<exists>v major. nvml_version nvml = Some v \<and> ParseDriverVersionMajor v = Inr major \<and>
       labels' = labels(NVIDIADriverMajorLabel \<mapsto> Itoa major))) \<and>
    (exit = Some 0 \<longleftrightarrow> snd (LabelCurrentNode ge nvml cf pf labels) = None \<and>
       snd (Supervisor_Run io (mpsd_supervisor f) es) = Inl ShutDown) \<and>
    (exit = Some 1 \<longleftrightarrow> snd (LabelCurrentNode ge nvml cf pf labels) \<noteq> None \<or>
       (\<exists>err. snd (Supervisor_Run io (mpsd_supervisor f) es) = Inl (SetupFailed err)) \<or>
       (\<exists>n. snd (Supervisor_Run io (mpsd_supervisor f) es) = Inl (DaemonFailed n))) \<and>
    (\<forall>es1 e es2 s. snd (LabelCurrentNode ge nvml cf pf labels) = None \<and> es = es1 @ e # es2 \<and>
       snd (Supervisor_Run io (mpsd_supervisor f) es1) = Inr s \<and> stopping e \<longrightarrow> SendQuit \<in> set acts) \<and>
    (\<forall>pre post. acts = pre @ SendQuit # post \<longrightarrow> exit = Some 0 \<and> (\<exists>pre' a v. pre = pre' @ [StartMPS a v]) \<and>
       (\<exists>e \<in> set es. stopping e \<and>
          post = (if gracefulStopDelay f \<noteq> 0 \<and> gracefulStopDelay f \<le> sup_linger e then [KillMPS] else []))) \<and>
    (\<forall>pre post. acts = pre @ KillMPS # post \<longrightarrow> (\<exists>pre'. pre = pre' @ [SendQuit]) \<and> post = [])"
proof (cases "snd (LabelCurrentNode ge nvml cf pf labels)")
  case (Some err)
  then have "acts = []" "labels' = labels" "exit = Some 1"
    using assms node_label_written [where ge = ge and nvml = nvml and clientFails = cf and patchFails = pf and labels = labels] by (auto simp: mpsd_main_def split: prod.splits)
  with Some show ?thesis by simp
next
  case None
  let ?run = "Supervisor_Run io (mpsd_supervisor f)"
  have acts: "acts = fst (?run es)" and labels: "labels' = fst (LabelCurrentNode ge nvml cf pf labels)"
    and exit: "exit = (case snd (?run es) of Inr _ \<Rightarrow> None | Inl out \<Rightarrow> Some (if out = ShutDown then 0 else 1))"
    using assms None by (auto simp: mpsd_main_def split: prod.splits)
  have delay: "GracefulStopDelay (mpsd_supervisor f) = gracefulStopDelay f" by (simp add: mpsd_supervisor_def)
  have labelled: "\<exists>v major. nvml_version nvml = Some v \<and> ParseDriverVersionMajor v = Inr major \<and>
      labels' = labels(NVIDIADriverMajorLabel \<mapsto> Itoa major)"
    using node_label_written [where ge = ge and nvml = nvml and clientFails = cf and patchFails = pf and labels = labels] None labels by (auto split: prod.splits)
  have exits: "exit = Some 0 \<longleftrightarrow> snd (?run es) = Inl ShutDown"
    "exit = Some 1 \<longleftrightarrow> (\<exists>err. snd (?run es) = Inl (SetupFailed err)) \<or> (\<exists>n. snd (?run es) = Inl (DaemonFailed n))"
    unfolding exit by (auto split: sum.splits) (metis sup_outcome.exhaust)
  have quits: "SendQuit \<in> set acts" if "es = es1 @ e # es2" "snd (?run es1) = Inr s" "stopping e" for es1 e es2 s
    using stopping_quits [OF that(2,3)] that(1) acts by simp
  have quit: "exit = Some 0 \<and> (\<exists>pre' a v. pre = pre' @ [StartMPS a v]) \<and>
      (\<exists>e \<in> set es. stopping e \<and>
         post = (if gracefulStopDelay f \<noteq> 0 \<and> gracefulStopDelay f \<le> sup_linger e then [KillMPS] else []))"
    if "acts = pre @ SendQuit # post" for pre post
    using Supervisor_Run_quit [of io "mpsd_supervisor f" es pre post, unfolded delay] that acts exits(1) by simp
  have kill: "(\<exists>pre'. pre = pre' @ [SendQuit]) \<and> post = []" if "acts = pre @ KillMPS # post" for pre post
    using Supervisor_Run_kill [of io "mpsd_supervisor f" es pre post] that acts by simp
  show ?thesis
    by (intro conjI allI impI; (elim conjE)?)
      (use None labelled exits quits quit kill in \<open>simp_all only: option.simps simp_thms HOL.refl\<close>)
qed

definition sample_mpsd_flags :: mpsd_flags where
  "sample_mpsd_flags = mpsd_flag_defaults (\<lambda>_. None) (\<lambda>_. [])"

text \<open>A labelled node, a daemon that crashes once and, when the shutdown comes, does not quit within the delay.\<close>

theorem mpsd_lifecycle_witness:
  "case mpsd_main sample_mpsd_flags (\<lambda>_. ''n'') \<lparr>nvml_init_ok = True, nvml_version = Some ''615.1''\<rparr> False False
     sample_io [daemon_crash, daemon_stuck] Map.empty of
     (labels', acts, exit) \<Rightarrow> exit = Some 0 \<and> acts \<noteq> [] \<and> last acts = KillMPS \<and> last (butlast acts) = SendQuit \<and>
       labels' = [NVIDIADriverMajorLabel \<mapsto> ''615'']"
proof -
  let ?main = "mpsd_main sample_mpsd_flags (\<lambda>_. ''n'') \<lparr>nvml_init_ok = True, nvml_version = Some ''615.1''\<rparr> False False
     sample_io [daemon_crash, daemon_stuck] Map.empty"
  obtain labels' acts exit where run: "?main = (labels', acts, exit)" by (metis surj_pair)
  note main = mpsd_lifecycle [OF run]
  have "last (fst (snd ?main)) = KillMPS" "fst (snd ?main) \<noteq> []" "snd (snd ?main) = Some 0" by code_simp+
  then have acts: "last acts = KillMPS" "acts \<noteq> []" "exit = Some 0" using run by simp_all
  then have "acts = butlast acts @ KillMPS # []" by (metis append_butlast_last_id)
  then have "last (butlast acts) = SendQuit" using main by (metis last_snoc)
  moreover have "ParseDriverVersionMajor ''615.1'' = Inr 615" "Itoa 615 = ''615''" by code_simp+
  then have "labels' = [NVIDIADriverMajorLabel \<mapsto> ''615'']" using main acts(2) by auto
  ultimately show ?thesis using run acts by simp
qed

end
