(* ===== verification/Daemonmgr.thy ===== *)
theory Daemonmgr
  imports Prelude
begin

text \<open>
  Package \<^verbatim>\<open>operator/internal/common/daemonmgr\<close>: conditions of the custom resource (status.go) and
  of nodes (conditions.go), driver-upgrade coordination (driverupgrade.go), images and runtime
  class (managed_daemon.go), the management CDI annotation (cdi.go) and health (reconciler.go).
  The clock is the argument \<open>now\<close>. The API server is a set of nodes whose reads and patches
  may fail; what its strategic merge patches and node selectors do is a parameter, with the
  documented behaviour the code relies on stated as \<open>merge_keyed\<close> and \<open>selector_semantics\<close>.
\<close>

section \<open>Conditions of the custom resource\<close>

datatype ConditionStatus = ConditionTrue | ConditionFalse | ConditionUnknown

record Condition =
  Type :: string
  Status :: ConditionStatus
  ObservedGeneration :: int
  LastTransitionTime :: int
  Reason :: string
  Message :: string

record DaemonHealth =
  DesiredNodes :: int
  ReadyNodes :: int

definition NodeConditionType :: string where "NodeConditionType = ''gpu-fractioning.nvidia.com/Ready''"
definition ConditionReady :: string where "ConditionReady = ''Ready''"
definition ConditionDriverUpgradeInProgress :: string where
  "ConditionDriverUpgradeInProgress = ''DriverUpgradeInProgress''"

text \<open>A lone byte above the ASCII range is not UTF-8: upper-casing yields the replacement rune.\<close>

definition Capitalize :: "string \<Rightarrow> string" where
  "Capitalize s = (case s of [] \<Rightarrow> []
    | c # cs \<Rightarrow> (if of_char c < (128 :: nat) then [ToUpper_ascii c] else map char_of [239, 191, 189 :: nat]) @ cs)"

definition pods_ready_text :: "DaemonHealth \<Rightarrow> string" where
  "pods_ready_text h = Itoa (ReadyNodes h) @ '' of '' @ Itoa (DesiredNodes h) @ '' pods ready''"

definition DaemonHealthToCondition ::
  "int \<Rightarrow> string \<Rightarrow> (string, DaemonHealth) result \<Rightarrow> int \<Rightarrow> Condition" where
  "DaemonHealthToCondition now daemonName outcome generation =
    (let cond = (\<lambda>status reason message.
           \<lparr>Type = Capitalize daemonName @ ''Ready'', Status = status, ObservedGeneration = generation,
            LastTransitionTime = now, Reason = reason, Message = message\<rparr>)
     in case outcome of
          Inl err \<Rightarrow> cond ConditionFalse ''ReconcileError'' err
        | Inr health \<Rightarrow>
            if DesiredNodes health = 0 then cond ConditionTrue ''NoTargetNodes'' ''no target nodes found''
            else if ReadyNodes health = DesiredNodes health
              then cond ConditionTrue ''AllPodsReady'' (pods_ready_text health)
            else cond ConditionFalse
              (if ReadyNodes health = 0 then ''RolloutInProgress'' else ''PartiallyAvailable'') (pods_ready_text health))"

definition componentSummary :: "Condition \<Rightarrow> string" where
  "componentSummary c = (if Message c = [] then Type c else Type c @ '' ('' @ Message c @ '')'')"

text \<open>The per-daemon conditions that drive the aggregate.\<close>

definition is_component :: "Condition \<Rightarrow> bool" where
  "is_component c \<longleftrightarrow> \<not> (Type c = ConditionReady \<or> Type c = ConditionDriverUpgradeInProgress)"

definition components_in :: "ConditionStatus \<Rightarrow> Condition list \<Rightarrow> string list" where
  "components_in st conds = map componentSummary (filter (\<lambda>c. is_component c \<and> Status c = st) conds)"

definition AggregateReadyCondition :: "int \<Rightarrow> Condition list \<Rightarrow> int \<Rightarrow> Condition" where
  "AggregateReadyCondition now conds generation =
    (let cond = (\<lambda>status reason message.
           \<lparr>Type = ConditionReady, Status = status, ObservedGeneration = generation,
            LastTransitionTime = now, Reason = reason, Message = message\<rparr>);
         falseComponents = components_in ConditionFalse conds;
         unknownComponents = components_in ConditionUnknown conds
     in if length conds = 0 then cond ConditionUnknown ''NoComponents'' ''no components have been evaluated''
        else if length falseComponents > 0
          then cond ConditionFalse ''ComponentNotReady'' (''not ready: '' @ Join falseComponents '', '')
        else if length unknownComponents > 0
          then cond ConditionUnknown ''ComponentUnknown'' (''unknown: '' @ Join unknownComponents '', '')
        else cond ConditionTrue ''AllComponentsReady'' ''all components are healthy'')"

fun SetCondition :: "Condition list \<Rightarrow> Condition \<Rightarrow> Condition list" where
  "SetCondition [] cond = [cond]"
| "SetCondition (existing # rest) cond =
    (if Type existing = Type cond
     then (if Status existing = Status cond then cond\<lparr>LastTransitionTime := LastTransitionTime existing\<rparr> else cond) # rest
     else existing # SetCondition rest cond)"

section \<open>Conditions of nodes\<close>

record NodeCondition =
  nc_Type :: string
  nc_Status :: ConditionStatus
  nc_Reason :: string
  nc_Message :: string
  nc_LastHeartbeatTime :: int
  nc_LastTransitionTime :: int

record Node =
  node_labels :: "string \<rightharpoonup> string"
  node_conditions :: "NodeCondition list"

type_synonym cluster_nodes = "string \<rightharpoonup> Node"

definition FindNodeCondition :: "Node \<Rightarrow> NodeCondition option" where
  "FindNodeCondition node = find (\<lambda>c. nc_Type c = NodeConditionType) (node_conditions node)"

text \<open>
  The API server: reads and patches of a node that fail, and what its strategic merge patch does
  to the conditions, for an entry to set and for a \<open>$patch: delete\<close> of a type.
\<close>

record node_api =
  get_fails :: "string \<Rightarrow> bool"
  patch_fails :: "string \<Rightarrow> bool"
  patch_merge :: "NodeCondition \<Rightarrow> NodeCondition list \<Rightarrow> NodeCondition list"
  patch_delete :: "string \<Rightarrow> NodeCondition list \<Rightarrow> NodeCondition list"

text \<open>
  Node conditions are merged by the key \<open>type\<close>, field by field: other types are untouched, and a field
  that the patch leaves out keeps its stored value. The JSON form of a condition leaves out an empty
  reason and an empty message, and has all other fields.
\<close>

definition merge_condition :: "NodeCondition \<Rightarrow> NodeCondition option \<Rightarrow> NodeCondition" where
  "merge_condition c stored =
    (case stored of
       None \<Rightarrow> c
     | Some d \<Rightarrow> c\<lparr>nc_Reason := (if nc_Reason c = [] then nc_Reason d else nc_Reason c),
         nc_Message := (if nc_Message c = [] then nc_Message d else nc_Message c)\<rparr>)"

definition merge_keyed :: "node_api \<Rightarrow> bool" where
  "merge_keyed api \<longleftrightarrow>
    (\<forall>c cs. find (\<lambda>d. nc_Type d = nc_Type c) (patch_merge api c cs) =
         Some (merge_condition c (find (\<lambda>d. nc_Type d = nc_Type c) cs)) \<and>
       filter (\<lambda>d. nc_Type d \<noteq> nc_Type c) (patch_merge api c cs) = filter (\<lambda>d. nc_Type d \<noteq> nc_Type c) cs) \<and>
    (\<forall>t cs. patch_delete api t cs = filter (\<lambda>d. nc_Type d \<noteq> t) cs)"

datatype node_error = UnexpectedType string | PatchError string | ListError

definition PatchNodeCondition ::
  "int \<Rightarrow> node_api \<Rightarrow> string \<Rightarrow> NodeCondition \<Rightarrow> cluster_nodes \<Rightarrow> cluster_nodes \<times> node_error option" where
  "PatchNodeCondition now api nodeName condition nodes =
    (if nc_Type condition \<noteq> NodeConditionType then (nodes, Some (UnexpectedType (nc_Type condition)))
     else let existing = (if get_fails api nodeName then None
                          else case nodes nodeName of None \<Rightarrow> None | Some node \<Rightarrow> FindNodeCondition node);
              same = (case existing of Some e \<Rightarrow> nc_Status e = nc_Status condition | None \<Rightarrow> False)
          in if same \<and> nc_Reason (the existing) = nc_Reason condition \<and> nc_Message (the existing) = nc_Message condition
             then (nodes, None)
             else let transitionTime = (if same then nc_LastTransitionTime (the existing) else now);
                      condition = condition\<lparr>nc_LastHeartbeatTime := now, nc_LastTransitionTime := transitionTime\<rparr>
                  in case nodes nodeName of
                       None \<Rightarrow> (nodes, Some (PatchError nodeName))
                     | Some node \<Rightarrow>
                         if patch_fails api nodeName then (nodes, Some (PatchError nodeName))
                         else (nodes(nodeName \<mapsto> node\<lparr>node_conditions := patch_merge api condition (node_conditions node)\<rparr>), None))"

definition RemoveNodeCondition ::
  "node_api \<Rightarrow> string \<Rightarrow> cluster_nodes \<Rightarrow> cluster_nodes \<times> node_error option" where
  "RemoveNodeCondition api nodeName nodes =
    (case nodes nodeName of
       None \<Rightarrow> (nodes, None)
     | Some node \<Rightarrow>
         if patch_fails api nodeName then (nodes, Some (PatchError nodeName))
         else (nodes(nodeName \<mapsto>
                 node\<lparr>node_conditions := patch_delete api NodeConditionType (node_conditions node)\<rparr>), None))"

text \<open>
  A paginated list: the pages the reader returns in turn, \<open>None\<close> for a failing call. The loop
  ends after the last page.
\<close>

type_synonym 'i pages = "'i list option list"

fun remove_page :: "node_api \<Rightarrow> (string \<times> Node) list \<Rightarrow> cluster_nodes \<Rightarrow> cluster_nodes \<times> node_error list" where
  "remove_page api [] nodes = (nodes, [])"
| "remove_page api ((name, node) # items) nodes =
    (if FindNodeCondition node = None then remove_page api items nodes
     else case RemoveNodeCondition api name nodes of
         (nodes', err) \<Rightarrow> (case remove_page api items nodes' of
            (nodes'', errs) \<Rightarrow> (nodes'', (case err of None \<Rightarrow> errs | Some e \<Rightarrow> e # errs))))"

fun RemoveNodeConditions ::
  "node_api \<Rightarrow> (string \<times> Node) pages \<Rightarrow> cluster_nodes \<Rightarrow> cluster_nodes \<times> node_error list" where
  "RemoveNodeConditions api [] nodes = (nodes, [])"
| "RemoveNodeConditions api (None # _) nodes = (nodes, [ListError])"
| "RemoveNodeConditions api (Some items # pages) nodes =
    (case remove_page api items nodes of
       (nodes', errs) \<Rightarrow> (case RemoveNodeConditions api pages nodes' of (nodes'', errs') \<Rightarrow> (nodes'', errs @ errs')))"

section \<open>Driver upgrades\<close>

definition DriverUpgradeStateLabel :: string where "DriverUpgradeStateLabel = ''nvidia.com/gpu-driver-upgrade-state''"
definition DriverUpgradeStateDone :: string where "DriverUpgradeStateDone = ''upgrade-done''"
definition GPUDeployClientLabel :: string where "GPUDeployClientLabel = ''nvidia.com/gpu.deploy.client''"
definition GPUDeployClientValue :: string where "GPUDeployClientValue = ''true''"

definition DaemonNodeSelector :: "(string \<rightharpoonup> string) \<Rightarrow> (string \<rightharpoonup> string)" where
  "DaemonNodeSelector crSelector = crSelector(GPUDeployClientLabel \<mapsto> GPUDeployClientValue)"

definition DriverUpgradeActive :: "string \<Rightarrow> bool" where
  "DriverUpgradeActive labelValue \<longleftrightarrow> labelValue \<noteq> [] \<and> labelValue \<noteq> DriverUpgradeStateDone"

datatype requirement = DoesNotExist string | In string "string list"

type_synonym node_affinity = "requirement list list"

definition driverUpgradeNodeAffinity :: node_affinity where
  "driverUpgradeNodeAffinity =
    [[DoesNotExist DriverUpgradeStateLabel], [In DriverUpgradeStateLabel [DriverUpgradeStateDone]]]"

text \<open>Kubernetes' reading of a required node affinity: terms are alternatives, of which all requirements hold.\<close>

definition selector_semantics :: "(requirement \<Rightarrow> (string \<rightharpoonup> string) \<Rightarrow> bool) \<Rightarrow> bool" where
  "selector_semantics meets \<longleftrightarrow>
    (\<forall>k labels. meets (DoesNotExist k) labels \<longleftrightarrow> labels k = None) \<and>
    (\<forall>k vs labels. meets (In k vs) labels \<longleftrightarrow> (\<exists>v. labels k = Some v \<and> v \<in> set vs))"

definition schedulable :: "(requirement \<Rightarrow> (string \<rightharpoonup> string) \<Rightarrow> bool) \<Rightarrow> node_affinity \<Rightarrow> (string \<rightharpoonup> string) \<Rightarrow> bool" where
  "schedulable meets terms labels \<longleftrightarrow> list_ex (\<lambda>reqs. list_all (\<lambda>r. meets r labels) reqs) terms"

definition DriverUpgradeCondition :: "int \<Rightarrow> bool \<Rightarrow> int \<Rightarrow> Condition" where
  "DriverUpgradeCondition now active generation =
    \<lparr>Type = ConditionDriverUpgradeInProgress,
     Status = (if active then ConditionTrue else ConditionFalse),
     ObservedGeneration = generation, LastTransitionTime = now,
     Reason = (if active then ''DriverUpgrading'' else ''NoDriverUpgrade''),
     Message = (if active then
       ''a targeted GPU node is undergoing a driver upgrade; its managed daemons are drained'' else [])\<rparr>"

section \<open>Images, runtime class and CDI annotation\<close>

record ImageSpec =
  Repository :: string
  Tag :: string
  ImagePullPolicy :: string

definition FullImage :: "ImageSpec \<Rightarrow> string" where
  "FullImage s =
    (if Repository s = [] then [] else if Tag s \<noteq> [] then Repository s @ '':'' @ Tag s else Repository s)"

definition PullPolicy :: "ImageSpec \<Rightarrow> string" where
  "PullPolicy s = (if ImagePullPolicy s \<noteq> [] then ImagePullPolicy s else ''IfNotPresent'')"

definition DefaultRuntimeClassName :: string where "DefaultRuntimeClassName = ''nvidia''"

definition ResolveRuntimeClassName :: "string option \<Rightarrow> string option" where
  "ResolveRuntimeClassName rc =
    (case rc of None \<Rightarrow> Some DefaultRuntimeClassName | Some n \<Rightarrow> if n = [] then None else Some n)"

definition ManagementCDIDeviceAll :: string where "ManagementCDIDeviceAll = ''management.nvidia.com/gpu=all''"

definition managementCDIDeviceAnnotation :: "string \<Rightarrow> string" where
  "managementCDIDeviceAnnotation cname = ''nvidia.cdi.k8s.io/container.'' @ cname"

definition SetManagementCDIDevice :: "(string \<rightharpoonup> string) \<Rightarrow> string \<Rightarrow> bool \<Rightarrow> (string \<rightharpoonup> string)" where
  "SetManagementCDIDevice annotations cname nriPluginEnabled =
    (if \<not> nriPluginEnabled then annotations
     else annotations(managementCDIDeviceAnnotation cname \<mapsto> ManagementCDIDeviceAll))"

section \<open>The condition lists\<close>

lemma Status_components_in_empty [simp]:
  "components_in st conds = [] \<longleftrightarrow> (\<forall>c \<in> set conds. is_component c \<longrightarrow> Status c \<noteq> st)"
  by (auto simp: components_in_def filter_empty_conv)

definition sample_condition :: "string \<Rightarrow> ConditionStatus \<Rightarrow> int \<Rightarrow> Condition" where
  "sample_condition t s time = \<lparr>Type = t, Status = s, ObservedGeneration = 1, LastTransitionTime = time,
     Reason = ''R'', Message = ''1 of 2 pods ready''\<rparr>"

abbreviation condition_of :: "string \<Rightarrow> Condition list \<Rightarrow> Condition option" where
  "condition_of t \<equiv> find (\<lambda>c. Type c = t)"

lemma condition_of_SetCondition:
  "condition_of t (SetCondition conds cond) =
    (if t = Type cond
     then Some (case condition_of t conds of
         Some e \<Rightarrow> if Status e = Status cond then cond\<lparr>LastTransitionTime := LastTransitionTime e\<rparr> else cond
       | None \<Rightarrow> cond)
     else condition_of t conds)"
  by (induction conds) auto

lemma types_SetCondition:
  "map Type (SetCondition conds cond) =
    map Type conds @ (if Type cond \<in> Type ` set conds then [] else [Type cond])"
  by (induction conds) auto

text \<open>
  Setting a condition keeps one entry per type, leaves every other type alone, and stores
  the new condition, whose transition time stays the stored one exactly while the status does
  not change.
\<close>

theorem SetCondition_upsert:
  assumes "distinct (map Type conds)"
  shows "distinct (map Type (SetCondition conds cond)) \<and>
    (\<forall>t. t \<noteq> Type cond \<longrightarrow> condition_of t (SetCondition conds cond) = condition_of t conds) \<and>
    (\<exists>time. condition_of (Type cond) (SetCondition conds cond) = Some (cond\<lparr>LastTransitionTime := time\<rparr>) \<and>
       time = (case condition_of (Type cond) conds of
           Some e \<Rightarrow> if Status e = Status cond then LastTransitionTime e else LastTransitionTime cond
         | None \<Rightarrow> LastTransitionTime cond))"
  using assms by (auto simp: condition_of_SetCondition types_SetCondition split: option.splits)

theorem SetCondition_upsert_witness:
  "condition_of ''Ready'' (SetCondition [sample_condition ''Ready'' ConditionTrue 1] (sample_condition ''Ready'' ConditionTrue 9)) =
    Some (sample_condition ''Ready'' ConditionTrue 1)"
  using SetCondition_upsert [of "[sample_condition ''Ready'' ConditionTrue 1]" "sample_condition ''Ready'' ConditionTrue 9"]
  by (simp add: sample_condition_def)

section \<open>The aggregate of the daemons' health\<close>

text \<open>The conditions that the outcomes of the daemons leave in a status.\<close>

definition set_daemons ::
  "int \<Rightarrow> int \<Rightarrow> (string \<times> (string, DaemonHealth) result) list \<Rightarrow> Condition list \<Rightarrow> Condition list" where
  "set_daemons now gen ds conds = fold (\<lambda>(n, out) cs. SetCondition cs (DaemonHealthToCondition now n out gen)) ds conds"

definition daemon_type :: "string \<Rightarrow> string" where
  "daemon_type n = Capitalize n @ ''Ready''"

fun daemon_healthy :: "(string, DaemonHealth) result \<Rightarrow> bool" where
  "daemon_healthy (Inl err) = False"
| "daemon_healthy (Inr h) = (DesiredNodes h = 0 \<or> ReadyNodes h = DesiredNodes h)"

lemma DaemonHealthToCondition_simps [simp]:
  "Type (DaemonHealthToCondition now n out gen) = daemon_type n"
  "Status (DaemonHealthToCondition now n out gen) = (if daemon_healthy out then ConditionTrue else ConditionFalse)"
  by (cases out; simp add: DaemonHealthToCondition_def daemon_type_def Let_def)+

lemma daemon_type_component: "n \<noteq> [] \<Longrightarrow> daemon_type n \<notin> {''Ready'', ''DriverUpgradeInProgress''}"
proof -
  assume "n \<noteq> []"
  then have "Capitalize n \<noteq> []" by (auto simp: Capitalize_def split: list.splits)
  moreover have "Capitalize n @ ''Ready'' \<noteq> ''DriverUpgradeInProgress''"
  proof
    assume "Capitalize n @ ''Ready'' = ''DriverUpgradeInProgress''"
    from arg_cong [OF this, of last] show False by simp
  qed
  ultimately show ?thesis by (simp add: daemon_type_def)
qed

lemma set_daemons_Cons:
  "set_daemons now gen ((n, out) # ds) conds = set_daemons now gen ds (SetCondition conds (DaemonHealthToCondition now n out gen))"
  by (simp add: set_daemons_def)

lemma set_daemons_distinct: "distinct (map Type conds) \<Longrightarrow> distinct (map Type (set_daemons now gen ds conds))"
proof (induction ds arbitrary: conds)
  case (Cons d ds)
  obtain n out where d: "d = (n, out)" by (cases d)
  have "distinct (map Type (SetCondition conds (DaemonHealthToCondition now n out gen)))"
    using Cons.prems by (auto simp: types_SetCondition)
  from Cons.IH [OF this] show ?case unfolding d set_daemons_Cons .
qed (simp add: set_daemons_def)

lemma set_daemons_types:
  "Type ` set (set_daemons now gen ds conds) = Type ` set conds \<union> daemon_type ` fst ` set ds"
proof (induction ds arbitrary: conds)
  case (Cons d ds)
  obtain n out where d: "d = (n, out)" by (cases d)
  have "Type ` set (SetCondition conds (DaemonHealthToCondition now n out gen)) = insert (daemon_type n) (Type ` set conds)"
    using arg_cong [OF types_SetCondition [of conds "DaemonHealthToCondition now n out gen"], of set] by (auto split: if_splits)
  then show ?case unfolding d set_daemons_Cons Cons.IH by auto
qed (simp add: set_daemons_def)

lemma set_daemons_status:
  assumes "distinct (map (daemon_type \<circ> fst) ds)"
  shows "map_option Status (condition_of t (set_daemons now gen ds conds)) =
    (case map_of (map (\<lambda>(n, out). (daemon_type n, out)) ds) t of
       None \<Rightarrow> map_option Status (condition_of t conds)
     | Some out \<Rightarrow> Some (if daemon_healthy out then ConditionTrue else ConditionFalse))"
  using assms
proof (induction ds arbitrary: conds)
  case (Cons d ds)
  obtain n out where d: "d = (n, out)" by (cases d)
  let ?conds = "SetCondition conds (DaemonHealthToCondition now n out gen)"
  have step: "set_daemons now gen (d # ds) conds = set_daemons now gen ds ?conds" by (simp add: set_daemons_Cons d)
  have once: "map_of (map (\<lambda>(n, out). (daemon_type n, out)) ds) (daemon_type n) = None"
    using Cons.prems d by (force simp: map_of_eq_None_iff)
  have head: "map_option Status (condition_of t ?conds) =
      (if t = daemon_type n then Some (if daemon_healthy out then ConditionTrue else ConditionFalse)
       else map_option Status (condition_of t conds))"
    by (auto simp: condition_of_SetCondition split: option.splits)
  show ?case
    unfolding step using Cons.IH [of ?conds] Cons.prems once head by (auto simp: d split: option.splits)
qed (simp add: set_daemons_def)

lemma condition_of_member:
  "distinct (map Type conds) \<Longrightarrow> c \<in> set conds \<Longrightarrow> condition_of (Type c) conds = Some c"
  by (induction conds) auto

lemma set_daemons_member:
  assumes "distinct (map Type conds)" "distinct (map (daemon_type \<circ> fst) ds)"
    and "c \<in> set (set_daemons now gen ds conds)" "(n, out) \<in> set ds" "Type c = daemon_type n"
  shows "Status c = (if daemon_healthy out then ConditionTrue else ConditionFalse)"
proof -
  have "map_of (map (\<lambda>(n, out). (daemon_type n, out)) ds) (daemon_type n) = Some out"
    using assms(2,4) by (intro map_of_is_SomeI) (force simp: comp_def case_prod_beta)+
  moreover have "condition_of (Type c) (set_daemons now gen ds conds) = Some c"
    by (rule condition_of_member [OF set_daemons_distinct [OF assms(1)] assms(3)])
  ultimately show ?thesis using set_daemons_status [OF assms(2), of "Type c" now gen conds] assms(5) by simp
qed

lemma Join_mentions: "x \<in> set xs \<Longrightarrow> \<exists>pre post. Join xs sep = pre @ x @ post"
proof (induction xs sep rule: Join.induct)
  case (2 a sep)
  then show ?case by (intro exI [of _ "[]"]) simp
next
  case (3 a b xs sep)
  show ?case
  proof (cases "x = a")
    case True
    then show ?thesis by (intro exI [of _ "[]"] exI [of _ "sep @ Join (b # xs) sep"]) simp
  next
    case False
    with 3 obtain pre post where "Join (b # xs) sep = pre @ x @ post" by auto
    then show ?thesis by (intro exI [of _ "a @ sep @ pre"] exI [of _ post]) simp
  qed
qed auto

lemma aggregate_status:
  assumes "conds \<noteq> []"
  shows "Status (AggregateReadyCondition now conds gen) =
    (if \<exists>c \<in> set conds. Type c \<notin> {''Ready'', ''DriverUpgradeInProgress''} \<and> Status c = ConditionFalse then ConditionFalse
     else if \<forall>c \<in> set conds. Type c \<notin> {''Ready'', ''DriverUpgradeInProgress''} \<longrightarrow> Status c = ConditionTrue then ConditionTrue
     else ConditionUnknown)"
proof -
  have comp: "is_component c \<longleftrightarrow> Type c \<notin> {''Ready'', ''DriverUpgradeInProgress''}" for c
    by (simp add: is_component_def ConditionReady_def ConditionDriverUpgradeInProgress_def)
  have "Status c = ConditionTrue \<longleftrightarrow> Status c \<noteq> ConditionFalse \<and> Status c \<noteq> ConditionUnknown" for c :: Condition
    by (cases "Status c") simp_all
  with assms show ?thesis unfolding comp [symmetric] by (simp add: AggregateReadyCondition_def Let_def)
qed

lemma aggregate_message:
  assumes "c \<in> set conds" "Type c \<notin> {''Ready'', ''DriverUpgradeInProgress''}" "Status c = ConditionFalse"
  shows "\<exists>pre post. Message (AggregateReadyCondition now conds gen) = pre @ Type c @ post"
proof -
  have comp: "is_component c"
    using assms(2) by (simp add: is_component_def ConditionReady_def ConditionDriverUpgradeInProgress_def)
  then have "componentSummary c \<in> set (components_in ConditionFalse conds)"
    using assms by (auto simp: components_in_def)
  then obtain pre post where "Join (components_in ConditionFalse conds) '', '' = pre @ componentSummary c @ post"
    using Join_mentions by blast
  moreover have "\<exists>rest. componentSummary c = Type c @ rest" by (simp add: componentSummary_def)
  moreover have "components_in ConditionFalse conds \<noteq> []" "conds \<noteq> []" using comp assms by auto
  then have "Message (AggregateReadyCondition now conds gen) = ''not ready: '' @ Join (components_in ConditionFalse conds) '', ''"
    by (simp add: AggregateReadyCondition_def Let_def del: Status_components_in_empty)
  ultimately show ?thesis by (metis append.assoc)
qed

text \<open>
  C22: Ready says whether the daemons are healthy. Take a status that holds at most one condition of each
  type, each of a daemon, of the aggregate itself or of a driver upgrade, whatever they say, and store the outcomes
  of all daemons in it as a pass does. The aggregate is then True if every daemon was reconciled without
  an error and has as many ready pods as it wants, and False otherwise; neither the old aggregate nor a driver
  upgrade, in progress or not, has an influence. And the message of the aggregate of any status names
  every daemon condition that is False.
\<close>

theorem aggregate_ready:
  assumes "distinct (map Type conds)" "distinct (map (daemon_type \<circ> fst) ds)" "ds \<noteq> []" "\<forall>d \<in> set ds. fst d \<noteq> []"
    and "Type ` set conds \<subseteq> {''Ready'', ''DriverUpgradeInProgress''} \<union> daemon_type ` fst ` set ds"
  shows "Status (AggregateReadyCondition now (set_daemons now gen ds conds) gen) =
      (if \<forall>(n, out) \<in> set ds. case out of Inl err \<Rightarrow> False | Inr h \<Rightarrow> DesiredNodes h = 0 \<or> ReadyNodes h = DesiredNodes h
       then ConditionTrue else ConditionFalse) \<and>
    (\<forall>cs. \<forall>c \<in> set cs. Type c \<notin> {''Ready'', ''DriverUpgradeInProgress''} \<and> Status c = ConditionFalse \<longrightarrow>
       (\<exists>pre post. Message (AggregateReadyCondition now cs gen) = pre @ Type c @ post))"
proof -
  let ?res = "set_daemons now gen ds conds" and ?other = "{''Ready'', ''DriverUpgradeInProgress''}"
  have healthy: "(case out of Inl err \<Rightarrow> False | Inr h \<Rightarrow> DesiredNodes h = 0 \<or> ReadyNodes h = DesiredNodes h) = daemon_healthy out" for out
    by (cases out) simp_all
  have types: "Type ` set ?res \<subseteq> ?other \<union> daemon_type ` fst ` set ds" "daemon_type ` fst ` set ds \<subseteq> Type ` set ?res"
    using assms(5) by (auto simp: set_daemons_types)
  then have ne: "?res \<noteq> []" using assms(3) by (metis image_is_empty list.set_intros(1) neq_Nil_conv set_empty subset_empty empty_iff)
  note status = set_daemons_member [OF assms(1,2)]
  have daemons: "(\<exists>c \<in> set ?res. Type c \<notin> ?other \<and> P (Status c)) \<longleftrightarrow>
      (\<exists>(n, out) \<in> set ds. P (if daemon_healthy out then ConditionTrue else ConditionFalse))" for P
  proof
    assume "\<exists>c \<in> set ?res. Type c \<notin> ?other \<and> P (Status c)"
    then obtain c where c: "c \<in> set ?res" "Type c \<notin> ?other" "P (Status c)" by (elim bexE conjE)
    then have "Type c \<in> daemon_type ` fst ` set ds" using types(1) by blast
    then obtain n out where d: "(n, out) \<in> set ds" "Type c = daemon_type n" by (elim imageE) (metis prod.collapse)
    show "\<exists>(n, out) \<in> set ds. P (if daemon_healthy out then ConditionTrue else ConditionFalse)"
      by (rule bexI [OF _ d(1)]) (use c(3) status [OF c(1) d] in simp)
  next
    assume "\<exists>(n, out) \<in> set ds. P (if daemon_healthy out then ConditionTrue else ConditionFalse)"
    then obtain n out where d: "(n, out) \<in> set ds" "P (if daemon_healthy out then ConditionTrue else ConditionFalse)"
      by (elim bexE) (simp only: split_beta, metis prod.collapse)
    have "daemon_type n \<in> daemon_type ` fst ` set ds" using d(1) by (metis fst_conv imageI)
    then obtain c where c: "c \<in> set ?res" "Type c = daemon_type n" using types(2) by (metis imageE subsetD)
    have "n \<noteq> []" using assms(4) d(1) by (metis fst_conv)
    then have other: "Type c \<notin> ?other" using daemon_type_component c(2) by metis
    show "\<exists>c \<in> set ?res. Type c \<notin> ?other \<and> P (Status c)"
      by (rule bexI [OF _ c(1)], rule conjI [OF other]) (use d(2) status [OF c(1) d(1) c(2)] in simp)
  qed
  have "(\<exists>c \<in> set ?res. Type c \<notin> ?other \<and> Status c = ConditionFalse) \<longleftrightarrow> (\<exists>(n, out) \<in> set ds. \<not> daemon_healthy out)"
    "(\<exists>c \<in> set ?res. Type c \<notin> ?other \<and> \<not> Status c = ConditionTrue) \<longleftrightarrow> (\<exists>(n, out) \<in> set ds. \<not> daemon_healthy out)"
    using daemons [of "\<lambda>st. st = ConditionFalse"] daemons [of "\<lambda>st. \<not> st = ConditionTrue"] by (auto split: if_splits)
  then show ?thesis unfolding healthy aggregate_status [OF ne] using aggregate_message by (auto split: prod.splits)
qed

text \<open>Two daemons, of which one lacks a pod; the stored status says Ready and that no driver upgrade is on.\<close>

theorem aggregate_ready_witness:
  "Status (AggregateReadyCondition 9 (set_daemons 9 3
      [(''fractiond'', Inr \<lparr>DesiredNodes = 2, ReadyNodes = 2\<rparr>), (''mpsd'', Inr \<lparr>DesiredNodes = 2, ReadyNodes = 1\<rparr>)]
      [sample_condition ''Ready'' ConditionTrue 1, sample_condition ''DriverUpgradeInProgress'' ConditionFalse 1]) 3) = ConditionFalse \<and>
   Status (AggregateReadyCondition 9 (set_daemons 9 3
      [(''fractiond'', Inr \<lparr>DesiredNodes = 2, ReadyNodes = 2\<rparr>), (''mpsd'', Inr \<lparr>DesiredNodes = 0, ReadyNodes = 0\<rparr>)]
      [sample_condition ''Ready'' ConditionFalse 1, sample_condition ''DriverUpgradeInProgress'' ConditionFalse 1]) 3) = ConditionTrue"
proof -
  have "daemon_type ''fractiond'' = ''FractiondReady''" "daemon_type ''mpsd'' = ''MpsdReady''" by code_simp+
  then show ?thesis
    using aggregate_ready [where now = 9 and gen = 3
        and ds = "[(''fractiond'', Inr \<lparr>DesiredNodes = 2, ReadyNodes = 2\<rparr>), (''mpsd'', Inr \<lparr>DesiredNodes = 2, ReadyNodes = 1\<rparr>)]"
        and conds = "[sample_condition ''Ready'' ConditionTrue 1, sample_condition ''DriverUpgradeInProgress'' ConditionFalse 1]"]
      aggregate_ready [where now = 9 and gen = 3
        and ds = "[(''fractiond'', Inr \<lparr>DesiredNodes = 2, ReadyNodes = 2\<rparr>), (''mpsd'', Inr \<lparr>DesiredNodes = 0, ReadyNodes = 0\<rparr>)]"
        and conds = "[sample_condition ''Ready'' ConditionFalse 1, sample_condition ''DriverUpgradeInProgress'' ConditionFalse 1]"]
    by (simp add: sample_condition_def)
qed

section \<open>The node conditions\<close>

lemmas node_patch_defs = PatchNodeCondition_def RemoveNodeCondition_def FindNodeCondition_def Let_def

lemma merge_condition_simps [simp]:
  "nc_Type (merge_condition c d) = nc_Type c" "nc_Status (merge_condition c d) = nc_Status c"
  "nc_LastHeartbeatTime (merge_condition c d) = nc_LastHeartbeatTime c"
  "nc_LastTransitionTime (merge_condition c d) = nc_LastTransitionTime c"
  by (simp_all add: merge_condition_def split: option.splits)

lemma FindNodeCondition_merge:
  assumes "merge_keyed api" "nc_Type c = NodeConditionType"
  shows "FindNodeCondition (node\<lparr>node_conditions := patch_merge api c (node_conditions node)\<rparr>) =
    Some (merge_condition c (FindNodeCondition node))"
proof -
  have "find (\<lambda>d. nc_Type d = nc_Type c) (patch_merge api c (node_conditions node)) =
      Some (merge_condition c (find (\<lambda>d. nc_Type d = nc_Type c) (node_conditions node)))"
    using assms(1) unfolding merge_keyed_def by blast
  then show ?thesis unfolding FindNodeCondition_def assms(2) by simp
qed

lemma FindNodeCondition_delete:
  assumes "merge_keyed api"
  shows "FindNodeCondition (node\<lparr>node_conditions := patch_delete api NodeConditionType cs\<rparr>) = None"
  using assms by (auto simp: merge_keyed_def FindNodeCondition_def find_None_iff)

text \<open>The part of a node the operator does not own.\<close>

definition foreign :: "Node \<Rightarrow> (string \<rightharpoonup> string) \<times> NodeCondition list" where
  "foreign node = (node_labels node, filter (\<lambda>c. nc_Type c \<noteq> NodeConditionType) (node_conditions node))"

lemma foreign_merge:
  assumes "merge_keyed api" "nc_Type c = NodeConditionType"
  shows "foreign (node\<lparr>node_conditions := patch_merge api c (node_conditions node)\<rparr>) = foreign node"
  using assms unfolding merge_keyed_def foreign_def by (metis Node.ext_inject Node.surjective Node.update_convs(2))

lemma foreign_delete:
  assumes "merge_keyed api"
  shows "foreign (node\<lparr>node_conditions := patch_delete api NodeConditionType (node_conditions node)\<rparr>) = foreign node"
  using assms by (simp add: merge_keyed_def foreign_def)

text \<open>
  C21: what a node-condition patch leaves. If the node could be read and its condition already has the
  wanted status, reason and message, nothing is changed; otherwise the patch succeeds exactly when the
  API server accepts it. A patch that succeeds leaves the node with the wanted status, with the wanted
  reason and message (an empty one leaves the stored text in place, since it is not part of the patch),
  with the transition time of the entry it read while the status is unchanged and the current time
  otherwise, and with a new heartbeat if anything was patched. The rest of the node and every
  other node are untouched. A failed patch changes nothing.
\<close>

theorem PatchNodeCondition_effect:
  assumes api: "merge_keyed api" and t: "nc_Type c = NodeConditionType"
    and run: "PatchNodeCondition now api n c nodes = (nodes', err)"
    and node: "nodes n = Some node"
    and same: "same \<longleftrightarrow> \<not> get_fails api n \<and> (\<exists>d. FindNodeCondition node = Some d \<and> nc_Status d = nc_Status c \<and>
      nc_Reason d = nc_Reason c \<and> nc_Message d = nc_Message c)"
  shows "(\<forall>m. m \<noteq> n \<longrightarrow> nodes' m = nodes m) \<and> (err \<noteq> None \<longrightarrow> nodes' = nodes) \<and> (same \<longrightarrow> nodes' = nodes) \<and>
    (err = None \<longleftrightarrow> same \<or> \<not> patch_fails api n) \<and>
    (err = None \<longrightarrow> (\<exists>node' e. nodes' n = Some node' \<and> foreign node' = foreign node \<and>
       FindNodeCondition node' = Some e \<and> nc_Status e = nc_Status c \<and>
       nc_Reason e = (if nc_Reason c \<noteq> [] then nc_Reason c
         else case FindNodeCondition node of None \<Rightarrow> [] | Some d \<Rightarrow> nc_Reason d) \<and>
       nc_Message e = (if nc_Message c \<noteq> [] then nc_Message c
         else case FindNodeCondition node of None \<Rightarrow> [] | Some d \<Rightarrow> nc_Message d) \<and>
       (\<not> same \<longrightarrow> nc_LastHeartbeatTime e = now) \<and>
       nc_LastTransitionTime e =
         (case FindNodeCondition node of
            Some d \<Rightarrow> if \<not> get_fails api n \<and> nc_Status d = nc_Status c then nc_LastTransitionTime d else now
          | None \<Rightarrow> now)))"
proof (cases same)
  case True
  then obtain d where d: "\<not> get_fails api n" "FindNodeCondition node = Some d" "nc_Status d = nc_Status c"
      "nc_Reason d = nc_Reason c" "nc_Message d = nc_Message c"
    using same by blast
  then have "nodes' = nodes" "err = None" using run node t by (auto simp: PatchNodeCondition_def Let_def)
  with True d node show ?thesis by simp
next
  case False
  define tt where "tt = (case FindNodeCondition node of
      Some d \<Rightarrow> if \<not> get_fails api n \<and> nc_Status d = nc_Status c then nc_LastTransitionTime d else now | None \<Rightarrow> now)"
  let ?c = "c\<lparr>nc_LastHeartbeatTime := now, nc_LastTransitionTime := tt\<rparr>"
  let ?node = "node\<lparr>node_conditions := patch_merge api ?c (node_conditions node)\<rparr>"
  have res: "(nodes', err) = (if patch_fails api n then (nodes, Some (PatchError n)) else (nodes(n \<mapsto> ?node), None))"
    using run node t False unfolding same PatchNodeCondition_def Let_def tt_def
    by (cases "FindNodeCondition node") (auto split: if_splits)
  have "FindNodeCondition ?node = Some (merge_condition ?c (FindNodeCondition node))"
    by (rule FindNodeCondition_merge [OF api]) (simp add: t)
  moreover have "foreign ?node = foreign node" by (rule foreign_merge [OF api]) (simp add: t)
  ultimately show ?thesis
    using res False unfolding tt_def [symmetric] by (auto simp: merge_condition_def split: if_splits option.splits)
qed

text \<open>The API server's merge as a concrete function, for the witnesses.\<close>

fun upsert_by_type :: "NodeCondition \<Rightarrow> NodeCondition list \<Rightarrow> NodeCondition list" where
  "upsert_by_type c [] = [c]"
| "upsert_by_type c (d # ds) = (if nc_Type d = nc_Type c then merge_condition c (Some d) # ds else d # upsert_by_type c ds)"

definition sample_api :: node_api where
  "sample_api = \<lparr>get_fails = (\<lambda>_. False), patch_fails = (\<lambda>n. n = ''bad''),
     patch_merge = upsert_by_type, patch_delete = (\<lambda>t. filter (\<lambda>d. nc_Type d \<noteq> t))\<rparr>"

lemma merge_keyed_sample: "merge_keyed sample_api"
proof -
  have "find (\<lambda>d. nc_Type d = nc_Type c) (upsert_by_type c cs) =
      Some (merge_condition c (find (\<lambda>d. nc_Type d = nc_Type c) cs))" for c cs
    by (induction cs) (auto simp: merge_condition_def)
  moreover have "filter (\<lambda>d. nc_Type d \<noteq> nc_Type c) (upsert_by_type c cs) = filter (\<lambda>d. nc_Type d \<noteq> nc_Type c) cs" for c cs
    by (induction cs) auto
  ultimately show ?thesis by (simp add: merge_keyed_def sample_api_def)
qed

definition sample_node_condition :: "ConditionStatus \<Rightarrow> string \<Rightarrow> NodeCondition" where
  "sample_node_condition s r = \<lparr>nc_Type = NodeConditionType, nc_Status = s, nc_Reason = r, nc_Message = [],
     nc_LastHeartbeatTime = 1, nc_LastTransitionTime = 1\<rparr>"

definition sample_node :: Node where
  "sample_node = \<lparr>node_labels = Map.empty, node_conditions = [sample_node_condition ConditionFalse ''Old'']\<rparr>"

theorem PatchNodeCondition_effect_witness:
  "\<exists>node' e. fst (PatchNodeCondition 9 sample_api ''n'' (sample_node_condition ConditionFalse ''New'') [''n'' \<mapsto> sample_node]) ''n'' = Some node' \<and>
     FindNodeCondition node' = Some e \<and> nc_Reason e = ''New'' \<and> nc_LastTransitionTime e = 1 \<and> nc_LastHeartbeatTime e = 9"
  using PatchNodeCondition_effect [where api = sample_api and now = 9 and n = "''n''" and node = sample_node and same = False
    and c = "sample_node_condition ConditionFalse ''New''" and nodes = "[''n'' \<mapsto> sample_node]", OF merge_keyed_sample _ surjective_pairing]
  by (simp add: sample_node_condition_def sample_node_def FindNodeCondition_def)
    (auto simp: sample_api_def)

section \<open>Cleaning the nodes\<close>

definition clean :: "cluster_nodes \<Rightarrow> string \<Rightarrow> bool" where
  "clean nodes n \<longleftrightarrow> (\<forall>node. nodes n = Some node \<longrightarrow> FindNodeCondition node = None)"

text \<open>The nodes of the pages, and that a node listed without the condition has none in the cluster.\<close>

definition listed :: "'i pages \<Rightarrow> 'i set" where
  "listed pages = (\<Union>p \<in> set pages. case p of None \<Rightarrow> {} | Some items \<Rightarrow> set items)"

definition up_to_date :: "(string \<times> Node) set \<Rightarrow> cluster_nodes \<Rightarrow> bool" where
  "up_to_date items nodes \<longleftrightarrow> (\<forall>(n, node) \<in> items. FindNodeCondition node = None \<longrightarrow> clean nodes n)"

text \<open>What a cleaning step may do: no node gains the condition, nothing foreign changes, only \<open>ns\<close> change.\<close>

definition cleans :: "string set \<Rightarrow> cluster_nodes \<Rightarrow> cluster_nodes \<Rightarrow> bool" where
  "cleans ns nodes nodes' \<longleftrightarrow>
    (\<forall>n. map_option foreign (nodes' n) = map_option foreign (nodes n)) \<and>
    (\<forall>n. n \<notin> ns \<longrightarrow> nodes' n = nodes n) \<and> (\<forall>n. clean nodes n \<longrightarrow> clean nodes' n)"

lemma cleans_refl [simp]: "cleans ns nodes nodes"
  by (simp add: cleans_def)

lemma cleans_trans: "cleans ms a b \<Longrightarrow> cleans ns b c \<Longrightarrow> ms \<union> ns \<subseteq> ks \<Longrightarrow> cleans ks a c"
  unfolding cleans_def by (metis UnCI subsetD)

lemma up_to_date_cleans: "up_to_date items nodes \<Longrightarrow> cleans ns nodes nodes' \<Longrightarrow> up_to_date items nodes'"
  by (auto simp: up_to_date_def cleans_def)

lemma RemoveNodeCondition_cleans:
  assumes "merge_keyed api" and "RemoveNodeCondition api n nodes = (nodes', err)"
  shows "cleans {n} nodes nodes' \<and> (err = None \<longrightarrow> clean nodes' n) \<and> (\<not> patch_fails api n \<longrightarrow> err = None)"
  using assms(2) FindNodeCondition_delete [OF assms(1)] foreign_delete [OF assms(1)]
  by (auto simp: RemoveNodeCondition_def cleans_def clean_def split: option.splits if_splits)

lemma remove_page_cleans:
  assumes "merge_keyed api" and "remove_page api items nodes = (nodes', errs)" and "up_to_date (set items) nodes"
  shows "cleans (fst ` set items) nodes nodes' \<and> (\<forall>n \<in> fst ` set items. \<not> patch_fails api n \<or> errs = [] \<longrightarrow> clean nodes' n)"
  using assms(2-)
proof (induction items arbitrary: nodes errs)
  case (Cons item items)
  obtain n node where item: "item = (n, node)" by (cases item)
  obtain nodes1 err where step: "RemoveNodeCondition api n nodes = (nodes1, err)" by (meson surj_pair)
  show ?case
  proof (cases "FindNodeCondition node")
    case None
    with Cons.prems item have "remove_page api items nodes = (nodes', errs)" "up_to_date (set items) nodes" "clean nodes n"
      by (auto simp: up_to_date_def)
    with Cons.IH [of nodes errs] item show ?thesis by (auto simp: cleans_def)
  next
    case (Some c)
    obtain nodes2 errs2 where rest: "remove_page api items nodes1 = (nodes2, errs2)" by (meson surj_pair)
    from Cons.prems(1) Some item step rest have
      res: "nodes2 = nodes'" "errs = (case err of None \<Rightarrow> errs2 | Some e \<Rightarrow> e # errs2)" by auto
    note one = RemoveNodeCondition_cleans [OF assms(1) step]
    have "up_to_date (set items) nodes"
      using Cons.prems(2) by (simp add: up_to_date_def)
    then have "up_to_date (set items) nodes1"
      using one up_to_date_cleans by blast
    with Cons.IH [of nodes1 errs2] rest res have
      tail: "cleans (fst ` set items) nodes1 nodes'"
        "\<forall>m \<in> fst ` set items. \<not> patch_fails api m \<or> errs2 = [] \<longrightarrow> clean nodes' m" by auto
    have "cleans (fst ` set (item # items)) nodes nodes'"
      by (rule cleans_trans [OF conjunct1 [OF one] tail(1)]) (use item in auto)
    moreover have "\<not> patch_fails api n \<or> errs = [] \<Longrightarrow> clean nodes' n"
      using one tail(1) res(2) by (auto simp: cleans_def split: option.splits)
    ultimately show ?thesis using tail(2) res(2) item by (auto split: option.splits)
  qed
qed simp

lemma RemoveNodeConditions_cleans:
  assumes "merge_keyed api" and "RemoveNodeConditions api pages nodes = (nodes', errs)" and "up_to_date (listed pages) nodes"
  shows "cleans (fst ` listed pages) nodes nodes' \<and> (errs = [] \<longrightarrow> None \<notin> set pages) \<and>
    (None \<notin> set pages \<longrightarrow> (\<forall>n \<in> fst ` listed pages. \<not> patch_fails api n \<or> errs = [] \<longrightarrow> clean nodes' n))"
  using assms(2-)
proof (induction pages arbitrary: nodes errs)
  case (Cons page pages)
  show ?case
  proof (cases page)
    case None
    with Cons.prems show ?thesis by auto
  next
    case (Some items)
    obtain nodes1 errs1 where page: "remove_page api items nodes = (nodes1, errs1)" by (meson surj_pair)
    obtain nodes2 errs2 where rest: "RemoveNodeConditions api pages nodes1 = (nodes2, errs2)" by (meson surj_pair)
    from Cons.prems(1) Some page rest have res: "nodes2 = nodes'" "errs = errs1 @ errs2" by auto
    have fresh: "up_to_date (set items) nodes" "up_to_date (listed pages) nodes"
      using Cons.prems(2) Some by (auto simp: up_to_date_def listed_def)
    note one = remove_page_cleans [OF assms(1) page fresh(1)]
    note tail = Cons.IH [of nodes1 errs2, unfolded rest res, OF refl up_to_date_cleans [OF fresh(2) conjunct1 [OF one]]]
    have names: "fst ` listed (page # pages) = fst ` set items \<union> fst ` listed pages"
      using Some by (auto simp: listed_def)
    have "cleans (fst ` listed (page # pages)) nodes nodes'"
      by (rule cleans_trans [OF conjunct1 [OF one] conjunct1 [OF tail]]) (simp add: names)
    with one tail Some res names show ?thesis by (auto simp: cleans_def)
  qed
qed (simp add: listed_def)

text \<open>
  The sweep that removes the node condition reaches every listed node whose patch does not
  fail, also when other nodes fail; when it reports no error, every page was read and no listed
  node has the condition any more. It changes nothing else on a node, and no unlisted node.
\<close>

theorem RemoveNodeConditions_sweep:
  assumes "merge_keyed api" and "up_to_date (listed pages) nodes"
    and "RemoveNodeConditions api pages nodes = (nodes', errs)"
  shows "(\<forall>n. map_option foreign (nodes' n) = map_option foreign (nodes n)) \<and>
    (\<forall>n. n \<notin> fst ` listed pages \<longrightarrow> nodes' n = nodes n) \<and>
    (None \<notin> set pages \<longrightarrow> (\<forall>n \<in> fst ` listed pages. \<not> patch_fails api n \<longrightarrow> clean nodes' n)) \<and>
    (errs = [] \<longrightarrow> None \<notin> set pages \<and> (\<forall>n \<in> fst ` listed pages. clean nodes' n))"
  using RemoveNodeConditions_cleans [OF assms(1,3,2)] by (auto simp: cleans_def)

theorem RemoveNodeConditions_sweep_witness:
  "clean (fst (RemoveNodeConditions sample_api [Some [(''bad'', sample_node)], Some [(''n'', sample_node)]]
     [''bad'' \<mapsto> sample_node, ''n'' \<mapsto> sample_node])) ''n''"
  using RemoveNodeConditions_sweep [where api = sample_api and pages = "[Some [(''bad'', sample_node)], Some [(''n'', sample_node)]]"
    and nodes = "[''bad'' \<mapsto> sample_node, ''n'' \<mapsto> sample_node]", OF merge_keyed_sample _ surjective_pairing]
  by (simp add: up_to_date_def listed_def sample_node_def sample_node_condition_def FindNodeCondition_def)
    (simp add: sample_api_def)

section \<open>Draining for driver upgrades\<close>

text \<open>
  Under the documented meaning of node selectors, the daemons' affinity admits a node
  exactly when it has no driver-upgrade label or the label says the upgrade is done, and the
  daemons' selector always asks for the GPU operator's client label, keeping the other keys of
  the custom resource's selector.
\<close>

theorem driver_upgrade_drains:
  assumes "selector_semantics meets"
  shows "(schedulable meets driverUpgradeNodeAffinity labels \<longleftrightarrow>
      labels DriverUpgradeStateLabel \<in> {None, Some DriverUpgradeStateDone}) \<and>
    (DriverUpgradeActive v \<and> labels DriverUpgradeStateLabel = Some v \<longrightarrow>
      \<not> schedulable meets driverUpgradeNodeAffinity labels) \<and>
    (\<forall>k. DaemonNodeSelector sel k = (if k = GPUDeployClientLabel then Some GPUDeployClientValue else sel k))"
  using assms
  by (cases "labels DriverUpgradeStateLabel")
    (auto simp: selector_semantics_def schedulable_def driverUpgradeNodeAffinity_def DaemonNodeSelector_def DriverUpgradeActive_def)

fun sample_meets :: "requirement \<Rightarrow> (string \<rightharpoonup> string) \<Rightarrow> bool" where
  "sample_meets (DoesNotExist k) labels = (labels k = None)"
| "sample_meets (In k vs) labels = (case labels k of None \<Rightarrow> False | Some v \<Rightarrow> List.member vs v)"

theorem driver_upgrade_drains_witness:
  "\<not> schedulable sample_meets driverUpgradeNodeAffinity [DriverUpgradeStateLabel \<mapsto> ''cordon-required'']"
proof -
  have "selector_semantics sample_meets"
    by (auto simp: selector_semantics_def split: option.splits)
  from driver_upgrade_drains [OF this, of "[DriverUpgradeStateLabel \<mapsto> ''cordon-required'']" "''cordon-required''"]
  show ?thesis by (simp add: DriverUpgradeStateDone_def)
qed

text \<open>
  An empty label value is one on which the affinity and \<open>DriverUpgradeActive\<close> disagree: the
  node is drained although the value does not count as an upgrade.
\<close>

lemma empty_label_disagrees:
  assumes "selector_semantics meets"
  shows "\<not> DriverUpgradeActive [] \<and> \<not> schedulable meets driverUpgradeNodeAffinity [DriverUpgradeStateLabel \<mapsto> []]"
  using assms by (simp add: selector_semantics_def schedulable_def driverUpgradeNodeAffinity_def
      DriverUpgradeActive_def DriverUpgradeStateDone_def)

end
