(* ===== verification/Dependency.thy ===== *)
theory Dependency
  imports Daemonmgr Pkg
begin

text \<open>
  The operator's checks of the GPU stack: \<^verbatim>\<open>operator/internal/controller/clusterpolicy.go\<close> and
  \<^verbatim>\<open>dependency_checker.go\<close>. An unstructured object is what its accessors answer, the list calls
  of the API server are arguments, and package \<^verbatim>\<open>golang.org/x/mod/semver\<close> is a record of functions.
\<close>

section \<open>What the cluster and the semver package answer\<close>

text \<open>The nested accessors: \<open>None\<close> for a field that is absent or of another type.\<close>

type_synonym entry = "string \<Rightarrow> string option"

record unstructured =
  GetName :: string
  GetLabels :: "string \<rightharpoonup> string"
  NestedString :: "string list \<Rightarrow> string option"
  NestedBool :: "string list \<Rightarrow> bool option"
  NestedSlice :: "string list \<Rightarrow> entry option list option"

definition or_empty :: "string option \<Rightarrow> string" where
  "or_empty x = (case x of None \<Rightarrow> [] | Some s \<Rightarrow> s)"

datatype list_reply = Listed "unstructured list" | KindNotFound | ListFailed string

record semver =
  IsValid :: "string \<Rightarrow> bool"
  Canonical :: "string \<Rightarrow> string"
  Compare :: "string \<Rightarrow> string \<Rightarrow> int"

section \<open>The cluster policy\<close>

record ClusterPolicy =
  Policy :: "unstructured option"
  Err :: "string option"

definition ReadClusterPolicy :: "list_reply \<Rightarrow> ClusterPolicy" where
  "ReadClusterPolicy reply =
    (case reply of
       ListFailed err \<Rightarrow> \<lparr>Policy = None, Err = Some err\<rparr>
     | KindNotFound \<Rightarrow> \<lparr>Policy = None, Err = None\<rparr>
     | Listed [] \<Rightarrow> \<lparr>Policy = None, Err = None\<rparr>
     | Listed (p # _) \<Rightarrow> \<lparr>Policy = Some p, Err = None\<rparr>)"

definition NRIPluginEnabled :: "ClusterPolicy \<Rightarrow> bool" where
  "NRIPluginEnabled p =
    (case Policy p of
       None \<Rightarrow> False
     | Some obj \<Rightarrow> (case NestedBool obj [''spec'', ''cdi'', ''nriPluginEnabled''] of None \<Rightarrow> False | Some b \<Rightarrow> b))"

definition nriManagementCDIDeviceNamespacesEnv :: string where
  "nriManagementCDIDeviceNamespacesEnv = ''NRI_MANAGEMENT_CDI_DEVICE_NAMESPACES''"

definition entry_namespaces :: "entry option \<Rightarrow> string list" where
  "entry_namespaces item =
    (case item of
       None \<Rightarrow> []
     | Some entry \<Rightarrow>
         if or_empty (entry ''name'') \<noteq> nriManagementCDIDeviceNamespacesEnv then []
         else filter (\<lambda>n. n \<noteq> []) (map TrimSpace (Split (or_empty (entry ''value'')) CHR '','')))"

definition ManagementCDIDeviceNamespaces :: "ClusterPolicy \<Rightarrow> string list" where
  "ManagementCDIDeviceNamespaces p =
    (case Policy p of
       None \<Rightarrow> []
     | Some obj \<Rightarrow> (case NestedSlice obj [''spec'', ''toolkit'', ''env''] of
           None \<Rightarrow> [] | Some env \<Rightarrow> concat (map entry_namespaces env)))"

section \<open>Versions\<close>

definition clusterPolicyVersionLabel :: string where "clusterPolicyVersionLabel = ''app.kubernetes.io/version''"
definition minimumGPUOperatorVersion :: string where "minimumGPUOperatorVersion = ''v26.7.1''"
definition minGPUDriverMajor :: int where "minGPUDriverMajor = 615"

record gpuOperandRequirement =
  op_name :: string
  specPath :: "string list"
  minVersion :: string

definition gpuOperandRequirements :: "gpuOperandRequirement list" where
  "gpuOperandRequirements =
    [\<lparr>op_name = ''container toolkit'', specPath = [''spec'', ''toolkit'', ''version''], minVersion = ''v1.20.1''\<rparr>,
     \<lparr>op_name = ''device plugin'', specPath = [''spec'', ''devicePlugin'', ''version''], minVersion = ''v0.20.1''\<rparr>]"

definition splitSemverSuffix :: "string \<Rightarrow> string \<times> string" where
  "splitSemverSuffix version =
    (takeWhile (\<lambda>c. c \<noteq> CHR ''-'' \<and> c \<noteq> CHR ''+'') version, dropWhile (\<lambda>c. c \<noteq> CHR ''-'' \<and> c \<noteq> CHR ''+'') version)"

definition with_v :: "string \<Rightarrow> string" where
  "with_v s = (if HasPrefix s ''v'' then s else CHR ''v'' # s)"

definition normalizeOperandVersion :: "semver \<Rightarrow> string \<Rightarrow> string option" where
  "normalizeOperandVersion sv version =
    (let core = fst (splitSemverSuffix (TrimSpace version)) in
     if core = [] then None
     else if \<not> IsValid sv (with_v core) then None else Some (Canonical sv (with_v core)))"

definition normalizeGPUOperatorVersion :: "semver \<Rightarrow> string \<Rightarrow> string option" where
  "normalizeGPUOperatorVersion sv version =
    (if TrimSpace version = [] then None
     else let normalized = with_v (TrimSpace version) in
       if IsValid sv normalized then Some (Canonical sv normalized)
       else case splitSemverSuffix normalized of
           (main, suf) \<Rightarrow>
             if count_list main CHR ''.'' = 1 \<and> IsValid sv (main @ ''.0'' @ suf)
             then Some (Canonical sv (main @ ''.0'' @ suf)) else None)"

definition gpuOperatorVersionFailureMessage :: "semver \<Rightarrow> string \<Rightarrow> string \<Rightarrow> string" where
  "gpuOperatorVersionFailureMessage sv rawVersion source =
    (let rawVersion = TrimSpace rawVersion; floor = '' minimum supported version is '' @ minimumGPUOperatorVersion in
     if rawVersion = [] then ''NVIDIA GPU Operator version from '' @ source @ '' is missing;'' @ floor
     else case normalizeGPUOperatorVersion sv rawVersion of
         None \<Rightarrow> ''NVIDIA GPU Operator version '' @ Quote rawVersion @ '' from '' @ source @ '' is invalid;'' @ floor
       | Some version \<Rightarrow>
           if Compare sv (fst (splitSemverSuffix version)) minimumGPUOperatorVersion < 0
           then ''NVIDIA GPU Operator version '' @ rawVersion @ '' from '' @ source @
             '' is below minimum supported version '' @ minimumGPUOperatorVersion
           else [])"

fun operand_failures :: "semver \<Rightarrow> unstructured \<Rightarrow> gpuOperandRequirement list \<Rightarrow> string \<times> string list" where
  "operand_failures sv obj [] = ([], [])"
| "operand_failures sv obj (operand # rest) =
    (let rawVersion = TrimSpace (or_empty (NestedString obj (specPath operand))) in
     if rawVersion = []
     then (case operand_failures sv obj rest of (msg, defaulted) \<Rightarrow> (msg, op_name operand # defaulted))
     else case normalizeOperandVersion sv rawVersion of
         None \<Rightarrow> operand_failures sv obj rest
       | Some version \<Rightarrow>
           if Compare sv version (minVersion operand) < 0
           then (''NVIDIA '' @ op_name operand @ '' version '' @ rawVersion @ '' from ClusterPolicy '' @
                   Join (specPath operand) ''.'' @ '' is below minimum supported version '' @ minVersion operand, [])
           else operand_failures sv obj rest)"

definition gpuOperandVersionFailureMessage :: "semver \<Rightarrow> unstructured \<Rightarrow> string \<times> string list" where
  "gpuOperandVersionFailureMessage sv obj = operand_failures sv obj gpuOperandRequirements"

section \<open>The GPU Operator's own version\<close>

definition clusterServiceVersionPrefix :: string where "clusterServiceVersionPrefix = ''gpu-operator''"
definition gpuOperatorProviderSubstring :: string where "gpuOperatorProviderSubstring = ''NVIDIA''"

definition is_gpu_operator_csv :: "unstructured \<Rightarrow> bool" where
  "is_gpu_operator_csv csv \<longleftrightarrow>
    HasPrefix (GetName csv) clusterServiceVersionPrefix \<and>
    (case NestedString csv [''spec'', ''provider'', ''name''] of
       None \<Rightarrow> True
     | Some provider \<Rightarrow> provider = [] \<or> Contains (ToUpper_to_ascii provider) gpuOperatorProviderSubstring)"

definition clusterServiceVersionGPUOperatorVersion :: "list_reply \<Rightarrow> (string, string option) result" where
  "clusterServiceVersionGPUOperatorVersion reply =
    (case reply of
       KindNotFound \<Rightarrow> Inr None
     | ListFailed err \<Rightarrow> Inl (''failed to list ClusterServiceVersions: '' @ err)
     | Listed items \<Rightarrow>
         (case find is_gpu_operator_csv items of
            None \<Rightarrow> Inr None
          | Some csv \<Rightarrow> Inr (Some (TrimSpace (or_empty (NestedString csv [''spec'', ''version'']))))))"

definition gpuOperatorVersionFromClusterPolicy :: "unstructured \<Rightarrow> string" where
  "gpuOperatorVersionFromClusterPolicy obj = TrimSpace (or_empty (GetLabels obj clusterPolicyVersionLabel))"

text \<open>Version, source and whether one was found.\<close>

definition gpuOperatorVersion :: "list_reply \<Rightarrow> unstructured option \<Rightarrow> (string, string \<times> string \<times> bool) result" where
  "gpuOperatorVersion csvs policy =
    (let source = (case policy of None \<Rightarrow> ''ClusterServiceVersion''
           | Some _ \<Rightarrow> ''ClusterPolicy label '' @ Quote clusterPolicyVersionLabel);
         labelled = (case policy of None \<Rightarrow> [] | Some obj \<Rightarrow> gpuOperatorVersionFromClusterPolicy obj)
     in if labelled \<noteq> [] then Inr (labelled, source, True)
        else case clusterServiceVersionGPUOperatorVersion csvs of
            Inl err \<Rightarrow> Inl err
          | Inr None \<Rightarrow> Inr ([], source, False)
          | Inr (Some version) \<Rightarrow> Inr (version, ''ClusterServiceVersion'', True))"

definition versionDiscoveryErrorMessage :: "string \<Rightarrow> string" where
  "versionDiscoveryErrorMessage err =
    ''unable to discover NVIDIA GPU Operator version from ClusterPolicy or ClusterServiceVersion: '' @ err"

section \<open>The dependency check\<close>

record GpuOperatorDependencyChecker =
  skipVersionChecks :: bool
  namespace :: string

text \<open>Reason and message, both empty without a failure. \<open>cancelled\<close>: the context is cancelled when a read fails.\<close>

definition versionFailure ::
  "semver \<Rightarrow> GpuOperatorDependencyChecker \<Rightarrow> bool \<Rightarrow> list_reply \<Rightarrow> unstructured option \<Rightarrow> (string, string \<times> string) result" where
  "versionFailure sv c cancelled csvs policy =
    (if skipVersionChecks c then Inr ([], [])
     else let discovery = (\<lambda>err. if cancelled then Inl err
                else Inr (''GPUOperatorNotReady'', versionDiscoveryErrorMessage err)) in
       case policy of
         Some obj \<Rightarrow>
           (case gpuOperandVersionFailureMessage sv obj of
              (msg, defaulted) \<Rightarrow>
                if msg \<noteq> [] then Inr (''GPUOperandVersionUnsupported'', msg)
                else if defaulted = [] then Inr ([], [])
                else case gpuOperatorVersion csvs policy of
                    Inl err \<Rightarrow> discovery err
                  | Inr (version, source, _) \<Rightarrow>
                      let msg = gpuOperatorVersionFailureMessage sv version source in
                      if msg \<noteq> [] then Inr (''GPUOperatorVersionUnsupported'', msg @ '', and it supplies the default '' @
                          Join defaulted '' and '' @ '' version that the ClusterPolicy leaves unset'')
                      else Inr ([], []))
       | None \<Rightarrow>
           (case gpuOperatorVersion csvs policy of
              Inl err \<Rightarrow> discovery err
            | Inr (version, source, found) \<Rightarrow>
                if \<not> found then Inr ([], [])
                else let msg = gpuOperatorVersionFailureMessage sv version source in
                  if msg \<noteq> [] then Inr (''GPUOperatorVersionUnsupported'', msg) else Inr ([], [])))"

definition managementCDINamespaceFailureMessage :: "GpuOperatorDependencyChecker \<Rightarrow> ClusterPolicy \<Rightarrow> string" where
  "managementCDINamespaceFailureMessage c p =
    (if \<not> NRIPluginEnabled p then []
     else if List.member (ManagementCDIDeviceNamespaces p) (namespace c) then []
     else ''NVIDIA GPU Operator runs its NRI plugin, but namespace '' @ Quote (namespace c) @
       '' is not permitted to request management CDI devices, so the gpu-fractioning daemon pods cannot access a GPU. Add it to the '' @
       nriManagementCDIDeviceNamespacesEnv @ '' environment variable in the ClusterPolicy spec.toolkit.env.'')"

definition clusterPolicyCondition :: "unstructured \<Rightarrow> string \<Rightarrow> (string \<times> string) option" where
  "clusterPolicyCondition obj condType =
    (case NestedSlice obj [''status'', ''conditions''] of
       None \<Rightarrow> None
     | Some conditions \<Rightarrow>
         map_option (\<lambda>m. (or_empty (m ''status''), or_empty (m ''message'')))
           (find (\<lambda>m. or_empty (m ''type'') = condType) (List.map_filter id conditions)))"

definition conditionStatusIsTrue :: "string \<Rightarrow> bool" where
  "conditionStatusIsTrue status = EqualFold_ascii (TrimSpace status) ''True''"

definition conditionStatusText :: "string \<Rightarrow> string" where
  "conditionStatusText status = (if TrimSpace status = [] then ''Unknown'' else status)"

definition clusterPolicyReadinessFailureMessage :: "unstructured \<Rightarrow> string" where
  "clusterPolicyReadinessFailureMessage obj =
    (let error = clusterPolicyCondition obj ''Error''; ready = clusterPolicyCondition obj ''Ready'';
         state = NestedString obj [''status'', ''state''] in
     if error \<noteq> None \<and> conditionStatusIsTrue (fst (the error))
     then (if snd (the error) \<noteq> [] then snd (the error) else ''NVIDIA GPU Operator ClusterPolicy reports Error=True'')
     else if ready \<noteq> None \<and> \<not> conditionStatusIsTrue (fst (the ready))
     then (if snd (the ready) \<noteq> [] then snd (the ready)
           else ''NVIDIA GPU Operator ClusterPolicy Ready condition is '' @ conditionStatusText (fst (the ready)))
     else case state of
         Some st \<Rightarrow> if \<not> EqualFold_ascii (TrimSpace st) ''ready''
           then ''NVIDIA GPU Operator ClusterPolicy state is '' @ Quote st @ '', expected '' @ Quote ''ready'' else []
       | None \<Rightarrow> if ready = None then ''NVIDIA GPU Operator ClusterPolicy status does not report readiness'' else [])"

definition gpuOperatorReadyCondition :: "int \<Rightarrow> int \<Rightarrow> string \<Rightarrow> string \<Rightarrow> Condition" where
  "gpuOperatorReadyCondition now generation reason message =
    \<lparr>Type = ConditionReady, Status = ConditionFalse, ObservedGeneration = generation,
     LastTransitionTime = now, Reason = reason, Message = message\<rparr>"

text \<open>The condition, and the error for which the reconcile is given up.\<close>

definition GpuOperator_Check ::
  "int \<Rightarrow> semver \<Rightarrow> GpuOperatorDependencyChecker \<Rightarrow> bool \<Rightarrow> list_reply \<Rightarrow> ClusterPolicy \<Rightarrow> int \<Rightarrow> Condition \<Rightarrow>
    Condition \<times> string option" where
  "GpuOperator_Check now sv c cancelled csvs p generation ready =
    (case Err p of
       Some err \<Rightarrow>
         if cancelled then (ready, Some err)
         else (gpuOperatorReadyCondition now generation ''GPUOperatorNotReady''
           (''unable to read NVIDIA GPU Operator ClusterPolicy: '' @ err), None)
     | None \<Rightarrow>
         (case versionFailure sv c cancelled csvs (Policy p) of
            Inl err \<Rightarrow> (ready, Some err)
          | Inr (reason, message) \<Rightarrow>
              if reason \<noteq> [] then (gpuOperatorReadyCondition now generation reason message, None)
              else case Policy p of
                  None \<Rightarrow> (ready, None)
                | Some obj \<Rightarrow>
                    let cdi = managementCDINamespaceFailureMessage c p;
                        readiness = clusterPolicyReadinessFailureMessage obj in
                    if cdi \<noteq> [] then (gpuOperatorReadyCondition now generation ''ManagementCDINamespaceNotAllowed'' cdi, None)
                    else if Status ready = ConditionFalse \<and> readiness \<noteq> []
                      then (gpuOperatorReadyCondition now generation ''GPUOperatorNotReady'' readiness, None)
                    else (ready, None)))"

section \<open>The driver check of a node\<close>

definition gpuDriverFailureReason :: "Node \<Rightarrow> (string \<times> string) option" where
  "gpuDriverFailureReason node =
    (let rawMajor = TrimSpace (or_empty (node_labels node NVIDIADriverMajorLabel));
         floor = '' minimum supported major version is '' @ Itoa minGPUDriverMajor in
     if rawMajor = [] then Some (''GPUDriverVersionMissing'',
       ''NVIDIA driver major version label '' @ Quote NVIDIADriverMajorLabel @ '' is missing;'' @ floor)
     else case ParseDriverMajorLabel rawMajor of
         Inl _ \<Rightarrow> Some (''GPUDriverVersionInvalid'', ''NVIDIA driver major version '' @ Quote rawMajor @ '' from label '' @
           Quote NVIDIADriverMajorLabel @ '' is invalid;'' @ floor)
       | Inr major \<Rightarrow>
           if major < minGPUDriverMajor then Some (''GPUDriverVersionUnsupported'', ''NVIDIA driver major version '' @
             Itoa major @ '' is below minimum supported major version '' @ Itoa minGPUDriverMajor)
           else None)"

text \<open>The node as the reader answers, \<open>None\<close> for a failing read.\<close>

definition GpuDriver_Check :: "bool \<Rightarrow> Node option \<Rightarrow> NodeCondition \<Rightarrow> NodeCondition \<times> bool" where
  "GpuDriver_Check cancelled reply condition =
    (if nc_Status condition \<noteq> ConditionFalse then (condition, False)
     else case reply of
         None \<Rightarrow> (condition, cancelled)
       | Some node \<Rightarrow>
           (case gpuDriverFailureReason node of
              None \<Rightarrow> (condition, False)
            | Some (reason, message) \<Rightarrow> (condition\<lparr>nc_Reason := reason, nc_Message := message\<rparr>, False)))"

section \<open>The operand versions\<close>

text \<open>The pinned version of an operand, if it is set and readable.\<close>

definition raw_operand :: "unstructured \<Rightarrow> gpuOperandRequirement \<Rightarrow> string" where
  "raw_operand obj operand = TrimSpace (or_empty (NestedString obj (specPath operand)))"

definition operand_supported :: "semver \<Rightarrow> unstructured \<Rightarrow> gpuOperandRequirement \<Rightarrow> bool" where
  "operand_supported sv obj operand \<longleftrightarrow>
    (case normalizeOperandVersion sv (raw_operand obj operand) of
       None \<Rightarrow> True | Some v \<Rightarrow> 0 \<le> Compare sv v (minVersion operand))"

lemma normalizeOperandVersion_Nil [simp]: "normalizeOperandVersion sv [] = None"
  by (simp add: normalizeOperandVersion_def splitSemverSuffix_def)

lemma operand_failures_ok:
  "fst (operand_failures sv obj reqs) = [] \<longleftrightarrow> list_all (operand_supported sv obj) reqs"
  by (induction reqs)
    (auto simp: Let_def operand_supported_def raw_operand_def not_less split: option.splits prod.splits)

lemma operand_failures_defaulted:
  "fst (operand_failures sv obj reqs) = [] \<Longrightarrow>
    snd (operand_failures sv obj reqs) = map op_name (filter (\<lambda>r. raw_operand obj r = []) reqs)"
  by (induction reqs) (auto simp: Let_def raw_operand_def split: option.splits prod.splits if_splits)

lemma operand_suffix_ignored:
  assumes "no_space_bytes (core @ sep # suf)" and "sep = CHR ''-'' \<or> sep = CHR ''+''"
  shows "normalizeOperandVersion sv (core @ sep # suf) = normalizeOperandVersion sv core"
proof -
  have "TrimSpace core = core" "TrimSpace (core @ sep # suf) = core @ sep # suf"
    using assms(1) by (auto simp: TrimSpace_id no_space_bytes_def)
  moreover have "fst (splitSemverSuffix (core @ sep # suf)) = fst (splitSemverSuffix core)"
    unfolding splitSemverSuffix_def fst_conv using assms(2) by (induction core) auto
  ultimately show ?thesis by (simp add: normalizeOperandVersion_def)
qed

text \<open>
  The operand gate passes a cluster policy exactly when every operand whose pinned version
  can be read meets its floor, and then names exactly the operands the policy leaves unset. A
  suffix of the image tag (a distribution, a pre-release) never matters.
\<close>

theorem operand_gate:
  "(fst (gpuOperandVersionFailureMessage sv obj) = [] \<longleftrightarrow>
      list_all (operand_supported sv obj) gpuOperandRequirements) \<and>
   (list_all (operand_supported sv obj) gpuOperandRequirements \<longrightarrow>
      snd (gpuOperandVersionFailureMessage sv obj) =
        map op_name (filter (\<lambda>r. raw_operand obj r = []) gpuOperandRequirements)) \<and>
   (no_space_bytes (core @ suf) \<and> HasPrefix suf ''-'' \<longrightarrow>
      normalizeOperandVersion sv (core @ suf) = normalizeOperandVersion sv core)"
  using operand_failures_ok [of sv obj gpuOperandRequirements]
    operand_failures_defaulted [of sv obj gpuOperandRequirements] operand_suffix_ignored [of core "CHR ''-''"]
  by (cases suf) (simp add: gpuOperandVersionFailureMessage_def HasPrefix_def,
    simp add: gpuOperandVersionFailureMessage_def HasPrefix_def, blast)

text \<open>A semver package on a few versions, for the witnesses: one floor is met by what compares above it.\<close>

definition sample_semver :: semver where
  "sample_semver = \<lparr>IsValid = (\<lambda>v. v = ''v1.20.1'' \<or> v = ''v0.20.1'' \<or> v = ''v0.19.0''), Canonical = id,
     Compare = (\<lambda>v w. if v = w then 0 else if v = ''v0.19.0'' then -1 else 1)\<rparr>"

definition sample_policy :: "string \<Rightarrow> unstructured" where
  "sample_policy plugin = \<lparr>GetName = ''cluster-policy'', GetLabels = Map.empty,
     NestedString = [[''spec'', ''toolkit'', ''version''] \<mapsto> ''v1.20.1-ubuntu20.04'',
                     [''spec'', ''devicePlugin'', ''version''] \<mapsto> plugin, [''status'', ''state''] \<mapsto> ''ready''],
     NestedBool = (\<lambda>_. Some True), NestedSlice = (\<lambda>_. None)\<rparr>"

theorem operand_gate_witness:
  "normalizeOperandVersion sample_semver ''v1.20.1-ubuntu20.04'' = Some ''v1.20.1''"
proof -
  have "normalizeOperandVersion sample_semver ''v1.20.1'' = Some ''v1.20.1''" by code_simp
  moreover have "no_space_bytes (''v1.20.1'' @ ''-ubuntu20.04'')" by code_simp
  ultimately show ?thesis
    using operand_gate [of sample_semver "sample_policy []" "''v1.20.1''" "''-ubuntu20.04''"] by (simp add: HasPrefix_def)
qed

section \<open>The verdict of the check\<close>

lemma versionFailure_error: "versionFailure sv c cancelled csvs policy = Inl err \<Longrightarrow> cancelled"
  by (auto simp: versionFailure_def Let_def split: if_splits option.splits prod.splits sum.splits)

lemma versionFailure_passed:
  assumes "versionFailure sv c cancelled csvs (Some obj) = Inr ([], msg)" "\<not> skipVersionChecks c"
  shows "list_all (operand_supported sv obj) gpuOperandRequirements"
proof -
  have "fst (gpuOperandVersionFailureMessage sv obj) = []"
    using assms by (auto simp: versionFailure_def split: prod.splits if_splits)
  then show ?thesis by (simp add: gpuOperandVersionFailureMessage_def operand_failures_ok)
qed

text \<open>The operator itself is at its floor or above; it supplies the versions that the policy leaves unset.\<close>

definition operator_supported :: "semver \<Rightarrow> string \<Rightarrow> bool" where
  "operator_supported sv raw \<longleftrightarrow> TrimSpace raw \<noteq> [] \<and>
    (\<exists>v. normalizeGPUOperatorVersion sv (TrimSpace raw) = Some v \<and>
       0 \<le> Compare sv (fst (splitSemverSuffix v)) minimumGPUOperatorVersion)"

lemma operator_message_empty: "gpuOperatorVersionFailureMessage sv raw source = [] \<longleftrightarrow> operator_supported sv raw"
  by (auto simp: gpuOperatorVersionFailureMessage_def operator_supported_def Let_def split: option.splits)

lemma versionFailure_floor:
  assumes "versionFailure sv c cancelled csvs (Some obj) = Inr ([], msg)" "\<not> skipVersionChecks c"
    and "r \<in> set gpuOperandRequirements" "raw_operand obj r = []"
  shows "\<exists>version source found. gpuOperatorVersion csvs (Some obj) = Inr (version, source, found) \<and> operator_supported sv version"
proof -
  have ok: "fst (gpuOperandVersionFailureMessage sv obj) = []"
    using assms(1,2) by (auto simp: versionFailure_def split: prod.splits if_splits)
  then have "snd (gpuOperandVersionFailureMessage sv obj) = map op_name (filter (\<lambda>r. raw_operand obj r = []) gpuOperandRequirements)"
    using operand_failures_defaulted by (simp add: gpuOperandVersionFailureMessage_def)
  then have "snd (gpuOperandVersionFailureMessage sv obj) \<noteq> []" using assms(3,4) by (auto simp: filter_empty_conv)
  then show ?thesis
    using assms(1,2) ok operator_message_empty
    by (auto simp: versionFailure_def Let_def split: prod.splits if_splits sum.splits)
qed

lemma versionFailure_skipped: "skipVersionChecks c \<Longrightarrow> versionFailure sv c cancelled csvs policy = Inr ([], [])"
  by (simp add: versionFailure_def)

lemma cdi_message_empty:
  "managementCDINamespaceFailureMessage c p = [] \<longleftrightarrow>
    (NRIPluginEnabled p \<longrightarrow> namespace c \<in> set (ManagementCDIDeviceNamespaces p))"
  by (simp add: managementCDINamespaceFailureMessage_def)

text \<open>
  C28: the GPU-stack check only ever withdraws readiness. It returns the aggregate condition or
  a False Ready condition, and an error only for a cancelled reconcile. A condition it leaves
  True was True, the cluster policy was read, and in NRI mode the daemons' namespace is allowed to
  request the management device. Unless the version checks are bypassed, the operands that the policy
  names meet their floors, and if it leaves one unset, the version of the GPU operator that supplies it was
  found and meets its own floor. With the bypass readiness is never withdrawn for a version.
\<close>

theorem dependency_gate:
  assumes check: "GpuOperator_Check now sv c cancelled csvs p gen ready = (ready', err)"
  shows "(err \<noteq> None \<longrightarrow> cancelled \<and> ready' = ready) \<and>
    (ready' = ready \<or> Type ready' = ConditionReady \<and> Status ready' = ConditionFalse) \<and>
    (err = None \<and> Status ready' = ConditionTrue \<longrightarrow>
       ready' = ready \<and> Err p = None \<and>
       (NRIPluginEnabled p \<longrightarrow> namespace c \<in> set (ManagementCDIDeviceNamespaces p)) \<and>
       (\<forall>obj. Policy p = Some obj \<longrightarrow> skipVersionChecks c \<or> list_all (operand_supported sv obj) gpuOperandRequirements \<and>
          ((\<exists>r \<in> set gpuOperandRequirements. raw_operand obj r = []) \<longrightarrow>
             (\<exists>version source found. gpuOperatorVersion csvs (Some obj) = Inr (version, source, found) \<and>
                operator_supported sv version)))) \<and>
    (skipVersionChecks c \<and> ready' \<noteq> ready \<longrightarrow>
       Reason ready' \<in> {''GPUOperatorNotReady'', ''ManagementCDINamespaceNotAllowed''})"
proof (cases "Err p")
  case (Some e)
  with check show ?thesis by (auto simp: GpuOperator_Check_def gpuOperatorReadyCondition_def split: if_splits)
next
  case None
  show ?thesis
  proof (cases "versionFailure sv c cancelled csvs (Policy p)")
    case (Inl e)
    with None check versionFailure_error [OF Inl] versionFailure_skipped [of c] show ?thesis
      by (auto simp: GpuOperator_Check_def)
  next
    case (Inr r)
    obtain reason message where r: "r = (reason, message)" by (cases r)
    show ?thesis
    proof (cases "reason = [] \<and> Policy p \<noteq> None")
      case True
      then obtain obj where obj: "Policy p = Some obj" by auto
      with True None Inr r check have
        eq: "(ready', err) = (if managementCDINamespaceFailureMessage c p \<noteq> []
          then (gpuOperatorReadyCondition now gen ''ManagementCDINamespaceNotAllowed'' (managementCDINamespaceFailureMessage c p), None)
          else if Status ready = ConditionFalse \<and> clusterPolicyReadinessFailureMessage obj \<noteq> []
          then (gpuOperatorReadyCondition now gen ''GPUOperatorNotReady'' (clusterPolicyReadinessFailureMessage obj), None)
          else (ready, None))"
        by (simp add: GpuOperator_Check_def Let_def)
      have "skipVersionChecks c \<or> list_all (operand_supported sv obj) gpuOperandRequirements \<and>
          ((\<exists>r \<in> set gpuOperandRequirements. raw_operand obj r = []) \<longrightarrow>
             (\<exists>version source found. gpuOperatorVersion csvs (Some obj) = Inr (version, source, found) \<and>
                operator_supported sv version))"
      proof -
        have vf: "versionFailure sv c cancelled csvs (Some obj) = Inr ([], message)" using True Inr r obj by simp
        show ?thesis using versionFailure_passed [OF vf] versionFailure_floor [OF vf] by blast
      qed
      moreover have "err = None" "ready' = ready \<or> Type ready' = ConditionReady \<and> Status ready' = ConditionFalse"
        "Status ready' = ConditionTrue \<Longrightarrow> ready' = ready \<and>
           (NRIPluginEnabled p \<longrightarrow> namespace c \<in> set (ManagementCDIDeviceNamespaces p))"
        "ready' \<noteq> ready \<Longrightarrow> Reason ready' \<in> {''GPUOperatorNotReady'', ''ManagementCDINamespaceNotAllowed''}"
        using eq by (auto simp: cdi_message_empty gpuOperatorReadyCondition_def split: if_splits)
      ultimately show ?thesis using None obj by (metis option.inject)
    next
      case False
      with None Inr r check versionFailure_skipped [of c sv cancelled csvs "Policy p"] show ?thesis
        by (auto simp: GpuOperator_Check_def gpuOperatorReadyCondition_def NRIPluginEnabled_def split: if_splits option.splits)
    qed
  qed
qed

theorem dependency_gate_witness:
  "Status (fst (GpuOperator_Check 5 sample_semver \<lparr>skipVersionChecks = False, namespace = ''gf''\<rparr> False KindNotFound
     (ReadClusterPolicy (Listed [sample_policy ''v0.19.0''])) 1 (sample_condition ''Ready'' ConditionTrue 1))) \<noteq> ConditionTrue"
proof -
  let ?p = "ReadClusterPolicy (Listed [sample_policy ''v0.19.0''])"
  have "Policy ?p = Some (sample_policy ''v0.19.0'')" by (simp add: ReadClusterPolicy_def)
  moreover have "\<not> list_all (operand_supported sample_semver (sample_policy ''v0.19.0'')) gpuOperandRequirements"
    by code_simp
  moreover have "snd (GpuOperator_Check 5 sample_semver \<lparr>skipVersionChecks = False, namespace = ''gf''\<rparr> False KindNotFound
     ?p 1 (sample_condition ''Ready'' ConditionTrue 1)) = None" by code_simp
  ultimately show ?thesis
    using dependency_gate [of 5 sample_semver "\<lparr>skipVersionChecks = False, namespace = ''gf''\<rparr>" False KindNotFound ?p 1
        "sample_condition ''Ready'' ConditionTrue 1", OF surjective_pairing] by auto
qed

text \<open>
  The driver check of an unhealthy node changes at most the reason and the message, does so
  exactly when the node could be read and its driver label is missing, unreadable or below the
  floor, and leaves a healthy node's condition alone.
\<close>

theorem driver_check_refines:
  assumes "GpuDriver_Check cancelled reply condition = (condition', failed)"
  shows "nc_Status condition' = nc_Status condition \<and> nc_Type condition' = nc_Type condition \<and>
    (nc_Status condition \<noteq> ConditionFalse \<longrightarrow> condition' = condition \<and> \<not> failed) \<and>
    (nc_Status condition = ConditionFalse \<longrightarrow> (case reply of
       None \<Rightarrow> condition' = condition \<and> failed = cancelled
     | Some node \<Rightarrow> \<not> failed \<and>
         (if \<exists>m. ParseDriverMajorLabel (or_empty (node_labels node NVIDIADriverMajorLabel)) = Inr m \<and> minGPUDriverMajor \<le> m
          then condition' = condition
          else nc_Reason condition' \<in> {''GPUDriverVersionMissing'', ''GPUDriverVersionInvalid'', ''GPUDriverVersionUnsupported''})))"
proof -
  have trim: "ParseDriverMajorLabel (TrimSpace v) = ParseDriverMajorLabel v" for v
    by (simp add: ParseDriverMajorLabel_def)
  have empty: "ParseDriverMajorLabel v \<noteq> Inr m" if "TrimSpace v = []" for v m
    using that by (simp add: ParseDriverMajorLabel_def parsePositiveInt_def)
  show ?thesis
    using assms empty
    by (auto simp: GpuDriver_Check_def gpuDriverFailureReason_def Let_def trim split: if_splits option.splits sum.splits)
qed

theorem driver_check_refines_witness:
  "nc_Reason (fst (GpuDriver_Check False (Some sample_node) (sample_node_condition ConditionFalse ''PodNotReady'')))
     \<in> {''GPUDriverVersionMissing'', ''GPUDriverVersionInvalid'', ''GPUDriverVersionUnsupported''}"
  using driver_check_refines [of False "Some sample_node" "sample_node_condition ConditionFalse ''PodNotReady''", OF surjective_pairing]
  by (simp add: sample_node_condition_def sample_node_def or_empty_def ParseDriverMajorLabel_def parsePositiveInt_def)

end
