(* ===== verification/Daemonset.thy ===== *)
theory Daemonset
  imports Daemonmgr Goflag
begin

text \<open>
  DaemonSets as the operator builds them: the parts of the Kubernetes objects it sets, the skeleton
  and helpers of \<^verbatim>\<open>daemonset_helpers.go\<close>, the custom resource's specification
  (\<^verbatim>\<open>api/v1alpha1/gpufractioningconfig_types.go\<close>), and \<^verbatim>\<open>ReconcileDaemon\<close> (reconciler.go) for any
  implementation of the interface \<^verbatim>\<open>ManagedDaemon\<close>, which is the locale of this theory.
\<close>

section \<open>Objects\<close>

datatype probe_handler = HTTPGet string int | TCPSocket int | Exec "string list"

record Probe =
  handler :: probe_handler
  InitialDelaySeconds :: int
  PeriodSeconds :: int
  FailureThreshold :: int

datatype env_source = Value string | FieldRef string

datatype Volume = HostPath string string "string option" | OtherVolume string

record VolumeMount =
  vm_Name :: string
  MountPath :: string
  ReadOnly :: bool

record ResourceRequirements =
  Requests :: "(string \<times> string) list"
  Limits :: "(string \<times> string) list"

record PodContainer =
  c_Name :: string
  Image :: string
  c_ImagePullPolicy :: string
  Privileged :: bool
  Args :: "string list"
  ReadinessProbe :: Probe
  LivenessProbe :: Probe
  Resources :: ResourceRequirements
  Env :: "(string \<times> env_source) list"
  Ports :: "(string \<times> int) list"
  VolumeMounts :: "VolumeMount list"

record Toleration =
  tol_Key :: string
  tol_Operator :: string
  tol_Value :: string
  tol_Effect :: string

record PodTemplate =
  t_Labels :: "string \<rightharpoonup> string"
  t_Annotations :: "string \<rightharpoonup> string"
  Affinity :: node_affinity
  t_NodeSelector :: "string \<rightharpoonup> string"
  t_Tolerations :: "Toleration list"
  HostPID :: bool
  t_ServiceAccountName :: string
  AutomountServiceAccountToken :: "bool option"
  t_RuntimeClassName :: "string option"
  TerminationGracePeriodSeconds :: "int option"
  Volumes :: "Volume list"
  Containers :: "PodContainer list"

record DaemonSetSpec =
  Selector :: "string \<rightharpoonup> string"
  UpdateStrategy :: string
  Template :: PodTemplate

record DaemonSet =
  ds_Name :: string
  ds_Namespace :: string
  ds_Labels :: "string \<rightharpoonup> string"
  Spec :: DaemonSetSpec

fun volume_name :: "Volume \<Rightarrow> string" where
  "volume_name (HostPath n p t) = n"
| "volume_name (OtherVolume n) = n"

section \<open>The custom resource's specification\<close>

record FractioningAgentSpec =
  fa_AnnotationPrefix :: string
  fa_FailOpen :: "bool option"
  fa_NRISocketPath :: string
  fa_RetroactiveEnforcement :: bool
  fa_CRISocketPath :: string
  fa_LogLevel :: string
  fa_RetryInterval :: "int option"
  fa_StableThreshold :: "int option"
  fa_MaxRetries :: "int option"
  fa_ReadinessPort :: "int option"

record MetricNamesSpec =
  mn_GPUMemoryUsedBytes :: string
  mn_GPUSMUtilizationPercent :: string
  mn_GPUSMUtilizationPercentNormalized :: string

record MetricsAgentSpec =
  ma_Enabled :: bool
  ma_LogLevel :: string
  ma_Address :: string
  ma_Path :: string
  ma_Volumes :: "Volume list"
  ma_VolumeMounts :: "VolumeMount list"
  ma_MetricNames :: "MetricNamesSpec option"

record MpsDaemonSpec =
  md_LogLevel :: string
  md_Backoff :: "int option"
  md_MaxRetries :: "int option"
  md_StableThreshold :: "int option"
  md_GracefulStopDelay :: "int option"

record GpuFractioningConfigSpec =
  s_NodeSelector :: "string \<rightharpoonup> string"
  s_Tolerations :: "Toleration list"
  s_RuntimeClassName :: "string option"
  FractioningAgent :: "FractioningAgentSpec option"
  MetricsAgent :: "MetricsAgentSpec option"
  MpsDaemon :: "MpsDaemonSpec option"

section \<open>Skeleton and helpers\<close>

definition LabelManagedBy :: string where "LabelManagedBy = ''app.kubernetes.io/managed-by''"
definition LabelComponent :: string where "LabelComponent = ''app.kubernetes.io/component''"
definition ManagedByValue :: string where "ManagedByValue = ''gpu-fractioning''"
definition daemonSetPrefix :: string where "daemonSetPrefix = ''gpu-fractioning''"

definition daemon_labels :: "string \<Rightarrow> (string \<rightharpoonup> string)" where
  "daemon_labels component = [LabelManagedBy \<mapsto> ManagedByValue, LabelComponent \<mapsto> component]"

definition BaseDaemonSet :: "string \<Rightarrow> string \<Rightarrow> DaemonSet" where
  "BaseDaemonSet component ns =
    \<lparr>ds_Name = daemonSetPrefix @ ''-'' @ component, ds_Namespace = ns, ds_Labels = daemon_labels component,
     Spec = \<lparr>Selector = daemon_labels component, UpdateStrategy = ''RollingUpdate'',
       Template = \<lparr>t_Labels = daemon_labels component, t_Annotations = Map.empty, Affinity = driverUpgradeNodeAffinity,
         t_NodeSelector = Map.empty, t_Tolerations = [], HostPID = False, t_ServiceAccountName = [],
         AutomountServiceAccountToken = None, t_RuntimeClassName = None, TerminationGracePeriodSeconds = None,
         Volumes = [], Containers = []\<rparr>\<rparr>\<rparr>"

definition daemonEphemeralStorageRequest :: string where "daemonEphemeralStorageRequest = ''100Mi''"

definition DaemonResources :: "string \<Rightarrow> string \<Rightarrow> string \<Rightarrow> ResourceRequirements" where
  "DaemonResources cpuRequest memRequest memLimit =
    \<lparr>Requests = [(''cpu'', cpuRequest), (''memory'', memRequest), (''ephemeral-storage'', daemonEphemeralStorageRequest)],
     Limits = [(''memory'', memLimit)]\<rparr>"

definition fipsOnlyGODEBUG :: string where "fipsOnlyGODEBUG = ''fips140=only,tlsmlkem=0''"

definition FIPSOnlyEnv :: "bool \<Rightarrow> (string \<times> env_source) list" where
  "FIPSOnlyEnv fipsOnly = (if \<not> fipsOnly then [] else [(''GODEBUG'', Value fipsOnlyGODEBUG)])"

text \<open>The options of a build; an image that is not configured is the empty image.\<close>

record BuildOptions =
  o_Namespace :: string
  o_NodeSelector :: "string \<rightharpoonup> string"
  o_Tolerations :: "Toleration list"
  o_ServiceAccountName :: string
  o_RuntimeClassName :: "string option"
  DefaultImages :: "string \<Rightarrow> ImageSpec"
  FIPSOnly :: bool
  o_NRIPluginEnabled :: bool

text \<open>Updating the pod template of a DaemonSet.\<close>

definition map_template :: "(PodTemplate \<Rightarrow> PodTemplate) \<Rightarrow> DaemonSet \<Rightarrow> DaemonSet" where
  "map_template f ds = ds\<lparr>Spec := (Spec ds)\<lparr>Template := f (Template (Spec ds))\<rparr>\<rparr>"

lemma map_template_simps [simp]:
  "Template (Spec (map_template f ds)) = f (Template (Spec ds))"
  "ds_Name (map_template f ds) = ds_Name ds" "ds_Namespace (map_template f ds) = ds_Namespace ds"
  "ds_Labels (map_template f ds) = ds_Labels ds" "Selector (Spec (map_template f ds)) = Selector (Spec ds)"
  "UpdateStrategy (Spec (map_template f ds)) = UpdateStrategy (Spec ds)"
  by (simp_all add: map_template_def)

section \<open>Reconciling one daemon\<close>

text \<open>
  The cluster's DaemonSets: what is stored under a namespace and name, with its controller and the
  counters of its status. The API server may fail the create-or-update or the read after it; a new
  object has no counters, and the server keeps those of an existing one.
\<close>

record stored_ds =
  st_Labels :: "string \<rightharpoonup> string"
  st_Spec :: DaemonSetSpec
  st_Owner :: "string option"
  DesiredNumberScheduled :: int
  NumberReady :: int

type_synonym ds_key = "string \<times> string"
type_synonym cluster_ds = "ds_key \<rightharpoonup> stored_ds"

record ds_api =
  upsert_fails :: "ds_key \<Rightarrow> bool"
  ds_get_fails :: "ds_key \<Rightarrow> bool"

definition daemonSetHealth :: "stored_ds \<Rightarrow> DaemonHealth" where
  "daemonSetHealth ds = \<lparr>DesiredNodes = DesiredNumberScheduled ds, ReadyNodes = NumberReady ds\<rparr>"

text \<open>An object controlled by another owner is refused, as setting the controller reference does.\<close>

definition ReconcileDaemon ::
  "ds_api \<Rightarrow> string \<Rightarrow> (BuildOptions \<Rightarrow> DaemonSet) \<Rightarrow> BuildOptions \<Rightarrow> cluster_ds \<Rightarrow> cluster_ds \<times> (string, DaemonHealth) result" where
  "ReconcileDaemon api owner build opts cluster =
    (let desired = build opts; key = (ds_Namespace desired, ds_Name desired);
         foreign_owner = (case cluster key of None \<Rightarrow> False | Some old \<Rightarrow> st_Owner old \<notin> {None, Some owner})
     in if foreign_owner \<or> upsert_fails api key
        then (cluster, Inl (''create-or-update DaemonSet '' @ fst key @ ''/'' @ snd key))
        else let new = \<lparr>st_Labels = ds_Labels desired, st_Spec = Spec desired, st_Owner = Some owner,
                   DesiredNumberScheduled = (case cluster key of None \<Rightarrow> 0 | Some old \<Rightarrow> DesiredNumberScheduled old),
                   NumberReady = (case cluster key of None \<Rightarrow> 0 | Some old \<Rightarrow> NumberReady old)\<rparr>;
                 cluster' = cluster(key \<mapsto> new)
             in if ds_get_fails api key
                then (cluster', Inl (''fetching DaemonSet status for '' @ fst key @ ''/'' @ snd key))
                else (cluster', Inr (daemonSetHealth new)))"

section \<open>The interface of managed daemons\<close>

text \<open>
  What the reconciler relies on: the DaemonSet is in the wanted namespace under the daemon's name
  and labelled as managed, its pods carry the selector's labels, and they are scheduled by the
  upgrade affinity and the daemon node selector.
\<close>

locale managed_daemon =
  fixes Name :: string
    and BuildDaemonSet :: "BuildOptions \<Rightarrow> DaemonSet"
  assumes build_key: "ds_Namespace (BuildDaemonSet opts) = o_Namespace opts"
      "ds_Name (BuildDaemonSet opts) = daemonSetPrefix @ ''-'' @ Name"
    and build_labels: "ds_Labels (BuildDaemonSet opts) = daemon_labels Name"
      "t_Labels (Template (Spec (BuildDaemonSet opts))) = Selector (Spec (BuildDaemonSet opts))"
      "Selector (Spec (BuildDaemonSet opts)) = daemon_labels Name"
    and build_schedule: "Affinity (Template (Spec (BuildDaemonSet opts))) = driverUpgradeNodeAffinity"
      "t_NodeSelector (Template (Spec (BuildDaemonSet opts))) = DaemonNodeSelector (o_NodeSelector opts)"
begin

abbreviation key :: "BuildOptions \<Rightarrow> ds_key" where
  "key opts \<equiv> (o_Namespace opts, daemonSetPrefix @ ''-'' @ Name)"

lemma reconcile_frame:
  assumes "ReconcileDaemon api owner BuildDaemonSet opts cluster = (cluster', r)" "k \<noteq> key opts"
  shows "cluster' k = cluster k"
  using assms by (auto simp: ReconcileDaemon_def Let_def build_key split: if_splits)

lemma reconcile_success:
  assumes "ReconcileDaemon api owner BuildDaemonSet opts cluster = (cluster', Inr h)"
  shows "\<exists>ds. cluster' (key opts) = Some ds \<and> st_Spec ds = Spec (BuildDaemonSet opts) \<and>
    st_Labels ds = daemon_labels Name \<and> st_Owner ds = Some owner \<and> h = daemonSetHealth ds"
  using assms by (auto simp: ReconcileDaemon_def Let_def build_key build_labels split: if_splits)

text \<open>Reconciling again with the same options changes nothing.\<close>

lemma reconcile_idempotent:
  assumes "ReconcileDaemon api owner BuildDaemonSet opts cluster = (cluster', Inr h)"
  shows "ReconcileDaemon api owner BuildDaemonSet opts cluster' = (cluster', Inr h)"
  using assms by (auto simp: ReconcileDaemon_def Let_def build_key daemonSetHealth_def split: if_splits)

text \<open>Never on a node in a driver upgrade, and only on nodes open to GPU clients.\<close>

lemma scheduled_nodes:
  assumes "selector_semantics meets"
    and "schedulable meets (Affinity (Template (Spec (BuildDaemonSet opts)))) labels"
    and "t_NodeSelector (Template (Spec (BuildDaemonSet opts))) \<subseteq>\<^sub>m labels"
  shows "labels DriverUpgradeStateLabel \<in> {None, Some DriverUpgradeStateDone} \<and>
    labels GPUDeployClientLabel = Some GPUDeployClientValue"
proof -
  have "labels GPUDeployClientLabel = Some GPUDeployClientValue"
    using assms(3) by (auto simp: build_schedule DaemonNodeSelector_def map_le_def)
  then show ?thesis
    using assms(1,2) by (cases "labels DriverUpgradeStateLabel")
      (auto simp: build_schedule selector_semantics_def schedulable_def driverUpgradeNodeAffinity_def)
qed

end

text \<open>The environment of a container: its variables over those of the image.\<close>

definition container_getenv :: "PodContainer \<Rightarrow> (string \<Rightarrow> string) \<Rightarrow> getenv \<Rightarrow> getenv" where
  "container_getenv c field base k =
    (case map_of (Env c) k of None \<Rightarrow> base k | Some (Value v) \<Rightarrow> v | Some (FieldRef p) \<Rightarrow> field p)"

definition sample_options :: BuildOptions where
  "sample_options = \<lparr>o_Namespace = ''gf'', o_NodeSelector = Map.empty, o_Tolerations = [], o_ServiceAccountName = ''sa'',
     o_RuntimeClassName = None, DefaultImages = (\<lambda>_. \<lparr>Repository = ''r'', Tag = ''t'', ImagePullPolicy = []\<rparr>),
     FIPSOnly = True, o_NRIPluginEnabled = True\<rparr>"

end
