(* ===== verification/Mpsd_Builder.thy ===== *)
theory Mpsd_Builder
  imports Daemonset Mpsd
begin

text \<open>
  The operator's builder of the mpsd DaemonSet
  (\<^verbatim>\<open>operator/internal/fractioningmanager/components/mpsd/mpsd.go\<close>), the flags of mpsd read from the
  arguments and variables it is given, and what of the custom resource reaches the supervisor.
\<close>

section \<open>The builder\<close>

definition mpsd_daemonName :: string where "mpsd_daemonName = ''mpsd''"
definition mpsd_defaultMPSPipeDir :: string where "mpsd_defaultMPSPipeDir = ''/run/nvidia-mps''"
definition defaultMPSLogDir :: string where "defaultMPSLogDir = ''/var/log/nvidia-mps''"
definition defaultGracefulStopDelay :: int where "defaultGracefulStopDelay = 60 * 10 ^ 9"
definition terminationGraceBuffer :: int where "terminationGraceBuffer = 15 * 10 ^ 9"

record mpsd_daemon =
  mpsd_spec :: "MpsDaemonSpec option"
  auditLog :: bool
  md_supportSMSharing :: bool

definition NewMpsdDaemon :: "MpsDaemonSpec option \<Rightarrow> bool \<Rightarrow> bool \<Rightarrow> mpsd_daemon" where
  "NewMpsdDaemon spec al sm = \<lparr>mpsd_spec = spec, auditLog = al, md_supportSMSharing = sm\<rparr>"

text \<open>
  Whole seconds, rounded toward zero. The code goes through a float64, which is exact here for
  durations below 2 to the 22 seconds.
\<close>

definition whole_seconds :: "int \<Rightarrow> int" where
  "whole_seconds d = (if d < 0 then - ((- d) div 10 ^ 9) else d div 10 ^ 9)"

definition terminationGraceSeconds :: "mpsd_daemon \<Rightarrow> int" where
  "terminationGraceSeconds d =
    (let grace = (case mpsd_spec d of
           None \<Rightarrow> defaultGracefulStopDelay
         | Some spec \<Rightarrow> (case md_GracefulStopDelay spec of None \<Rightarrow> defaultGracefulStopDelay | Some g \<Rightarrow> g))
     in whole_seconds (wrap64 (grace + terminationGraceBuffer)))"

definition mpsd_buildArgs :: "texts \<Rightarrow> mpsd_daemon \<Rightarrow> string list" where
  "mpsd_buildArgs t d =
    (case mpsd_spec d of
       None \<Rightarrow> []
     | Some spec \<Rightarrow>
         opt_arg ''log-level'' (nonempty (md_LogLevel spec)) @
         opt_arg ''backoff'' (map_option (Duration_String t) (md_Backoff spec)) @
         opt_arg ''max-retries'' (map_option Itoa (md_MaxRetries spec)) @
         opt_arg ''stable-threshold'' (map_option (Duration_String t) (md_StableThreshold spec)) @
         opt_arg ''graceful-stop-delay'' (map_option (Duration_String t) (md_GracefulStopDelay spec)))"

definition control_socket_test :: "string list" where
  "control_socket_test = [''test'', ''-S'', mpsd_defaultMPSPipeDir @ ''/control'']"

definition mpsd_buildContainer :: "texts \<Rightarrow> mpsd_daemon \<Rightarrow> ImageSpec \<Rightarrow> PodContainer \<times> Volume list" where
  "mpsd_buildContainer t d img =
    (\<lparr>c_Name = mpsd_daemonName, Image = FullImage img, c_ImagePullPolicy = PullPolicy img, Privileged = True,
      Args = mpsd_buildArgs t d,
      ReadinessProbe = \<lparr>handler = Exec control_socket_test, InitialDelaySeconds = 5, PeriodSeconds = 10, FailureThreshold = 0\<rparr>,
      LivenessProbe = \<lparr>handler = Exec control_socket_test, InitialDelaySeconds = 60, PeriodSeconds = 30, FailureThreshold = 6\<rparr>,
      Resources = DaemonResources ''50m'' ''64Mi'' ''256Mi'', Env = [], Ports = [],
      VolumeMounts = [\<lparr>vm_Name = ''mps-pipe'', MountPath = mpsd_defaultMPSPipeDir, ReadOnly = False\<rparr>,
                      \<lparr>vm_Name = ''mps-log'', MountPath = defaultMPSLogDir, ReadOnly = False\<rparr>]\<rparr>,
     [HostPath ''mps-pipe'' mpsd_defaultMPSPipeDir (Some ''DirectoryOrCreate''),
      HostPath ''mps-log'' defaultMPSLogDir (Some ''DirectoryOrCreate'')])"

definition mpsd_env :: "mpsd_daemon \<Rightarrow> bool \<Rightarrow> (string \<times> env_source) list" where
  "mpsd_env d fips =
    [(''NODE_NAME'', FieldRef ''spec.nodeName''), (''NVIDIA_VISIBLE_DEVICES'', Value ''all''),
     (''NVIDIA_DRIVER_CAPABILITIES'', Value ''compute,utility''),
     (''MPS_MEMACCT_AUDIT_LOG'', Value (FormatBool (auditLog d))),
     (''MPS_SUPPORT_SM_SHARING'', Value (FormatBool (md_supportSMSharing d)))] @ FIPSOnlyEnv fips"

definition mpsd_BuildDaemonSet :: "texts \<Rightarrow> mpsd_daemon \<Rightarrow> BuildOptions \<Rightarrow> DaemonSet" where
  "mpsd_BuildDaemonSet t d opts =
    (case mpsd_buildContainer t d (DefaultImages opts mpsd_daemonName) of
       (container, volumes) \<Rightarrow>
         map_template (\<lambda>p. p\<lparr>t_NodeSelector := DaemonNodeSelector (o_NodeSelector opts),
             t_Tolerations := o_Tolerations opts, t_ServiceAccountName := o_ServiceAccountName opts,
             t_RuntimeClassName := o_RuntimeClassName opts,
             t_Annotations := SetManagementCDIDevice (t_Annotations p) mpsd_daemonName (o_NRIPluginEnabled opts),
             HostPID := True, TerminationGracePeriodSeconds := Some (terminationGraceSeconds d),
             Containers := Containers p @ [container\<lparr>Env := Env container @ mpsd_env d (FIPSOnly opts)\<rparr>],
             Volumes := Volumes p @ volumes\<rparr>)
           (BaseDaemonSet mpsd_daemonName (o_Namespace opts)))"

interpretation mpsd: managed_daemon mpsd_daemonName "mpsd_BuildDaemonSet t d" for t d
  by unfold_locales (simp_all add: mpsd_BuildDaemonSet_def mpsd_buildContainer_def BaseDaemonSet_def)

section \<open>From the custom resource to the supervisor\<close>

definition mpsd_container :: "texts \<Rightarrow> mpsd_daemon \<Rightarrow> BuildOptions \<Rightarrow> PodContainer" where
  "mpsd_container t d opts = hd (Containers (Template (Spec (mpsd_BuildDaemonSet t d opts))))"

lemma mpsd_container_simps:
  "Containers (Template (Spec (mpsd_BuildDaemonSet t d opts))) = [mpsd_container t d opts]"
  "Args (mpsd_container t d opts) = mpsd_buildArgs t d"
  "Env (mpsd_container t d opts) = mpsd_env d (FIPSOnly opts)"
  by (simp_all add: mpsd_container_def mpsd_BuildDaemonSet_def mpsd_buildContainer_def BaseDaemonSet_def)

definition md_int64 :: "MpsDaemonSpec \<Rightarrow> bool" where
  "md_int64 spec \<longleftrightarrow> int64_opt (md_Backoff spec) \<and> int64_opt (md_MaxRetries spec) \<and>
    int64_opt (md_StableThreshold spec) \<and> int64_opt (md_GracefulStopDelay spec)"

text \<open>The flags with the values of the custom resource put over them.\<close>

definition mpsd_overrides :: "MpsDaemonSpec \<Rightarrow> mpsd_flags \<Rightarrow> mpsd_flags" where
  "mpsd_overrides spec f = f\<lparr>
    mpsd_logLevel := given (nonempty (md_LogLevel spec)) (mpsd_logLevel f),
    mpsd_backoff := given (md_Backoff spec) (mpsd_backoff f),
    mpsd_maxRetries := given (md_MaxRetries spec) (mpsd_maxRetries f),
    mpsd_stableThreshold := given (md_StableThreshold spec) (mpsd_stableThreshold f),
    gracefulStopDelay := given (md_GracefulStopDelay spec) (gracefulStopDelay f)\<rparr>"

lemma mpsd_names:
  "plain_name ''log-level''" "plain_name ''backoff''" "plain_name ''max-retries''"
  "plain_name ''stable-threshold''" "plain_name ''graceful-stop-delay''"
  by (simp_all add: plain_name_def)

lemma mpsd_value_flags:
  "is_bool (mpsd_flag_set t) ''log-level'' = Some False" "is_bool (mpsd_flag_set t) ''backoff'' = Some False"
  "is_bool (mpsd_flag_set t) ''max-retries'' = Some False" "is_bool (mpsd_flag_set t) ''stable-threshold'' = Some False"
  "is_bool (mpsd_flag_set t) ''graceful-stop-delay'' = Some False"
  by (simp_all add: mpsd_flag_set_def)

lemma mpsd_set_opt:
  assumes "texts_ok t"
  shows "set_opt (mpsd_flag_set t) ''log-level'' (nonempty l) f =
      Some (f\<lparr>mpsd_logLevel := given (nonempty l) (mpsd_logLevel f)\<rparr>)"
    "int64_opt x \<Longrightarrow> set_opt (mpsd_flag_set t) ''backoff'' (map_option (Duration_String t) x) f =
      Some (f\<lparr>mpsd_backoff := given x (mpsd_backoff f)\<rparr>)"
    "int64_opt x \<Longrightarrow> set_opt (mpsd_flag_set t) ''max-retries'' (map_option Itoa x) f =
      Some (f\<lparr>mpsd_maxRetries := given x (mpsd_maxRetries f)\<rparr>)"
    "int64_opt x \<Longrightarrow> set_opt (mpsd_flag_set t) ''stable-threshold'' (map_option (Duration_String t) x) f =
      Some (f\<lparr>mpsd_stableThreshold := given x (mpsd_stableThreshold f)\<rparr>)"
    "int64_opt x \<Longrightarrow> set_opt (mpsd_flag_set t) ''graceful-stop-delay'' (map_option (Duration_String t) x) f =
      Some (f\<lparr>gracefulStopDelay := given x (gracefulStopDelay f)\<rparr>)"
  using assms by (cases x; simp add: set_opt_def nonempty_def mpsd_flag_set_def texts_ok_def int64_opt_def)+

lemma mpsd_args_parse:
  assumes "texts_ok t" "mpsd_spec d = Some spec" "md_int64 spec"
  shows "flag_parse (mpsd_flag_set t) (mpsd_buildArgs t d) f = Inr (mpsd_overrides spec f)"
proof -
  note step = parse_opt_arg [OF mpsd_names(1) mpsd_value_flags(1) mpsd_set_opt(1) [OF assms(1)]]
    parse_opt_arg [OF mpsd_names(2) mpsd_value_flags(2) mpsd_set_opt(2) [OF assms(1)]]
    parse_opt_arg [OF mpsd_names(3) mpsd_value_flags(3) mpsd_set_opt(3) [OF assms(1)]]
    parse_opt_arg [OF mpsd_names(4) mpsd_value_flags(4) mpsd_set_opt(4) [OF assms(1)]]
    parse_opt_arg [OF mpsd_names(5) mpsd_value_flags(5) mpsd_set_opt(5) [OF assms(1)], where rest = "[]", simplified append_Nil2]
  show ?thesis
    using assms(2,3) by (simp add: mpsd_buildArgs_def md_int64_def step mpsd_overrides_def)
qed

text \<open>The grace period of the pod, for stop delays up to a million seconds.\<close>

lemma grace_covers:
  assumes "0 \<le> g" "g \<le> 10 ^ 15"
  shows "g + 14 * 10 ^ 9 < whole_seconds (wrap64 (g + terminationGraceBuffer)) * 10 ^ 9"
proof -
  have "wrap64 (g + terminationGraceBuffer) = g + terminationGraceBuffer"
    using assms by (intro wrap64_id) (simp add: terminationGraceBuffer_def in_int64_def min_int64_def max_int64_def)
  then show ?thesis
    using assms by (simp add: whole_seconds_def terminationGraceBuffer_def)
qed

lemma mpsd_parse_built:
  assumes "texts_ok t" "case mpsd_spec d of None \<Rightarrow> True | Some spec \<Rightarrow> md_int64 spec"
  shows "mpsd_parseFlags t ge (mpsd_buildArgs t d) =
    Inr (case mpsd_spec d of None \<Rightarrow> mpsd_flag_defaults (parse_duration t) ge
         | Some spec \<Rightarrow> mpsd_overrides spec (mpsd_flag_defaults (parse_duration t) ge))"
proof (cases "mpsd_spec d")
  case None
  then show ?thesis by (simp add: mpsd_parseFlags_def mpsd_buildArgs_def)
next
  case (Some spec)
  with assms show ?thesis by (simp add: mpsd_parseFlags_def mpsd_args_parse)
qed

lemma mpsd_container_flags:
  assumes "texts_ok t" and "case mpsd_spec d of None \<Rightarrow> True | Some spec \<Rightarrow> md_int64 spec"
    and "ge = container_getenv (mpsd_container t d opts) field (\<lambda>_. [])"
  shows "\<exists>f. mpsd_parseFlags t ge (Args (mpsd_container t d opts)) = Inr f \<and>
    Multiuser (mpsd_supervisor f) = md_supportSMSharing d \<and> memacctAuditLog f = auditLog d \<and>
    Backoff (mpsd_supervisor f) = given (Option.bind (mpsd_spec d) md_Backoff) DefaultBackoff \<and>
    MaxRetries (mpsd_supervisor f) = given (Option.bind (mpsd_spec d) md_MaxRetries) DefaultMaxRetries \<and>
    StableThreshold (mpsd_supervisor f) = given (Option.bind (mpsd_spec d) md_StableThreshold) DefaultStableThreshold \<and>
    GracefulStopDelay (mpsd_supervisor f) = given (Option.bind (mpsd_spec d) md_GracefulStopDelay) DefaultGracefulStopDelay \<and>
    PipeDir (mpsd_supervisor f) = mpsd_defaultMPSPipeDir \<and>
    controlPort f = DefaultMPSControlPort \<and> configPath f = DefaultMPSConfigPath \<and>
    mpsd_logLevel f = given (Option.bind (mpsd_spec d) (\<lambda>s. nonempty (md_LogLevel s))) ''info'' \<and>
    mpsBinary f = DefaultMPSBinary \<and> logDir f = defaultMPSLogDir \<and>
    (0 \<le> GracefulStopDelay (mpsd_supervisor f) \<and> GracefulStopDelay (mpsd_supervisor f) \<le> 10 ^ 15 \<longrightarrow>
       GracefulStopDelay (mpsd_supervisor f) + 14 * 10 ^ 9 < terminationGraceSeconds d * 10 ^ 9)"
proof -
  let ?def = "mpsd_flag_defaults (parse_duration t) ge"
  define f where "f = (case mpsd_spec d of None \<Rightarrow> ?def | Some spec \<Rightarrow> mpsd_overrides spec ?def)"
  have parsed: "mpsd_parseFlags t ge (Args (mpsd_container t d opts)) = Inr f"
    using mpsd_parse_built [OF assms(1,2)] by (simp add: mpsd_container_simps f_def)
  have env: "ge k = (if k = ''NODE_NAME'' then field ''spec.nodeName'' else case map_of (mpsd_env d (FIPSOnly opts)) k of
      Some (Value v) \<Rightarrow> v | _ \<Rightarrow> [])" for k
    unfolding assms(3) container_getenv_def mpsd_container_simps
    by (simp add: mpsd_env_def FIPSOnlyEnv_def split: option.splits env_source.splits)
  have bools: "env_Bool ge ''MPS_MEMACCT_AUDIT_LOG'' b = auditLog d" "env_Bool ge ''MPS_SUPPORT_SM_SHARING'' b = md_supportSMSharing d" for b
    by (simp_all add: env_Bool_def env mpsd_env_def FormatBool_def ParseBool_def)
  have unset: "ge k = []" if "k \<in> {''MPS_RESTART_BACKOFF'', ''MPS_MAX_RETRIES'', ''MPS_STABLE_THRESHOLD'',
      ''MPS_GRACEFUL_STOP_DELAY'', ''CUDA_MPS_PIPE_DIRECTORY'', ''MPS_CONTROL_PORT'', ''MPS_CONFIG_PATH'',
      ''LOG_LEVEL'', ''MPS_CONTROL_BINARY'', ''CUDA_MPS_LOG_DIRECTORY''}" for k
    using that by (auto simp: env mpsd_env_def FIPSOnlyEnv_def)
  have defaults: "mpsd_backoff ?def = DefaultBackoff" "mpsd_maxRetries ?def = DefaultMaxRetries"
      "mpsd_stableThreshold ?def = DefaultStableThreshold" "gracefulStopDelay ?def = DefaultGracefulStopDelay"
      "pipeDir ?def = DefaultMPSPipeDirectory" "controlPort ?def = DefaultMPSControlPort" "configPath ?def = DefaultMPSConfigPath"
      "mpsd_logLevel ?def = ''info''" "mpsBinary ?def = DefaultMPSBinary" "logDir ?def = DefaultLogDir" "memacctAuditLog ?def = auditLog d" "mpsd_supportSMSharing ?def = md_supportSMSharing d"
    using unset by (simp_all add: mpsd_flag_defaults_def env_Duration_def env_Int_def env_String_def bools)
  have delay: "gracefulStopDelay f = given (Option.bind (mpsd_spec d) md_GracefulStopDelay) DefaultGracefulStopDelay"
    by (auto simp: f_def mpsd_overrides_def defaults split: option.splits)
  have grace: "terminationGraceSeconds d = whole_seconds (wrap64 (gracefulStopDelay f + terminationGraceBuffer))"
    unfolding delay by (auto simp: terminationGraceSeconds_def defaultGracefulStopDelay_def DefaultGracefulStopDelay_def
        given_def Let_def split: option.splits bind_splits)
  show ?thesis
    using parsed delay grace grace_covers [of "gracefulStopDelay f"]
    by (intro exI [of _ f]) (auto simp: mpsd_supervisor_def f_def mpsd_overrides_def defaults mpsd_defaultMPSPipeDir_def
        DefaultMPSPipeDirectory_def defaultMPSLogDir_def DefaultLogDir_def split: option.splits)
qed

text \<open>
  C36: the mpsd container the operator builds starts a supervisor with the configured values, in an image
  that sets none of the variables. The arguments are accepted; the two installation switches
  arrive; the log level, the backoff, the retry budget, the stable threshold and the stop delay are those
  of the custom resource where it gives them, and the defaults of the process (info, 5 s, 5, 5 min, 60 s)
  where it does not. For the retry budget that default is 5, and not the 0 (unlimited) that the
  documentation of the field states. The binary, the control port and the configuration path are the
  built-in ones, and the pipe and log directories are mounted. The pod's termination grace
  period exceeds the supervisor's stop delay by more than 14 seconds, for a delay that is not negative
  and at most 10^15 nanoseconds.
\<close>

theorem mpsd_configuration_reaches:
  assumes "texts_ok t" and "case mpsd_spec d of None \<Rightarrow> True | Some spec \<Rightarrow> md_int64 spec"
    and "ge = container_getenv (mpsd_container t d opts) field (\<lambda>_. [])"
  shows "\<exists>f. mpsd_parseFlags t ge (Args (mpsd_container t d opts)) = Inr f \<and>
    Multiuser (mpsd_supervisor f) = md_supportSMSharing d \<and> memacctAuditLog f = auditLog d \<and>
    mpsd_logLevel f = given (Option.bind (mpsd_spec d) (\<lambda>s. nonempty (md_LogLevel s))) ''info'' \<and>
    Backoff (mpsd_supervisor f) = given (Option.bind (mpsd_spec d) md_Backoff) (5 * 10 ^ 9) \<and>
    MaxRetries (mpsd_supervisor f) = given (Option.bind (mpsd_spec d) md_MaxRetries) 5 \<and>
    StableThreshold (mpsd_supervisor f) = given (Option.bind (mpsd_spec d) md_StableThreshold) (5 * 60 * 10 ^ 9) \<and>
    GracefulStopDelay (mpsd_supervisor f) = given (Option.bind (mpsd_spec d) md_GracefulStopDelay) (60 * 10 ^ 9) \<and>
    MPSBinary (mpsd_supervisor f) = ''/usr/bin/nvidia-cuda-mps-control'' \<and> ControlPort (mpsd_supervisor f) = ''3'' \<and>
    ConfigPath (mpsd_supervisor f) = ''/etc/nvidia-mps/mps-control.toml'' \<and>
    PipeDir (mpsd_supervisor f) = mpsd_defaultMPSPipeDir \<and>
    {PipeDir (mpsd_supervisor f), LogDir (mpsd_supervisor f)} \<subseteq> MountPath ` set (VolumeMounts (mpsd_container t d opts)) \<and>
    (0 \<le> GracefulStopDelay (mpsd_supervisor f) \<and> GracefulStopDelay (mpsd_supervisor f) \<le> 10 ^ 15 \<longrightarrow>
       GracefulStopDelay (mpsd_supervisor f) + 14 * 10 ^ 9 < terminationGraceSeconds d * 10 ^ 9)"
proof -
  obtain f where f: "mpsd_parseFlags t ge (Args (mpsd_container t d opts)) = Inr f"
    "Multiuser (mpsd_supervisor f) = md_supportSMSharing d" "memacctAuditLog f = auditLog d"
    "Backoff (mpsd_supervisor f) = given (Option.bind (mpsd_spec d) md_Backoff) DefaultBackoff"
    "MaxRetries (mpsd_supervisor f) = given (Option.bind (mpsd_spec d) md_MaxRetries) DefaultMaxRetries"
    "StableThreshold (mpsd_supervisor f) = given (Option.bind (mpsd_spec d) md_StableThreshold) DefaultStableThreshold"
    "GracefulStopDelay (mpsd_supervisor f) = given (Option.bind (mpsd_spec d) md_GracefulStopDelay) DefaultGracefulStopDelay"
    "PipeDir (mpsd_supervisor f) = mpsd_defaultMPSPipeDir" "controlPort f = DefaultMPSControlPort" "configPath f = DefaultMPSConfigPath"
    "mpsd_logLevel f = given (Option.bind (mpsd_spec d) (\<lambda>s. nonempty (md_LogLevel s))) ''info''"
    "mpsBinary f = DefaultMPSBinary" "logDir f = defaultMPSLogDir"
    "0 \<le> GracefulStopDelay (mpsd_supervisor f) \<and> GracefulStopDelay (mpsd_supervisor f) \<le> 10 ^ 15 \<longrightarrow>
       GracefulStopDelay (mpsd_supervisor f) + 14 * 10 ^ 9 < terminationGraceSeconds d * 10 ^ 9"
    using mpsd_container_flags [OF assms] by (elim exE conjE)
  have sup: "MPSBinary (mpsd_supervisor f) = mpsBinary f" "ControlPort (mpsd_supervisor f) = controlPort f"
    "ConfigPath (mpsd_supervisor f) = configPath f" "LogDir (mpsd_supervisor f) = logDir f"
    by (simp_all add: mpsd_supervisor_def)
  have mounts: "MountPath ` set (VolumeMounts (mpsd_container t d opts)) = {mpsd_defaultMPSPipeDir, defaultMPSLogDir}"
    by (simp add: mpsd_container_def mpsd_BuildDaemonSet_def mpsd_buildContainer_def BaseDaemonSet_def)
  show ?thesis
    by (rule exI [of _ f], intro conjI)
      (simp_all only: f sup mounts DefaultBackoff_def DefaultMaxRetries_def DefaultStableThreshold_def DefaultGracefulStopDelay_def
        DefaultMPSBinary_def DefaultMPSControlPort_def DefaultMPSConfigPath_def insert_commute subset_refl,
       use f(14) in \<open>simp add: f(7) DefaultGracefulStopDelay_def\<close>)
qed

text \<open>A resource that gives the log level and the stop delay, and leaves the retry budget to its default.\<close>

theorem mpsd_configuration_reaches_witness:
  "let d = NewMpsdDaemon (Some \<lparr>md_LogLevel = ''debug'', md_Backoff = None, md_MaxRetries = None, md_StableThreshold = None,
       md_GracefulStopDelay = Some 90000000000\<rparr>) True False;
     c = mpsd_container sample_texts d sample_options
   in \<exists>f. mpsd_parseFlags sample_texts (container_getenv c (\<lambda>_. ''n'') (\<lambda>_. [])) (Args c) = Inr f \<and>
        mpsd_logLevel f = ''debug'' \<and> MaxRetries (mpsd_supervisor f) = 5 \<and> GracefulStopDelay (mpsd_supervisor f) = 90000000000 \<and>
        \<not> Multiuser (mpsd_supervisor f)"
  using mpsd_configuration_reaches [OF texts_ok_sample _ refl, of "NewMpsdDaemon (Some \<lparr>md_LogLevel = ''debug'', md_Backoff = None,
     md_MaxRetries = None, md_StableThreshold = None, md_GracefulStopDelay = Some 90000000000\<rparr>) True False" sample_options "\<lambda>_. ''n''"]
  by (auto simp: NewMpsdDaemon_def md_int64_def int64_opt_def in_int64_def min_int64_def max_int64_def nonempty_def Let_def)

end
