(* ===== verification/Fractiond_Builder.thy ===== *)
theory Fractiond_Builder
  imports Daemonset Fractiond_Run
begin

text \<open>
  The operator's builder of the fractiond DaemonSet with its metrics sidecar
  (\<^verbatim>\<open>operator/internal/fractioningmanager/components/fractiond/fractiond.go\<close>), the flags of fractiond
  (\<^verbatim>\<open>fractiond/cmd/flags.go\<close>), and what of the custom resource reaches the process.
\<close>

section \<open>The builder\<close>

definition fractiond_daemonName :: string where "fractiond_daemonName = ''fractiond''"
definition metricsdName :: string where "metricsdName = ''metricsd''"
definition fd_defaultMPSPipeDir :: string where "fd_defaultMPSPipeDir = ''/run/nvidia-mps''"
definition defaultNRISocketDir :: string where "defaultNRISocketDir = ''/var/run/nri''"
definition op_defaultCRISocketPath :: string where "op_defaultCRISocketPath = ''/run/containerd/containerd.sock''"
definition containerPodMapDir :: string where "containerPodMapDir = ''/var/run/gpu-fractioning/map''"
definition metricsPort :: int where "metricsPort = 2112"
definition op_defaultReadinessPort :: int where "op_defaultReadinessPort = 8093"

record fractiond_daemon =
  fractioningSpec :: "FractioningAgentSpec option"
  metricsSpec :: "MetricsAgentSpec option"
  fd_supportSMSharing :: bool

definition NewFractiondDaemon :: "FractioningAgentSpec option \<Rightarrow> MetricsAgentSpec option \<Rightarrow> bool \<Rightarrow> fractiond_daemon" where
  "NewFractiondDaemon spec metrics sm = \<lparr>fractioningSpec = spec, metricsSpec = metrics, fd_supportSMSharing = sm\<rparr>"

definition metricsEnabled :: "fractiond_daemon \<Rightarrow> bool" where
  "metricsEnabled d = (case metricsSpec d of None \<Rightarrow> False | Some m \<Rightarrow> ma_Enabled m)"

text \<open>
  The port of \<^verbatim>\<open>net.SplitHostPort\<close>: \<open>None\<close> for an address without a port or with misplaced colons
  or brackets.
\<close>

definition last_colon :: "string \<Rightarrow> (string \<times> string) option" where
  "last_colon s = (if CHR '':'' \<in> set s
     then Some (rev (tl (dropWhile (\<lambda>c. c \<noteq> CHR '':'') (rev s))), rev (takeWhile (\<lambda>c. c \<noteq> CHR '':'') (rev s)))
     else None)"

definition SplitHostPort :: "string \<Rightarrow> string option" where
  "SplitHostPort s =
    (case last_colon s of
       None \<Rightarrow> None
     | Some (before, port) \<Rightarrow>
         if hd s = CHR ''[''
         then (let rest = tl (dropWhile (\<lambda>c. c \<noteq> CHR '']'') s) in
               if CHR '']'' \<notin> set s \<or> rest \<noteq> CHR '':'' # port then None
               else if CHR ''['' \<in> set (tl s) \<or> CHR '']'' \<in> set rest then None else Some port)
         else if CHR '':'' \<in> set before \<or> CHR ''['' \<in> set s \<or> CHR '']'' \<in> set s then None
         else Some port)"

definition metricsListenPort :: "fractiond_daemon \<Rightarrow> int" where
  "metricsListenPort d =
    (case metricsSpec d of
       None \<Rightarrow> metricsPort
     | Some m \<Rightarrow>
         if ma_Address m = [] then metricsPort
         else case SplitHostPort (ma_Address m) of
             None \<Rightarrow> metricsPort
           | Some port \<Rightarrow>
               if port = [] then metricsPort
               else case Atoi port of
                   Some p \<Rightarrow> if 0 < p \<and> p \<le> 65535 then p else metricsPort
                 | None \<Rightarrow> metricsPort)"

definition metricsAnnotationPort :: "fractiond_daemon \<Rightarrow> string" where
  "metricsAnnotationPort d = Itoa (metricsListenPort d)"

definition metricsAnnotationPath :: "fractiond_daemon \<Rightarrow> string" where
  "metricsAnnotationPath d = (case metricsSpec d of None \<Rightarrow> ''/metrics''
     | Some m \<Rightarrow> if ma_Path m \<noteq> [] then ma_Path m else ''/metrics'')"

definition fd_readinessPort :: "fractiond_daemon \<Rightarrow> int" where
  "fd_readinessPort d = given (Option.bind (fractioningSpec d) fa_ReadinessPort) op_defaultReadinessPort"

definition nriSocketDir :: "fractiond_daemon \<Rightarrow> string" where
  "nriSocketDir d = (case fractioningSpec d of None \<Rightarrow> defaultNRISocketDir
     | Some spec \<Rightarrow> if fa_NRISocketPath spec = [] then defaultNRISocketDir else filepath_Dir (fa_NRISocketPath spec))"

definition retroactiveEnforcementEnabled :: "fractiond_daemon \<Rightarrow> bool" where
  "retroactiveEnforcementEnabled d = (case fractioningSpec d of None \<Rightarrow> False | Some spec \<Rightarrow> fa_RetroactiveEnforcement spec)"

definition criSocketPath :: "fractiond_daemon \<Rightarrow> string" where
  "criSocketPath d = (case fractioningSpec d of None \<Rightarrow> op_defaultCRISocketPath
     | Some spec \<Rightarrow> if fa_CRISocketPath spec = [] then op_defaultCRISocketPath else fa_CRISocketPath spec)"

definition fractiond_buildArgs :: "texts \<Rightarrow> fractiond_daemon \<Rightarrow> BuildOptions \<Rightarrow> string list" where
  "fractiond_buildArgs t d opts =
    [bool_arg ''support-sm-sharing'' (fd_supportSMSharing d),
     bool_arg ''inject-cdi-device'' (o_NRIPluginEnabled opts)] @
    (case fractioningSpec d of
       None \<Rightarrow> []
     | Some spec \<Rightarrow>
         opt_arg ''annotation-prefix'' (nonempty (fa_AnnotationPrefix spec)) @
         (if fa_FailOpen spec = Some True then [''--fail-open''] else []) @
         opt_arg ''socket-path'' (nonempty (fa_NRISocketPath spec)) @
         opt_arg ''log-level'' (nonempty (fa_LogLevel spec)) @
         opt_arg ''retry-interval'' (map_option (Duration_String t) (fa_RetryInterval spec)) @
         opt_arg ''stable-threshold'' (map_option (Duration_String t) (fa_StableThreshold spec)) @
         opt_arg ''max-retries'' (map_option Itoa (fa_MaxRetries spec)) @
         opt_arg ''readiness-port'' (map_option Itoa (fa_ReadinessPort spec)) @
         [bool_arg ''retroactive-enforcement'' (fa_RetroactiveEnforcement spec)] @
         opt_arg ''cri-socket'' (nonempty (fa_CRISocketPath spec)))"

definition buildFractiondContainer :: "texts \<Rightarrow> fractiond_daemon \<Rightarrow> BuildOptions \<Rightarrow> PodContainer \<times> Volume list" where
  "buildFractiondContainer t d opts =
    (let img = DefaultImages opts fractiond_daemonName; cri = filepath_Dir (criSocketPath d); on = retroactiveEnforcementEnabled d in
     (\<lparr>c_Name = fractiond_daemonName, Image = FullImage img, c_ImagePullPolicy = PullPolicy img, Privileged = True,
       Args = fractiond_buildArgs t d opts,
       ReadinessProbe = \<lparr>handler = HTTPGet ''/readyz'' (fd_readinessPort d), InitialDelaySeconds = 5, PeriodSeconds = 10, FailureThreshold = 0\<rparr>,
       LivenessProbe = \<lparr>handler = TCPSocket (fd_readinessPort d), InitialDelaySeconds = 10, PeriodSeconds = 20, FailureThreshold = 3\<rparr>,
       Resources = DaemonResources ''50m'' ''64Mi'' ''256Mi'', Env = FIPSOnlyEnv (FIPSOnly opts),
       Ports = [(''readiness'', fd_readinessPort d)],
       VolumeMounts = [\<lparr>vm_Name = ''nri-socket'', MountPath = nriSocketDir d, ReadOnly = False\<rparr>,
                       \<lparr>vm_Name = ''mps-pipe'', MountPath = fd_defaultMPSPipeDir, ReadOnly = False\<rparr>] @
         (if on then [\<lparr>vm_Name = ''cri-socket'', MountPath = cri, ReadOnly = False\<rparr>] else [])\<rparr>,
      [HostPath ''nri-socket'' (nriSocketDir d) None, HostPath ''mps-pipe'' fd_defaultMPSPipeDir None] @
        (if on then [HostPath ''cri-socket'' cri (Some ''DirectoryOrCreate'')] else [])))"

definition buildMetricsdArgs :: "fractiond_daemon \<Rightarrow> string list" where
  "buildMetricsdArgs d =
    (case metricsSpec d of
       None \<Rightarrow> []
     | Some m \<Rightarrow>
         opt_arg ''log-level'' (nonempty (ma_LogLevel m)) @ opt_arg ''metrics-address'' (nonempty (ma_Address m)) @
         opt_arg ''metrics-path'' (nonempty (ma_Path m)) @
         (case ma_MetricNames m of
            None \<Rightarrow> []
          | Some n \<Rightarrow>
              opt_arg ''metric-name-gpu-memory-used-bytes'' (nonempty (mn_GPUMemoryUsedBytes n)) @
              opt_arg ''metric-name-gpu-sm-utilization-percent'' (nonempty (mn_GPUSMUtilizationPercent n)) @
              opt_arg ''metric-name-gpu-sm-utilization-percent-normalized'' (nonempty (mn_GPUSMUtilizationPercentNormalized n))))"

definition buildMetricsdContainer :: "fractiond_daemon \<Rightarrow> BuildOptions \<Rightarrow> PodContainer" where
  "buildMetricsdContainer d opts =
    (let img = DefaultImages opts metricsdName; port = metricsListenPort d in
     \<lparr>c_Name = metricsdName, Image = FullImage img, c_ImagePullPolicy = PullPolicy img, Privileged = True,
      Args = buildMetricsdArgs d,
      ReadinessProbe = \<lparr>handler = HTTPGet ''/readyz'' port, InitialDelaySeconds = 5, PeriodSeconds = 10, FailureThreshold = 0\<rparr>,
      LivenessProbe = \<lparr>handler = HTTPGet ''/healthz'' port, InitialDelaySeconds = 15, PeriodSeconds = 20, FailureThreshold = 3\<rparr>,
      Resources = DaemonResources ''50m'' ''128Mi'' ''512Mi'',
      Env = [(''NVIDIA_VISIBLE_DEVICES'', Value ''all''), (''NVIDIA_DRIVER_CAPABILITIES'', Value ''utility'')] @
        FIPSOnlyEnv (FIPSOnly opts),
      Ports = [(''metrics'', port)],
      VolumeMounts = \<lparr>vm_Name = ''map-dir'', MountPath = containerPodMapDir, ReadOnly = True\<rparr> #
        (case metricsSpec d of None \<Rightarrow> [] | Some m \<Rightarrow> ma_VolumeMounts m)\<rparr>)"

definition metricsSharedVolume :: "Volume \<times> VolumeMount" where
  "metricsSharedVolume = (HostPath ''map-dir'' containerPodMapDir (Some ''DirectoryOrCreate''),
     \<lparr>vm_Name = ''map-dir'', MountPath = containerPodMapDir, ReadOnly = False\<rparr>)"

definition applyMetricsSidecar :: "fractiond_daemon \<Rightarrow> BuildOptions \<Rightarrow> DaemonSet \<Rightarrow> DaemonSet" where
  "applyMetricsSidecar d opts = map_template (\<lambda>p. p\<lparr>
     Volumes := Volumes p @ (case metricsSpec d of None \<Rightarrow> [] | Some m \<Rightarrow> ma_Volumes m),
     Containers := Containers p @ [buildMetricsdContainer d opts],
     t_Annotations := SetManagementCDIDevice ((t_Annotations p)(''prometheus.io/scrape'' \<mapsto> ''true'',
         ''prometheus.io/port'' \<mapsto> metricsAnnotationPort d, ''prometheus.io/path'' \<mapsto> metricsAnnotationPath d))
       metricsdName (o_NRIPluginEnabled opts)\<rparr>)"

definition fractiond_BuildDaemonSet :: "texts \<Rightarrow> fractiond_daemon \<Rightarrow> BuildOptions \<Rightarrow> DaemonSet" where
  "fractiond_BuildDaemonSet t d opts =
    (case buildFractiondContainer t d opts of
       (container, volumes) \<Rightarrow>
         let on = metricsEnabled d;
             result = map_template (\<lambda>p. p\<lparr>t_NodeSelector := DaemonNodeSelector (o_NodeSelector opts),
               t_Tolerations := o_Tolerations opts, HostPID := True, t_ServiceAccountName := o_ServiceAccountName opts,
               AutomountServiceAccountToken := Some False,
               Volumes := Volumes p @ volumes @ (if on then [fst metricsSharedVolume] else []),
               t_RuntimeClassName := (if on then o_RuntimeClassName opts else t_RuntimeClassName p),
               Containers := Containers p @
                 [if on then container\<lparr>VolumeMounts := VolumeMounts container @ [snd metricsSharedVolume]\<rparr> else container]\<rparr>)
               (BaseDaemonSet fractiond_daemonName (o_Namespace opts))
         in if on then applyMetricsSidecar d opts result else result)"

interpretation fractiond: managed_daemon fractiond_daemonName "fractiond_BuildDaemonSet t d" for t d
  by unfold_locales
    (simp_all add: fractiond_BuildDaemonSet_def buildFractiondContainer_def applyMetricsSidecar_def BaseDaemonSet_def Let_def)

section \<open>The flags of the process\<close>

record fractiond_flags = retry_flags +
  pluginName :: string
  pluginIdx :: string
  socketPath :: string
  annotationPrefix :: string
  mpsPipeDir :: string
  failOpen :: bool
  fl_supportSMSharing :: bool
  injectCDIDevice :: bool
  mapDir :: string
  logPodEvents :: bool
  fl_logLevel :: string
  readinessPort :: int
  retroactiveEnforcement :: bool
  criSocket :: string
  stopTimeout :: int

definition fractiond_flag_defaults :: "getenv \<Rightarrow> fractiond_flags" where
  "fractiond_flag_defaults ge =
    \<lparr>retryInterval = 5 * 10 ^ 9, stableThreshold = 5 * 60 * 10 ^ 9, maxRetries = 0,
     pluginName = ''gpu-fractioning'', pluginIdx = ''10'',
     socketPath = env_String ge ''NRI_SOCKET_PATH'' ''/var/run/nri/nri.sock'',
     annotationPrefix = DefaultAnnotationPrefix, mpsPipeDir = DefaultMPSPipeDirectory, failOpen = False,
     fl_supportSMSharing = env_Bool ge ''SUPPORT_SM_SHARING'' True, injectCDIDevice = env_Bool ge ''INJECT_CDI_DEVICE'' False,
     mapDir = env_String ge ''MAP_DIR'' DefaultMapDir, logPodEvents = env_Bool ge ''LOG_POD_EVENTS'' False,
     fl_logLevel = ''info'', readinessPort = env_Int ge ''READINESS_PORT'' 8093,
     retroactiveEnforcement = env_Bool ge ''RETROACTIVE_ENFORCEMENT'' True,
     criSocket = env_String ge ''CRI_SOCKET'' ''/run/containerd/containerd.sock'', stopTimeout = 30 * 10 ^ 9\<rparr>"

definition fractiond_flag_set :: "texts \<Rightarrow> fractiond_flags flag_set" where
  "fractiond_flag_set t =
    \<lparr>is_bool = map_of [(''plugin-name'', False), (''plugin-idx'', False), (''socket-path'', False), (''annotation-prefix'', False),
       (''pipe-dir'', False), (''fail-open'', True), (''support-sm-sharing'', True), (''inject-cdi-device'', True),
       (''map-dir'', False), (''log-pod-events'', True), (''log-level'', False), (''retry-interval'', False),
       (''stable-threshold'', False), (''max-retries'', False), (''readiness-port'', False),
       (''retroactive-enforcement'', True), (''cri-socket'', False), (''stop-timeout'', False)],
     set_value = (\<lambda>n v f.
       if n = ''plugin-name'' then Some (f\<lparr>pluginName := v\<rparr>)
       else if n = ''plugin-idx'' then Some (f\<lparr>pluginIdx := v\<rparr>)
       else if n = ''socket-path'' then Some (f\<lparr>socketPath := v\<rparr>)
       else if n = ''annotation-prefix'' then Some (f\<lparr>annotationPrefix := v\<rparr>)
       else if n = ''pipe-dir'' then Some (f\<lparr>mpsPipeDir := v\<rparr>)
       else if n = ''fail-open'' then map_option (\<lambda>b. f\<lparr>failOpen := b\<rparr>) (ParseBool v)
       else if n = ''support-sm-sharing'' then map_option (\<lambda>b. f\<lparr>fl_supportSMSharing := b\<rparr>) (ParseBool v)
       else if n = ''inject-cdi-device'' then map_option (\<lambda>b. f\<lparr>injectCDIDevice := b\<rparr>) (ParseBool v)
       else if n = ''map-dir'' then Some (f\<lparr>mapDir := v\<rparr>)
       else if n = ''log-pod-events'' then map_option (\<lambda>b. f\<lparr>logPodEvents := b\<rparr>) (ParseBool v)
       else if n = ''log-level'' then Some (f\<lparr>fl_logLevel := v\<rparr>)
       else if n = ''retry-interval'' then map_option (\<lambda>i. f\<lparr>retryInterval := i\<rparr>) (parse_duration t v)
       else if n = ''stable-threshold'' then map_option (\<lambda>i. f\<lparr>stableThreshold := i\<rparr>) (parse_duration t v)
       else if n = ''max-retries'' then map_option (\<lambda>i. f\<lparr>maxRetries := i\<rparr>) (parse_int t v)
       else if n = ''readiness-port'' then map_option (\<lambda>i. f\<lparr>readinessPort := i\<rparr>) (parse_int t v)
       else if n = ''retroactive-enforcement'' then map_option (\<lambda>b. f\<lparr>retroactiveEnforcement := b\<rparr>) (ParseBool v)
       else if n = ''cri-socket'' then Some (f\<lparr>criSocket := v\<rparr>)
       else if n = ''stop-timeout'' then map_option (\<lambda>i. f\<lparr>stopTimeout := i\<rparr>) (parse_duration t v)
       else None)\<rparr>"

definition fractiond_parseFlags :: "texts \<Rightarrow> getenv \<Rightarrow> string list \<Rightarrow> (flag_error, fractiond_flags) result" where
  "fractiond_parseFlags t ge args = flag_parse (fractiond_flag_set t) args (fractiond_flag_defaults ge)"

section \<open>From the custom resource to the process\<close>

definition fa_int64 :: "FractioningAgentSpec \<Rightarrow> bool" where
  "fa_int64 spec \<longleftrightarrow> int64_opt (fa_RetryInterval spec) \<and> int64_opt (fa_StableThreshold spec) \<and>
    int64_opt (fa_MaxRetries spec) \<and> int64_opt (fa_ReadinessPort spec)"

definition fractiond_overrides :: "FractioningAgentSpec \<Rightarrow> fractiond_flags \<Rightarrow> fractiond_flags" where
  "fractiond_overrides spec f = f\<lparr>
     annotationPrefix := given (nonempty (fa_AnnotationPrefix spec)) (annotationPrefix f),
     failOpen := (failOpen f \<or> fa_FailOpen spec = Some True),
     socketPath := given (nonempty (fa_NRISocketPath spec)) (socketPath f),
     fl_logLevel := given (nonempty (fa_LogLevel spec)) (fl_logLevel f),
     retryInterval := given (fa_RetryInterval spec) (retryInterval f),
     stableThreshold := given (fa_StableThreshold spec) (stableThreshold f),
     maxRetries := given (fa_MaxRetries spec) (maxRetries f),
     readinessPort := given (fa_ReadinessPort spec) (readinessPort f),
     retroactiveEnforcement := fa_RetroactiveEnforcement spec,
     criSocket := given (nonempty (fa_CRISocketPath spec)) (criSocket f)\<rparr>"

lemma fractiond_names:
  "plain_name ''annotation-prefix''" "plain_name ''socket-path''" "plain_name ''log-level''" "plain_name ''retry-interval''"
  "plain_name ''stable-threshold''" "plain_name ''max-retries''" "plain_name ''readiness-port''" "plain_name ''cri-socket''"
  "plain_name ''support-sm-sharing''" "plain_name ''inject-cdi-device''" "plain_name ''retroactive-enforcement''"
  "plain_name ''fail-open''"
  by (simp_all add: plain_name_def)

lemma fractiond_kinds:
  "is_bool (fractiond_flag_set t) ''annotation-prefix'' = Some False" "is_bool (fractiond_flag_set t) ''socket-path'' = Some False"
  "is_bool (fractiond_flag_set t) ''log-level'' = Some False" "is_bool (fractiond_flag_set t) ''retry-interval'' = Some False"
  "is_bool (fractiond_flag_set t) ''stable-threshold'' = Some False" "is_bool (fractiond_flag_set t) ''max-retries'' = Some False"
  "is_bool (fractiond_flag_set t) ''readiness-port'' = Some False" "is_bool (fractiond_flag_set t) ''cri-socket'' = Some False"
  "is_bool (fractiond_flag_set t) ''support-sm-sharing'' = Some True" "is_bool (fractiond_flag_set t) ''inject-cdi-device'' = Some True"
  "is_bool (fractiond_flag_set t) ''retroactive-enforcement'' = Some True" "is_bool (fractiond_flag_set t) ''fail-open'' = Some True"
  by (simp_all add: fractiond_flag_set_def)

lemma fractiond_set_opt:
  assumes "texts_ok t"
  shows "set_opt (fractiond_flag_set t) ''annotation-prefix'' (nonempty l) f = Some (f\<lparr>annotationPrefix := given (nonempty l) (annotationPrefix f)\<rparr>)"
    "set_opt (fractiond_flag_set t) ''socket-path'' (nonempty l) f = Some (f\<lparr>socketPath := given (nonempty l) (socketPath f)\<rparr>)"
    "set_opt (fractiond_flag_set t) ''log-level'' (nonempty l) f = Some (f\<lparr>fl_logLevel := given (nonempty l) (fl_logLevel f)\<rparr>)"
    "int64_opt x \<Longrightarrow> set_opt (fractiond_flag_set t) ''retry-interval'' (map_option (Duration_String t) x) f =
      Some (f\<lparr>retryInterval := given x (retryInterval f)\<rparr>)"
    "int64_opt x \<Longrightarrow> set_opt (fractiond_flag_set t) ''stable-threshold'' (map_option (Duration_String t) x) f =
      Some (f\<lparr>stableThreshold := given x (stableThreshold f)\<rparr>)"
    "int64_opt x \<Longrightarrow> set_opt (fractiond_flag_set t) ''max-retries'' (map_option Itoa x) f = Some (f\<lparr>maxRetries := given x (maxRetries f)\<rparr>)"
    "int64_opt x \<Longrightarrow> set_opt (fractiond_flag_set t) ''readiness-port'' (map_option Itoa x) f = Some (f\<lparr>readinessPort := given x (readinessPort f)\<rparr>)"
    "set_opt (fractiond_flag_set t) ''cri-socket'' (nonempty l) f = Some (f\<lparr>criSocket := given (nonempty l) (criSocket f)\<rparr>)"
  using assms by (cases x; simp add: set_opt_def nonempty_def fractiond_flag_set_def texts_ok_def int64_opt_def)+

lemma fractiond_set_bool:
  "set_value (fractiond_flag_set t) ''support-sm-sharing'' (FormatBool b) f = Some (f\<lparr>fl_supportSMSharing := b\<rparr>)"
  "set_value (fractiond_flag_set t) ''inject-cdi-device'' (FormatBool b) f = Some (f\<lparr>injectCDIDevice := b\<rparr>)"
  "set_value (fractiond_flag_set t) ''retroactive-enforcement'' (FormatBool b) f = Some (f\<lparr>retroactiveEnforcement := b\<rparr>)"
  "set_value (fractiond_flag_set t) ''fail-open'' ''true'' f = Some (f\<lparr>failOpen := True\<rparr>)"
  by (simp_all add: fractiond_flag_set_def) (auto simp: ParseBool_def)

text \<open>The equations of the argument reader for the arguments the builder writes.\<close>

lemma fractiond_switches:
  "flag_parse (fractiond_flag_set t) (bool_arg ''support-sm-sharing'' b # rest) f =
    flag_parse (fractiond_flag_set t) rest (f\<lparr>fl_supportSMSharing := b\<rparr>)"
  "flag_parse (fractiond_flag_set t) (bool_arg ''inject-cdi-device'' b # rest) f =
    flag_parse (fractiond_flag_set t) rest (f\<lparr>injectCDIDevice := b\<rparr>)"
  "flag_parse (fractiond_flag_set t) (bool_arg ''retroactive-enforcement'' b # rest) f =
    flag_parse (fractiond_flag_set t) rest (f\<lparr>retroactiveEnforcement := b\<rparr>)"
  "flag_parse (fractiond_flag_set t) ((if c then [''--fail-open''] else []) @ rest) f =
    flag_parse (fractiond_flag_set t) rest (f\<lparr>failOpen := (failOpen f \<or> c)\<rparr>)"
  using parse_bool_arg [OF fractiond_names(9) fractiond_kinds(9) fractiond_set_bool(1), of t b rest f]
    parse_bool_arg [OF fractiond_names(10) fractiond_kinds(10) fractiond_set_bool(2), of t b rest f]
    parse_bool_arg [OF fractiond_names(11) fractiond_kinds(11) fractiond_set_bool(3), of t b rest f]
    parse_switch [OF fractiond_names(12) fractiond_kinds(12) fractiond_set_bool(4), of t rest f]
  by simp_all

lemma fractiond_args_parse:
  assumes "texts_ok t" "fractioningSpec d = Some spec" "fa_int64 spec"
  shows "flag_parse (fractiond_flag_set t) (fractiond_buildArgs t d opts) f =
    Inr (fractiond_overrides spec (f\<lparr>fl_supportSMSharing := fd_supportSMSharing d, injectCDIDevice := o_NRIPluginEnabled opts\<rparr>))"
proof -
  note opt = parse_opt_arg [OF fractiond_names(1) fractiond_kinds(1) fractiond_set_opt(1) [OF assms(1)]]
    parse_opt_arg [OF fractiond_names(2) fractiond_kinds(2) fractiond_set_opt(2) [OF assms(1)]]
    parse_opt_arg [OF fractiond_names(3) fractiond_kinds(3) fractiond_set_opt(3) [OF assms(1)]]
    parse_opt_arg [OF fractiond_names(4) fractiond_kinds(4) fractiond_set_opt(4) [OF assms(1)]]
    parse_opt_arg [OF fractiond_names(5) fractiond_kinds(5) fractiond_set_opt(5) [OF assms(1)]]
    parse_opt_arg [OF fractiond_names(6) fractiond_kinds(6) fractiond_set_opt(6) [OF assms(1)]]
    parse_opt_arg [OF fractiond_names(7) fractiond_kinds(7) fractiond_set_opt(7) [OF assms(1)]]
    parse_opt_arg [OF fractiond_names(8) fractiond_kinds(8) fractiond_set_opt(8) [OF assms(1)], where rest = "[]", simplified append_Nil2]
  show ?thesis
    using assms(2,3) by (simp add: fractiond_buildArgs_def fa_int64_def fractiond_switches opt fractiond_overrides_def)
qed

definition fractiond_pod :: "texts \<Rightarrow> fractiond_daemon \<Rightarrow> BuildOptions \<Rightarrow> PodTemplate" where
  "fractiond_pod t d opts = Template (Spec (fractiond_BuildDaemonSet t d opts))"

definition fractiond_container :: "texts \<Rightarrow> fractiond_daemon \<Rightarrow> BuildOptions \<Rightarrow> PodContainer" where
  "fractiond_container t d opts = hd (Containers (fractiond_pod t d opts))"

lemma fractiond_container_simps:
  "Args (fractiond_container t d opts) = fractiond_buildArgs t d opts"
  "Env (fractiond_container t d opts) = FIPSOnlyEnv (FIPSOnly opts)"
  "VolumeMounts (fractiond_container t d opts) = VolumeMounts (fst (buildFractiondContainer t d opts)) @
     (if metricsEnabled d then [snd metricsSharedVolume] else [])"
  "ReadinessProbe (fractiond_container t d opts) = ReadinessProbe (fst (buildFractiondContainer t d opts))"
  by (simp_all add: fractiond_container_def fractiond_pod_def fractiond_BuildDaemonSet_def buildFractiondContainer_def
      applyMetricsSidecar_def BaseDaemonSet_def Let_def)

lemma fractiond_parse_built:
  assumes "texts_ok t" "case fractioningSpec d of None \<Rightarrow> True | Some spec \<Rightarrow> fa_int64 spec"
  shows "fractiond_parseFlags t ge (fractiond_buildArgs t d opts) =
    Inr ((case fractioningSpec d of None \<Rightarrow> id | Some spec \<Rightarrow> fractiond_overrides spec)
      ((fractiond_flag_defaults ge)\<lparr>fl_supportSMSharing := fd_supportSMSharing d, injectCDIDevice := o_NRIPluginEnabled opts\<rparr>))"
proof (cases "fractioningSpec d")
  case None
  then show ?thesis by (simp add: fractiond_parseFlags_def fractiond_buildArgs_def fractiond_switches)
next
  case (Some spec)
  with assms show ?thesis by (simp add: fractiond_parseFlags_def fractiond_args_parse)
qed

lemma unset_defaults:
  assumes "\<And>k. k \<noteq> ''GODEBUG'' \<Longrightarrow> ge k = []"
  shows "fractiond_flag_defaults ge = fractiond_flag_defaults (\<lambda>_. [])"
  using assms by (simp add: fractiond_flag_defaults_def env_String_def env_Bool_def env_Int_def)

lemma fractiond_environment:
  "k \<noteq> ''GODEBUG'' \<Longrightarrow> container_getenv (fractiond_container t d opts) field (\<lambda>_. []) k = []"
  by (simp add: container_getenv_def fractiond_container_simps FIPSOnlyEnv_def)

lemma default_socket_dirs:
  "filepath_Dir ''/var/run/nri/nri.sock'' = defaultNRISocketDir" by code_simp

lemma fractiond_container_parsed:
  assumes "texts_ok t" and "case fractioningSpec d of None \<Rightarrow> True | Some spec \<Rightarrow> fa_int64 spec"
    and "ge = container_getenv (fractiond_container t d opts) field (\<lambda>_. [])"
  shows "fractiond_parseFlags t ge (Args (fractiond_container t d opts)) =
    Inr ((case fractioningSpec d of None \<Rightarrow> id | Some spec \<Rightarrow> fractiond_overrides spec)
      ((fractiond_flag_defaults (\<lambda>_. []))\<lparr>fl_supportSMSharing := fd_supportSMSharing d, injectCDIDevice := o_NRIPluginEnabled opts\<rparr>))"
  unfolding fractiond_container_simps assms(3)
  by (subst fractiond_parse_built [OF assms(1,2)]) (simp add: unset_defaults [OF fractiond_environment])

text \<open>What the process is told: the values of the agent section over the defaults of the process.\<close>

lemma fractiond_container_values:
  assumes "texts_ok t" and "case fractioningSpec d of None \<Rightarrow> True | Some spec \<Rightarrow> fa_int64 spec"
    and "ge = container_getenv (fractiond_container t d opts) field (\<lambda>_. [])"
    and "fractiond_parseFlags t ge (Args (fractiond_container t d opts)) = Inr f"
  shows "annotationPrefix f = given (Option.bind (fractioningSpec d) (\<lambda>s. nonempty (fa_AnnotationPrefix s))) ''nvidia.com/container.''"
    "failOpen f \<longleftrightarrow> Option.bind (fractioningSpec d) fa_FailOpen = Some True"
    "socketPath f = given (Option.bind (fractioningSpec d) (\<lambda>s. nonempty (fa_NRISocketPath s))) ''/var/run/nri/nri.sock''"
    "fl_logLevel f = given (Option.bind (fractioningSpec d) (\<lambda>s. nonempty (fa_LogLevel s))) ''info''"
    "retryInterval f = given (Option.bind (fractioningSpec d) fa_RetryInterval) (5 * 10 ^ 9)"
    "stableThreshold f = given (Option.bind (fractioningSpec d) fa_StableThreshold) (5 * 60 * 10 ^ 9)"
    "maxRetries f = given (Option.bind (fractioningSpec d) fa_MaxRetries) 0"
    "readinessPort f = given (Option.bind (fractioningSpec d) fa_ReadinessPort) 8093"
    "criSocket f = given (Option.bind (fractioningSpec d) (\<lambda>s. nonempty (fa_CRISocketPath s))) ''/run/containerd/containerd.sock''"
  using fractiond_container_parsed [OF assms(1-3)] assms(4)
  by (auto simp: fractiond_overrides_def fractiond_flag_defaults_def env_String_def env_Int_def DefaultAnnotationPrefix_def
      split: option.splits)

lemma fractiond_container_flags:
  assumes "texts_ok t" and "case fractioningSpec d of None \<Rightarrow> True | Some spec \<Rightarrow> fa_int64 spec"
    and "ge = container_getenv (fractiond_container t d opts) field (\<lambda>_. [])"
  shows "\<exists>f. fractiond_parseFlags t ge (Args (fractiond_container t d opts)) = Inr f \<and>
    fl_supportSMSharing f = fd_supportSMSharing d \<and> injectCDIDevice f = o_NRIPluginEnabled opts \<and>
    handler (ReadinessProbe (fractiond_container t d opts)) = HTTPGet ''/readyz'' (readinessPort f) \<and>
    {filepath_Dir (socketPath f), mpsPipeDir f} \<subseteq> MountPath ` set (VolumeMounts (fractiond_container t d opts)) \<and>
    (metricsEnabled d \<longrightarrow> mapDir f \<in> MountPath ` set (VolumeMounts (fractiond_container t d opts))) \<and>
    (fractioningSpec d \<noteq> None \<longrightarrow> retroactiveEnforcement f = retroactiveEnforcementEnabled d \<and>
       (retroactiveEnforcement f \<longrightarrow> filepath_Dir (criSocket f) \<in> MountPath ` set (VolumeMounts (fractiond_container t d opts))))"
proof -
  let ?def = "(fractiond_flag_defaults (\<lambda>_. []))\<lparr>fl_supportSMSharing := fd_supportSMSharing d, injectCDIDevice := o_NRIPluginEnabled opts\<rparr>"
  define f where "f = (case fractioningSpec d of None \<Rightarrow> id | Some spec \<Rightarrow> fractiond_overrides spec) ?def"
  have parsed: "fractiond_parseFlags t ge (Args (fractiond_container t d opts)) = Inr f"
    unfolding f_def by (rule fractiond_container_parsed [OF assms])
  have defaults: "readinessPort ?def = op_defaultReadinessPort" "socketPath ?def = ''/var/run/nri/nri.sock''"
      "mpsPipeDir ?def = fd_defaultMPSPipeDir" "mapDir ?def = containerPodMapDir" "criSocket ?def = op_defaultCRISocketPath"
    by (simp_all add: fractiond_flag_defaults_def env_String_def env_Int_def op_defaultReadinessPort_def fd_defaultMPSPipeDir_def
        DefaultMPSPipeDirectory_def DefaultMapDir_def containerPodMapDir_def op_defaultCRISocketPath_def)
  have dirs: "filepath_Dir (socketPath f) = nriSocketDir d" "mpsPipeDir f = fd_defaultMPSPipeDir" "mapDir f = containerPodMapDir"
      "readinessPort f = fd_readinessPort d" "criSocket f = criSocketPath d"
      "fractioningSpec d \<noteq> None \<Longrightarrow> retroactiveEnforcement f = retroactiveEnforcementEnabled d"
      "fl_supportSMSharing f = fd_supportSMSharing d" "injectCDIDevice f = o_NRIPluginEnabled opts"
    using defaults default_socket_dirs
    by (auto simp: f_def fractiond_overrides_def nriSocketDir_def fd_readinessPort_def criSocketPath_def
        retroactiveEnforcementEnabled_def nonempty_def split: option.splits)
  show ?thesis
    by (intro exI [of _ f]) (use parsed dirs in \<open>auto simp: fractiond_container_simps buildFractiondContainer_def Let_def
      metricsSharedVolume_def retroactiveEnforcementEnabled_def\<close>)
qed

text \<open>
  C37: the fractiond container the operator builds runs with the configured values and can reach
  what it is told to use, in an image that sets none of the variables. The arguments are accepted; the
  sm-sharing and CDI switches arrive; the annotation prefix, the failure policy, the NRI socket, the log
  level, the retry interval, the stable threshold, the retry budget, the readiness port and the runtime
  socket are those of the agent section where it gives them and the documented defaults where it
  does not. The readiness probe targets the port the process serves; the directories of the NRI
  socket, of the MPS pipe and, with metrics on, of the container mapping are mounted at the paths the
  process uses; and where the resource has an agent section, enforcement is on exactly when it says
  so, and the directory of the runtime socket is then mounted.
\<close>

theorem fractiond_configuration_reaches:
  assumes "texts_ok t" and "case fractioningSpec d of None \<Rightarrow> True | Some spec \<Rightarrow> fa_int64 spec"
    and "ge = container_getenv (fractiond_container t d opts) field (\<lambda>_. [])"
  shows "\<exists>f. fractiond_parseFlags t ge (Args (fractiond_container t d opts)) = Inr f \<and>
    fl_supportSMSharing f = fd_supportSMSharing d \<and> injectCDIDevice f = o_NRIPluginEnabled opts \<and>
    annotationPrefix f = given (Option.bind (fractioningSpec d) (\<lambda>s. nonempty (fa_AnnotationPrefix s))) ''nvidia.com/container.'' \<and>
    (failOpen f \<longleftrightarrow> Option.bind (fractioningSpec d) fa_FailOpen = Some True) \<and>
    socketPath f = given (Option.bind (fractioningSpec d) (\<lambda>s. nonempty (fa_NRISocketPath s))) ''/var/run/nri/nri.sock'' \<and>
    fl_logLevel f = given (Option.bind (fractioningSpec d) (\<lambda>s. nonempty (fa_LogLevel s))) ''info'' \<and>
    retryInterval f = given (Option.bind (fractioningSpec d) fa_RetryInterval) (5 * 10 ^ 9) \<and>
    stableThreshold f = given (Option.bind (fractioningSpec d) fa_StableThreshold) (5 * 60 * 10 ^ 9) \<and>
    maxRetries f = given (Option.bind (fractioningSpec d) fa_MaxRetries) 0 \<and>
    readinessPort f = given (Option.bind (fractioningSpec d) fa_ReadinessPort) 8093 \<and>
    criSocket f = given (Option.bind (fractioningSpec d) (\<lambda>s. nonempty (fa_CRISocketPath s))) ''/run/containerd/containerd.sock'' \<and>
    handler (ReadinessProbe (fractiond_container t d opts)) = HTTPGet ''/readyz'' (readinessPort f) \<and>
    {filepath_Dir (socketPath f), mpsPipeDir f} \<subseteq> MountPath ` set (VolumeMounts (fractiond_container t d opts)) \<and>
    (metricsEnabled d \<longrightarrow> mapDir f \<in> MountPath ` set (VolumeMounts (fractiond_container t d opts))) \<and>
    (fractioningSpec d \<noteq> None \<longrightarrow> retroactiveEnforcement f = retroactiveEnforcementEnabled d \<and>
       (retroactiveEnforcement f \<longrightarrow> filepath_Dir (criSocket f) \<in> MountPath ` set (VolumeMounts (fractiond_container t d opts))))"
proof -
  from fractiond_container_flags [OF assms] obtain f where
    f: "fractiond_parseFlags t ge (Args (fractiond_container t d opts)) = Inr f" and
    rest: "fl_supportSMSharing f = fd_supportSMSharing d" "injectCDIDevice f = o_NRIPluginEnabled opts"
    "handler (ReadinessProbe (fractiond_container t d opts)) = HTTPGet ''/readyz'' (readinessPort f)"
    "{filepath_Dir (socketPath f), mpsPipeDir f} \<subseteq> MountPath ` set (VolumeMounts (fractiond_container t d opts))"
    "metricsEnabled d \<longrightarrow> mapDir f \<in> MountPath ` set (VolumeMounts (fractiond_container t d opts))"
    "fractioningSpec d \<noteq> None \<longrightarrow> retroactiveEnforcement f = retroactiveEnforcementEnabled d \<and>
       (retroactiveEnforcement f \<longrightarrow> filepath_Dir (criSocket f) \<in> MountPath ` set (VolumeMounts (fractiond_container t d opts)))"
    by (elim exE conjE)
  show ?thesis
    by (rule exI [of _ f], intro conjI) (fact f rest fractiond_container_values [OF assms f])+
qed

definition sample_agent :: FractioningAgentSpec where
  "sample_agent = \<lparr>fa_AnnotationPrefix = [], fa_FailOpen = Some True, fa_NRISocketPath = [], fa_RetroactiveEnforcement = False,
     fa_CRISocketPath = [], fa_LogLevel = ''debug'', fa_RetryInterval = None, fa_StableThreshold = None, fa_MaxRetries = Some 3,
     fa_ReadinessPort = Some 9000\<rparr>"

theorem fractiond_configuration_reaches_witness:
  "let c = fractiond_container sample_texts (NewFractiondDaemon (Some sample_agent) None False) sample_options
   in \<exists>f. fractiond_parseFlags sample_texts (container_getenv c (\<lambda>_. []) (\<lambda>_. [])) (Args c) = Inr f \<and>
        handler (ReadinessProbe c) = HTTPGet ''/readyz'' 9000 \<and> injectCDIDevice f \<and> \<not> retroactiveEnforcement f \<and>
        failOpen f \<and> maxRetries f = 3 \<and> fl_logLevel f = ''debug'' \<and> annotationPrefix f = ''nvidia.com/container.''"
  using fractiond_configuration_reaches [OF texts_ok_sample _ refl, of "NewFractiondDaemon (Some sample_agent) None False" sample_options "\<lambda>_. []"]
  by (auto simp: NewFractiondDaemon_def sample_agent_def fa_int64_def int64_opt_def in_int64_def min_int64_def max_int64_def
      sample_options_def retroactiveEnforcementEnabled_def nonempty_def Let_def)

text \<open>
  C40: without an agent section the builder and the process disagree. The builder treats
  enforcement as off and mounts no directory of the runtime socket, but passes no argument for
  it, so the process runs with enforcement on, by its own default.
\<close>

theorem enforcement_without_socket:
  assumes "fractioningSpec d = None" "texts_ok t"
    and "ge = container_getenv (fractiond_container t d opts) field (\<lambda>_. [])"
  shows "\<exists>f. fractiond_parseFlags t ge (Args (fractiond_container t d opts)) = Inr f \<and>
    retroactiveEnforcement f \<and> \<not> retroactiveEnforcementEnabled d \<and>
    filepath_Dir (criSocket f) \<notin> MountPath ` set (VolumeMounts (fractiond_container t d opts))"
proof -
  let ?f = "(fractiond_flag_defaults (\<lambda>_. []))\<lparr>fl_supportSMSharing := fd_supportSMSharing d, injectCDIDevice := o_NRIPluginEnabled opts\<rparr>"
  have parsed: "fractiond_parseFlags t ge (Args (fractiond_container t d opts)) = Inr ?f"
    unfolding fractiond_container_simps assms(3)
    by (subst fractiond_parse_built [OF assms(2)]) (simp_all add: assms(1) unset_defaults [OF fractiond_environment])
  have cri: "filepath_Dir ''/run/containerd/containerd.sock'' = ''/run/containerd''" by code_simp
  show ?thesis
    using parsed assms(1) by (intro exI [of _ ?f])
      (auto simp: fractiond_container_simps buildFractiondContainer_def retroactiveEnforcementEnabled_def nriSocketDir_def
        metricsSharedVolume_def fractiond_flag_defaults_def env_Bool_def env_String_def cri defaultNRISocketDir_def
        fd_defaultMPSPipeDir_def containerPodMapDir_def Let_def)
qed

theorem enforcement_without_socket_witness:
  "let c = fractiond_container sample_texts (NewFractiondDaemon None None True) sample_options
   in \<exists>f. fractiond_parseFlags sample_texts (container_getenv c (\<lambda>_. []) (\<lambda>_. [])) (Args c) = Inr f \<and> retroactiveEnforcement f"
  using enforcement_without_socket [OF _ texts_ok_sample refl, of "NewFractiondDaemon None None True" sample_options "\<lambda>_. []"]
  by (auto simp: NewFractiondDaemon_def Let_def)

end
