(* ===== verification/Controller.thy ===== *)
theory Controller
  imports Dependency Mpsd_Builder Fractiond_Builder
begin

text \<open>
  The operator's reconciler (\<^verbatim>\<open>operator/internal/controller/gpufractioningconfig_controller.go\<close>): one
  pass over the custom resource, the managed DaemonSets and the nodes. The cluster is the state;
  what the API server answers and which calls it fails during the pass is an environment record.
\<close>

section \<open>Pods\<close>

text \<open>A container status is the reason it waits for, \<open>None\<close> if it does not wait.\<close>

record Pod =
  NodeName :: string
  pod_labels :: "string \<rightharpoonup> string"
  PodConditions :: "(string \<times> ConditionStatus) list"
  InitContainerStatuses :: "string option list"
  ContainerStatuses :: "string option list"
  Phase :: string

definition isPodReady :: "Pod \<Rightarrow> bool" where
  "isPodReady pod \<longleftrightarrow> list_ex (\<lambda>(t, s). t = ''Ready'' \<and> s = ConditionTrue) (PodConditions pod)"

definition podFailureReason :: "Pod \<Rightarrow> string" where
  "podFailureReason pod =
    (case find (\<lambda>r. r \<noteq> []) (List.map_filter id (InitContainerStatuses pod @ ContainerStatuses pod)) of
       Some reason \<Rightarrow> reason
     | None \<Rightarrow> if Phase pod = ''Pending'' then ''Pending'' else if Phase pod = ''Failed'' then ''Failed'' else ''NotReady'')"

definition nodeConditionForPod :: "bool \<Rightarrow> Pod \<Rightarrow> NodeCondition" where
  "nodeConditionForPod ready pod =
    (if ready
     then \<lparr>nc_Type = NodeConditionType, nc_Status = ConditionTrue, nc_Reason = ''AllDaemonsReady'',
           nc_Message = ''all gpu-fractioning daemons are running'', nc_LastHeartbeatTime = 0, nc_LastTransitionTime = 0\<rparr>
     else \<lparr>nc_Type = NodeConditionType, nc_Status = ConditionFalse, nc_Reason = podFailureReason pod,
           nc_Message = or_empty (pod_labels pod LabelComponent) @ '' pod is not ready: '' @ podFailureReason pod,
           nc_LastHeartbeatTime = 0, nc_LastTransitionTime = 0\<rparr>)"

section \<open>Node conditions\<close>

text \<open>The accumulated state of the pass: nodes, unhealthy and seen node names, and whether a call failed.\<close>

record patch_state =
  ps_nodes :: cluster_nodes
  unhealthyNodes :: "string set"
  seenNodes :: "string set"
  ps_failed :: bool

definition patch_pod :: "int \<Rightarrow> bool \<Rightarrow> node_api \<Rightarrow> Pod \<Rightarrow> patch_state \<Rightarrow> patch_state" where
  "patch_pod now cancelled api pod s =
    (let n = NodeName pod; ready = isPodReady pod in
     if n = [] then s
     else let s = s\<lparr>seenNodes := insert n (seenNodes s)\<rparr> in
       if ready \<and> n \<in> unhealthyNodes s then s
       else let s = (if ready then s else s\<lparr>unhealthyNodes := insert n (unhealthyNodes s)\<rparr>);
                reply = (if get_fails api n then None else ps_nodes s n) in
         case GpuDriver_Check cancelled reply (nodeConditionForPod ready pod) of
           (condition, checkFailed) \<Rightarrow>
             (case PatchNodeCondition now api n condition (ps_nodes s) of
                (nodes', err) \<Rightarrow> s\<lparr>ps_nodes := nodes', ps_failed := (ps_failed s \<or> checkFailed \<or> err \<noteq> None)\<rparr>))"

fun patch_pages :: "int \<Rightarrow> bool \<Rightarrow> node_api \<Rightarrow> Pod pages \<Rightarrow> patch_state \<Rightarrow> patch_state \<times> bool" where
  "patch_pages now cancelled api [] s = (s, True)"
| "patch_pages now cancelled api (None # _) s = (s\<lparr>ps_failed := True\<rparr>, False)"
| "patch_pages now cancelled api (Some pods # pages) s =
    patch_pages now cancelled api pages (fold (patch_pod now cancelled api) pods s)"

text \<open>The gauges of the operator: ready and desired nodes by daemon, and ready and degraded nodes.\<close>

definition SetDaemonHealth :: "string \<Rightarrow> int \<Rightarrow> int \<Rightarrow> (string \<rightharpoonup> int \<times> int) \<Rightarrow> (string \<rightharpoonup> int \<times> int)" where
  "SetDaemonHealth daemon ready desired g = g(daemon \<mapsto> (ready, desired))"

definition SetNodeHealth :: "int \<Rightarrow> int \<Rightarrow> (int \<times> int) option" where
  "SetNodeHealth ready degraded = Some (ready, degraded)"

declare SetDaemonHealth_def [simp] SetNodeHealth_def [simp]

text \<open>
  The nodes after the pass, whether some node is unhealthy, whether an error is returned, and the
  counts of ready and degraded nodes, which are published only when every page was read.
\<close>

definition patchNodeConditions ::
  "int \<Rightarrow> bool \<Rightarrow> node_api \<Rightarrow> Pod pages \<Rightarrow> cluster_nodes \<Rightarrow> cluster_nodes \<times> bool \<times> bool \<times> (int \<times> int) option" where
  "patchNodeConditions now cancelled api pages nodes =
    (case patch_pages now cancelled api pages \<lparr>ps_nodes = nodes, unhealthyNodes = {}, seenNodes = {}, ps_failed = False\<rparr> of
       (s, allRead) \<Rightarrow>
         (ps_nodes s, unhealthyNodes s \<noteq> {}, ps_failed s,
          if allRead then SetNodeHealth (int (card (seenNodes s)) - int (card (unhealthyNodes s))) (int (card (unhealthyNodes s))) else None))"

section \<open>Driver upgrades and driver labels\<close>

text \<open>
  The nodes the API server lists for the selector (upgrade label present and not done), \<open>None\<close> for
  a failing call. Only nodes that carry the condition are patched.
\<close>

definition evaluateDriverUpgrade ::
  "node_api \<Rightarrow> (string \<times> Node) list option \<Rightarrow> cluster_nodes \<Rightarrow> cluster_nodes \<times> bool \<times> bool" where
  "evaluateDriverUpgrade api reply nodes =
    (case reply of
       None \<Rightarrow> (nodes, False, True)
     | Some items \<Rightarrow> (case remove_page api items nodes of (nodes', errs) \<Rightarrow> (nodes', items \<noteq> [], errs \<noteq> [])))"

fun label_page :: "(string \<Rightarrow> bool) \<Rightarrow> (string \<times> Node) list \<Rightarrow> cluster_nodes \<Rightarrow> cluster_nodes \<times> bool" where
  "label_page fails [] nodes = (nodes, False)"
| "label_page fails ((n, node) # items) nodes =
    (if or_empty (node_labels node NVIDIADriverMajorLabel) = [] then label_page fails items nodes
     else case nodes n of
         None \<Rightarrow> (case label_page fails items nodes of (nodes', _) \<Rightarrow> (nodes', True))
       | Some cur \<Rightarrow>
           if fails n then (case label_page fails items nodes of (nodes', _) \<Rightarrow> (nodes', True))
           else label_page fails items
             (nodes(n \<mapsto> cur\<lparr>node_labels := (node_labels cur)(NVIDIADriverMajorLabel := None)\<rparr>)))"

fun removeDriverMajorLabels :: "(string \<Rightarrow> bool) \<Rightarrow> (string \<times> Node) pages \<Rightarrow> cluster_nodes \<Rightarrow> cluster_nodes \<times> bool" where
  "removeDriverMajorLabels fails [] nodes = (nodes, False)"
| "removeDriverMajorLabels fails (None # _) nodes = (nodes, True)"
| "removeDriverMajorLabels fails (Some items # pages) nodes =
    (case label_page fails items nodes of
       (nodes', failed) \<Rightarrow> (case removeDriverMajorLabels fails pages nodes' of (nodes'', failed') \<Rightarrow> (nodes'', failed \<or> failed')))"

section \<open>The reconciler\<close>

definition NodeConditionCleanupFinalizer :: string where
  "NodeConditionCleanupFinalizer = ''gpu-fractioning.nvidia.com/cleanup-node-conditions''"

definition requeueInterval :: int where "requeueInterval = 30 * 10 ^ 9"

record GpuFractioningConfig =
  Generation :: int
  Deleting :: bool
  Finalizers :: "string list"
  cfg_Spec :: GpuFractioningConfigSpec
  Conditions :: "Condition list"
  StatusObservedGeneration :: int

record Reconciler =
  r_Namespace :: string
  r_DefaultImages :: "string \<Rightarrow> ImageSpec"
  DaemonServiceAccountName :: string
  MpsdAuditLog :: bool
  r_SupportSMSharing :: bool
  r_FIPSOnly :: bool
  SkipGpuStackVersionChecks :: bool

record cluster =
  k_cr :: "GpuFractioningConfig option"
  k_nodes :: cluster_nodes
  k_dsets :: cluster_ds
  daemon_gauge :: "string \<rightharpoonup> int \<times> int"
  node_gauge :: "(int \<times> int) option"

record rec_env =
  e_now :: int
  e_texts :: texts
  e_sv :: semver
  e_cancelled :: bool
  cr_get_fails :: bool
  update_fails :: bool
  status_update_fails :: bool
  policy_reply :: list_reply
  csv_reply :: list_reply
  ds_calls :: ds_api
  node_calls :: node_api
  label_patch_fails :: "string \<Rightarrow> bool"
  upgrade_reply :: "(string \<times> Node) list option"
  pod_pages :: "Pod pages"
  cleanup_pages :: "(string \<times> Node) pages"
  label_pages :: "(string \<times> Node) pages"

datatype rec_result = Done | RequeueAfter int | RecError string

definition isConditionTrue :: "Condition list \<Rightarrow> string \<Rightarrow> bool" where
  "isConditionTrue conds t = (case condition_of t conds of None \<Rightarrow> False | Some c \<Rightarrow> Status c = ConditionTrue)"

definition buildDaemons :: "texts \<Rightarrow> GpuFractioningConfigSpec \<Rightarrow> bool \<Rightarrow> bool \<Rightarrow> (string \<times> (BuildOptions \<Rightarrow> DaemonSet)) list" where
  "buildDaemons t spec al sm =
    [(fractiond_daemonName, fractiond_BuildDaemonSet t (NewFractiondDaemon (FractioningAgent spec) (MetricsAgent spec) sm)),
     (mpsd_daemonName, mpsd_BuildDaemonSet t (NewMpsdDaemon (MpsDaemon spec) al sm))]"

definition buildOptions :: "Reconciler \<Rightarrow> GpuFractioningConfig \<Rightarrow> ClusterPolicy \<Rightarrow> BuildOptions" where
  "buildOptions r config p =
    (let opts = \<lparr>o_Namespace = r_Namespace r, o_NodeSelector = s_NodeSelector (cfg_Spec config),
           o_Tolerations = s_Tolerations (cfg_Spec config), o_ServiceAccountName = DaemonServiceAccountName r,
           o_RuntimeClassName = ResolveRuntimeClassName (s_RuntimeClassName (cfg_Spec config)),
           DefaultImages = r_DefaultImages r, FIPSOnly = r_FIPSOnly r, o_NRIPluginEnabled = False\<rparr>
     in if NRIPluginEnabled p then opts\<lparr>o_RuntimeClassName := None, o_NRIPluginEnabled := True\<rparr> else opts)"

text \<open>One daemon after the other: DaemonSets, conditions, gauges, and whether another pass is due.\<close>

record daemon_pass =
  dp_dsets :: cluster_ds
  dp_conditions :: "Condition list"
  dp_gauge :: "string \<rightharpoonup> int \<times> int"
  dp_requeue :: bool

definition reconcile_one ::
  "rec_env \<Rightarrow> GpuFractioningConfig \<Rightarrow> BuildOptions \<Rightarrow> string \<times> (BuildOptions \<Rightarrow> DaemonSet) \<Rightarrow> daemon_pass \<Rightarrow> daemon_pass" where
  "reconcile_one e config opts d s =
    (case ReconcileDaemon (ds_calls e) ''default'' (snd d) opts (dp_dsets s) of
       (ds', outcome) \<Rightarrow>
         let health = (case outcome of Inl _ \<Rightarrow> \<lparr>DesiredNodes = 0, ReadyNodes = 0\<rparr> | Inr h \<Rightarrow> h);
             cond = DaemonHealthToCondition (e_now e) (fst d) outcome (Generation config)
         in \<lparr>dp_dsets = ds', dp_conditions = SetCondition (dp_conditions s) cond,
             dp_gauge = SetDaemonHealth (fst d) (ReadyNodes health) (DesiredNodes health) (dp_gauge s),
             dp_requeue = (dp_requeue s \<or> isl outcome \<or> ReadyNodes health < DesiredNodes health)\<rparr>)"

definition reconcileDelete :: "rec_env \<Rightarrow> GpuFractioningConfig \<Rightarrow> cluster \<Rightarrow> cluster \<times> rec_result" where
  "reconcileDelete e config k =
    (if NodeConditionCleanupFinalizer \<notin> set (Finalizers config) then (k, Done)
     else case RemoveNodeConditions (node_calls e) (cleanup_pages e) (k_nodes k) of
         (ns, errs) \<Rightarrow>
           if errs \<noteq> [] then (k\<lparr>k_nodes := ns\<rparr>, RecError ''cleaning up node conditions'')
           else case removeDriverMajorLabels (label_patch_fails e) (label_pages e) ns of
               (ns', failed) \<Rightarrow>
                 if failed then (k\<lparr>k_nodes := ns'\<rparr>, RecError ''cleaning up driver labels'')
                 else if update_fails e then (k\<lparr>k_nodes := ns'\<rparr>, RecError ''removing finalizer'')
                 else (k\<lparr>k_nodes := ns', k_cr := Some (config\<lparr>Finalizers :=
                         filter (\<lambda>f. f \<noteq> NodeConditionCleanupFinalizer) (Finalizers config)\<rparr>)\<rparr>, Done))"

text \<open>The pass after the finalizer is in place, for the configuration read from the cluster.\<close>

definition reconcile_pass :: "Reconciler \<Rightarrow> rec_env \<Rightarrow> GpuFractioningConfig \<Rightarrow> cluster \<Rightarrow> cluster \<times> rec_result" where
  "reconcile_pass r e config k =
    (let wasUnhealthy = \<not> isConditionTrue (Conditions config) ConditionReady;
         p = ReadClusterPolicy (policy_reply e);
         opts = buildOptions r config p;
         daemons = buildDaemons (e_texts e) (cfg_Spec config) (MpsdAuditLog r) (r_SupportSMSharing r);
         dp = fold (reconcile_one e config opts) daemons
           \<lparr>dp_dsets = k_dsets k, dp_conditions = Conditions config, dp_gauge = daemon_gauge k, dp_requeue = False\<rparr>;
         checker = \<lparr>skipVersionChecks = SkipGpuStackVersionChecks r, namespace = r_Namespace r\<rparr>;
         agg = AggregateReadyCondition (e_now e) (dp_conditions dp) (Generation config)
     in case GpuOperator_Check (e_now e) (e_sv e) checker (e_cancelled e) (csv_reply e) p (Generation config) agg of
          (readyCond, checkErr) \<Rightarrow>
            let conds1 = SetCondition (dp_conditions dp) readyCond in
            case evaluateDriverUpgrade (node_calls e) (upgrade_reply e) (k_nodes k) of
              (ns1, upgrading, upFailed) \<Rightarrow>
                let conds2 = (if upFailed then conds1
                      else SetCondition conds1 (DriverUpgradeCondition (e_now e) upgrading (Generation config)));
                    requeue1 = (dp_requeue dp \<or> checkErr \<noteq> None \<or> upFailed) in
                case (if requeue1 \<or> wasUnhealthy
                      then patchNodeConditions (e_now e) (e_cancelled e) (node_calls e) (pod_pages e) ns1
                      else (ns1, False, False, None)) of
                  (ns2, nodesUnhealthy, patchFailed, gauge) \<Rightarrow>
                    let k' = k\<lparr>k_nodes := ns2, k_dsets := dp_dsets dp, daemon_gauge := dp_gauge dp,
                          node_gauge := (if gauge = None then node_gauge k else gauge)\<rparr>;
                        requeue2 = (requeue1 \<or> patchFailed \<or> nodesUnhealthy) in
                    if status_update_fails e then (k', RecError ''unable to update status'')
                    else (k'\<lparr>k_cr := Some (config\<lparr>Conditions := conds2, StatusObservedGeneration := Generation config\<rparr>)\<rparr>,
                          if requeue2 then RequeueAfter requeueInterval else Done))"

definition Reconcile :: "Reconciler \<Rightarrow> rec_env \<Rightarrow> cluster \<Rightarrow> cluster \<times> rec_result" where
  "Reconcile r e k =
    (if cr_get_fails e then (k, RecError ''unable to fetch GpuFractioningConfig'')
     else case k_cr k of
         None \<Rightarrow> (k, Done)
       | Some config \<Rightarrow>
           if Deleting config then reconcileDelete e config k
           else if NodeConditionCleanupFinalizer \<in> set (Finalizers config) then reconcile_pass r e config k
           else if update_fails e then (k, RecError ''adding finalizer'')
           else let config' = config\<lparr>Finalizers := Finalizers config @ [NodeConditionCleanupFinalizer]\<rparr>
                in reconcile_pass r e config' (k\<lparr>k_cr := Some config'\<rparr>))"

definition ReadImageFromEnv :: "getenv \<Rightarrow> string \<Rightarrow> ImageSpec" where
  "ReadImageFromEnv ge pre =
    \<lparr>Repository = env_String ge (pre @ ''_REPOSITORY'') [], Tag = env_String ge (pre @ ''_TAG'') [],
     ImagePullPolicy = env_String ge (pre @ ''_PULL_POLICY'') []\<rparr>"

section \<open>The condition of a node\<close>

definition node_status :: "cluster_nodes \<Rightarrow> string \<Rightarrow> ConditionStatus option" where
  "node_status ns n = map_option nc_Status (Option.bind (ns n) FindNodeCondition)"

lemma patch_applies:
  assumes "merge_keyed api" "nc_Type c = NodeConditionType" "\<not> patch_fails api n" "ns n \<noteq> None"
  obtains ns' where "PatchNodeCondition t api n c ns = (ns', None)" "node_status ns' n = Some (nc_Status c)"
    "\<And>m. m \<noteq> n \<Longrightarrow> ns' m = ns m" "dom ns' = dom ns"
proof -
  obtain node where node: "ns n = Some node" using assms(4) by auto
  obtain ns' err where run: "PatchNodeCondition t api n c ns = (ns', err)" by (meson surj_pair)
  have "err = None \<and> node_status ns' n = Some (nc_Status c) \<and> (\<forall>m. m \<noteq> n \<longrightarrow> ns' m = ns m) \<and> dom ns' = dom ns"
    using run node assms(2,3) FindNodeCondition_merge [OF assms(1)]
    by (auto simp: PatchNodeCondition_def node_status_def Let_def split: if_splits option.splits)
  with run that show thesis by blast
qed

lemma driver_check_keeps:
  "nc_Status (fst (GpuDriver_Check c reply cond)) = nc_Status cond" "nc_Type (fst (GpuDriver_Check c reply cond)) = nc_Type cond"
  by (auto simp: GpuDriver_Check_def split: option.splits)

lemma nodeConditionForPod_simps [simp]:
  "nc_Type (nodeConditionForPod r pod) = NodeConditionType"
  "nc_Status (nodeConditionForPod r pod) = (if r then ConditionTrue else ConditionFalse)"
  by (simp_all add: nodeConditionForPod_def)

text \<open>After a list of pods: which nodes were seen and found unhealthy, and what their condition says.\<close>

definition unready_on :: "Pod list \<Rightarrow> string set" where
  "unready_on ps = {NodeName p |p. p \<in> set ps \<and> NodeName p \<noteq> [] \<and> \<not> isPodReady p}"

definition with_pods :: "Pod list \<Rightarrow> string set" where
  "with_pods ps = {NodeName p |p. p \<in> set ps \<and> NodeName p \<noteq> []}"

definition patched :: "cluster_nodes \<Rightarrow> Pod list \<Rightarrow> patch_state \<Rightarrow> bool" where
  "patched ns ps s \<longleftrightarrow> unhealthyNodes s = unready_on ps \<and> seenNodes s = with_pods ps \<and> dom (ps_nodes s) = dom ns \<and>
    (\<forall>n \<in> with_pods ps. node_status (ps_nodes s) n = Some (if n \<in> unready_on ps then ConditionFalse else ConditionTrue)) \<and>
    (\<forall>n. n \<notin> with_pods ps \<longrightarrow> ps_nodes s n = ns n)"

lemma pods_snoc:
  "with_pods (ps @ [p]) = (if NodeName p = [] then with_pods ps else insert (NodeName p) (with_pods ps))"
  "unready_on (ps @ [p]) = (if NodeName p = [] \<or> isPodReady p then unready_on ps else insert (NodeName p) (unready_on ps))"
  by (auto simp: with_pods_def unready_on_def)

lemma unready_subset: "unready_on ps \<subseteq> with_pods ps"
  by (auto simp: with_pods_def unready_on_def)

lemma patch_pod_step:
  assumes "merge_keyed api" "\<And>n. \<not> patch_fails api n" "patched ns ps s" "NodeName p \<in> insert [] (dom ns)"
  shows "patched ns (ps @ [p]) (patch_pod t c api p s)"
proof (cases "NodeName p = [] \<or> (isPodReady p \<and> NodeName p \<in> unhealthyNodes s)")
  case True
  then show ?thesis
    using assms(3) unready_subset [of ps] by (auto simp: patch_pod_def patched_def pods_snoc Let_def)
next
  case False
  let ?n = "NodeName p" and ?r = "isPodReady p"
  let ?reply = "if get_fails api ?n then None else ps_nodes s ?n"
  let ?chk = "GpuDriver_Check c ?reply (nodeConditionForPod ?r p)"
  have "ps_nodes s ?n \<noteq> None" using False assms(3,4) by (auto simp: patched_def)
  with assms(1,2) obtain ns' where run: "PatchNodeCondition t api ?n (fst ?chk) (ps_nodes s) = (ns', None)"
      "node_status ns' ?n = Some (if ?r then ConditionTrue else ConditionFalse)"
      "\<And>m. m \<noteq> ?n \<Longrightarrow> ns' m = ps_nodes s m" "dom ns' = dom (ps_nodes s)"
    using patch_applies [of api "fst ?chk" ?n "ps_nodes s" t] by (auto simp: driver_check_keeps)
  have status: "node_status ns' m = (if m = ?n then Some (if ?r then ConditionTrue else ConditionFalse)
      else node_status (ps_nodes s) m)" for m
    using run(2) run(3) [of m] by (simp add: node_status_def)
  have step: "ps_nodes (patch_pod t c api p s) = ns'" "seenNodes (patch_pod t c api p s) = insert ?n (seenNodes s)"
      "unhealthyNodes (patch_pod t c api p s) = (if ?r then unhealthyNodes s else insert ?n (unhealthyNodes s))"
    using False run(1) by (auto simp: patch_pod_def Let_def split: prod.splits)
  show ?thesis
    unfolding patched_def step pods_snoc
    using assms(3) False run(3,4) by (auto simp: patched_def status)
qed

lemma patch_pods:
  assumes "merge_keyed api" "\<And>n. \<not> patch_fails api n" "patched ns ps s" "NodeName ` set qs \<subseteq> insert [] (dom ns)"
  shows "patched ns (ps @ qs) (fold (patch_pod t c api) qs s)"
  using assms(3,4)
proof (induction qs arbitrary: ps s)
  case (Cons q qs)
  then show ?case
    using patch_pod_step [OF assms(1,2), of ns ps s q t c] Cons.IH [of "ps @ [q]" "patch_pod t c api q s"] by simp
qed simp

lemma patch_pages_all:
  assumes "merge_keyed api" "\<And>n. \<not> patch_fails api n" "patched ns ps s" "None \<notin> set pages"
    "NodeName ` set (concat (List.map_filter id pages)) \<subseteq> insert [] (dom ns)"
  shows "snd (patch_pages t c api pages s) \<and> patched ns (ps @ concat (List.map_filter id pages)) (fst (patch_pages t c api pages s))"
  using assms(3-)
proof (induction pages arbitrary: ps s)
  case (Cons page pages)
  then obtain items where page: "page = Some items" by (cases page) auto
  have "patched ns (ps @ items) (fold (patch_pod t c api) items s)"
    using Cons.prems page by (intro patch_pods [OF assms(1,2)]) (auto simp: List.map_filter_simps)
  with Cons.IH [of "ps @ items" "fold (patch_pod t c api) items s"] Cons.prems page show ?case
    by (auto simp: List.map_filter_simps)
qed (simp add: List.map_filter_simps)

lemma listed_pods: "set (concat (List.map_filter id pages)) = listed pages"
  by (induction pages) (auto simp: listed_def List.map_filter_simps split: option.splits)

text \<open>
  C23: a node's condition says exactly whether all its daemon pods are ready, whatever the order
  of the pods and the pages. When every page is read and no patch fails, each node with daemon
  pods ends with status True if all of them are ready and False otherwise, nodes without daemon
  pods are untouched, and the pass reports an unhealthy node exactly when a scheduled pod is not
  ready, with the published counts adding up to the nodes seen.
\<close>

theorem node_conditions_verdict:
  assumes "merge_keyed api" "\<And>n. \<not> patch_fails api n" "None \<notin> set pages"
    and "\<forall>p \<in> listed pages. NodeName p \<in> insert [] (dom ns)"
    and run: "patchNodeConditions t c api pages ns = (ns', unhealthy, failed, gauge)"
  shows "(\<forall>p \<in> listed pages. NodeName p \<noteq> [] \<longrightarrow> node_status ns' (NodeName p) =
      Some (if \<forall>q \<in> listed pages. NodeName q = NodeName p \<longrightarrow> isPodReady q then ConditionTrue else ConditionFalse)) \<and>
    (\<forall>n. n \<notin> NodeName ` listed pages \<longrightarrow> ns' n = ns n) \<and>
    (unhealthy \<longleftrightarrow> (\<exists>p \<in> listed pages. NodeName p \<noteq> [] \<and> \<not> isPodReady p)) \<and>
    (\<exists>r d. gauge = Some (r, d) \<and> r + d = int (card (NodeName ` listed pages - {[]})) \<and> (0 < d \<longleftrightarrow> unhealthy))"
proof -
  let ?ps = "concat (List.map_filter id pages)"
  let ?s0 = "\<lparr>ps_nodes = ns, unhealthyNodes = {}, seenNodes = {}, ps_failed = False\<rparr>"
  define s where "s = fst (patch_pages t c api pages ?s0)"
  have "patched ns [] ?s0" by (simp add: patched_def with_pods_def unready_on_def)
  from patch_pages_all [OF assms(1,2) this assms(3), of t c] assms(4)
  have all: "snd (patch_pages t c api pages ?s0)" and s: "patched ns ?ps s"
    unfolding s_def by (auto simp: listed_pods simp del: set_concat)
  have sets: "with_pods ?ps = NodeName ` listed pages - {[]}"
      "unready_on ?ps = {NodeName p |p. p \<in> listed pages \<and> NodeName p \<noteq> [] \<and> \<not> isPodReady p}"
    unfolding with_pods_def unready_on_def listed_pods by auto
  have fin: "finite (unready_on ?ps)" by (simp add: unready_on_def)
  from run all have res: "ns' = ps_nodes s" "unhealthy \<longleftrightarrow> unready_on ?ps \<noteq> {}"
      "gauge = Some (int (card (with_pods ?ps)) - int (card (unready_on ?ps)), int (card (unready_on ?ps)))"
    using s by (auto simp: patchNodeConditions_def s_def patched_def split: prod.splits)
  have status: "node_status ns' (NodeName p) =
      Some (if \<forall>q \<in> listed pages. NodeName q = NodeName p \<longrightarrow> isPodReady q then ConditionTrue else ConditionFalse)"
    if "p \<in> listed pages" "NodeName p \<noteq> []" for p
  proof -
    have "NodeName p \<in> with_pods ?ps" using that sets(1) by auto
    moreover have "NodeName p \<in> unready_on ?ps \<longleftrightarrow> \<not> (\<forall>q \<in> listed pages. NodeName q = NodeName p \<longrightarrow> isPodReady q)"
      using that(2) unfolding sets(2) mem_Collect_eq by metis
    ultimately show ?thesis using s res(1) by (simp add: patched_def)
  qed
  have frame: "\<forall>n. n \<notin> NodeName ` listed pages \<longrightarrow> ns' n = ns n"
    using s res(1) sets(1) by (auto simp: patched_def)
  show ?thesis
    using status frame res(2,3) fin sets by (auto simp: card_gt_0_iff)
qed

definition good_api :: node_api where
  "good_api = sample_api\<lparr>patch_fails := (\<lambda>_. False)\<rparr>"

lemma good_api_ok: "merge_keyed good_api" "\<not> patch_fails good_api n"
  using merge_keyed_sample by (simp_all add: good_api_def merge_keyed_def)

definition sample_pod :: "ConditionStatus \<Rightarrow> Pod" where
  "sample_pod s = \<lparr>NodeName = ''n'', pod_labels = Map.empty, PodConditions = [(''Ready'', s)],
     InitContainerStatuses = [], ContainerStatuses = [Some ''CrashLoopBackOff''], Phase = ''Running''\<rparr>"

theorem node_conditions_verdict_witness:
  "node_status (fst (patchNodeConditions 9 False good_api [Some [sample_pod ConditionFalse], Some [sample_pod ConditionTrue]]
     [''n'' \<mapsto> sample_node])) ''n'' = Some ConditionFalse"
  using node_conditions_verdict [where api = good_api and t = 9 and c = False and ns = "[''n'' \<mapsto> sample_node]"
      and pages = "[Some [sample_pod ConditionFalse], Some [sample_pod ConditionTrue]]", OF good_api_ok]
  by (cases "patchNodeConditions 9 False good_api [Some [sample_pod ConditionFalse], Some [sample_pod ConditionTrue]] [''n'' \<mapsto> sample_node]")
    (simp add: listed_def sample_pod_def isPodReady_def)

section \<open>Deletion\<close>

definition no_label :: "cluster_nodes \<Rightarrow> string \<Rightarrow> bool" where
  "no_label ns n \<longleftrightarrow> (\<forall>node. ns n = Some node \<longrightarrow> or_empty (node_labels node NVIDIADriverMajorLabel) = [])"

definition labels_up_to_date :: "(string \<times> Node) set \<Rightarrow> cluster_nodes \<Rightarrow> bool" where
  "labels_up_to_date items ns \<longleftrightarrow>
    (\<forall>(n, node) \<in> items. or_empty (node_labels node NVIDIADriverMajorLabel) = [] \<longrightarrow> no_label ns n)"

text \<open>Removing labels keeps what was clean clean.\<close>

definition unlabels :: "cluster_nodes \<Rightarrow> cluster_nodes \<Rightarrow> bool" where
  "unlabels ns ns' \<longleftrightarrow> (\<forall>n. clean ns n \<longrightarrow> clean ns' n) \<and> (\<forall>n. no_label ns n \<longrightarrow> no_label ns' n)"

lemma unlabels_refl [simp]: "unlabels ns ns"
  by (simp add: unlabels_def)

lemma unlabels_trans: "unlabels a b \<Longrightarrow> unlabels b c \<Longrightarrow> unlabels a c"
  by (simp add: unlabels_def)

lemma labels_up_to_date_unlabels: "labels_up_to_date items ns \<Longrightarrow> unlabels ns ns' \<Longrightarrow> labels_up_to_date items ns'"
  by (auto simp: labels_up_to_date_def unlabels_def)

lemma unlabel_one:
  assumes "ns n = Some cur"
  defines "ns' \<equiv> ns(n \<mapsto> cur\<lparr>node_labels := (node_labels cur)(NVIDIADriverMajorLabel := None)\<rparr>)"
  shows "unlabels ns ns'" "no_label ns' n"
  using assms(1) unfolding ns'_def
  by (auto simp: unlabels_def clean_def no_label_def FindNodeCondition_def or_empty_def)

lemma label_page_removes:
  assumes "label_page fails items ns = (ns', failed)" "labels_up_to_date (set items) ns"
  shows "unlabels ns ns' \<and> (\<not> failed \<longrightarrow> (\<forall>n \<in> fst ` set items. no_label ns' n))"
  using assms
proof (induction items arbitrary: ns failed)
  case (Cons item items)
  obtain n node where item: "item = (n, node)" by (cases item)
  have fresh: "labels_up_to_date (set items) ns" using Cons.prems(2) by (simp add: labels_up_to_date_def)
  show ?case
  proof (cases "or_empty (node_labels node NVIDIADriverMajorLabel) = []")
    case True
    then have "no_label ns n" using Cons.prems(2) item by (auto simp: labels_up_to_date_def)
    moreover have "label_page fails items ns = (ns', failed)" using True Cons.prems(1) item by simp
    ultimately show ?thesis using Cons.IH [of ns failed] fresh item by (auto simp: unlabels_def)
  next
    case False
    show ?thesis
    proof (cases "ns n = None \<or> fails n")
      case True
      with False Cons.prems(1) item obtain f where "label_page fails items ns = (ns', f)" "failed"
        by (auto split: prod.splits option.splits)
      then show ?thesis using Cons.IH [of ns f] fresh by blast
    next
      case ok: False
      then obtain cur where cur: "ns n = Some cur" by auto
      define ns1 where "ns1 = ns(n \<mapsto> cur\<lparr>node_labels := (node_labels cur)(NVIDIADriverMajorLabel := None)\<rparr>)"
      have one: "unlabels ns ns1" "no_label ns1 n"
        unfolding ns1_def using unlabel_one [where ns = ns and n = n, OF cur] by blast+
      have rest: "label_page fails items ns1 = (ns', failed)" using Cons.prems(1) item False ok cur by (simp add: ns1_def)
      note tail = Cons.IH [OF rest labels_up_to_date_unlabels [OF fresh one(1)]]
      have "unlabels ns ns'" "no_label ns' n" using one tail by (auto simp: unlabels_def)
      with tail item show ?thesis by auto
    qed
  qed
qed simp

lemma removeDriverMajorLabels_removes:
  assumes "removeDriverMajorLabels fails pages ns = (ns', failed)" "labels_up_to_date (listed pages) ns"
  shows "unlabels ns ns' \<and> (\<not> failed \<longrightarrow> None \<notin> set pages \<and> (\<forall>n \<in> fst ` listed pages. no_label ns' n))"
  using assms
proof (induction pages arbitrary: ns failed)
  case (Cons page pages)
  show ?case
  proof (cases page)
    case None
    with Cons.prems show ?thesis by auto
  next
    case (Some items)
    obtain ns1 f1 where page: "label_page fails items ns = (ns1, f1)" by (meson surj_pair)
    obtain ns2 f2 where rest: "removeDriverMajorLabels fails pages ns1 = (ns2, f2)" by (meson surj_pair)
    from Cons.prems(1) Some page rest have res: "ns2 = ns'" "failed = (f1 \<or> f2)" by auto
    have fresh: "labels_up_to_date (set items) ns" "labels_up_to_date (listed pages) ns"
      using Cons.prems(2) Some by (auto simp: labels_up_to_date_def listed_def)
    note one = label_page_removes [OF page fresh(1)]
    note tail = Cons.IH [OF rest [unfolded res(1)] labels_up_to_date_unlabels [OF fresh(2) conjunct1 [OF one]]]
    have names: "fst ` listed (page # pages) = fst ` set items \<union> fst ` listed pages"
      using Some by (auto simp: listed_def)
    have "unlabels ns ns'" using one tail res(1) unlabels_trans by blast
    with one tail Some res names show ?thesis by (auto simp: unlabels_def)
  qed
qed (simp add: listed_def)

text \<open>
  C24: the resource is released for deletion only after its traces are gone. If a pass over a
  resource that is being deleted changes the stored resource, it removed just the finalizer, every
  page of nodes was read, and no listed node has the operator's condition or the driver label any
  more; a pass that fails leaves the finalizer in place. The listed nodes are assumed to be as stored.
\<close>

theorem delete_waits_for_cleanup:
  assumes "merge_keyed (node_calls e)" and "up_to_date (listed (cleanup_pages e)) (k_nodes k)"
    and "labels_up_to_date (listed (label_pages e)) (k_nodes k)"
    and "k_cr k = Some config" "Deleting config"
    and run: "Reconcile r e k = (k', result)"
  shows "(k_cr k' \<noteq> k_cr k \<longrightarrow>
      k_cr k' = Some (config\<lparr>Finalizers := filter (\<lambda>f. f \<noteq> NodeConditionCleanupFinalizer) (Finalizers config)\<rparr>) \<and>
      None \<notin> set (cleanup_pages e) \<and> None \<notin> set (label_pages e) \<and>
      (\<forall>n \<in> fst ` listed (cleanup_pages e). clean (k_nodes k') n) \<and>
      (\<forall>n \<in> fst ` listed (label_pages e). no_label (k_nodes k') n)) \<and>
    (result \<noteq> Done \<longrightarrow> k_cr k' = k_cr k)"
proof -
  obtain ns1 errs where rm: "RemoveNodeConditions (node_calls e) (cleanup_pages e) (k_nodes k) = (ns1, errs)" by (meson surj_pair)
  obtain ns2 failed where lab: "removeDriverMajorLabels (label_patch_fails e) (label_pages e) ns1 = (ns2, failed)" by (meson surj_pair)
  note cleaned = RemoveNodeConditions_cleans [OF assms(1) rm assms(2)]
  have labels: "or_empty (node_labels b NVIDIADriverMajorLabel) = or_empty (node_labels a NVIDIADriverMajorLabel)"
    if "k_nodes k n = Some a" "ns1 n = Some b" for n a b
  proof -
    have "map_option foreign (ns1 n) = map_option foreign (k_nodes k n)" using cleaned by (simp add: cleans_def)
    with that show ?thesis by (simp add: foreign_def)
  qed
  have same_dom: "ns1 n = None \<longleftrightarrow> k_nodes k n = None" for n
  proof -
    have "map_option foreign (ns1 n) = map_option foreign (k_nodes k n)" using cleaned by (simp add: cleans_def)
    then show ?thesis by (metis map_option_is_None)
  qed
  have "no_label ns1 n" if "no_label (k_nodes k) n" for n
    unfolding no_label_def
  proof (intro allI impI)
    fix b assume b: "ns1 n = Some b"
    with same_dom [of n] obtain a where a: "k_nodes k n = Some a" by force
    show "or_empty (node_labels b NVIDIADriverMajorLabel) = []"
      using that a unfolding no_label_def labels [OF a b] by blast
  qed
  then have "labels_up_to_date (listed (label_pages e)) ns1"
    using assms(3) by (auto simp: labels_up_to_date_def)
  note unlabelled = removeDriverMajorLabels_removes [OF lab this]
  show ?thesis
    using run assms(4,5) rm lab cleaned unlabelled
    by (auto simp: Reconcile_def reconcileDelete_def unlabels_def split: if_splits)
qed

definition sample_config :: GpuFractioningConfig where
  "sample_config = \<lparr>Generation = 3, Deleting = True, Finalizers = [NodeConditionCleanupFinalizer],
     cfg_Spec = \<lparr>s_NodeSelector = Map.empty, s_Tolerations = [], s_RuntimeClassName = None, FractioningAgent = None,
       MetricsAgent = None, MpsDaemon = None\<rparr>, Conditions = [], StatusObservedGeneration = 0\<rparr>"

definition sample_env :: rec_env where
  "sample_env = \<lparr>e_now = 9, e_texts = sample_texts, e_sv = sample_semver, e_cancelled = False, cr_get_fails = False,
     update_fails = False, status_update_fails = False, policy_reply = KindNotFound, csv_reply = KindNotFound,
     ds_calls = \<lparr>upsert_fails = (\<lambda>_. False), ds_get_fails = (\<lambda>_. False)\<rparr>, node_calls = good_api,
     label_patch_fails = (\<lambda>_. False), upgrade_reply = Some [], pod_pages = [Some [sample_pod ConditionTrue]],
     cleanup_pages = [Some [(''n'', sample_node)]], label_pages = [Some []]\<rparr>"

definition sample_cluster :: "GpuFractioningConfig \<Rightarrow> cluster" where
  "sample_cluster config = \<lparr>k_cr = Some config, k_nodes = [''n'' \<mapsto> sample_node], k_dsets = Map.empty,
     daemon_gauge = Map.empty, node_gauge = None\<rparr>"

definition sample_reconciler :: Reconciler where
  "sample_reconciler = \<lparr>r_Namespace = ''gf'', r_DefaultImages = (\<lambda>_. \<lparr>Repository = [], Tag = [], ImagePullPolicy = []\<rparr>),
     DaemonServiceAccountName = ''sa'', MpsdAuditLog = True, r_SupportSMSharing = True, r_FIPSOnly = False,
     SkipGpuStackVersionChecks = False\<rparr>"

theorem delete_waits_for_cleanup_witness:
  "clean (k_nodes (fst (Reconcile sample_reconciler sample_env (sample_cluster sample_config)))) ''n''"
proof -
  have pre: "up_to_date (listed (cleanup_pages sample_env)) (k_nodes (sample_cluster sample_config))"
      "labels_up_to_date (listed (label_pages sample_env)) (k_nodes (sample_cluster sample_config))"
      "merge_keyed (node_calls sample_env)" "k_cr (sample_cluster sample_config) = Some sample_config" "Deleting sample_config"
    using good_api_ok(1)
    by (simp_all add: sample_env_def sample_cluster_def sample_config_def listed_def up_to_date_def labels_up_to_date_def
        sample_node_def sample_node_condition_def FindNodeCondition_def)
  have "k_cr (fst (Reconcile sample_reconciler sample_env (sample_cluster sample_config))) \<noteq> k_cr (sample_cluster sample_config)"
    by (simp add: Reconcile_def reconcileDelete_def sample_env_def sample_cluster_def sample_config_def sample_node_def
        sample_node_condition_def FindNodeCondition_def RemoveNodeCondition_def good_api_def sample_api_def)
  with delete_waits_for_cleanup [OF pre(3,1,2,4,5) surjective_pairing] show ?thesis
    by (simp add: sample_env_def listed_def)
qed

section \<open>Rolling out\<close>

lemma daemon_names_differ: "fractiond_daemonName \<noteq> mpsd_daemonName"
  by (simp add: fractiond_daemonName_def mpsd_daemonName_def)

text \<open>The stored DaemonSet of a daemon is the one built, owned by the resource, with all its pods ready.\<close>

definition rolled_out :: "cluster_ds \<Rightarrow> BuildOptions \<Rightarrow> string \<times> (BuildOptions \<Rightarrow> DaemonSet) \<Rightarrow> bool" where
  "rolled_out ds opts d \<longleftrightarrow> (case ds (o_Namespace opts, daemonSetPrefix @ ''-'' @ fst d) of
     None \<Rightarrow> False
   | Some st \<Rightarrow> st_Spec st = Spec (snd d opts) \<and> st_Labels st = daemon_labels (fst d) \<and>
       st_Owner st = Some ''default'' \<and> DesiredNumberScheduled st \<le> NumberReady st)"

lemma both_rolled_out:
  assumes "dp = fold (reconcile_one e config opts) (buildDaemons t spec al sm) s" "\<not> dp_requeue dp"
  shows "list_all (rolled_out (dp_dsets dp) opts) (buildDaemons t spec al sm)"
proof -
  let ?fd = "NewFractiondDaemon (FractioningAgent spec) (MetricsAgent spec) sm" and ?md = "NewMpsdDaemon (MpsDaemon spec) al sm"
  obtain ds1 o1 where r1: "ReconcileDaemon (ds_calls e) ''default'' (fractiond_BuildDaemonSet t ?fd) opts (dp_dsets s) = (ds1, o1)"
    by (meson surj_pair)
  obtain ds2 o2 where r2: "ReconcileDaemon (ds_calls e) ''default'' (mpsd_BuildDaemonSet t ?md) opts ds1 = (ds2, o2)"
    by (meson surj_pair)
  from assms r1 r2 obtain h1 h2 where h: "o1 = Inr h1" "o2 = Inr h2" "DesiredNodes h1 \<le> ReadyNodes h1" "DesiredNodes h2 \<le> ReadyNodes h2"
    and dp: "dp_dsets dp = ds2"
    by (auto simp: buildDaemons_def reconcile_one_def Let_def split: sum.splits)
  have frame: "ds2 (o_Namespace opts, daemonSetPrefix @ ''-'' @ fractiond_daemonName) = ds1 (o_Namespace opts, daemonSetPrefix @ ''-'' @ fractiond_daemonName)"
    by (rule mpsd.reconcile_frame [OF r2]) (simp add: daemon_names_differ)
  show ?thesis
    using fractiond.reconcile_success [OF r1 [unfolded h(1)]] mpsd.reconcile_success [OF r2 [unfolded h(2)]] h(3,4) frame dp
    by (auto simp: buildDaemons_def rolled_out_def daemonSetHealth_def)
qed

text \<open>The configuration a pass works on: with the finalizer.\<close>

definition guarded :: "GpuFractioningConfig \<Rightarrow> GpuFractioningConfig" where
  "guarded config = (if NodeConditionCleanupFinalizer \<in> set (Finalizers config) then config
     else config\<lparr>Finalizers := Finalizers config @ [NodeConditionCleanupFinalizer]\<rparr>)"

lemma guarded_simps [simp]:
  "NodeConditionCleanupFinalizer \<in> set (Finalizers (guarded config))" "cfg_Spec (guarded config) = cfg_Spec config"
  "Conditions (guarded config) = Conditions config" "Generation (guarded config) = Generation config"
  by (simp_all add: guarded_def)

lemma buildOptions_guarded [simp]: "buildOptions r (guarded config) p = buildOptions r config p"
  by (simp add: buildOptions_def)

lemma Reconcile_live:
  assumes "k_cr k = Some config" "\<not> Deleting config"
  shows "Reconcile r e k = (k, RecError ''unable to fetch GpuFractioningConfig'') \<or>
    Reconcile r e k = (k, RecError ''adding finalizer'') \<or>
    Reconcile r e k = reconcile_pass r e (guarded config) (k\<lparr>k_cr := Some (guarded config)\<rparr>)"
proof -
  have same: "k\<lparr>k_cr := Some config\<rparr> = k" using assms(1) by (cases k) simp
  show ?thesis using assms by (auto simp: Reconcile_def guarded_def Let_def same)
qed

text \<open>The daemons part of a pass.\<close>

definition daemons_of :: "Reconciler \<Rightarrow> rec_env \<Rightarrow> GpuFractioningConfig \<Rightarrow> (string \<times> (BuildOptions \<Rightarrow> DaemonSet)) list" where
  "daemons_of r e config = buildDaemons (e_texts e) (cfg_Spec config) (MpsdAuditLog r) (r_SupportSMSharing r)"

definition daemons_pass :: "Reconciler \<Rightarrow> rec_env \<Rightarrow> GpuFractioningConfig \<Rightarrow> cluster \<Rightarrow> daemon_pass" where
  "daemons_pass r e config k =
    fold (reconcile_one e config (buildOptions r config (ReadClusterPolicy (policy_reply e)))) (daemons_of r e config)
      \<lparr>dp_dsets = k_dsets k, dp_conditions = Conditions config, dp_gauge = daemon_gauge k, dp_requeue = False\<rparr>"

text \<open>The conditions of the pass are the outcomes of the daemons, stored one after the other.\<close>

lemma reconcile_one_conditions:
  "\<exists>out. dp_conditions (reconcile_one e config opts d s) =
     SetCondition (dp_conditions s) (DaemonHealthToCondition (e_now e) (fst d) out (Generation config))"
  by (auto simp: reconcile_one_def Let_def split: prod.splits)

lemma daemons_pass_conditions:
  "\<exists>outs. map fst outs = map fst daemons \<and>
    dp_conditions (fold (reconcile_one e config opts) daemons s) = set_daemons (e_now e) (Generation config) outs (dp_conditions s)"
proof (induction daemons arbitrary: s)
  case (Cons d daemons)
  obtain out where out: "dp_conditions (reconcile_one e config opts d s) =
      SetCondition (dp_conditions s) (DaemonHealthToCondition (e_now e) (fst d) out (Generation config))"
    using reconcile_one_conditions by blast
  obtain outs where outs: "map fst outs = map fst daemons"
    "dp_conditions (fold (reconcile_one e config opts) daemons (reconcile_one e config opts d s)) =
       set_daemons (e_now e) (Generation config) outs (dp_conditions (reconcile_one e config opts d s))"
    using Cons.IH by blast
  then show ?case by (intro exI [of _ "(fst d, out) # outs"]) (simp add: set_daemons_Cons out)
qed (simp add: set_daemons_def)

lemma reconcile_pass_cases:
  assumes "reconcile_pass r e config k = (k', result)"
  shows "k_dsets k' = dp_dsets (daemons_pass r e config k) \<and>
    (result = Done \<longrightarrow> \<not> dp_requeue (daemons_pass r e config k) \<and>
       (\<exists>conds. k_cr k' = Some (config\<lparr>Conditions := conds, StatusObservedGeneration := Generation config\<rparr>))) \<and>
    (k_cr k' = k_cr k \<or> (\<exists>conds. k_cr k' = Some (config\<lparr>Conditions := conds, StatusObservedGeneration := Generation config\<rparr>)))"
  using assms unfolding reconcile_pass_def Let_def daemons_pass_def [symmetric] daemons_of_def [symmetric]
  by (auto split: prod.splits if_splits)

text \<open>
  C25: a pass that asks for no other one has rolled out everything. Both DaemonSets are stored as
  built for the current specification and the mode of the GPU operator, owned by the resource,
  with every scheduled pod ready by the counters of its stored status, and the status records the generation.
\<close>

theorem done_means_rolled_out:
  assumes "k_cr k = Some config" "\<not> Deleting config" "Reconcile r e k = (k', Done)"
  shows "list_all (rolled_out (k_dsets k') (buildOptions r config (ReadClusterPolicy (policy_reply e)))) (daemons_of r e config) \<and>
    map_option StatusObservedGeneration (k_cr k') = Some (Generation config)"
proof -
  let ?k = "k\<lparr>k_cr := Some (guarded config)\<rparr>"
  have pass: "reconcile_pass r e (guarded config) ?k = (k', Done)"
    using Reconcile_live [OF assms(1,2), of r e] assms(3) by auto
  note cases = reconcile_pass_cases [OF pass]
  have daemons: "daemons_of r e (guarded config) = daemons_of r e config" by (simp add: daemons_of_def)
  have "list_all (rolled_out (dp_dsets (daemons_pass r e (guarded config) ?k))
      (buildOptions r config (ReadClusterPolicy (policy_reply e)))) (daemons_of r e config)"
    unfolding daemons_of_def
    by (rule both_rolled_out) (use cases in \<open>auto simp: daemons_pass_def daemons_of_def\<close>)
  moreover from cases obtain conds where
    "k_cr k' = Some ((guarded config)\<lparr>Conditions := conds, StatusObservedGeneration := Generation config\<rparr>)"
    unfolding guarded_simps by blast
  ultimately show ?thesis using cases by simp
qed

text \<open>
  C26: nothing is rolled out or patched without the finalizer. A pass over a resource that is not
  being deleted changes DaemonSets or nodes only once the finalizer is stored, and keeps it.
\<close>

theorem finalizer_guards:
  assumes "k_cr k = Some config" "\<not> Deleting config" "Reconcile r e k = (k', result)"
    and "k_dsets k' \<noteq> k_dsets k \<or> k_nodes k' \<noteq> k_nodes k"
  shows "\<exists>config'. k_cr k' = Some config' \<and> NodeConditionCleanupFinalizer \<in> set (Finalizers config')"
proof -
  have pass: "reconcile_pass r e (guarded config) (k\<lparr>k_cr := Some (guarded config)\<rparr>) = (k', result)"
    using Reconcile_live [OF assms(1,2), of r e] assms(3,4) by auto
  from reconcile_pass_cases [OF pass] show ?thesis by auto
qed

section \<open>Passes over a healthy resource\<close>

text \<open>
  With Ready stored as True, all daemons ready, no failed check and no node in an upgrade, a pass
  does not touch the nodes, whatever their conditions say.
\<close>

lemma healthy_pass_skips_nodes:
  assumes "reconcile_pass r e config k = (k', result)" "isConditionTrue (Conditions config) ConditionReady"
    and "\<not> dp_requeue (daemons_pass r e config k)" "\<not> e_cancelled e" "upgrade_reply e = Some []"
  shows "k_nodes k' = k_nodes k"
proof -
  have check: "snd (GpuOperator_Check n sv c False csvs p g ready) = None" for n sv c csvs p g ready
    using versionFailure_error [of sv c False csvs "Policy p"]
    by (auto simp: GpuOperator_Check_def Let_def split: option.splits sum.splits prod.splits)
  have upgrade: "evaluateDriverUpgrade (node_calls e) (upgrade_reply e) (k_nodes k) = (k_nodes k, False, False)"
    using assms(5) by (simp add: evaluateDriverUpgrade_def)
  have "snd (GpuOperator_Check (e_now e) (e_sv e) c (e_cancelled e) (csv_reply e) p g ready) = None" for c p g ready
    using check assms(4) by simp
  then have none: "GpuOperator_Check (e_now e) (e_sv e) c (e_cancelled e) (csv_reply e) p g ready = (rc, err) \<Longrightarrow> err = None"
    for c p g ready rc err by (metis snd_conv)
  show ?thesis
    using assms(1-3) unfolding reconcile_pass_def Let_def daemons_pass_def [symmetric] daemons_of_def [symmetric] upgrade
    by (auto split: prod.splits if_splits dest: none)
qed

section \<open>A lost recovery\<close>










text \<open>
  A resource that was not ready, on a cluster where every daemon pod is ready again and one node
  still has the condition False. In the first pass the API server fails the patch of that node.
\<close>

definition recovered_ds :: stored_ds where
  "recovered_ds = \<lparr>st_Labels = Map.empty, st_Spec = Spec (BaseDaemonSet [] []), st_Owner = Some ''default'',
     DesiredNumberScheduled = 1, NumberReady = 1\<rparr>"

definition recovering :: cluster where
  "recovering = (sample_cluster (sample_config\<lparr>Deleting := False, Conditions := [sample_condition ''Ready'' ConditionFalse 1]\<rparr>))
     \<lparr>k_dsets := [(''gf'', ''gpu-fractioning-fractiond'') \<mapsto> recovered_ds, (''gf'', ''gpu-fractioning-mpsd'') \<mapsto> recovered_ds]\<rparr>"




section \<open>The mode of the GPU operator\<close>

lemma annotations_built:
  "t_Annotations (Template (Spec (mpsd_BuildDaemonSet t d opts))) =
     SetManagementCDIDevice Map.empty mpsd_daemonName (o_NRIPluginEnabled opts)"
  "t_Annotations (fractiond_pod t fd opts) = (if metricsEnabled fd
     then SetManagementCDIDevice [''prometheus.io/scrape'' \<mapsto> ''true'', ''prometheus.io/port'' \<mapsto> metricsAnnotationPort fd,
       ''prometheus.io/path'' \<mapsto> metricsAnnotationPath fd] metricsdName (o_NRIPluginEnabled opts) else Map.empty)"
  "t_RuntimeClassName (Template (Spec (mpsd_BuildDaemonSet t d opts))) = o_RuntimeClassName opts"
  "t_RuntimeClassName (fractiond_pod t fd opts) = (if metricsEnabled fd then o_RuntimeClassName opts else None)"
  by (simp_all add: mpsd_BuildDaemonSet_def mpsd_buildContainer_def fractiond_pod_def fractiond_BuildDaemonSet_def
      buildFractiondContainer_def applyMetricsSidecar_def BaseDaemonSet_def Let_def)

text \<open>
  C27: every container that needs a GPU gets it by exactly one route. When the GPU operator runs
  its NRI plugin, no pod names a runtime class and the mpsd container and the metrics sidecar
  request the management device by annotation; otherwise no pod requests a device and the pods
  with such a container use the configured runtime class, which is ''nvidia'' by default.
\<close>

theorem gpu_access_route:
  assumes opts: "opts = buildOptions r config p"
  shows "(if NRIPluginEnabled p
     then t_RuntimeClassName (Template (Spec (mpsd_BuildDaemonSet t d opts))) = None \<and>
       t_RuntimeClassName (fractiond_pod t fd opts) = None \<and>
       t_Annotations (Template (Spec (mpsd_BuildDaemonSet t d opts))) (managementCDIDeviceAnnotation mpsd_daemonName) = Some ManagementCDIDeviceAll \<and>
       (metricsEnabled fd \<longrightarrow> t_Annotations (fractiond_pod t fd opts) (managementCDIDeviceAnnotation metricsdName) = Some ManagementCDIDeviceAll)
     else t_RuntimeClassName (Template (Spec (mpsd_BuildDaemonSet t d opts))) = ResolveRuntimeClassName (s_RuntimeClassName (cfg_Spec config)) \<and>
       (metricsEnabled fd \<longrightarrow> t_RuntimeClassName (fractiond_pod t fd opts) = ResolveRuntimeClassName (s_RuntimeClassName (cfg_Spec config))) \<and>
       t_Annotations (Template (Spec (mpsd_BuildDaemonSet t d opts))) (managementCDIDeviceAnnotation c) = None \<and>
       t_Annotations (fractiond_pod t fd opts) (managementCDIDeviceAnnotation c) = None)"
  by (simp add: opts annotations_built SetManagementCDIDevice_def buildOptions_def managementCDIDeviceAnnotation_def Let_def)

definition sample_metrics :: MetricsAgentSpec where
  "sample_metrics = \<lparr>ma_Enabled = True, ma_LogLevel = [], ma_Address = [], ma_Path = [], ma_Volumes = [], ma_VolumeMounts = [],
     ma_MetricNames = None\<rparr>"

theorem gpu_access_route_witness:
  "t_Annotations (fractiond_pod sample_texts (NewFractiondDaemon None (Some sample_metrics) True)
     (buildOptions sample_reconciler sample_config (ReadClusterPolicy (Listed [sample_policy []]))))
     (managementCDIDeviceAnnotation metricsdName) = Some ManagementCDIDeviceAll"
  using gpu_access_route [OF refl, where p = "ReadClusterPolicy (Listed [sample_policy []])" and r = sample_reconciler and config = sample_config
      and t = sample_texts and fd = "NewFractiondDaemon None (Some sample_metrics) True"]
  by (simp add: NRIPluginEnabled_def ReadClusterPolicy_def sample_policy_def NewFractiondDaemon_def metricsEnabled_def sample_metrics_def)

section \<open>Witnesses of the passes\<close>

lemma recovering_simps:
  "k_cr recovering = Some (sample_config\<lparr>Deleting := False, Conditions := [sample_condition ''Ready'' ConditionFalse 1]\<rparr>)"
  by (simp add: recovering_def sample_cluster_def)

theorem done_means_rolled_out_witness:
  "list_all (rolled_out (k_dsets (fst (Reconcile sample_reconciler sample_env recovering)))
     (buildOptions sample_reconciler sample_config (ReadClusterPolicy KindNotFound)))
     (daemons_of sample_reconciler sample_env sample_config)"
proof -
  have "snd (Reconcile sample_reconciler sample_env recovering) = Done" by code_simp
  then have run: "Reconcile sample_reconciler sample_env recovering = (fst (Reconcile sample_reconciler sample_env recovering), Done)"
    by (metis prod.collapse)
  from done_means_rolled_out [OF recovering_simps _ run] show ?thesis
    by (simp add: buildOptions_def daemons_of_def sample_env_def)
qed

theorem finalizer_guards_witness:
  "\<exists>config. k_cr (fst (Reconcile sample_reconciler sample_env recovering)) = Some config \<and>
     NodeConditionCleanupFinalizer \<in> set (Finalizers config)"
proof -
  have "node_status (k_nodes (fst (Reconcile sample_reconciler sample_env recovering))) ''n'' = Some ConditionTrue" by code_simp
  moreover have "node_status (k_nodes recovering) ''n'' = Some ConditionFalse" by code_simp
  ultimately have "k_nodes (fst (Reconcile sample_reconciler sample_env recovering)) \<noteq> k_nodes recovering" by auto
  with finalizer_guards [OF recovering_simps _ surjective_pairing, of sample_reconciler sample_env] show ?thesis by simp
qed

end
