(* ===== verification/Nvml_Collector.thy ===== *)
theory Nvml_Collector
  imports Prelude "HOL-Library.Word"
begin

text \<open>
  Package \<^verbatim>\<open>metricsd/internal/metrics\<close>, the collector side (types.go, nvml_collector.go,
  noop_collector.go): one poll of NVML joins, per GPU and process, the utilization samples with
  the memory of the running processes. NVML is third-party code: what it answers in a poll is
  the parameter \<open>nvml_poll\<close>. Counters keep their width as words; times are nanoseconds since
  the epoch.
\<close>

unbundle bit_operations_syntax

section \<open>Types\<close>

type_synonym uint32 = "32 word"
type_synonym uint64 = "64 word"

record GPUProcessMetric =
  p_PID :: uint32
  p_GPUUUID :: string
  p_GPUIndex :: int
  p_UsedGPUMemoryBytes :: uint64
  p_SMUtilizationPercent :: uint32
  p_ProcessUtilizationTimestamp :: uint64

datatype nvml_Return =
    SUCCESS | ERROR_NOT_SUPPORTED | ERROR_NOT_FOUND | ERROR_ALREADY_INITIALIZED | ERROR_UNINITIALIZED | ERROR_OTHER int

datatype process_kind = Compute | Graphics

datatype device_error =
    GetDevice int nvml_Return | GetUUIDOf int nvml_Return | GetMinorOf string nvml_Return
  | GetMemoryOf string nvml_Return | GetUtilizationOf string nvml_Return
  | GetProcessesOf process_kind string nvml_Return

text \<open>A snapshot; the joined errors of the devices are a list, empty for nil.\<close>

record GPUProcessSnapshot =
  Processes :: "GPUProcessMetric list"
  DeviceUUIDs :: "(int, string) gomap"
  DeviceMinorToNVMLIndex :: "(int, int) gomap"
  DeviceTotalMemoryBytes :: "(int, uint64) gomap"
  DeviceErrors :: "device_error list"

definition no_snapshot :: GPUProcessSnapshot where
  "no_snapshot = \<lparr>Processes = [], DeviceUUIDs = [], DeviceMinorToNVMLIndex = [],
     DeviceTotalMemoryBytes = [], DeviceErrors = []\<rparr>"

section \<open>What NVML answers\<close>

record ProcessUtilizationSample =
  u_Pid :: uint32
  u_SmUtil :: uint32
  u_MemUtil :: uint32
  u_EncUtil :: uint32
  u_DecUtil :: uint32
  u_TimeStamp :: uint64

record ProcessInfo =
  i_Pid :: uint32
  i_UsedGpuMemory :: uint64

record nvml_Device =
  GetUUID :: "string \<times> nvml_Return"
  GetMinorNumber :: "int \<times> nvml_Return"
  GetMemoryInfo_Total :: "uint64 \<times> nvml_Return"
  GetProcessUtilization :: "uint64 \<Rightarrow> ProcessUtilizationSample list \<times> nvml_Return"
  GetComputeRunningProcesses :: "ProcessInfo list \<times> nvml_Return"
  GetGraphicsRunningProcesses :: "ProcessInfo list \<times> nvml_Return"

record nvml_poll =
  DeviceGetCount :: "int \<times> nvml_Return"
  DeviceGetHandleByIndex :: "int \<Rightarrow> nvml_Device \<times> nvml_Return"

definition nvmlValueNotAvailable :: uint64 where
  "nvmlValueNotAvailable = NOT 0"

section \<open>The collector\<close>

record nvmlProcessCollector =
  c_snapshot :: GPUProcessSnapshot
  c_interval :: int
  c_lastPollTime :: "int option"
  c_deviceUUIDs :: "(int, string) gomap"

record gpuProcessKey =
  g_GPUUUID :: string
  g_PID :: uint32

type_synonym joined = "(gpuProcessKey, GPUProcessMetric) gomap"

definition newNVMLProcessCollector :: "nvml_Return \<Rightarrow> int \<Rightarrow> (nvml_Return, nvmlProcessCollector) result" where
  "newNVMLProcessCollector init interval =
    (if init \<noteq> SUCCESS \<and> init \<noteq> ERROR_ALREADY_INITIALIZED then Inl init
     else Inr \<lparr>c_snapshot = no_snapshot, c_interval = interval, c_lastPollTime = None, c_deviceUUIDs = []\<rparr>)"

definition nvml_Close :: "nvml_Return \<Rightarrow> nvml_Return option" where
  "nvml_Close shutdown = (if shutdown \<noteq> SUCCESS \<and> shutdown \<noteq> ERROR_UNINITIALIZED then Some shutdown else None)"

definition lookup_or :: "('k, 'v) gomap \<Rightarrow> 'k \<Rightarrow> 'v \<Rightarrow> 'v" where
  "lookup_or m k d = (case map_of m k of None \<Rightarrow> d | Some v \<Rightarrow> v)"

definition zero_process :: GPUProcessMetric where
  "zero_process = \<lparr>p_PID = 0, p_GPUUUID = [], p_GPUIndex = 0, p_UsedGPUMemoryBytes = 0,
     p_SMUtilizationPercent = 0, p_ProcessUtilizationTimestamp = 0\<rparr>"

definition shouldSkipProcessUtilizationSample :: "ProcessUtilizationSample \<Rightarrow> uint64 \<Rightarrow> bool" where
  "shouldSkipProcessUtilizationSample s lastSeen \<longleftrightarrow>
     u_Pid s = 0 \<or> u_SmUtil s > 100 \<or> u_MemUtil s > 100 \<or> u_EncUtil s > 100 \<or> u_DecUtil s > 100 \<or>
     u_TimeStamp s \<le> lastSeen"

definition tolerated :: "nvml_Return \<Rightarrow> bool" where
  "tolerated ret \<longleftrightarrow> ret = SUCCESS \<or> ret = ERROR_NOT_SUPPORTED \<or> ret = ERROR_NOT_FOUND"

fun utilization_loop ::
  "string \<Rightarrow> int \<Rightarrow> uint64 \<Rightarrow> ProcessUtilizationSample list \<Rightarrow> joined \<Rightarrow> joined" where
  "utilization_loop uuid index lastSeen [] j = j"
| "utilization_loop uuid index lastSeen (s # ss) j =
    (if shouldSkipProcessUtilizationSample s lastSeen then utilization_loop uuid index lastSeen ss j
     else let k = \<lparr>g_GPUUUID = uuid, g_PID = u_Pid s\<rparr>;
              m = (lookup_or j k zero_process)
                \<lparr>p_PID := u_Pid s, p_GPUUUID := uuid, p_GPUIndex := index,
                 p_SMUtilizationPercent := u_SmUtil s, p_ProcessUtilizationTimestamp := u_TimeStamp s\<rparr>
          in utilization_loop uuid index lastSeen ss (AList.update k m j))"

definition collectProcessUtilization ::
  "string \<Rightarrow> int \<Rightarrow> uint64 \<Rightarrow> nvml_Device \<Rightarrow> joined \<Rightarrow> joined \<times> device_error option" where
  "collectProcessUtilization uuid index lastSeen device j =
    (case GetProcessUtilization device lastSeen of (utilization, ret) \<Rightarrow>
       if \<not> tolerated ret then (j, Some (GetUtilizationOf uuid ret))
       else (utilization_loop uuid index lastSeen utilization j, None))"

fun running_loop :: "string \<Rightarrow> int \<Rightarrow> ProcessInfo list \<Rightarrow> joined \<Rightarrow> joined" where
  "running_loop uuid index [] j = j"
| "running_loop uuid index (p # ps) j =
    (let k = \<lparr>g_GPUUUID = uuid, g_PID = i_Pid p\<rparr>;
         m = (lookup_or j k zero_process)\<lparr>p_PID := i_Pid p, p_GPUUUID := uuid, p_GPUIndex := index\<rparr>;
         m = (if i_UsedGpuMemory p \<noteq> nvmlValueNotAvailable \<and> i_UsedGpuMemory p > p_UsedGPUMemoryBytes m
              then m\<lparr>p_UsedGPUMemoryBytes := i_UsedGpuMemory p\<rparr> else m)
     in running_loop uuid index ps (AList.update k m j))"

definition mergeRunningProcesses ::
  "string \<Rightarrow> int \<Rightarrow> ProcessInfo list \<times> nvml_Return \<Rightarrow> joined \<Rightarrow> joined \<times> nvml_Return option" where
  "mergeRunningProcesses uuid index answer j =
    (case answer of (processes, ret) \<Rightarrow>
       if \<not> tolerated ret then (j, Some ret) else (running_loop uuid index processes j, None))"

definition collectProcessMemory ::
  "string \<Rightarrow> int \<Rightarrow> nvml_Device \<Rightarrow> joined \<Rightarrow> joined \<times> device_error option" where
  "collectProcessMemory uuid index device j =
    (case mergeRunningProcesses uuid index (GetComputeRunningProcesses device) j of
       (j, Some e) \<Rightarrow> (j, Some (GetProcessesOf Compute uuid e))
     | (j, None) \<Rightarrow>
         (case mergeRunningProcesses uuid index (GetGraphicsRunningProcesses device) j of
            (j, Some e) \<Rightarrow> (j, Some (GetProcessesOf Graphics uuid e))
          | (j, None) \<Rightarrow> (j, None)))"

definition deviceTotalMemoryBytes :: "nvml_Device \<Rightarrow> (nvml_Return, uint64) result" where
  "deviceTotalMemoryBytes device =
    (case GetMemoryInfo_Total device of (bytes, ret) \<Rightarrow> if ret \<noteq> SUCCESS then Inl ret else Inr bytes)"

definition deviceUUID ::
  "int \<Rightarrow> nvml_Device \<Rightarrow> (int, string) gomap \<Rightarrow> (device_error, string) result \<times> (int, string) gomap" where
  "deviceUUID index device known =
    (let uuid = lookup_or known index [] in
     if uuid \<noteq> [] then (Inr uuid, known)
     else case GetUUID device of (uuid, ret) \<Rightarrow>
       if ret \<noteq> SUCCESS then (Inl (GetUUIDOf index ret), known)
       else (Inr uuid, AList.update index uuid known))"

text \<open>The maps one poll fills, and its errors in the order they occur.\<close>

record poll_state =
  q_joined :: joined
  q_uuids :: "(int, string) gomap"
  q_minors :: "(int, int) gomap"
  q_totals :: "(int, uint64) gomap"
  q_errs :: "device_error list"
  q_known :: "(int, string) gomap"

definition opt_err :: "'e option \<Rightarrow> 'e list" where
  "opt_err e = (case e of None \<Rightarrow> [] | Some x \<Rightarrow> [x])"

definition collect_device :: "nvml_poll \<Rightarrow> uint64 \<Rightarrow> int \<Rightarrow> poll_state \<Rightarrow> poll_state" where
  "collect_device nv lastSeen index q =
    (case DeviceGetHandleByIndex nv index of (device, ret) \<Rightarrow>
       if ret \<noteq> SUCCESS then q\<lparr>q_errs := q_errs q @ [GetDevice index ret]\<rparr>
       else case deviceUUID index device (q_known q) of
         (Inl e, known) \<Rightarrow> q\<lparr>q_errs := q_errs q @ [e], q_known := known\<rparr>
       | (Inr uuid, known) \<Rightarrow>
          (let (minors, e1) = (case GetMinorNumber device of (minor, ret) \<Rightarrow>
                 if ret = SUCCESS then (AList.update minor index (q_minors q), [])
                 else (q_minors q, [GetMinorOf uuid ret]));
               (totals, e2) = (case deviceTotalMemoryBytes device of
                   Inl ret \<Rightarrow> (q_totals q, [GetMemoryOf uuid ret])
                 | Inr bytes \<Rightarrow> (AList.update index bytes (q_totals q), []));
               (j1, e3) = collectProcessUtilization uuid index lastSeen device (q_joined q);
               (j2, e4) = collectProcessMemory uuid index device j1
           in \<lparr>q_joined = j2, q_uuids = AList.update index uuid (q_uuids q), q_minors = minors,
               q_totals = totals, q_errs = q_errs q @ e1 @ e2 @ opt_err e3 @ opt_err e4, q_known = known\<rparr>))"

text \<open>\<^verbatim>\<open>time.UnixMicro\<close> converted to an unsigned counter.\<close>

definition unix_micro :: "int \<Rightarrow> uint64" where
  "unix_micro t = word_of_int (t div 1000)"

definition collect_devices :: "nvml_poll \<Rightarrow> uint64 \<Rightarrow> int \<Rightarrow> (int, string) gomap \<Rightarrow> poll_state" where
  "collect_devices nv lastSeen count known =
    fold (collect_device nv lastSeen) (map int [0..<nat count])
      \<lparr>q_joined = [], q_uuids = [], q_minors = [], q_totals = [], q_errs = [], q_known = known\<rparr>"

definition nvml_collect :: "nvml_poll \<Rightarrow> int \<Rightarrow> nvmlProcessCollector \<Rightarrow> nvmlProcessCollector" where
  "nvml_collect nv now c =
    (let last = (case c_lastPollTime c of None \<Rightarrow> now - c_interval c | Some t \<Rightarrow> t);
         c = c\<lparr>c_lastPollTime := Some now\<rparr>;
         lastSeen = unix_micro last
     in case DeviceGetCount nv of (count, ret) \<Rightarrow>
       if ret \<noteq> SUCCESS then c
       else let q = collect_devices nv lastSeen count (c_deviceUUIDs c)
            in c\<lparr>c_snapshot := \<lparr>Processes = map snd (q_joined q), DeviceUUIDs = q_uuids q,
                   DeviceMinorToNVMLIndex = q_minors q, DeviceTotalMemoryBytes = q_totals q,
                   DeviceErrors = q_errs q\<rparr>,
                 c_deviceUUIDs := q_known q\<rparr>)"

text \<open>\<^verbatim>\<open>cloneGPUProcessSnapshot\<close> copies map by map, entry by entry.\<close>

definition clone_map :: "('k, 'v) gomap \<Rightarrow> ('k, 'v) gomap" where
  "clone_map m = fold (\<lambda>(k, v). AList.update k v) m []"

definition cloneGPUProcessSnapshot :: "GPUProcessSnapshot \<Rightarrow> GPUProcessSnapshot" where
  "cloneGPUProcessSnapshot s =
    \<lparr>Processes = Processes s, DeviceUUIDs = clone_map (DeviceUUIDs s),
     DeviceMinorToNVMLIndex = clone_map (DeviceMinorToNVMLIndex s),
     DeviceTotalMemoryBytes = clone_map (DeviceTotalMemoryBytes s), DeviceErrors = DeviceErrors s\<rparr>"

text \<open>The collector of the process: NVML's, or the one that never sees a process.\<close>

datatype collector = NvmlCollector nvmlProcessCollector | NoopCollector

definition newCollector :: "nvml_Return \<Rightarrow> int \<Rightarrow> collector" where
  "newCollector init interval =
    (case newNVMLProcessCollector init interval of Inr c \<Rightarrow> NvmlCollector c | Inl _ \<Rightarrow> NoopCollector)"

fun collector_tick :: "nvml_poll \<Rightarrow> int \<Rightarrow> collector \<Rightarrow> collector" where
  "collector_tick nv now (NvmlCollector c) = NvmlCollector (nvml_collect nv now c)"
| "collector_tick nv now NoopCollector = NoopCollector"

fun collector_Snapshot :: "collector \<Rightarrow> GPUProcessSnapshot" where
  "collector_Snapshot (NvmlCollector c) = cloneGPUProcessSnapshot (c_snapshot c)"
| "collector_Snapshot NoopCollector = no_snapshot"

fun collector_Close :: "nvml_Return \<Rightarrow> collector \<Rightarrow> nvml_Return option" where
  "collector_Close shutdown (NvmlCollector c) = nvml_Close shutdown"
| "collector_Close shutdown NoopCollector = None"


section \<open>One device\<close>

lemma lookup_or_simps [simp]: "map_of m k = None \<Longrightarrow> lookup_or m k d = d" "map_of m k = Some v \<Longrightarrow> lookup_or m k d = v"
  by (simp_all add: lookup_or_def)

lemma lookup_or_update [simp]: "lookup_or (AList.update k v m) k' d = (if k' = k then v else lookup_or m k' d)"
  by (simp add: lookup_or_def update_conv')

text \<open>The samples that count in a poll, and the running processes it learns of.\<close>

definition kept_samples :: "uint64 \<Rightarrow> nvml_Device \<Rightarrow> ProcessUtilizationSample list" where
  "kept_samples lastSeen d =
    (case GetProcessUtilization d lastSeen of (ss, ret) \<Rightarrow>
       if tolerated ret then filter (\<lambda>s. \<not> shouldSkipProcessUtilizationSample s lastSeen) ss else [])"

definition running_processes :: "nvml_Device \<Rightarrow> ProcessInfo list" where
  "running_processes d =
    (case GetComputeRunningProcesses d of (cs, r1) \<Rightarrow>
       if \<not> tolerated r1 then []
       else case GetGraphicsRunningProcesses d of (gs, r2) \<Rightarrow> if tolerated r2 then cs @ gs else cs)"

definition pid_samples :: "uint32 \<Rightarrow> ProcessUtilizationSample list \<Rightarrow> ProcessUtilizationSample list" where
  "pid_samples pid = filter (\<lambda>s. u_Pid s = pid)"

definition pid_infos :: "uint32 \<Rightarrow> ProcessInfo list \<Rightarrow> ProcessInfo list" where
  "pid_infos pid = filter (\<lambda>p. i_Pid p = pid)"

lemmas pid_defs = pid_samples_def pid_infos_def

definition mem_step :: "ProcessInfo \<Rightarrow> uint64 \<Rightarrow> uint64" where
  "mem_step p m = (if i_UsedGpuMemory p \<noteq> nvmlValueNotAvailable \<and> i_UsedGpuMemory p > m then i_UsedGpuMemory p else m)"

text \<open>The largest memory reported for a process, unavailable values left out.\<close>

definition reported_memory :: "ProcessInfo list \<Rightarrow> uint64" where
  "reported_memory ps = Max (insert 0 (set (filter (\<lambda>v. v \<noteq> nvmlValueNotAvailable) (map i_UsedGpuMemory ps))))"

lemma mem_step_max: "mem_step p m = (if i_UsedGpuMemory p = nvmlValueNotAvailable then m else max (i_UsedGpuMemory p) m)"
  by (auto simp: mem_step_def max_def)

lemma mem_step_fold: "fold mem_step ps m = Max (insert m (set (filter (\<lambda>v. v \<noteq> nvmlValueNotAvailable) (map i_UsedGpuMemory ps))))"
proof (induction ps arbitrary: m)
  case (Cons p ps)
  let ?S = "set (filter (\<lambda>v. v \<noteq> nvmlValueNotAvailable) (map i_UsedGpuMemory ps))"
  have step: "Max (insert (max v m) ?S) = Max (insert m (insert v ?S))" for v :: uint64
  proof (cases "?S = {}")
    case True then show ?thesis by (simp only: True) (simp add: max.commute)
  next
    case False then show ?thesis
      by (simp only: Max_insert finite_insert finite_set insert_not_empty not_False_eq_True max.assoc max.commute max.left_commute)
  qed
  show ?case
    by (cases "i_UsedGpuMemory p = nvmlValueNotAvailable")
       (simp_all only: fold_simps o_apply Cons.IH mem_step_max [of p m] if_True if_False list.map filter.simps simp_thms list.set step)
qed simp

definition with_samples :: "string \<Rightarrow> int \<Rightarrow> uint32 \<Rightarrow> ProcessUtilizationSample list \<Rightarrow> GPUProcessMetric option \<Rightarrow> GPUProcessMetric option" where
  "with_samples u i pid ss m =
    (if ss = [] then m
     else Some ((case m of None \<Rightarrow> zero_process | Some x \<Rightarrow> x)
       \<lparr>p_PID := pid, p_GPUUUID := u, p_GPUIndex := i, p_SMUtilizationPercent := u_SmUtil (last ss),
        p_ProcessUtilizationTimestamp := u_TimeStamp (last ss)\<rparr>))"

definition with_infos :: "string \<Rightarrow> int \<Rightarrow> uint32 \<Rightarrow> ProcessInfo list \<Rightarrow> GPUProcessMetric option \<Rightarrow> GPUProcessMetric option" where
  "with_infos u i pid ps m =
    (if ps = [] then m
     else let x = (case m of None \<Rightarrow> zero_process | Some x \<Rightarrow> x) in
       Some (x\<lparr>p_PID := pid, p_GPUUUID := u, p_GPUIndex := i,
               p_UsedGPUMemoryBytes := fold mem_step ps (p_UsedGPUMemoryBytes x)\<rparr>))"

lemma gpuProcessKey_eq: "k = \<lparr>g_GPUUUID = u, g_PID = pid\<rparr> \<longleftrightarrow> g_GPUUUID k = u \<and> g_PID k = pid"
  by (cases k) auto

lemma gpuProcessKey_eta [simp]: "\<lparr>g_GPUUUID = g_GPUUUID k, g_PID = g_PID k\<rparr> = (k :: gpuProcessKey)"
  by (cases k) simp

lemma utilization_loop_lookup:
  "map_of (utilization_loop u i L ss j) k =
    (if g_GPUUUID k = u
     then with_samples u i (g_PID k) (pid_samples (g_PID k) (filter (\<lambda>s. \<not> shouldSkipProcessUtilizationSample s L) ss)) (map_of j k)
     else map_of j k)"
proof (induction ss arbitrary: j)
  case Nil then show ?case by (simp add: with_samples_def pid_defs)
next
  case (Cons s ss)
  show ?case
    by (auto simp: Cons.IH gpuProcessKey_eq Let_def with_samples_def pid_defs update_conv' lookup_or_def split: option.splits)
qed

lemma running_loop_lookup:
  "map_of (running_loop u i ps j) k =
    (if g_GPUUUID k = u then with_infos u i (g_PID k) (pid_infos (g_PID k) ps) (map_of j k) else map_of j k)"
proof (induction ps arbitrary: j)
  case Nil then show ?case by (simp add: with_infos_def pid_defs)
next
  case (Cons p ps)
  show ?case
    by (auto simp: Cons.IH gpuProcessKey_eq Let_def with_infos_def pid_defs mem_step_def update_conv' lookup_or_def split: option.splits)
qed

lemma with_infos_append: "with_infos u i pid (ps @ qs) m = with_infos u i pid qs (with_infos u i pid ps m)"
  by (auto simp: with_infos_def Let_def)

lemma collectProcessUtilization_lookup:
  "map_of (fst (collectProcessUtilization u i L d j)) k =
    (if g_GPUUUID k = u then with_samples u i (g_PID k) (pid_samples (g_PID k) (kept_samples L d)) (map_of j k) else map_of j k)"
  by (auto simp: collectProcessUtilization_def kept_samples_def utilization_loop_lookup with_samples_def pid_defs split: prod.splits)

lemma collectProcessMemory_lookup:
  "map_of (fst (collectProcessMemory u i d j)) k =
    (if g_GPUUUID k = u then with_infos u i (g_PID k) (pid_infos (g_PID k) (running_processes d)) (map_of j k) else map_of j k)"
  by (auto simp: collectProcessMemory_def mergeRunningProcesses_def running_processes_def running_loop_lookup pid_infos_def
      with_infos_append [symmetric] split: prod.splits)
     (simp_all add: with_infos_def)


section \<open>One poll\<close>

text \<open>The UUID and handle of a device that answers, given the UUIDs known before the poll.\<close>

definition device_seen :: "nvml_poll \<Rightarrow> (int, string) gomap \<Rightarrow> int \<Rightarrow> (string \<times> nvml_Device) option" where
  "device_seen nv known i =
    (case DeviceGetHandleByIndex nv i of (d, ret) \<Rightarrow>
       if ret \<noteq> SUCCESS then None
       else case fst (deviceUUID i d known) of Inl _ \<Rightarrow> None | Inr u \<Rightarrow> Some (u, d))"

lemma device_seen_None:
  assumes "device_seen nv known i = None"
  shows "snd (DeviceGetHandleByIndex nv i) \<noteq> SUCCESS \<or>
    (\<exists>e. deviceUUID i (fst (DeviceGetHandleByIndex nv i)) known = (Inl e, known))"
  using assms by (auto simp: device_seen_def deviceUUID_def Let_def split_beta split: if_splits sum.splits)

lemma device_seen_Some:
  assumes "device_seen nv known i = Some (u, d)"
  shows "DeviceGetHandleByIndex nv i = (d, SUCCESS)" "fst (deviceUUID i d known) = Inr u"
  using assms by (auto simp: device_seen_def split: prod.splits if_splits sum.splits)

lemma collect_device_skipped:
  assumes "device_seen nv (q_known q) i = None"
  shows "\<exists>e. collect_device nv L i q = q\<lparr>q_errs := q_errs q @ [e]\<rparr>"
  using device_seen_None [OF assms] by (auto simp: collect_device_def split_beta)

lemma collect_device_seen:
  assumes "device_seen nv (q_known q) i = Some (u, d)"
  shows "q_joined (collect_device nv L i q) = fst (collectProcessMemory u i d (fst (collectProcessUtilization u i L d (q_joined q))))"
    "q_uuids (collect_device nv L i q) = AList.update i u (q_uuids q)"
    "q_known (collect_device nv L i q) = snd (deviceUUID i d (q_known q))"
  using device_seen_Some [OF assms]
  by (cases "deviceUUID i d (q_known q)"; simp add: collect_device_def Let_def split_beta)+

lemma deviceUUID_known: "j \<noteq> i \<Longrightarrow> lookup_or (snd (deviceUUID i d known)) j x = lookup_or known j x"
  by (auto simp: deviceUUID_def Let_def split: prod.splits)

lemma collect_device_known:
  assumes "j \<noteq> i" shows "lookup_or (q_known (collect_device nv L i q)) j x = lookup_or (q_known q) j x"
proof (cases "device_seen nv (q_known q) i")
  case None then show ?thesis using collect_device_skipped [OF None, of L] by auto
next
  case (Some ud) then show ?thesis by (cases ud) (simp add: collect_device_seen deviceUUID_known assms)
qed

lemma device_seen_cong:
  "lookup_or known i [] = lookup_or known' i [] \<Longrightarrow> device_seen nv known i = device_seen nv known' i"
  by (auto simp: device_seen_def deviceUUID_def Let_def split: prod.splits)

definition device_entry :: "string \<Rightarrow> int \<Rightarrow> uint64 \<Rightarrow> nvml_Device \<Rightarrow> uint32 \<Rightarrow> GPUProcessMetric option \<Rightarrow> GPUProcessMetric option" where
  "device_entry u i L d pid m =
    with_infos u i pid (pid_infos pid (running_processes d)) (with_samples u i pid (pid_samples pid (kept_samples L d)) m)"

lemma collect_device_lookup:
  "map_of (q_joined (collect_device nv L i q)) k =
    (case device_seen nv (q_known q) i of
       Some (u, d) \<Rightarrow> if g_GPUUUID k = u then device_entry u i L d (g_PID k) (map_of (q_joined q) k) else map_of (q_joined q) k
     | None \<Rightarrow> map_of (q_joined q) k)"
proof (cases "device_seen nv (q_known q) i")
  case None then show ?thesis using collect_device_skipped [OF None, of L] by auto
next
  case (Some ud) then show ?thesis
    by (cases ud) (simp add: collect_device_seen collectProcessMemory_lookup collectProcessUtilization_lookup device_entry_def)
qed

lemma poll_known:
  "i \<notin> set is \<Longrightarrow> lookup_or (q_known (fold (collect_device nv L) is q)) i [] = lookup_or (q_known q) i []"
proof (induction "is" arbitrary: q)
  case (Cons j js)
  then show ?case by (simp add: collect_device_known)
qed simp

text \<open>A device whose UUID no other seen device has fills its own entries, and no other does.\<close>

lemma poll_other:
  assumes "\<And>j u' d. j \<in> set is \<Longrightarrow> device_seen nv (q_known q) j = Some (u', d) \<Longrightarrow> u' \<noteq> g_GPUUUID k" "distinct is"
  shows "map_of (q_joined (fold (collect_device nv L) is q)) k = map_of (q_joined q) k"
  using assms
proof (induction "is" arbitrary: q)
  case (Cons j js)
  let ?q = "collect_device nv L j q"
  have same: "device_seen nv (q_known ?q) i = device_seen nv (q_known q) i" if "i \<in> set js" for i
    using Cons.prems(2) that by (intro device_seen_cong collect_device_known) auto
  have "map_of (q_joined (fold (collect_device nv L) js ?q)) k = map_of (q_joined ?q) k"
    using Cons.prems by (intro Cons.IH) (auto simp: same)
  moreover have "map_of (q_joined ?q) k = map_of (q_joined q) k"
    using Cons.prems(1) [of j] by (auto simp: collect_device_lookup split: option.splits)
  ultimately show ?case by simp
qed simp

lemma poll_split: "i \<in> set (map int [0..<n]) \<Longrightarrow>
  \<exists>as bs. map int [0..<n] = as @ i # bs \<and> distinct (as @ i # bs)"
  using split_list [of i "map int [0..<n]"] distinct_map [of int "[0..<n]"] by fastforce

lemma poll_entry:
  assumes i: "0 \<le> i" "i < n" and seen: "device_seen nv known i = Some (u, d)"
    and alone: "\<And>j d'. 0 \<le> j \<Longrightarrow> j < n \<Longrightarrow> j \<noteq> i \<Longrightarrow> device_seen nv known j \<noteq> Some (u, d')"
    and k: "g_GPUUUID k = u"
  shows "map_of (q_joined (collect_devices nv L n known)) k = device_entry u i L d (g_PID k) None"
proof -
  define q0 where "q0 = \<lparr>q_joined = [], q_uuids = [], q_minors = [], q_totals = [], q_errs = [], q_known = known\<rparr>"
  have "i \<in> set (map int [0..<nat n])" using i by (auto simp: image_iff intro!: bexI [of _ "nat i"])
  then obtain as bs where split: "map int [0..<nat n] = as @ i # bs" and dist: "distinct (as @ i # bs)"
    using poll_split by blast
  have range: "0 \<le> j \<and> j < n" if "j \<in> set (as @ i # bs)" for j
    using that unfolding split [symmetric] by auto
  have apart: "u' \<noteq> g_GPUUUID k" if "j \<in> set (as @ bs)" "device_seen nv known j = Some (u', d')" for j u' d'
    using alone [of j d'] range [of j] that dist k by auto
  define q1 where "q1 = fold (collect_device nv L) as q0"
  define q2 where "q2 = collect_device nv L i q1"
  have known1: "device_seen nv (q_known q1) j = device_seen nv known j" if "j \<notin> set as" for j
    using poll_known [OF that, of nv L q0] by (intro device_seen_cong) (simp add: q1_def q0_def)
  have known2: "device_seen nv (q_known q2) j = device_seen nv known j" if "j \<in> set bs" for j
  proof -
    have j: "j \<noteq> i" "j \<notin> set as" using that dist by auto
    then show ?thesis using device_seen_cong [OF collect_device_known [OF j(1), of nv L q1 "[]"]] known1
      by (simp add: q2_def)
  qed
  have "map_of (q_joined q1) k = map_of (q_joined q0) k"
    unfolding q1_def using apart dist by (intro poll_other) (auto simp: q0_def)
  then have "map_of (q_joined q1) k = None" by (simp add: q0_def)
  then have "map_of (q_joined q2) k = device_entry u i L d (g_PID k) None"
    using known1 [of i] seen dist k by (simp add: q2_def collect_device_lookup)
  moreover have "map_of (q_joined (fold (collect_device nv L) bs q2)) k = map_of (q_joined q2) k"
    using apart dist by (intro poll_other) (auto simp: known2)
  ultimately show ?thesis unfolding collect_devices_def split by (simp add: q0_def q1_def q2_def)
qed


section \<open>The invariant of the collector\<close>

definition process_ok :: "gpuProcessKey \<Rightarrow> GPUProcessMetric \<Rightarrow> bool" where
  "process_ok k m \<longleftrightarrow> p_GPUUUID m = g_GPUUUID k \<and> p_PID m = g_PID k \<and> p_SMUtilizationPercent m \<le> 100"

definition joined_ok :: "joined \<Rightarrow> bool" where
  "joined_ok j \<longleftrightarrow> gomap_ok j \<and> (\<forall>k m. map_of j k = Some m \<longrightarrow> process_ok k m)"

lemma joined_ok_Nil: "joined_ok []"
  by (simp add: joined_ok_def)

lemma joined_ok_update: "joined_ok j \<Longrightarrow> process_ok k m \<Longrightarrow> joined_ok (AList.update k m j)"
  by (simp add: joined_ok_def update_conv')

lemma joined_ok_util: "joined_ok j \<Longrightarrow> p_SMUtilizationPercent (lookup_or j k zero_process) \<le> 100"
  by (auto simp: joined_ok_def process_ok_def lookup_or_def zero_process_def split: option.splits)

lemma joined_ok_utilization: "joined_ok j \<Longrightarrow> joined_ok (utilization_loop u i L ss j)"
proof (induction ss arbitrary: j)
  case (Cons s ss)
  show ?case
  proof (cases "shouldSkipProcessUtilizationSample s L")
    case False
    then have "u_SmUtil s \<le> 100" by (auto simp: shouldSkipProcessUtilizationSample_def not_less)
    then show ?thesis using False Cons.prems by (simp add: Let_def Cons.IH joined_ok_update process_ok_def)
  qed (use Cons in simp)
qed simp

lemma joined_ok_running: "joined_ok j \<Longrightarrow> joined_ok (running_loop u i ps j)"
proof (induction ps arbitrary: j)
  case (Cons p ps)
  show ?case using joined_ok_util [OF Cons.prems]
    by (auto simp: Let_def process_ok_def intro!: Cons.IH joined_ok_update [OF Cons.prems])
qed simp

lemma joined_ok_device: "joined_ok (q_joined q) \<Longrightarrow> joined_ok (q_joined (collect_device nv L i q))"
proof (cases "device_seen nv (q_known q) i")
  case None then show "joined_ok (q_joined q) \<Longrightarrow> ?thesis" using collect_device_skipped [OF None, of L] by auto
next
  case (Some ud)
  assume "joined_ok (q_joined q)"
  then have util: "joined_ok (fst (collectProcessUtilization u i L d (q_joined q)))" for u d
    by (simp add: collectProcessUtilization_def joined_ok_utilization split: prod.split)
  have "joined_ok j \<Longrightarrow> joined_ok (fst (collectProcessMemory u i d j))" for u d j
    by (auto simp: collectProcessMemory_def mergeRunningProcesses_def joined_ok_running split: prod.splits if_splits)
  with util Some show ?thesis by (cases ud) (simp add: collect_device_seen)
qed

lemma joined_ok_poll: "joined_ok (q_joined (collect_devices nv L n known))"
proof -
  have "joined_ok (q_joined q) \<Longrightarrow> joined_ok (q_joined (fold (collect_device nv L) is q))" for q "is"
    by (induction "is" arbitrary: q) (simp_all add: joined_ok_device)
  then show ?thesis by (simp add: collect_devices_def joined_ok_Nil)
qed

definition process_id :: "GPUProcessMetric \<Rightarrow> string \<times> uint32" where
  "process_id p = (p_GPUUUID p, p_PID p)"

text \<open>What a snapshot promises its readers: one entry per GPU and process, percentages in range.\<close>

definition processes_ok :: "GPUProcessMetric list \<Rightarrow> bool" where
  "processes_ok ps \<longleftrightarrow> distinct (map process_id ps) \<and> list_all (\<lambda>p. p_SMUtilizationPercent p \<le> 100) ps"

lemma joined_ok_processes:
  assumes "joined_ok j" shows "processes_ok (map snd j)"
proof -
  have ok: "process_ok k m" if "(k, m) \<in> set j" for k m
    using assms that by (auto simp: joined_ok_def gomap_ok_def)
  then have "map process_id (map snd j) = map (\<lambda>k. (g_GPUUUID k, g_PID k)) (map fst j)"
    by (auto simp: process_id_def process_ok_def)
  moreover have "inj_on (\<lambda>k. (g_GPUUUID k, g_PID k)) (set (map fst j))"
    by (rule inj_onI) (metis gpuProcessKey_eta prod.inject)
  ultimately have "distinct (map process_id (map snd j))"
    using assms by (simp only: distinct_map [of _ "map fst j"]) (simp add: joined_ok_def gomap_ok_def)
  then show ?thesis using ok by (auto simp: processes_ok_def list_all_iff process_ok_def)
qed

fun collector_ok :: "collector \<Rightarrow> bool" where
  "collector_ok (NvmlCollector c) \<longleftrightarrow> processes_ok (Processes (c_snapshot c))"
| "collector_ok NoopCollector \<longleftrightarrow> True"

lemma processes_ok_Nil [simp]: "processes_ok []"
  by (simp add: processes_ok_def)

lemma collector_ok_new: "collector_ok (newCollector init interval)"
  by (simp add: newCollector_def newNVMLProcessCollector_def no_snapshot_def)

lemma collector_ok_tick: "collector_ok c \<Longrightarrow> collector_ok (collector_tick nv now c)"
  by (cases c) (auto simp: nvml_collect_def Let_def joined_ok_processes joined_ok_poll split: prod.splits)

lemma collector_ok_Snapshot: "collector_ok c \<Longrightarrow> processes_ok (Processes (collector_Snapshot c))"
  by (cases c) (simp_all add: cloneGPUProcessSnapshot_def no_snapshot_def)

section \<open>Copies\<close>

lemma clone_map_id: "gomap_ok m \<Longrightarrow> clone_map m = m"
proof -
  have "gomap_ok (a @ m) \<Longrightarrow> fold (\<lambda>(k, v). AList.update k v) m a = a @ m" for a
  proof (induction m arbitrary: a)
    case (Cons e m)
    then have "fst e \<notin> fst ` set a" by (auto simp: gomap_ok_def)
    with Cons show ?case by (cases e) (simp add: update_fresh)
  qed simp
  then show "gomap_ok m \<Longrightarrow> ?thesis" by (simp add: clone_map_def)
qed


section \<open>What a poll reports\<close>

definition reported_pids :: "uint64 \<Rightarrow> nvml_Device \<Rightarrow> uint32 set" where
  "reported_pids L d = u_Pid ` set (kept_samples L d) \<union> i_Pid ` set (running_processes d)"

text \<open>The last accepted sample listed for a process, joined with the most memory listed for it.\<close>

definition reported_process :: "string \<Rightarrow> int \<Rightarrow> uint64 \<Rightarrow> nvml_Device \<Rightarrow> uint32 \<Rightarrow> GPUProcessMetric" where
  "reported_process u i L d pid =
    (let ss = pid_samples pid (kept_samples L d) in
     \<lparr>p_PID = pid, p_GPUUUID = u, p_GPUIndex = i,
      p_UsedGPUMemoryBytes = reported_memory (pid_infos pid (running_processes d)),
      p_SMUtilizationPercent = (if ss = [] then 0 else u_SmUtil (last ss)),
      p_ProcessUtilizationTimestamp = (if ss = [] then 0 else u_TimeStamp (last ss))\<rparr>)"

lemma pid_lists_empty:
  "pid_samples pid ss = [] \<longleftrightarrow> pid \<notin> u_Pid ` set ss" "pid_infos pid ps = [] \<longleftrightarrow> pid \<notin> i_Pid ` set ps"
  by (auto simp: pid_defs filter_empty_conv)

lemma device_entry_reported:
  "device_entry u i L d pid None = (if pid \<in> reported_pids L d then Some (reported_process u i L d pid) else None)"
proof -
  let ?ss = "pid_samples pid (kept_samples L d)" and ?ps = "pid_infos pid (running_processes d)"
  have "pid \<in> reported_pids L d \<longleftrightarrow> ?ss \<noteq> [] \<or> ?ps \<noteq> []"
    by (simp add: reported_pids_def pid_lists_empty)
  moreover have "?ps = [] \<Longrightarrow> reported_memory ?ps = 0" by (simp add: reported_memory_def)
  moreover have "fold mem_step ?ps 0 = reported_memory ?ps" by (simp only: mem_step_fold reported_memory_def)
  ultimately show ?thesis
    by (auto simp: device_entry_def with_infos_def with_samples_def reported_process_def zero_process_def Let_def)
qed

definition poll_since :: "int \<Rightarrow> nvmlProcessCollector \<Rightarrow> uint64" where
  "poll_since now c = unix_micro (case c_lastPollTime c of None \<Rightarrow> now - c_interval c | Some t \<Rightarrow> t)"

lemma nvml_collect_ok:
  assumes "DeviceGetCount nv = (n, SUCCESS)"
  shows "Processes (c_snapshot (nvml_collect nv now c)) = map snd (q_joined (collect_devices nv (poll_since now c) n (c_deviceUUIDs c)))"
  using assms by (simp add: nvml_collect_def poll_since_def Let_def)

lemma joined_ok_snd:
  assumes "joined_ok j"
  shows "{p \<in> set (map snd j). p_GPUUUID p = u} = {m. \<exists>pid. map_of j \<lparr>g_GPUUUID = u, g_PID = pid\<rparr> = Some m}"
proof -
  have entry: "(k, m) \<in> set j \<longleftrightarrow> map_of j k = Some m" for k m
    using assms by (simp add: joined_ok_def gomap_entry)
  have ok: "map_of j k = Some m \<Longrightarrow> k = \<lparr>g_GPUUUID = p_GPUUUID m, g_PID = p_PID m\<rparr>" for k m
    using assms by (simp add: joined_ok_def process_ok_def)
  have "p \<in> set (map snd j) \<longleftrightarrow> (\<exists>k. map_of j k = Some p)" for p
    using entry by force
  then show ?thesis using ok by fastforce
qed

text \<open>
  C12: A poll reports a GPU that answers, and whose UUID no other answering GPU has, exactly:
  one entry for each process that has an accepted utilization sample or that is listed as
  running, with the utilization of the last accepted sample (zero without one) and the largest
  available memory value of the compute and graphics lists. Failures of other GPUs do not
  disturb it. A sample is accepted when its process is known, its percentages are percentages
  and it is newer than the poll before. If the GPUs cannot be counted, the snapshot stays.
\<close>

theorem nvml_poll_reports:
  "(DeviceGetCount nv = (n, SUCCESS) \<longrightarrow> 0 \<le> i \<longrightarrow> i < n \<longrightarrow> device_seen nv (c_deviceUUIDs c) i = Some (u, d) \<longrightarrow>
     (\<forall>j d'. 0 \<le> j \<and> j < n \<and> j \<noteq> i \<longrightarrow> device_seen nv (c_deviceUUIDs c) j \<noteq> Some (u, d')) \<longrightarrow>
     {p \<in> set (Processes (c_snapshot (nvml_collect nv now c))). p_GPUUUID p = u} =
       reported_process u i (poll_since now c) d ` reported_pids (poll_since now c) d) \<and>
   (snd (DeviceGetCount nv) \<noteq> SUCCESS \<longrightarrow>
     nvml_collect nv now c = c\<lparr>c_lastPollTime := Some now\<rparr>)"
proof (intro conjI impI)
  let ?L = "poll_since now c" and ?known = "c_deviceUUIDs c"
  assume n: "DeviceGetCount nv = (n, SUCCESS)" and i: "0 \<le> i" "i < n"
    and seen: "device_seen nv ?known i = Some (u, d)"
    and alone: "\<forall>j d'. 0 \<le> j \<and> j < n \<and> j \<noteq> i \<longrightarrow> device_seen nv ?known j \<noteq> Some (u, d')"
  have "map_of (q_joined (collect_devices nv ?L n ?known)) \<lparr>g_GPUUUID = u, g_PID = pid\<rparr> = device_entry u i ?L d pid None" for pid
    using poll_entry [OF i seen, of "\<lparr>g_GPUUUID = u, g_PID = pid\<rparr>" ?L] alone by simp
  then show "{p \<in> set (Processes (c_snapshot (nvml_collect nv now c))). p_GPUUUID p = u} =
      reported_process u i ?L d ` reported_pids ?L d"
    unfolding nvml_collect_ok [OF n] joined_ok_snd [OF joined_ok_poll] by (auto simp: device_entry_reported split: if_splits)
next
  assume "snd (DeviceGetCount nv) \<noteq> SUCCESS"
  then show "nvml_collect nv now c = c\<lparr>c_lastPollTime := Some now\<rparr>"
    by (auto simp: nvml_collect_def Let_def split: prod.splits)
qed

definition sample_device :: nvml_Device where
  "sample_device =
    \<lparr>GetUUID = (''GPU-a'', SUCCESS), GetMinorNumber = (1, SUCCESS), GetMemoryInfo_Total = (16106127360, SUCCESS),
     GetProcessUtilization = (\<lambda>_. ([\<lparr>u_Pid = 7, u_SmUtil = 40, u_MemUtil = 1, u_EncUtil = 0, u_DecUtil = 0, u_TimeStamp = 9000000\<rparr>,
        \<lparr>u_Pid = 7, u_SmUtil = 4294967295, u_MemUtil = 1, u_EncUtil = 0, u_DecUtil = 0, u_TimeStamp = 9000001\<rparr>], SUCCESS)),
     GetComputeRunningProcesses = ([\<lparr>i_Pid = 7, i_UsedGpuMemory = 1024\<rparr>], SUCCESS),
     GetGraphicsRunningProcesses = ([], ERROR_NOT_SUPPORTED)\<rparr>"

definition sample_poll :: nvml_poll where
  "sample_poll = \<lparr>DeviceGetCount = (2, SUCCESS),
     DeviceGetHandleByIndex = (\<lambda>i. (sample_device, if i = 0 then SUCCESS else ERROR_OTHER 15))\<rparr>"

definition sample_collector :: nvmlProcessCollector where
  "sample_collector = \<lparr>c_snapshot = no_snapshot, c_interval = 5000000000, c_lastPollTime = Some 8000000000, c_deviceUUIDs = []\<rparr>"

lemma sample_kept: "kept_samples 8000000 sample_device =
    [\<lparr>u_Pid = 7, u_SmUtil = 40, u_MemUtil = 1, u_EncUtil = 0, u_DecUtil = 0, u_TimeStamp = 9000000\<rparr>]"
  by (simp add: kept_samples_def sample_device_def tolerated_def shouldSkipProcessUtilizationSample_def)

lemma sample_running: "running_processes sample_device = [\<lparr>i_Pid = 7, i_UsedGpuMemory = 1024\<rparr>]"
  by (simp add: running_processes_def sample_device_def tolerated_def)

theorem nvml_poll_reports_witness:
  "{p \<in> set (Processes (c_snapshot (nvml_collect sample_poll 9500000000 sample_collector))). p_GPUUUID p = ''GPU-a''} =
    {\<lparr>p_PID = 7, p_GPUUUID = ''GPU-a'', p_GPUIndex = 0, p_UsedGPUMemoryBytes = 1024, p_SMUtilizationPercent = 40,
      p_ProcessUtilizationTimestamp = 9000000\<rparr>}"
proof -
  have since: "poll_since 9500000000 sample_collector = 8000000"
    by (simp add: poll_since_def sample_collector_def unix_micro_def)
  have seen: "device_seen sample_poll (c_deviceUUIDs sample_collector) 0 = Some (''GPU-a'', sample_device)"
    by (simp add: device_seen_def sample_poll_def sample_collector_def sample_device_def deviceUUID_def lookup_or_def)
  have other: "j \<noteq> 0 \<Longrightarrow> device_seen sample_poll (c_deviceUUIDs sample_collector) j = None" for j
    by (simp add: device_seen_def sample_poll_def)
  have "reported_pids 8000000 sample_device = {7}"
    by (simp add: reported_pids_def sample_kept sample_running)
  moreover have "reported_process ''GPU-a'' 0 8000000 sample_device 7 =
    \<lparr>p_PID = 7, p_GPUUUID = ''GPU-a'', p_GPUIndex = 0, p_UsedGPUMemoryBytes = 1024, p_SMUtilizationPercent = 40,
      p_ProcessUtilizationTimestamp = 9000000\<rparr>"
    by (simp add: reported_process_def sample_kept sample_running pid_defs reported_memory_def nvmlValueNotAvailable_def Let_def max_def)
  moreover have "DeviceGetCount sample_poll = (2, SUCCESS)" by (simp add: sample_poll_def)
  ultimately show ?thesis
    using nvml_poll_reports [of sample_poll 2 0 sample_collector "''GPU-a''" sample_device 9500000000] seen other
    by (simp add: since)
qed

end
