(* ===== verification/Pod_Source.thy ===== *)
theory Pod_Source
  imports Fsstore Nvml_Collector
begin

text \<open>
  Package \<^verbatim>\<open>metricsd/internal/metrics\<close>, attribution (cgroup.go, podsource.go): a GPU process is
  resolved to its container by reading its cgroup file and matching the paths against the
  container mapping. The proc file system is the parameter \<open>procfs\<close>: the content of a file, or
  nothing if it cannot be read.
\<close>

section \<open>Cgroup files\<close>

text \<open>\<^verbatim>\<open>strings.SplitN\<close> for a count that is not negative.\<close>

fun SplitN :: "string \<Rightarrow> char \<Rightarrow> nat \<Rightarrow> string list" where
  "SplitN s c 0 = []"
| "SplitN s c (Suc 0) = [s]"
| "SplitN s c (Suc (Suc n)) = (case Cut s c of (a, r, found) \<Rightarrow> if found then a # SplitN r c (Suc n) else [s])"

type_synonym procfs = "string \<Rightarrow> string option"

definition metrics_defaultProcRoot :: string where
  "metrics_defaultProcRoot = ''/proc''"

definition cgroupFile :: string where
  "cgroupFile = ''cgroup''"

record ProcCgroupResolver =
  ProcRoot :: string

definition NewProcCgroupResolver :: "string \<Rightarrow> ProcCgroupResolver" where
  "NewProcCgroupResolver procRoot =
    (let procRoot = TrimSpace procRoot
     in \<lparr>ProcRoot = (if procRoot = [] then metrics_defaultProcRoot else procRoot)\<rparr>)"

text \<open>The path of one line, if it has one.\<close>

definition cgroup_line :: "string \<Rightarrow> string option" where
  "cgroup_line line =
    (let line = TrimSpace line in
     if line = [] then None
     else case SplitN line CHR '':'' 3 of
       [_, _, p] \<Rightarrow> (let path = TrimSpace p in if path = [] then None else Some path)
     | _ \<Rightarrow> None)"

definition parseCgroupPaths :: "string \<Rightarrow> string list" where
  "parseCgroupPaths data = List.map_filter cgroup_line (Split data (CHR 0x0A))"

definition CgroupPaths :: "procfs \<Rightarrow> ProcCgroupResolver \<Rightarrow> uint32 \<Rightarrow> (string, string list) result" where
  "CgroupPaths fs r pid =
    (let path = filepath_Join [ProcRoot r, FormatInt (uint pid), cgroupFile] in
     case fs path of None \<Rightarrow> Inl path | Some data \<Rightarrow> Inr (parseCgroupPaths data))"

section \<open>The pod source\<close>

record podSourceSnapshot =
  ps_resolver :: "uint32 \<Rightarrow> (string, string list) result"
  ps_store :: ContainerStore

text \<open>\<^verbatim>\<open>cgroupPodSource.Snapshot\<close>: one reading of the directory, held in memory for a cycle.\<close>

definition podSource_Snapshot :: "procfs \<Rightarrow> ProcCgroupResolver \<Rightarrow> MapDir \<Rightarrow> podSourceSnapshot" where
  "podSource_Snapshot fs r dir =
    \<lparr>ps_resolver = CgroupPaths fs r, ps_store = store_Replace (Reader_ActiveContainers dir) NewContainerStore\<rparr>"

definition ResolveProcess :: "podSourceSnapshot \<Rightarrow> GPUProcessMetric \<Rightarrow> ContainerInfo option" where
  "ResolveProcess pods p =
    (case ps_resolver pods (p_PID p) of Inl _ \<Rightarrow> None | Inr paths \<Rightarrow> MatchCgroupPaths paths (ps_store pods))"

definition source_ActivePodUIDs :: "podSourceSnapshot \<Rightarrow> string set" where
  "source_ActivePodUIDs pods = ActivePodUIDs (ps_store pods)"

definition source_ActiveContainers :: "podSourceSnapshot \<Rightarrow> ContainerInfo list" where
  "source_ActiveContainers pods = ActiveContainers (ps_store pods)"

text \<open>The source itself asks the directory each time, without holding it.\<close>

definition cgroupPodSource_ResolveProcess ::
  "procfs \<Rightarrow> ProcCgroupResolver \<Rightarrow> MapDir \<Rightarrow> GPUProcessMetric \<Rightarrow> ContainerInfo option" where
  "cgroupPodSource_ResolveProcess fs r dir p =
    (case CgroupPaths fs r (p_PID p) of Inl _ \<Rightarrow> None | Inr paths \<Rightarrow> Reader_MatchCgroupPaths dir paths)"

section \<open>What the kernel writes is read\<close>

record cgroup_entry =
  hierarchy :: string
  controllers :: string
  cgroup :: string

definition entry_ok :: "cgroup_entry \<Rightarrow> bool" where
  "entry_ok e \<longleftrightarrow> no_space_bytes (hierarchy e) \<and> no_space_bytes (controllers e) \<and> no_space_bytes (cgroup e) \<and>
     CHR '':'' \<notin> set (hierarchy e) \<and> CHR '':'' \<notin> set (controllers e) \<and> cgroup e \<noteq> []"

definition entry_line :: "cgroup_entry \<Rightarrow> string" where
  "entry_line e = hierarchy e @ CHR '':'' # controllers e @ CHR '':'' # cgroup e"

definition cgroup_file :: "cgroup_entry list \<Rightarrow> string" where
  "cgroup_file es = concat (map (\<lambda>e. entry_line e @ [CHR 0x0A]) es)"

lemma no_space_append: "no_space_bytes (a @ b) \<longleftrightarrow> no_space_bytes a \<and> no_space_bytes b"
  by (auto simp: no_space_bytes_def list_all_iff)

lemma no_space_colon: "no_space_bytes (CHR '':'' # s) \<longleftrightarrow> no_space_bytes s"
  by (auto simp: no_space_bytes_def list_all_iff space_runes_def)

lemma no_space_newline: "no_space_bytes s \<Longrightarrow> CHR 0x0A \<notin> set s"
  by (auto simp: no_space_bytes_def list_all_iff space_runes_def)

lemma cgroup_line_entry:
  assumes "entry_ok e" shows "cgroup_line (entry_line e) = Some (cgroup e)"
proof -
  have "no_space_bytes (entry_line e)"
    using assms by (simp add: entry_line_def entry_ok_def no_space_append no_space_colon)
  then have "TrimSpace (entry_line e) = entry_line e" by (rule TrimSpace_id)
  moreover have "SplitN (entry_line e) CHR '':'' 3 = [hierarchy e, controllers e, cgroup e]"
    using assms by (simp add: numeral_3_eq_3 entry_line_def entry_ok_def Cut_found)
  moreover have "TrimSpace (cgroup e) = cgroup e" using assms by (simp add: entry_ok_def TrimSpace_id)
  ultimately show ?thesis using assms by (simp add: cgroup_line_def entry_ok_def entry_line_def Let_def)
qed

lemma parseCgroupPaths_file:
  assumes "list_all entry_ok es" shows "parseCgroupPaths (cgroup_file es) = map cgroup es"
  using assms
proof (induction es)
  case Nil then show ?case by (simp add: parseCgroupPaths_def cgroup_file_def cgroup_line_def map_filter_simps)
next
  case (Cons e es)
  then have "CHR 0x0A \<notin> set (entry_line e)"
    by (intro no_space_newline) (simp add: entry_line_def entry_ok_def no_space_append no_space_colon)
  then have "parseCgroupPaths (cgroup_file (e # es)) =
      (case cgroup_line (entry_line e) of None \<Rightarrow> [] | Some p \<Rightarrow> [p]) @ parseCgroupPaths (cgroup_file es)"
    by (simp add: parseCgroupPaths_def cgroup_file_def Split_append map_filter_simps split: option.split)
  then show ?case using Cons by (simp add: cgroup_line_entry)
qed

section \<open>Attribution\<close>

lemma podSource_store_lookup: "map_of (ps_store (podSource_Snapshot fs r dir)) i = map_of (scan dir) i"
proof (cases "i = []")
  case True
  have "store_ok (ps_store (podSource_Snapshot fs r dir))" by (simp add: podSource_Snapshot_def store_ok_replace)
  then show ?thesis using True by (auto simp: store_ok_iff dest: spec [of _ "[]"] intro: option_eqI)
next
  case False
  have ok: "store_ok (scan dir)" by (rule scan_ok)
  then have entry: "map_of (scan dir) (ContainerID c) = Some c" if "c \<in> set (map snd (scan dir))" for c
    using that by (auto simp: store_ok_def list_all_iff gomap_ok_def)
  have found: "c \<in> set (map snd (scan dir)) \<and> ContainerID c = i" if "map_of (scan dir) i = Some c" for c
    using ok map_of_SomeD [OF that] by (auto simp: store_ok_def list_all_iff intro: rev_image_eqI)
  have conv: "map_of (scan dir) i = Some c" if "last_by_id (map snd (scan dir)) i = Some c" for c
    using last_by_id_Some [OF that] entry by auto
  have "last_by_id (map snd (scan dir)) i = map_of (scan dir) i"
  proof (cases "last_by_id (map snd (scan dir)) i")
    case None
    then have "i \<notin> ContainerID ` set (map snd (scan dir))" by (simp only: last_by_id_None simp_thms)
    then show ?thesis using None found by (cases "map_of (scan dir) i") auto
  next
    case (Some c) then show ?thesis using conv [OF Some] by simp
  qed
  then show ?thesis
    using False by (simp add: podSource_Snapshot_def store_Replace_lookup Reader_ActiveContainers_def ActiveContainers_def)
qed

lemma podSource_store_ok: "store_ok (ps_store (podSource_Snapshot fs r dir))"
  by (simp add: podSource_Snapshot_def store_ok_replace)

lemma source_containers:
  "store_ok (ps_store pods) \<Longrightarrow> c \<in> set (source_ActiveContainers pods) \<longleftrightarrow> map_of (ps_store pods) (ContainerID c) = Some c"
  by (auto simp: source_ActiveContainers_def ActiveContainers_def store_ok_def list_all_iff gomap_ok_def
      intro: rev_image_eqI dest!: map_of_SomeD)

lemma scan_containers: "c \<in> set (Reader_ActiveContainers dir) \<longleftrightarrow> map_of (scan dir) (ContainerID c) = Some c"
  using scan_ok [of dir] by (auto simp: Reader_ActiveContainers_def ActiveContainers_def store_ok_def list_all_iff gomap_ok_def
      intro: rev_image_eqI dest!: map_of_SomeD)

text \<open>What the mapping calls recorded is what a reading of the directory holds.\<close>

lemma recorded_in_scan:
  assumes "\<And>j. j \<in> \<Union> (op_ids ` set ops) \<Longrightarrow> bare_file_id j" "bare_file_id i"
  shows "map_of (scan (fold (run_op (fs_Writer (no_faults rnd))) ops empty_dir)) i = map_option persisted (fold spec_op ops Map.empty i)"
proof -
  have "map_of (scan empty_dir) j = None" for j by (simp add: scan_def empty_dir_def NewContainerStore_def)
  then show ?thesis using fs.run_ops_view [of empty_dir ops i rnd] assms empty_dir_inv by simp
qed

text \<open>A process whose paths lie in one container only is attributed to it.\<close>

lemma ResolveProcess_unique:
  assumes "ps_resolver pods (p_PID p) = Inr paths" "c \<in> set (source_ActiveContainers pods)" "q \<in> set paths"
    "cgroupPathMatchesContainer q c"
    and "\<And>c' q'. c' \<in> set (source_ActiveContainers pods) \<Longrightarrow> q' \<in> set paths \<Longrightarrow> cgroupPathMatchesContainer q' c' \<Longrightarrow> c' = c"
  shows "ResolveProcess pods p = Some c"
proof (cases "MatchCgroupPaths paths (ps_store pods)")
  case None
  then show ?thesis using assms(2-4) by (fastforce simp: MatchCgroupPaths_None source_ActiveContainers_def ActiveContainers_def)
next
  case (Some c')
  then obtain k q' where "(k, c') \<in> set (ps_store pods)" "q' \<in> set paths" "cgroupPathMatchesContainer q' c'"
    using MatchCgroupPaths_Some by blast
  then have "c' = c" using assms(5) by (force simp: source_ActiveContainers_def ActiveContainers_def)
  then show ?thesis using Some assms(1) by (simp add: ResolveProcess_def)
qed

lemma ResolveProcess_active: "ResolveProcess pods p = Some c \<Longrightarrow> c \<in> set (source_ActiveContainers pods)"
  by (auto simp: ResolveProcess_def source_ActiveContainers_def ActiveContainers_def dest!: MatchCgroupPaths_Some
      intro: rev_image_eqI split: sum.splits)

end
