(* ===== verification/Metrics_Engine.thy ===== *)
theory Metrics_Engine
  imports Pod_Source
begin

text \<open>
  Package \<^verbatim>\<open>metricsd/internal/metrics\<close>, the engine (engine.go, types.go): each cycle joins the GPU
  processes of the collector with the containers of the mapping into one metric per pod and
  GPU, smooths the utilization over a sliding window, and normalizes it by the share of the
  GPU the pod asked for. Memory counters are 64-bit words and requested amounts 64-bit
  integers, both with wrap-around. Percentages and fractions, \<^verbatim>\<open>float64\<close> in the code, are
  rationals: rounding is not modelled.
\<close>

section \<open>Types\<close>

record podGPUKey =
  k_Namespace :: string
  k_Pod :: string
  k_PodUID :: string
  k_GPUUUID :: string
  k_GPUIndex :: int

record PodGPUMetric =
  m_Namespace :: string
  m_Pod :: string
  m_PodUID :: string
  m_GPUUUID :: string
  m_GPUIndex :: int
  m_MemoryBytes :: uint64
  m_SMUtilizationPercent :: rat
  m_RequestedGPUFraction :: rat
  m_SMUtilizationPercentNormalized :: rat

text \<open>A published snapshot; before the first cycle its set of pods is nil.\<close>

record Snapshot =
  Metrics :: "PodGPUMetric list"
  Snap_ActivePodUIDs :: "string set option"

record metricsEngine =
  smUtilWindowSize :: int
  smUtilBuf :: "(podGPUKey, rat list) gomap"
  e_deviceUUIDs :: "(int, string) gomap"
  minorToNVMLIndex :: "(int, int) gomap"
  e_deviceTotalMemoryBytes :: "(int, uint64) gomap"
  snapshot :: Snapshot

definition maxSMUtilPercent :: rat where "maxSMUtilPercent = 100"
definition fullGPUFraction :: rat where "fullGPUFraction = 1"
definition metrics_bytesPerMiB :: rat where "metrics_bytesPerMiB = 1048576"

definition newMetricsControllerWithPodSource :: "int \<Rightarrow> int \<Rightarrow> metricsEngine" where
  "newMetricsControllerWithPodSource interval smUtilWindow =
    (let windowSize = (if interval > 0 \<and> smUtilWindow > interval then smUtilWindow div interval else 1)
     in \<lparr>smUtilWindowSize = windowSize, smUtilBuf = [], e_deviceUUIDs = [], minorToNVMLIndex = [],
         e_deviceTotalMemoryBytes = [], snapshot = \<lparr>Metrics = [], Snap_ActivePodUIDs = None\<rparr>\<rparr>)"

section \<open>Devices remembered across cycles\<close>

definition rememberDeviceTotalMemory :: "(int, uint64) gomap \<Rightarrow> metricsEngine \<Rightarrow> metricsEngine" where
  "rememberDeviceTotalMemory ts s =
    s\<lparr>e_deviceTotalMemoryBytes :=
      fold (\<lambda>(i, t) m. if t = 0 then m else AList.update i t m) ts (e_deviceTotalMemoryBytes s)\<rparr>"

definition rememberDeviceUUIDs :: "(int, string) gomap \<Rightarrow> metricsEngine \<Rightarrow> metricsEngine" where
  "rememberDeviceUUIDs us s =
    s\<lparr>e_deviceUUIDs := fold (\<lambda>(i, u) m. if u = [] then m else AList.update i u m) us (e_deviceUUIDs s)\<rparr>"

definition rememberMinorToNVMLIndex :: "(int, int) gomap \<Rightarrow> metricsEngine \<Rightarrow> metricsEngine" where
  "rememberMinorToNVMLIndex ms s =
    s\<lparr>minorToNVMLIndex := fold (\<lambda>(n, i) m. AList.update n i m) ms (minorToNVMLIndex s)\<rparr>"

section \<open>Requested memory\<close>

definition recordRequestedMemory ::
  "podGPUKey \<Rightarrow> string \<Rightarrow> int \<Rightarrow> (podGPUKey, (string, int) gomap) gomap \<Rightarrow> (podGPUKey, (string, int) gomap) gomap" where
  "recordRequestedMemory k containerID memMiB memByKey =
    (if memMiB \<le> 0 \<or> containerID = [] then memByKey
     else AList.update k (AList.update containerID memMiB (lookup_or memByKey k [])) memByKey)"

definition sumRequestedMemory :: "(string, int) gomap \<Rightarrow> int" where
  "sumRequestedMemory byContainer = fold (\<lambda>(_, memMiB) s. wrap64 (s + memMiB)) byContainer 0"

definition gpuFraction :: "metricsEngine \<Rightarrow> int \<Rightarrow> int \<Rightarrow> rat" where
  "gpuFraction s gpuIndex requestedMiB =
    (if requestedMiB \<le> 0 then 0
     else let totalBytes = lookup_or (e_deviceTotalMemoryBytes s) gpuIndex 0 in
       if totalBytes = 0 then 0
       else (of_int requestedMiB * metrics_bytesPerMiB) / of_int (uint totalBytes))"

section \<open>Idle devices\<close>

text \<open>
  Go iterates over the map in an unspecified order, here in the order of the list. The UUIDs of devices
  are distinct, and then the order does not matter: lemma \<open>indexForUUID_unique\<close>.
\<close>

definition indexForUUID :: "metricsEngine \<Rightarrow> string \<Rightarrow> int option" where
  "indexForUUID s uuid = map_option fst (find (\<lambda>(_, u). u = uuid) (e_deviceUUIDs s))"

lemma indexForUUID_unique:
  assumes "distinct (map snd (e_deviceUUIDs s))"
  shows "indexForUUID s u = Some i \<longleftrightarrow> (i, u) \<in> set (e_deviceUUIDs s)"
proof -
  have "map_option fst (find (\<lambda>(_, v). v = u) xs) = Some i \<longleftrightarrow> (i, u) \<in> set xs" if "distinct (map snd xs)" for xs :: "(int \<times> string) list"
    using that by (induction xs) force+
  then show ?thesis using assms by (simp add: indexForUUID_def)
qed

definition container_key :: "ContainerInfo \<Rightarrow> string \<Rightarrow> int \<Rightarrow> podGPUKey" where
  "container_key c uuid index =
    \<lparr>k_Namespace = Namespace c, k_Pod = Pod c, k_PodUID = PodUID c, k_GPUUUID = uuid, k_GPUIndex = index\<rparr>"

definition idlePodGPUKey :: "metricsEngine \<Rightarrow> ContainerInfo \<Rightarrow> GPUDevice \<Rightarrow> podGPUKey option" where
  "idlePodGPUKey s c d =
    (if UUID d \<noteq> [] then
       Some (container_key c (UUID d) (case indexForUUID s (UUID d) of Some i \<Rightarrow> i | None \<Rightarrow> Index d))
     else if length (minorToNVMLIndex s) > 0 then
       (let minor = (if MinorNumber d = 0 \<and> Index d \<noteq> 0 then Index d else MinorNumber d) in
        case map_of (minorToNVMLIndex s) minor of
          None \<Rightarrow> None
        | Some nvmlIdx \<Rightarrow> Some (container_key c (lookup_or (e_deviceUUIDs s) nvmlIdx []) nvmlIdx))
     else Some (container_key c (lookup_or (e_deviceUUIDs s) (Index d) []) (Index d)))"

definition podGPUKeyForMetric :: "PodGPUMetric \<Rightarrow> podGPUKey" where
  "podGPUKeyForMetric m =
    \<lparr>k_Namespace = m_Namespace m, k_Pod = m_Pod m, k_PodUID = m_PodUID m, k_GPUUUID = m_GPUUUID m, k_GPUIndex = m_GPUIndex m\<rparr>"

definition idlePodGPUMetric :: "podGPUKey \<Rightarrow> PodGPUMetric" where
  "idlePodGPUMetric k =
    \<lparr>m_Namespace = k_Namespace k, m_Pod = k_Pod k, m_PodUID = k_PodUID k, m_GPUUUID = k_GPUUUID k,
     m_GPUIndex = k_GPUIndex k, m_MemoryBytes = 0, m_SMUtilizationPercent = 0, m_RequestedGPUFraction = 0,
     m_SMUtilizationPercentNormalized = 0\<rparr>"

definition podDeviceUUIDKey :: "podGPUKey \<Rightarrow> string" where
  "podDeviceUUIDKey k = k_Namespace k @ ''/'' @ k_PodUID k @ ''/uuid/'' @ k_GPUUUID k"

definition podDeviceIndexKey :: "podGPUKey \<Rightarrow> string" where
  "podDeviceIndexKey k = k_Namespace k @ ''/'' @ k_PodUID k @ ''/index/'' @ Itoa (k_GPUIndex k)"

definition observePodDevice :: "podGPUKey \<Rightarrow> string set \<Rightarrow> string set" where
  "observePodDevice k observed =
    (let observed = (if k_GPUUUID k \<noteq> [] then insert (podDeviceUUIDKey k) observed else observed)
     in insert (podDeviceIndexKey k) observed)"

definition gpuObservedForPodDevice :: "string set \<Rightarrow> podGPUKey \<Rightarrow> bool" where
  "gpuObservedForPodDevice observed k \<longleftrightarrow>
    k_GPUUUID k \<noteq> [] \<and> podDeviceUUIDKey k \<in> observed \<or> podDeviceIndexKey k \<in> observed"

section \<open>One cycle\<close>

record enrich_state =
  byPodGPU :: "(podGPUKey, PodGPUMetric) gomap"
  observedPodDevices :: "string set"
  memByKey :: "(podGPUKey, (string, int) gomap) gomap"
  unmatched :: int

definition enrich_process :: "podSourceSnapshot \<Rightarrow> GPUProcessMetric \<Rightarrow> enrich_state \<Rightarrow> enrich_state" where
  "enrich_process pods p st =
    (if p_PID p = 0 then st
     else case ResolveProcess pods p of
       None \<Rightarrow> st\<lparr>unmatched := unmatched st + 1\<rparr>
     | Some c \<Rightarrow>
        (let k = container_key c (p_GPUUUID p) (p_GPUIndex p);
             m = lookup_or (byPodGPU st) k (idlePodGPUMetric k);
             m = m\<lparr>m_MemoryBytes := m_MemoryBytes m + p_UsedGPUMemoryBytes p,
                   m_SMUtilizationPercent := m_SMUtilizationPercent m + of_int (uint (p_SMUtilizationPercent p))\<rparr>
         in st\<lparr>observedPodDevices := observePodDevice k (observedPodDevices st),
               memByKey := recordRequestedMemory k (ContainerID c) (RequestedMemoryMiB c) (memByKey st),
               byPodGPU := AList.update k m (byPodGPU st)\<rparr>))"

definition enrich_idle :: "metricsEngine \<Rightarrow> ContainerInfo \<times> GPUDevice \<Rightarrow> enrich_state \<Rightarrow> enrich_state" where
  "enrich_idle s cd st =
    (case cd of (c, d) \<Rightarrow>
       case idlePodGPUKey s c d of
         None \<Rightarrow> st
       | Some k \<Rightarrow>
          (let st = st\<lparr>memByKey := recordRequestedMemory k (ContainerID c) (RequestedMemoryMiB c) (memByKey st)\<rparr> in
           if map_of (byPodGPU st) k \<noteq> None then st
           else if gpuObservedForPodDevice (observedPodDevices st) k then st
           else st\<lparr>byPodGPU := AList.update k (idlePodGPUMetric k) (byPodGPU st)\<rparr>))"

definition container_devices :: "ContainerInfo list \<Rightarrow> (ContainerInfo \<times> GPUDevice) list" where
  "container_devices cs = concat (map (\<lambda>c. map (\<lambda>d. (c, d)) (GPUDevices c)) cs)"

definition finish_metric ::
  "metricsEngine \<Rightarrow> (podGPUKey, (string, int) gomap) gomap \<Rightarrow> podGPUKey \<times> PodGPUMetric \<Rightarrow> PodGPUMetric" where
  "finish_metric s mem km =
    (case km of (k, m) \<Rightarrow>
       (let m = (if m_SMUtilizationPercent m > maxSMUtilPercent then m\<lparr>m_SMUtilizationPercent := maxSMUtilPercent\<rparr> else m)
        in m\<lparr>m_RequestedGPUFraction := gpuFraction s (k_GPUIndex k) (sumRequestedMemory (lookup_or mem k []))\<rparr>))"

definition no_metrics :: enrich_state where
  "no_metrics = \<lparr>byPodGPU = [], observedPodDevices = {}, memByKey = [], unmatched = 0\<rparr>"

definition enrich :: "metricsEngine \<Rightarrow> GPUProcessMetric list \<Rightarrow> podSourceSnapshot \<Rightarrow> PodGPUMetric list \<times> int" where
  "enrich s processes pods =
    (let st = fold (enrich_process pods) processes no_metrics;
         st = fold (enrich_idle s) (container_devices (source_ActiveContainers pods)) st
     in (map (finish_metric s (memByKey st)) (byPodGPU st), unmatched st))"

definition pushSample ::
  "int \<Rightarrow> podGPUKey \<Rightarrow> rat \<Rightarrow> (podGPUKey, rat list) gomap \<Rightarrow> rat \<times> (podGPUKey, rat list) gomap" where
  "pushSample w k sample bufs =
    (let buf = lookup_or bufs k [] @ [sample];
         buf = (if int (length buf) > w then drop (length buf - nat w) buf else buf)
     in (sum_list buf / of_nat (length buf), AList.update k buf bufs))"

fun window_loop ::
  "int \<Rightarrow> PodGPUMetric list \<Rightarrow> (podGPUKey, rat list) gomap \<Rightarrow> PodGPUMetric list \<times> (podGPUKey, rat list) gomap" where
  "window_loop w [] bufs = ([], bufs)"
| "window_loop w (m # ms) bufs =
    (case pushSample w (podGPUKeyForMetric m) (m_SMUtilizationPercent m) bufs of (avg, bufs) \<Rightarrow>
     case window_loop w ms bufs of (ms', bufs) \<Rightarrow> (m\<lparr>m_SMUtilizationPercent := avg\<rparr> # ms', bufs))"

definition windowedSMUtil :: "PodGPUMetric list \<Rightarrow> metricsEngine \<Rightarrow> PodGPUMetric list \<times> metricsEngine" where
  "windowedSMUtil metrics s =
    (case window_loop (smUtilWindowSize s) metrics (smUtilBuf s) of (metrics', bufs) \<Rightarrow>
       (metrics', s\<lparr>smUtilBuf := filter (\<lambda>(k, _). k \<in> set (map podGPUKeyForMetric metrics)) bufs\<rparr>))"

definition normalizedSMUtil :: "rat \<Rightarrow> rat \<Rightarrow> rat" where
  "normalizedSMUtil smUtil fraction =
    (let fraction = (if fraction = 0 then fullGPUFraction else fraction);
         normalized = smUtil / fraction
     in if normalized > maxSMUtilPercent then maxSMUtilPercent else normalized)"

definition normalizeSMUtil :: "PodGPUMetric list \<Rightarrow> PodGPUMetric list" where
  "normalizeSMUtil = map (\<lambda>m. m\<lparr>m_SMUtilizationPercentNormalized :=
     normalizedSMUtil (m_SMUtilizationPercent m) (m_RequestedGPUFraction m)\<rparr>)"

definition setSnapshot :: "PodGPUMetric list \<Rightarrow> string set \<Rightarrow> metricsEngine \<Rightarrow> metricsEngine" where
  "setSnapshot metrics activePodUIDs s = s\<lparr>snapshot := \<lparr>Metrics = metrics, Snap_ActivePodUIDs = Some activePodUIDs\<rparr>\<rparr>"

definition remember :: "GPUProcessSnapshot \<Rightarrow> metricsEngine \<Rightarrow> metricsEngine" where
  "remember g s =
    rememberDeviceTotalMemory (DeviceTotalMemoryBytes g)
      (rememberMinorToNVMLIndex (DeviceMinorToNVMLIndex g) (rememberDeviceUUIDs (DeviceUUIDs g) s))"

definition engine_collect :: "GPUProcessSnapshot \<Rightarrow> podSourceSnapshot \<Rightarrow> metricsEngine \<Rightarrow> metricsEngine" where
  "engine_collect g pods s =
    (let activePodUIDs = source_ActivePodUIDs pods in
     if length (source_ActiveContainers pods) = 0 then setSnapshot [] activePodUIDs s
     else
       let s = remember g s;
           (metrics, unmatched) = enrich s (Processes g) pods;
           (metrics, s) = (if smUtilWindowSize s > 1 then windowedSMUtil metrics s else (metrics, s))
       in setSnapshot (normalizeSMUtil metrics) activePodUIDs s)"

definition engine_Snapshot :: "metricsEngine \<Rightarrow> Snapshot" where
  "engine_Snapshot s = snapshot s"


section \<open>Keys\<close>

lemma container_key_sel [simp]:
  "k_Namespace (container_key c u i) = Namespace c" "k_Pod (container_key c u i) = Pod c"
  "k_PodUID (container_key c u i) = PodUID c" "k_GPUUUID (container_key c u i) = u" "k_GPUIndex (container_key c u i) = i"
  by (simp_all add: container_key_def)

lemma key_of_idle [simp]: "podGPUKeyForMetric (idlePodGPUMetric k) = k"
  by (cases k) (simp add: podGPUKeyForMetric_def idlePodGPUMetric_def)

lemma key_of_update [simp]:
  "podGPUKeyForMetric (m\<lparr>m_MemoryBytes := a\<rparr>) = podGPUKeyForMetric m"
  "podGPUKeyForMetric (m\<lparr>m_SMUtilizationPercent := b\<rparr>) = podGPUKeyForMetric m"
  "podGPUKeyForMetric (m\<lparr>m_RequestedGPUFraction := c\<rparr>) = podGPUKeyForMetric m"
  "podGPUKeyForMetric (m\<lparr>m_SMUtilizationPercentNormalized := d\<rparr>) = podGPUKeyForMetric m"
  by (simp_all add: podGPUKeyForMetric_def)

lemma idle_key_owner: "idlePodGPUKey s c d = Some k \<Longrightarrow> k_Namespace k = Namespace c \<and> k_Pod k = Pod c \<and> k_PodUID k = PodUID c"
  by (auto simp: idlePodGPUKey_def Let_def split: if_splits option.splits)

text \<open>Names without a slash keep the keys of observed devices apart.\<close>

definition slash_free :: "podGPUKey \<Rightarrow> bool" where
  "slash_free k \<longleftrightarrow> CHR ''/'' \<notin> set (k_Namespace k) \<and> CHR ''/'' \<notin> set (k_PodUID k)"

definition same_pod_device :: "podGPUKey \<Rightarrow> podGPUKey \<Rightarrow> bool" where
  "same_pod_device k k' \<longleftrightarrow> k_Namespace k = k_Namespace k' \<and> k_PodUID k = k_PodUID k' \<and>
     (k_GPUIndex k = k_GPUIndex k' \<or> k_GPUUUID k \<noteq> [] \<and> k_GPUUUID k = k_GPUUUID k')"

lemma slash_cut:
  "c \<notin> set a \<Longrightarrow> c \<notin> set a' \<Longrightarrow> a @ c # r = a' @ c # r' \<longleftrightarrow> a = a' \<and> r = r'"
proof (induction a arbitrary: a')
  case Nil then show ?case by (cases a') auto
next
  case (Cons x a) then show ?case by (cases a') auto
qed

lemma show_nat_not_minus: "show_nat n \<noteq> CHR ''-'' # s" "CHR ''-'' # s \<noteq> show_nat n"
  using hd_show_nat [of n] sign_not_digit by (metis list.sel(1))+

lemma Itoa_inj [simp]: "Itoa i = Itoa j \<longleftrightarrow> i = j"
  by (auto simp: Itoa_def FormatInt_def show_nat_inj show_nat_not_minus split: if_splits)

lemma pod_keys_apart:
  assumes "slash_free k" "slash_free k'"
  shows "podDeviceIndexKey k = podDeviceIndexKey k' \<longleftrightarrow>
      k_Namespace k = k_Namespace k' \<and> k_PodUID k = k_PodUID k' \<and> k_GPUIndex k = k_GPUIndex k'"
    "podDeviceUUIDKey k = podDeviceUUIDKey k' \<longleftrightarrow>
      k_Namespace k = k_Namespace k' \<and> k_PodUID k = k_PodUID k' \<and> k_GPUUUID k = k_GPUUUID k'"
    "podDeviceUUIDKey k \<noteq> podDeviceIndexKey k'"
  using assms by (auto simp: podDeviceIndexKey_def podDeviceUUIDKey_def slash_free_def slash_cut)

lemma observePodDevice_fold: "x \<in> fold observePodDevice ks S \<longleftrightarrow> x \<in> S \<or>
    (\<exists>k \<in> set ks. x = podDeviceIndexKey k \<or> k_GPUUUID k \<noteq> [] \<and> x = podDeviceUUIDKey k)"
  by (induction ks arbitrary: S) (auto simp: observePodDevice_def Let_def)

lemma gpuObserved_iff:
  assumes "slash_free k" "\<And>k'. k' \<in> set ks \<Longrightarrow> slash_free k'"
  shows "gpuObservedForPodDevice (fold observePodDevice ks {}) k \<longleftrightarrow> (\<exists>k' \<in> set ks. same_pod_device k k')"
  unfolding gpuObservedForPodDevice_def observePodDevice_fold same_pod_device_def
  using pod_keys_apart [OF assms(1) assms(2)] pod_keys_apart(3) [OF assms(2) assms(1)] by fastforce


section \<open>What a cycle computes\<close>

text \<open>The processes of a pod, each with its container, and the metric of a pod and GPU they add up to.\<close>

definition attribution :: "podSourceSnapshot \<Rightarrow> GPUProcessMetric \<Rightarrow> (ContainerInfo \<times> GPUProcessMetric) list" where
  "attribution pods p =
    (if p_PID p = 0 then [] else case ResolveProcess pods p of None \<Rightarrow> [] | Some c \<Rightarrow> [(c, p)])"

definition attributions :: "podSourceSnapshot \<Rightarrow> GPUProcessMetric list \<Rightarrow> (ContainerInfo \<times> GPUProcessMetric) list" where
  "attributions pods ps = concat (map (attribution pods) ps)"

definition akey :: "ContainerInfo \<times> GPUProcessMetric \<Rightarrow> podGPUKey" where
  "akey a = container_key (fst a) (p_GPUUUID (snd a)) (p_GPUIndex (snd a))"

definition procs_of :: "(ContainerInfo \<times> GPUProcessMetric) list \<Rightarrow> podGPUKey \<Rightarrow> GPUProcessMetric list" where
  "procs_of attrs k = map snd (filter (\<lambda>a. akey a = k) attrs)"

definition summed :: "(ContainerInfo \<times> GPUProcessMetric) list \<Rightarrow> podGPUKey \<Rightarrow> PodGPUMetric" where
  "summed attrs k = (idlePodGPUMetric k)
    \<lparr>m_MemoryBytes := sum_list (map p_UsedGPUMemoryBytes (procs_of attrs k)),
     m_SMUtilizationPercent := sum_list (map (\<lambda>p. of_int (uint (p_SMUtilizationPercent p))) (procs_of attrs k))\<rparr>"

definition request_entries :: "(podGPUKey \<times> ContainerInfo) list \<Rightarrow> podGPUKey \<Rightarrow> (string \<times> int) list" where
  "request_entries reqs k =
    map (\<lambda>(_, c). (ContainerID c, RequestedMemoryMiB c))
      (filter (\<lambda>(k', c). k' = k \<and> 0 < RequestedMemoryMiB c \<and> ContainerID c \<noteq> []) reqs)"

definition mem_shows :: "(podGPUKey \<times> ContainerInfo) list \<Rightarrow> (podGPUKey, (string, int) gomap) gomap \<Rightarrow> bool" where
  "mem_shows reqs mem \<longleftrightarrow>
    (\<forall>k. gomap_ok (lookup_or mem k []) \<and> map_of (lookup_or mem k []) = map_of (rev (request_entries reqs k)))"

lemma mem_shows_Nil: "mem_shows [] []"
  by (simp add: mem_shows_def request_entries_def lookup_or_def)

lemma mem_shows_record:
  assumes "mem_shows reqs mem"
  shows "mem_shows (reqs @ [(k, c)]) (recordRequestedMemory k (ContainerID c) (RequestedMemoryMiB c) mem)"
  using assms by (auto simp: mem_shows_def request_entries_def recordRequestedMemory_def update_conv' not_le)

definition shows_processes :: "(ContainerInfo \<times> GPUProcessMetric) list \<Rightarrow> enrich_state \<Rightarrow> bool" where
  "shows_processes attrs st \<longleftrightarrow>
    gomap_ok (byPodGPU st) \<and>
    (\<forall>k. map_of (byPodGPU st) k = (if k \<in> akey ` set attrs then Some (summed attrs k) else None)) \<and>
    observedPodDevices st = fold observePodDevice (map akey attrs) {} \<and>
    mem_shows (map (\<lambda>a. (akey a, fst a)) attrs) (memByKey st)"

lemma summed_fresh: "k \<notin> akey ` set attrs \<Longrightarrow> summed attrs k = idlePodGPUMetric k"
proof -
  assume "k \<notin> akey ` set attrs"
  then have "procs_of attrs k = []" by (auto simp: procs_of_def filter_empty_conv)
  then show ?thesis by (simp add: summed_def idlePodGPUMetric_def)
qed

lemma summed_append:
  "summed (attrs @ [a]) k =
    (if akey a = k then (summed attrs k)
       \<lparr>m_MemoryBytes := m_MemoryBytes (summed attrs k) + p_UsedGPUMemoryBytes (snd a),
        m_SMUtilizationPercent := m_SMUtilizationPercent (summed attrs k) + of_int (uint (p_SMUtilizationPercent (snd a)))\<rparr>
     else summed attrs k)"
  by (simp add: summed_def procs_of_def)

lemma enrich_process_shows:
  assumes "shows_processes attrs st"
  shows "shows_processes (attrs @ attribution pods p) (enrich_process pods p st)"
proof (cases "p_PID p = 0 \<or> ResolveProcess pods p = None")
  case True
  then have "attribution pods p = []" by (auto simp: attribution_def)
  moreover have "byPodGPU (enrich_process pods p st) = byPodGPU st"
    "observedPodDevices (enrich_process pods p st) = observedPodDevices st" "memByKey (enrich_process pods p st) = memByKey st"
    using True by (auto simp: enrich_process_def)
  ultimately show ?thesis using assms by (simp add: shows_processes_def)
next
  case False
  then obtain c where c: "ResolveProcess pods p = Some c" "p_PID p \<noteq> 0" by auto
  define k where "k = container_key c (p_GPUUUID p) (p_GPUIndex p)"
  have attr: "attribution pods p = [(c, p)]" and key: "akey (c, p) = k" using c by (simp_all add: attribution_def akey_def k_def)
  have old: "lookup_or (byPodGPU st) k (idlePodGPUMetric k) = summed attrs k"
    using assms by (auto simp: shows_processes_def lookup_or_def summed_fresh)
  show ?thesis
    using assms c mem_shows_record [of "map (\<lambda>a. (akey a, fst a)) attrs" "memByKey st" k c]
    unfolding attr shows_processes_def
    by (auto simp: enrich_process_def k_def [symmetric] key old summed_append update_conv' Let_def fun_eq_iff)
qed

lemma enrich_processes_show:
  "shows_processes attrs st \<Longrightarrow> shows_processes (attrs @ attributions pods ps) (fold (enrich_process pods) ps st)"
proof (induction ps arbitrary: attrs st)
  case (Cons p ps)
  then show ?case using Cons.IH [OF enrich_process_shows [OF Cons.prems], of pods p] by (simp add: attributions_def)
qed (simp add: attributions_def)

lemma processes_shown: "shows_processes (attributions pods ps) (fold (enrich_process pods) ps no_metrics)"
  using enrich_processes_show [of "[]" no_metrics pods ps]
  by (simp add: shows_processes_def no_metrics_def mem_shows_Nil)


definition idle_requests :: "metricsEngine \<Rightarrow> (ContainerInfo \<times> GPUDevice) list \<Rightarrow> (podGPUKey \<times> ContainerInfo) list" where
  "idle_requests s cds =
    concat (map (\<lambda>(c, d). case idlePodGPUKey s c d of None \<Rightarrow> [] | Some k \<Rightarrow> [(k, c)]) cds)"

lemma idle_requests_snoc:
  "idle_requests s (cds @ [(c, d)]) = idle_requests s cds @ (case idlePodGPUKey s c d of None \<Rightarrow> [] | Some k \<Rightarrow> [(k, c)])"
  by (simp add: idle_requests_def)

lemma in_idle_requests: "(k, c) \<in> set (idle_requests s cds) \<longleftrightarrow> (\<exists>d. (c, d) \<in> set cds \<and> idlePodGPUKey s c d = Some k)"
  by (force simp: idle_requests_def split: option.splits)

text \<open>The keys of a cycle: those of attributed processes, and those of devices on which the pod has none.\<close>

definition shown_keys ::
  "metricsEngine \<Rightarrow> (ContainerInfo \<times> GPUProcessMetric) list \<Rightarrow> (ContainerInfo \<times> GPUDevice) list \<Rightarrow> podGPUKey set" where
  "shown_keys s attrs cds = akey ` set attrs \<union>
    {k \<in> fst ` set (idle_requests s cds). \<not> gpuObservedForPodDevice (fold observePodDevice (map akey attrs) {}) k}"

definition shows_cycle ::
  "metricsEngine \<Rightarrow> (ContainerInfo \<times> GPUProcessMetric) list \<Rightarrow> (ContainerInfo \<times> GPUDevice) list \<Rightarrow> enrich_state \<Rightarrow> bool" where
  "shows_cycle s attrs cds st \<longleftrightarrow>
    gomap_ok (byPodGPU st) \<and>
    (\<forall>k. map_of (byPodGPU st) k = (if k \<in> shown_keys s attrs cds then Some (summed attrs k) else None)) \<and>
    observedPodDevices st = fold observePodDevice (map akey attrs) {} \<and>
    mem_shows (map (\<lambda>a. (akey a, fst a)) attrs @ idle_requests s cds) (memByKey st)"

lemma enrich_idle_shows:
  assumes "shows_cycle s attrs cds st" shows "shows_cycle s attrs (cds @ [cd]) (enrich_idle s cd st)"
proof (cases cd)
  case (Pair c d)
  show ?thesis
  proof (cases "idlePodGPUKey s c d")
    case None then show ?thesis
      using assms Pair by (simp add: shows_cycle_def enrich_idle_def shown_keys_def idle_requests_snoc)
  next
    case (Some k)
    let ?obs = "fold observePodDevice (map akey attrs) {}" and ?reqs = "map (\<lambda>a. (akey a, fst a)) attrs @ idle_requests s cds"
    have mem: "mem_shows (?reqs @ [(k, c)]) (recordRequestedMemory k (ContainerID c) (RequestedMemoryMiB c) (memByKey st))"
      using assms by (intro mem_shows_record) (simp add: shows_cycle_def)
    have keys: "shown_keys s attrs (cds @ [(c, d)]) =
        (if gpuObservedForPodDevice ?obs k then shown_keys s attrs cds else insert k (shown_keys s attrs cds))"
      using Some by (auto simp: shown_keys_def idle_requests_snoc)
    have fresh: "k \<notin> shown_keys s attrs cds \<Longrightarrow> summed attrs k = idlePodGPUMetric k"
      by (simp add: shown_keys_def summed_fresh)
    from assms mem keys fresh Some show ?thesis unfolding Pair
      by (auto simp: shows_cycle_def enrich_idle_def idle_requests_snoc update_conv' Let_def fun_eq_iff insert_absorb)
  qed
qed

lemma enrich_idles_show:
  "shows_cycle s attrs cds st \<Longrightarrow> shows_cycle s attrs (cds @ ds) (fold (enrich_idle s) ds st)"
proof (induction ds arbitrary: cds st)
  case (Cons cd ds)
  then show ?case using Cons.IH [OF enrich_idle_shows [OF Cons.prems], of cd] by simp
qed simp

lemma cycle_shown:
  "shows_cycle s (attributions pods ps) (container_devices (source_ActiveContainers pods))
    (fold (enrich_idle s) (container_devices (source_ActiveContainers pods)) (fold (enrich_process pods) ps no_metrics))"
  using enrich_idles_show [of s "attributions pods ps" "[]"] processes_shown [of pods ps]
  by (simp add: shows_cycle_def shows_processes_def shown_keys_def idle_requests_def)

section \<open>Requested shares\<close>

lemma wrap64_add: "wrap64 (wrap64 a + b) = wrap64 (a + b)"
  by (simp add: wrap64_def) (metis (no_types, opaque_lifting) add.assoc add.commute mod_add_left_eq)

lemma sumRequestedMemory_wraps: "sumRequestedMemory m = wrap64 (sum_list (map snd m))"
proof -
  have "fold (\<lambda>(_, v) s. wrap64 (s + v)) m (wrap64 a) = wrap64 (a + sum_list (map snd m))" for a
    by (induction m arbitrary: a) (auto simp: wrap64_add add.assoc)
  from this [of 0] show ?thesis by (simp add: sumRequestedMemory_def wrap64_def)
qed

text \<open>The containers whose request counts for a key, and what they ask for together.\<close>

definition requesters ::
  "metricsEngine \<Rightarrow> podSourceSnapshot \<Rightarrow> GPUProcessMetric list \<Rightarrow> podGPUKey \<Rightarrow> ContainerInfo set" where
  "requesters s pods ps k =
    {c \<in> set (source_ActiveContainers pods). 0 < RequestedMemoryMiB c \<and>
      ((\<exists>p \<in> set ps. p_PID p \<noteq> 0 \<and> ResolveProcess pods p = Some c \<and> container_key c (p_GPUUUID p) (p_GPUIndex p) = k) \<or>
       (\<exists>d \<in> set (GPUDevices c). idlePodGPUKey s c d = Some k))}"

definition requested_total ::
  "metricsEngine \<Rightarrow> podSourceSnapshot \<Rightarrow> GPUProcessMetric list \<Rightarrow> podGPUKey \<Rightarrow> int" where
  "requested_total s pods ps k = (\<Sum>c \<in> requesters s pods ps k. RequestedMemoryMiB c)"

lemma in_attributions: "(c, p) \<in> set (attributions pods ps) \<longleftrightarrow> p \<in> set ps \<and> p_PID p \<noteq> 0 \<and> ResolveProcess pods p = Some c"
  by (force simp: attributions_def attribution_def split: option.splits if_splits)

lemma in_container_devices: "(c, d) \<in> set (container_devices cs) \<longleftrightarrow> c \<in> set cs \<and> d \<in> set (GPUDevices c)"
  by (auto simp: container_devices_def)

definition cycle_requests ::
  "metricsEngine \<Rightarrow> podSourceSnapshot \<Rightarrow> GPUProcessMetric list \<Rightarrow> (podGPUKey \<times> ContainerInfo) list" where
  "cycle_requests s pods ps =
    map (\<lambda>a. (akey a, fst a)) (attributions pods ps) @ idle_requests s (container_devices (source_ActiveContainers pods))"

lemma requests_of_key:
  assumes "store_ok (ps_store pods)"
  shows "set (request_entries (cycle_requests s pods ps) k) = (\<lambda>c. (ContainerID c, RequestedMemoryMiB c)) ` requesters s pods ps k"
proof -
  have named: "c \<in> set (source_ActiveContainers pods) \<Longrightarrow> ContainerID c \<noteq> []" for c
    using assms(1) by (auto simp: source_ActiveContainers_def ActiveContainers_def store_ok_def list_all_iff)
  have "(k, c) \<in> set (cycle_requests s pods ps) \<longleftrightarrow> (\<exists>p. (c, p) \<in> set (attributions pods ps) \<and> akey (c, p) = k) \<or>
      (\<exists>d. (c, d) \<in> set (container_devices (source_ActiveContainers pods)) \<and> idlePodGPUKey s c d = Some k)" for c
    by (force simp: cycle_requests_def in_idle_requests)
  then have mem: "(k, c) \<in> set (cycle_requests s pods ps) \<and> 0 < RequestedMemoryMiB c \<and> ContainerID c \<noteq> [] \<longleftrightarrow> c \<in> requesters s pods ps k" for c
    using ResolveProcess_active [of pods _ c] named [of c]
    by (auto simp: requesters_def in_attributions in_container_devices akey_def)
  have "set (request_entries (cycle_requests s pods ps) k) = (\<lambda>c. (ContainerID c, RequestedMemoryMiB c)) `
      {c. (k, c) \<in> set (cycle_requests s pods ps) \<and> 0 < RequestedMemoryMiB c \<and> ContainerID c \<noteq> []}"
    by (force simp: request_entries_def)
  then show ?thesis by (simp add: mem)
qed

lemma requested_sum:
  assumes "store_ok (ps_store pods)"
    and "mem_shows (cycle_requests s pods ps) mem"
  shows "sum_list (map snd (lookup_or mem k [])) = requested_total s pods ps k"
proof -
  let ?R = "requesters s pods ps k" and ?m = "lookup_or mem k []"
  have inj: "inj_on ContainerID ?R"
  proof (rule inj_onI)
    fix c c' assume "c \<in> ?R" "c' \<in> ?R" "ContainerID c = ContainerID c'"
    then show "c = c'" using source_containers [OF assms(1), of c] source_containers [OF assms(1), of c'] by (simp add: requesters_def)
  qed
  let ?es = "request_entries (cycle_requests s pods ps) k"
  have m: "gomap_ok ?m" "map_of ?m = map_of (rev ?es)" using assms(2) by (auto simp: mem_shows_def)
  have es: "set ?es = (\<lambda>c. (ContainerID c, RequestedMemoryMiB c)) ` ?R" by (rule requests_of_key [OF assms(1)])
  have "(i, v) \<in> set ?m \<longleftrightarrow> (i, v) \<in> set ?es" for i v
  proof -
    have "(i, v) \<in> set ?m \<longleftrightarrow> map_of (rev ?es) i = Some v" using m by (simp add: gomap_entry)
    also have "\<dots> \<longleftrightarrow> (i, v) \<in> set ?es"
    proof
      assume "map_of (rev ?es) i = Some v" then show "(i, v) \<in> set ?es" by (auto dest: map_of_SomeD)
    next
      assume v: "(i, v) \<in> set ?es"
      then obtain w where w: "map_of (rev ?es) i = Some w" by (metis set_rev weak_map_of_SomeI)
      then have "(i, w) \<in> set ?es" by (auto dest: map_of_SomeD)
      with v inj have "w = v" unfolding es by (auto dest: inj_onD)
      with w show "map_of (rev ?es) i = Some v" by simp
    qed
    finally show ?thesis .
  qed
  then have set_m: "set ?m = (\<lambda>c. (ContainerID c, RequestedMemoryMiB c)) ` ?R" unfolding es [symmetric] by auto
  have "distinct ?m" using m(1) by (auto simp: gomap_ok_def distinct_map)
  then have "sum_list (map snd ?m) = sum snd (set ?m)" by (simp add: sum_list_distinct_conv_sum_set)
  also have "\<dots> = requested_total s pods ps k"
    unfolding set_m requested_total_def using inj by (subst sum.reindex) (auto simp: inj_on_def)
  finally show ?thesis .
qed


section \<open>Published metrics\<close>

definition busy_keys :: "podSourceSnapshot \<Rightarrow> GPUProcessMetric list \<Rightarrow> podGPUKey set" where
  "busy_keys pods ps = akey ` set (attributions pods ps)"

definition idle_keys :: "metricsEngine \<Rightarrow> podSourceSnapshot \<Rightarrow> GPUProcessMetric list \<Rightarrow> podGPUKey set" where
  "idle_keys s pods ps =
    {k. \<exists>c \<in> set (source_ActiveContainers pods). \<exists>d \<in> set (GPUDevices c).
       idlePodGPUKey s c d = Some k \<and> \<not> (\<exists>k' \<in> busy_keys pods ps. same_pod_device k k')}"

definition names_ok :: "podSourceSnapshot \<Rightarrow> bool" where
  "names_ok pods \<longleftrightarrow>
    list_all (\<lambda>c. CHR ''/'' \<notin> set (Namespace c) \<and> CHR ''/'' \<notin> set (PodUID c)) (source_ActiveContainers pods)"

lemma shown_keys_split:
  assumes "names_ok pods"
  shows "shown_keys s (attributions pods ps) (container_devices (source_ActiveContainers pods)) =
    busy_keys pods ps \<union> idle_keys s pods ps"
proof -
  let ?A = "attributions pods ps" and ?cs = "source_ActiveContainers pods"
  have busy: "slash_free k" if "k \<in> set (map akey ?A)" for k
    using that assms ResolveProcess_active
    by (fastforce simp: akey_def in_attributions slash_free_def names_ok_def list_all_iff)
  have free: "slash_free k" if "c \<in> set ?cs" "idlePodGPUKey s c d = Some k" for c d k
    using that assms idle_key_owner [OF that(2)] by (auto simp: slash_free_def names_ok_def list_all_iff)
  have obs: "gpuObservedForPodDevice (fold observePodDevice (map akey ?A) {}) k \<longleftrightarrow> (\<exists>k' \<in> busy_keys pods ps. same_pod_device k k')"
    if "c \<in> set ?cs" "idlePodGPUKey s c d = Some k" for c d k
    using gpuObserved_iff [OF free [OF that], of "map akey ?A"] busy by (simp add: busy_keys_def)
  have idle: "k \<in> fst ` set (idle_requests s (container_devices ?cs)) \<longleftrightarrow>
      (\<exists>c \<in> set ?cs. \<exists>d \<in> set (GPUDevices c). idlePodGPUKey s c d = Some k)" for k
  proof -
    have "k \<in> fst ` S \<longleftrightarrow> (\<exists>c. (k, c) \<in> S)" for S :: "(podGPUKey \<times> ContainerInfo) set" by force
    then show ?thesis by (auto simp: in_idle_requests in_container_devices)
  qed
  show ?thesis unfolding shown_keys_def busy_keys_def [symmetric] idle_keys_def
    using obs by (auto simp: idle)
qed

text \<open>The metric of a pod and GPU in a cycle, before smoothing.\<close>

definition cycle_metric :: "metricsEngine \<Rightarrow> podSourceSnapshot \<Rightarrow> GPUProcessMetric list \<Rightarrow> podGPUKey \<Rightarrow> PodGPUMetric" where
  "cycle_metric s pods ps k =
    (let procs = procs_of (attributions pods ps) k in
     (idlePodGPUMetric k)
      \<lparr>m_MemoryBytes := sum_list (map p_UsedGPUMemoryBytes procs),
       m_SMUtilizationPercent := min 100 (sum_list (map (\<lambda>p. of_int (uint (p_SMUtilizationPercent p))) procs)),
       m_RequestedGPUFraction := gpuFraction s (k_GPUIndex k) (wrap64 (requested_total s pods ps k))\<rparr>)"

lemma finish_summed:
  assumes "store_ok (ps_store pods)" "mem_shows (cycle_requests s pods ps) mem"
  shows "finish_metric s mem (k, summed (attributions pods ps) k) = cycle_metric s pods ps k"
  using requested_sum [OF assms, of k]
  by (simp add: finish_metric_def summed_def cycle_metric_def maxSMUtilPercent_def sumRequestedMemory_wraps min_def Let_def not_less)

lemma cycle_metric_key [simp]: "podGPUKeyForMetric (cycle_metric s pods ps k) = k"
  by (simp add: cycle_metric_def Let_def)

lemma enrich_exact:
  assumes "store_ok (ps_store pods)" "names_ok pods"
  shows "set (fst (enrich s ps pods)) = cycle_metric s pods ps ` (busy_keys pods ps \<union> idle_keys s pods ps)"
    and "distinct (map podGPUKeyForMetric (fst (enrich s ps pods)))"
proof -
  define st where "st = fold (enrich_idle s) (container_devices (source_ActiveContainers pods)) (fold (enrich_process pods) ps no_metrics)"
  have st: "gomap_ok (byPodGPU st)" "mem_shows (cycle_requests s pods ps) (memByKey st)"
    "map_of (byPodGPU st) k = (if k \<in> busy_keys pods ps \<union> idle_keys s pods ps then Some (summed (attributions pods ps) k) else None)" for k
    using cycle_shown [of s pods ps] shown_keys_split [OF assms(2), of s ps]
    by (simp_all add: shows_cycle_def st_def cycle_requests_def)
  have entry: "(k, m) \<in> set (byPodGPU st) \<longleftrightarrow> k \<in> busy_keys pods ps \<union> idle_keys s pods ps \<and> m = summed (attributions pods ps) k" for k m
    using st(1) st(3) [of k] by (auto simp: gomap_entry)
  have fin: "finish_metric s (memByKey st) (k, m) = cycle_metric s pods ps k" if "(k, m) \<in> set (byPodGPU st)" for k m
    using that finish_summed [OF assms(1) st(2), of k] by (simp add: entry)
  have out: "fst (enrich s ps pods) = map (\<lambda>(k, m). cycle_metric s pods ps k) (byPodGPU st)"
    using fin by (auto simp: enrich_def Let_def st_def [symmetric])
  show "set (fst (enrich s ps pods)) = cycle_metric s pods ps ` (busy_keys pods ps \<union> idle_keys s pods ps)"
    unfolding out by (force simp: entry image_iff)
  have "map podGPUKeyForMetric (fst (enrich s ps pods)) = map fst (byPodGPU st)" unfolding out by auto
  then show "distinct (map podGPUKeyForMetric (fst (enrich s ps pods)))" using st(1) by (simp add: gomap_ok_def)
qed

section \<open>The sliding window\<close>

definition lastn :: "nat \<Rightarrow> 'a list \<Rightarrow> 'a list" where
  "lastn n xs = drop (length xs - n) xs"

definition average :: "rat list \<Rightarrow> rat" where
  "average xs = sum_list xs / of_nat (length xs)"

lemma lastn_push: "0 < n \<Longrightarrow> lastn n (lastn n xs @ [x]) = lastn n (xs @ [x])"
  by (cases "n \<le> length xs") (auto simp: lastn_def Suc_diff_le)

lemma pushSample_lastn:
  assumes "0 \<le> w"
  shows "pushSample w k x bufs =
    (average (lastn (nat w) (lookup_or bufs k [] @ [x])), AList.update k (lastn (nat w) (lookup_or bufs k [] @ [x])) bufs)"
proof -
  have "(if int (length b) > w then drop (length b - nat w) b else b) = lastn (nat w) b" for b :: "rat list"
    using assms by (auto simp: lastn_def)
  then show ?thesis by (simp only: pushSample_def Let_def average_def)
qed

definition pushed :: "int \<Rightarrow> (podGPUKey, rat list) gomap \<Rightarrow> PodGPUMetric \<Rightarrow> rat list" where
  "pushed w bufs m = lastn (nat w) (lookup_or bufs (podGPUKeyForMetric m) [] @ [m_SMUtilizationPercent m])"

lemma window_loop_metrics:
  assumes "0 \<le> w" "distinct (map podGPUKeyForMetric ms)"
  shows "fst (window_loop w ms bufs) = map (\<lambda>m. m\<lparr>m_SMUtilizationPercent := average (pushed w bufs m)\<rparr>) ms"
  using assms(2)
proof (induction ms arbitrary: bufs)
  case (Cons m ms)
  have "pushed w (AList.update (podGPUKeyForMetric m) b bufs) m' = pushed w bufs m'" if "m' \<in> set ms" for m' b
    using Cons.prems that by (auto simp: pushed_def image_iff)
  with Cons show ?case
    by (simp add: pushSample_lastn [OF assms(1)] pushed_def [symmetric] split_beta)
qed simp

lemma window_loop_bufs:
  assumes "0 \<le> w" "distinct (map podGPUKeyForMetric ms)"
  shows "map_of (snd (window_loop w ms bufs)) k =
    (case find (\<lambda>m. podGPUKeyForMetric m = k) ms of Some m \<Rightarrow> Some (pushed w bufs m) | None \<Rightarrow> map_of bufs k)"
  using assms(2)
proof (induction ms arbitrary: bufs)
  case (Cons m ms)
  have "pushed w (AList.update (podGPUKeyForMetric m) b bufs) m' = pushed w bufs m'" if "m' \<in> set ms" for m' b
    using Cons.prems that by (auto simp: pushed_def image_iff)
  moreover have "find (\<lambda>m'. podGPUKeyForMetric m' = podGPUKeyForMetric m) ms = None"
    using Cons.prems by (auto simp: find_None_iff image_iff)
  ultimately show ?case using Cons
    by (auto simp: pushSample_lastn [OF assms(1)] pushed_def [symmetric] split_beta update_conv' dest!: find_SomeD split: option.splits)
qed simp


lemma window_loop_gomap: "gomap_ok bufs \<Longrightarrow> gomap_ok (snd (window_loop w ms bufs))"
  by (induction ms arbitrary: bufs) (simp_all add: pushSample_def Let_def split_beta)

lemma windowedSMUtil_metrics:
  assumes "0 \<le> smUtilWindowSize s" "distinct (map podGPUKeyForMetric ms)"
  shows "fst (windowedSMUtil ms s) =
    map (\<lambda>m. m\<lparr>m_SMUtilizationPercent := average (pushed (smUtilWindowSize s) (smUtilBuf s) m)\<rparr>) ms"
  using window_loop_metrics [OF assms, of "smUtilBuf s"] by (simp add: windowedSMUtil_def split_beta)

lemma windowedSMUtil_bufs:
  assumes "0 \<le> smUtilWindowSize s" "distinct (map podGPUKeyForMetric ms)" "gomap_ok (smUtilBuf s)"
  shows "map_of (smUtilBuf (snd (windowedSMUtil ms s))) k =
    map_option (pushed (smUtilWindowSize s) (smUtilBuf s)) (find (\<lambda>m. podGPUKeyForMetric m = k) ms)"
proof -
  have "k \<in> podGPUKeyForMetric ` set ms \<longleftrightarrow> find (\<lambda>m. podGPUKeyForMetric m = k) ms \<noteq> None"
    by (auto simp: find_None_iff)
  then show ?thesis
    using window_loop_bufs [OF assms(1,2), of "smUtilBuf s" k] window_loop_gomap [OF assms(3), of "smUtilWindowSize s" ms]
    by (auto simp: windowedSMUtil_def split_beta gomap_lookup_filter split: option.splits)
qed

lemma windowedSMUtil_frame:
  "smUtilWindowSize (snd (windowedSMUtil ms s)) = smUtilWindowSize s" "snapshot (snd (windowedSMUtil ms s)) = snapshot s"
  "gomap_ok (smUtilBuf s) \<Longrightarrow> gomap_ok (smUtilBuf (snd (windowedSMUtil ms s)))"
  by (simp_all add: windowedSMUtil_def split_beta window_loop_gomap)

text \<open>A run of cycles, each given by its metrics; the result is that of the last cycle.\<close>

definition window_cycles :: "PodGPUMetric list list \<Rightarrow> metricsEngine \<Rightarrow> PodGPUMetric list \<times> metricsEngine" where
  "window_cycles mss s = fold (\<lambda>ms (_, s). windowedSMUtil ms s) mss ([], s)"

definition has_series :: "podGPUKey \<Rightarrow> PodGPUMetric list \<Rightarrow> bool" where
  "has_series k ms \<longleftrightarrow> distinct (map podGPUKeyForMetric ms) \<and> k \<in> set (map podGPUKeyForMetric ms)"

definition series_sample :: "podGPUKey \<Rightarrow> PodGPUMetric list \<Rightarrow> rat" where
  "series_sample k ms = (case find (\<lambda>m. podGPUKeyForMetric m = k) ms of Some m \<Rightarrow> m_SMUtilizationPercent m | None \<Rightarrow> 0)"

lemma has_series_find:
  assumes "has_series k ms"
  obtains m where "find (\<lambda>m. podGPUKeyForMetric m = k) ms = Some m" "m \<in> set ms" "podGPUKeyForMetric m = k"
    "series_sample k ms = m_SMUtilizationPercent m"
proof -
  have "find (\<lambda>m. podGPUKeyForMetric m = k) ms \<noteq> None" using assms by (auto simp: has_series_def find_None_iff)
  then obtain m where m: "find (\<lambda>m. podGPUKeyForMetric m = k) ms = Some m" by auto
  then show thesis using that [of m] find_SomeD [OF m] by (simp add: series_sample_def)
qed

lemma window_cycles_bufs:
  assumes "0 < smUtilWindowSize s" "gomap_ok (smUtilBuf s)" "list_all (has_series k) mss"
  defines "w \<equiv> nat (smUtilWindowSize s)"
  shows "gomap_ok (smUtilBuf (snd (window_cycles mss s))) \<and>
    smUtilWindowSize (snd (window_cycles mss s)) = smUtilWindowSize s \<and>
    lookup_or (smUtilBuf (snd (window_cycles mss s))) k [] =
      (if mss = [] then lookup_or (smUtilBuf s) k []
       else lastn w (lookup_or (smUtilBuf s) k [] @ map (series_sample k) mss))"
  using assms(3)
proof (induction mss rule: rev_induct)
  case (snoc ms mss)
  define s' where "s' = snd (window_cycles mss s)"
  have step: "window_cycles (mss @ [ms]) s = windowedSMUtil ms s'" by (simp add: window_cycles_def s'_def split_beta)
  from snoc have ih: "gomap_ok (smUtilBuf s')" "smUtilWindowSize s' = smUtilWindowSize s"
    "lookup_or (smUtilBuf s') k [] = (if mss = [] then lookup_or (smUtilBuf s) k []
       else lastn w (lookup_or (smUtilBuf s) k [] @ map (series_sample k) mss))"
    by (simp_all add: s'_def)
  from snoc.prems have ser: "has_series k ms" by simp
  then obtain m where m: "find (\<lambda>m. podGPUKeyForMetric m = k) ms = Some m" "podGPUKeyForMetric m = k"
    "series_sample k ms = m_SMUtilizationPercent m" using has_series_find by metis
  have w: "nat (smUtilWindowSize s') = w" "0 < w" using assms(1) ih(2) by (simp_all add: w_def)
  have "lookup_or (smUtilBuf (snd (windowedSMUtil ms s'))) k [] = pushed (smUtilWindowSize s') (smUtilBuf s') m"
    using windowedSMUtil_bufs [of s' ms k] ser ih(1,2) assms(1) m(1) by (simp add: has_series_def)
  then have "lookup_or (smUtilBuf (snd (windowedSMUtil ms s'))) k [] =
      lastn w (lookup_or (smUtilBuf s) k [] @ map (series_sample k) (mss @ [ms]))"
    using m(2,3) ih(3) lastn_push [OF w(2), of "lookup_or (smUtilBuf s) k [] @ map (series_sample k) mss" "m_SMUtilizationPercent m"]
    by (simp add: pushed_def w(1))
  then show ?case using ih by (simp add: step windowedSMUtil_frame)
qed (use assms(2) in \<open>simp add: window_cycles_def\<close>)


section \<open>The invariant of the engine\<close>

definition in_percent :: "rat \<Rightarrow> bool" where
  "in_percent x \<longleftrightarrow> 0 \<le> x \<and> x \<le> 100"

definition metric_ok :: "PodGPUMetric \<Rightarrow> bool" where
  "metric_ok m \<longleftrightarrow> in_percent (m_SMUtilizationPercent m) \<and> in_percent (m_SMUtilizationPercentNormalized m) \<and>
     0 \<le> m_RequestedGPUFraction m"

definition metrics_ok :: "PodGPUMetric list \<Rightarrow> bool" where
  "metrics_ok ms \<longleftrightarrow> distinct (map podGPUKeyForMetric ms) \<and> list_all metric_ok ms"

definition buffer_ok :: "int \<Rightarrow> rat list \<Rightarrow> bool" where
  "buffer_ok w b \<longleftrightarrow> b \<noteq> [] \<and> int (length b) \<le> w \<and> list_all in_percent b"

definition engine_ok :: "metricsEngine \<Rightarrow> bool" where
  "engine_ok s \<longleftrightarrow> 1 \<le> smUtilWindowSize s \<and> gomap_ok (smUtilBuf s) \<and>
     (\<forall>k b. map_of (smUtilBuf s) k = Some b \<longrightarrow> buffer_ok (smUtilWindowSize s) b) \<and> metrics_ok (Metrics (snapshot s))"

lemma in_percent_average: "b \<noteq> [] \<Longrightarrow> list_all in_percent b \<Longrightarrow> in_percent (average b)"
proof -
  assume b: "b \<noteq> []" "list_all in_percent b"
  have "0 \<le> sum_list b \<and> sum_list b \<le> 100 * of_nat (length b)"
    using b(2) by (induction b) (auto simp: in_percent_def algebra_simps)
  then show ?thesis using b(1) by (simp add: in_percent_def average_def divide_le_eq)
qed

lemma buffer_ok_pushed:
  assumes "1 \<le> w" "\<And>b. map_of bufs (podGPUKeyForMetric m) = Some b \<Longrightarrow> buffer_ok w b" "in_percent (m_SMUtilizationPercent m)"
  shows "buffer_ok w (pushed w bufs m)"
proof -
  have "list_all in_percent (lookup_or bufs (podGPUKeyForMetric m) [])"
    using assms(2) by (cases "map_of bufs (podGPUKeyForMetric m)") (simp_all add: buffer_ok_def)
  then show ?thesis using assms(1,3) by (auto simp: buffer_ok_def pushed_def lastn_def list_all_iff dest: in_set_dropD)
qed

lemma normalizedSMUtil_percent: "0 \<le> u \<Longrightarrow> 0 \<le> f \<Longrightarrow> in_percent (normalizedSMUtil u f)"
  by (auto simp: normalizedSMUtil_def fullGPUFraction_def maxSMUtilPercent_def in_percent_def Let_def)

lemma unsigned_rat_nonneg [simp]: "0 \<le> (unsigned (w :: 'l::len word) :: rat)"
  by (metis of_nat_0_le_iff of_nat_unat)

lemma gpuFraction_nonneg: "0 \<le> gpuFraction s i r"
  by (auto simp: gpuFraction_def metrics_bytesPerMiB_def Let_def)

definition raw_ok :: "PodGPUMetric list \<Rightarrow> bool" where
  "raw_ok ms \<longleftrightarrow> distinct (map podGPUKeyForMetric ms) \<and>
     list_all (\<lambda>m. in_percent (m_SMUtilizationPercent m) \<and> 0 \<le> m_RequestedGPUFraction m) ms"

lemma raw_ok_enrich: "raw_ok (fst (enrich s ps pods))"
proof -
  define st where "st = fold (enrich_idle s) (container_devices (source_ActiveContainers pods)) (fold (enrich_process pods) ps no_metrics)"
  have st: "gomap_ok (byPodGPU st)" "\<And>k m. map_of (byPodGPU st) k = Some m \<Longrightarrow> m = summed (attributions pods ps) k"
    using cycle_shown [of s pods ps] by (auto simp: shows_cycle_def st_def split: if_splits)
  have entry: "m = summed (attributions pods ps) k" if "(k, m) \<in> set (byPodGPU st)" for k m
    using that st by (simp add: gomap_entry)
  have fin: "podGPUKeyForMetric (finish_metric s mem (k, summed as k)) = k \<and>
      in_percent (m_SMUtilizationPercent (finish_metric s mem (k, summed as k))) \<and>
      0 \<le> m_RequestedGPUFraction (finish_metric s mem (k, summed as k))" for mem as k
    by (auto simp: finish_metric_def summed_def Let_def in_percent_def maxSMUtilPercent_def gpuFraction_nonneg intro!: sum_list_nonneg)
  have out: "fst (enrich s ps pods) = map (\<lambda>(k, m). finish_metric s (memByKey st) (k, summed (attributions pods ps) k)) (byPodGPU st)"
    using entry by (auto simp: enrich_def Let_def st_def [symmetric])
  have "map podGPUKeyForMetric (fst (enrich s ps pods)) = map fst (byPodGPU st)" unfolding out using fin by auto
  then have "distinct (map podGPUKeyForMetric (fst (enrich s ps pods)))" using st(1) by (simp only: gomap_ok_def)
  moreover have "list_all (\<lambda>m. in_percent (m_SMUtilizationPercent m) \<and> 0 \<le> m_RequestedGPUFraction m) (fst (enrich s ps pods))"
    unfolding out using fin by (auto simp: list_all_iff)
  ultimately show ?thesis by (simp add: raw_ok_def)
qed

lemma raw_ok_windowed:
  assumes "raw_ok ms" "engine_ok s" shows "raw_ok (fst (windowedSMUtil ms s))" "engine_ok (snd (windowedSMUtil ms s))"
proof -
  have w: "0 \<le> smUtilWindowSize s" "1 \<le> smUtilWindowSize s" using assms(2) by (auto simp: engine_ok_def)
  have dist: "distinct (map podGPUKeyForMetric ms)" using assms(1) by (simp add: raw_ok_def)
  have ok: "buffer_ok (smUtilWindowSize s) (pushed (smUtilWindowSize s) (smUtilBuf s) m)" if "m \<in> set ms" for m
    using that assms w(2) by (intro buffer_ok_pushed) (auto simp: engine_ok_def raw_ok_def list_all_iff)
  have "in_percent (average (pushed (smUtilWindowSize s) (smUtilBuf s) m))" if "m \<in> set ms" for m
    using ok [OF that] by (intro in_percent_average) (auto simp: buffer_ok_def)
  then show "raw_ok (fst (windowedSMUtil ms s))"
    using assms(1) by (auto simp: raw_ok_def windowedSMUtil_metrics [OF w(1) dist] list_all_iff comp_def)
  show "engine_ok (snd (windowedSMUtil ms s))"
    using assms(2) ok windowedSMUtil_bufs [OF w(1) dist]
    by (auto simp: engine_ok_def windowedSMUtil_frame dest: find_SomeD)
qed

lemma remember_frame [simp]:
  "smUtilWindowSize (remember g s) = smUtilWindowSize s" "smUtilBuf (remember g s) = smUtilBuf s" "snapshot (remember g s) = snapshot s"
  by (simp_all add: remember_def rememberDeviceTotalMemory_def rememberMinorToNVMLIndex_def rememberDeviceUUIDs_def)

lemma engine_ok_remember: "engine_ok s \<Longrightarrow> engine_ok (remember g s)"
  by (simp add: engine_ok_def)

lemma normalizeSMUtil_ok: "raw_ok ms \<Longrightarrow> metrics_ok (normalizeSMUtil ms)"
  by (auto simp: raw_ok_def metrics_ok_def normalizeSMUtil_def metric_ok_def list_all_iff comp_def in_percent_def
      intro: normalizedSMUtil_percent [unfolded in_percent_def, THEN conjunct1] normalizedSMUtil_percent [unfolded in_percent_def, THEN conjunct2])

lemma engine_ok_setSnapshot: "engine_ok s \<Longrightarrow> metrics_ok ms \<Longrightarrow> engine_ok (setSnapshot ms u s)"
  by (simp add: engine_ok_def setSnapshot_def)

lemma engine_ok_collect:
  assumes "engine_ok s" shows "engine_ok (engine_collect g pods s)"
proof (cases "source_ActiveContainers pods = []")
  case True then show ?thesis
    using assms by (simp add: engine_collect_def Let_def engine_ok_setSnapshot metrics_ok_def)
next
  case False
  note raw_ok_windowed [OF raw_ok_enrich engine_ok_remember [OF assms]] engine_ok_remember [OF assms, of g]
  then show ?thesis
    using False by (auto simp: engine_collect_def Let_def split_beta intro!: engine_ok_setSnapshot normalizeSMUtil_ok raw_ok_enrich)
qed

lemma engine_ok_new: "engine_ok (newMetricsControllerWithPodSource interval window)"
proof -
  have "1 \<le> window div interval" if "0 < interval" "interval < window"
    using that zdiv_mono1 [of interval window interval] by simp
  then show ?thesis by (simp add: newMetricsControllerWithPodSource_def engine_ok_def metrics_ok_def Let_def)
qed


section \<open>Properties\<close>

definition smoothed :: "metricsEngine \<Rightarrow> PodGPUMetric \<Rightarrow> rat" where
  "smoothed s m = (if smUtilWindowSize s > 1 then average (pushed (smUtilWindowSize s) (smUtilBuf s) m) else m_SMUtilizationPercent m)"

definition published_metric :: "metricsEngine \<Rightarrow> podSourceSnapshot \<Rightarrow> GPUProcessMetric list \<Rightarrow> podGPUKey \<Rightarrow> PodGPUMetric" where
  "published_metric s pods ps k =
    (let m = cycle_metric s pods ps k
     in m\<lparr>m_SMUtilizationPercent := smoothed s m,
          m_SMUtilizationPercentNormalized := normalizedSMUtil (smoothed s m) (m_RequestedGPUFraction m)\<rparr>)"

lemma engine_collect_metrics:
  assumes "source_ActiveContainers pods \<noteq> []" "0 \<le> smUtilWindowSize s"
    and dist: "distinct (map podGPUKeyForMetric (fst (enrich (remember g s) (Processes g) pods)))"
  shows "Metrics (snapshot (engine_collect g pods s)) =
    map (\<lambda>m. m\<lparr>m_SMUtilizationPercent := smoothed (remember g s) m,
               m_SMUtilizationPercentNormalized := normalizedSMUtil (smoothed (remember g s) m) (m_RequestedGPUFraction m)\<rparr>)
      (fst (enrich (remember g s) (Processes g) pods))"
  using assms windowedSMUtil_metrics [OF _ dist]
  by (simp add: engine_collect_def Let_def split_beta setSnapshot_def normalizeSMUtil_def smoothed_def comp_def)

lemma published_key: "podGPUKeyForMetric (published_metric s pods ps k) = k"
  by (simp add: published_metric_def Let_def)

lemma published_exact:
  assumes "store_ok (ps_store pods)" "names_ok pods" "source_ActiveContainers pods \<noteq> []" "0 \<le> smUtilWindowSize s"
  shows "set (Metrics (snapshot (engine_collect g pods s))) =
      published_metric (remember g s) pods (Processes g) ` (busy_keys pods (Processes g) \<union> idle_keys (remember g s) pods (Processes g)) \<and>
    distinct (map podGPUKeyForMetric (Metrics (snapshot (engine_collect g pods s))))"
  unfolding engine_collect_metrics [OF assms(3,4) enrich_exact(2) [OF assms(1,2)]]
  using enrich_exact [OF assms(1,2), of "remember g s" "Processes g"]
  by (simp add: image_image published_metric_def Let_def comp_def)

text \<open>
  C6: A cycle publishes exactly one metric for each pod and GPU in use: those on which a GPU
  process is attributed to a container of the pod, and those listed for a container of the
  pod on which no process of the pod is seen, neither by UUID nor by index. Its memory is the
  sum over the attributed processes, modulo 2^64; its utilization is their sum capped at 100,
  smoothed if a window is set; its share is the memory requested by the pod's containers on
  that GPU, each container counted once, over the memory of the GPU; the normalized
  utilization is the utilization over the share, capped at 100.
  Namespaces and pod UIDs are assumed to have no slash, which separates the parts of a key.
\<close>

theorem collect_exact:
  assumes "store_ok (ps_store pods)" "names_ok pods" "source_ActiveContainers pods \<noteq> []" "0 \<le> smUtilWindowSize s"
  shows "set (Metrics (snapshot (engine_collect g pods s))) =
      published_metric (remember g s) pods (Processes g) ` (busy_keys pods (Processes g) \<union> idle_keys (remember g s) pods (Processes g)) \<and>
    distinct (map podGPUKeyForMetric (Metrics (snapshot (engine_collect g pods s))))"
  by (rule published_exact [OF assms])

definition sample_gpu_container :: ContainerInfo where
  "sample_gpu_container = \<lparr>ContainerID = ''c1'', Container_name = [], Pod = ''p'', Namespace = ''ns'', PodUID = ''u1'',
     CgroupPath = [], GPUDevices = [\<lparr>Index = 0, MinorNumber = 0, UUID = []\<rparr>, \<lparr>Index = 1, MinorNumber = 0, UUID = []\<rparr>],
     RequestedMemoryMiB = 7680\<rparr>"

definition sample_pods :: podSourceSnapshot where
  "sample_pods = \<lparr>ps_resolver = (\<lambda>_. Inr [''/kubepods/c1'']), ps_store = [(''c1'', sample_gpu_container)]\<rparr>"

definition sample_gpus :: GPUProcessSnapshot where
  "sample_gpus = \<lparr>Processes = [\<lparr>p_PID = 7, p_GPUUUID = ''GPU-a'', p_GPUIndex = 0, p_UsedGPUMemoryBytes = 1024,
       p_SMUtilizationPercent = 40, p_ProcessUtilizationTimestamp = 1\<rparr>],
     DeviceUUIDs = [(0, ''GPU-a''), (1, ''GPU-b'')], DeviceMinorToNVMLIndex = [(0, 0), (1, 1)],
     DeviceTotalMemoryBytes = [(0, 16106127360), (1, 16106127360)], DeviceErrors = []\<rparr>"

definition sample_engine :: metricsEngine where
  "sample_engine = newMetricsControllerWithPodSource 5000000000 0"

definition sample_key :: "string \<Rightarrow> int \<Rightarrow> podGPUKey" where
  "sample_key u i = \<lparr>k_Namespace = ''ns'', k_Pod = ''p'', k_PodUID = ''u1'', k_GPUUUID = u, k_GPUIndex = i\<rparr>"

lemma sample_resolve: "ResolveProcess sample_pods p = Some sample_gpu_container"
proof -
  have "cgroupPathMatchesContainer ''/kubepods/c1'' sample_gpu_container" by code_simp
  then show ?thesis by (simp add: ResolveProcess_def sample_pods_def)
qed

lemma sample_active: "source_ActiveContainers sample_pods = [sample_gpu_container]"
  by (simp add: source_ActiveContainers_def ActiveContainers_def sample_pods_def)

lemma sample_busy: "attributions sample_pods (Processes sample_gpus) = [(sample_gpu_container, hd (Processes sample_gpus))]"
  "busy_keys sample_pods (Processes sample_gpus) = {sample_key ''GPU-a'' 0}"
  by (simp_all add: busy_keys_def attributions_def attribution_def sample_resolve sample_gpus_def akey_def container_key_def
      sample_gpu_container_def sample_key_def)

lemma sample_remember: "remember sample_gpus sample_engine =
  \<lparr>smUtilWindowSize = 1, smUtilBuf = [], e_deviceUUIDs = [(0, ''GPU-a''), (1, ''GPU-b'')], minorToNVMLIndex = [(0, 0), (1, 1)],
   e_deviceTotalMemoryBytes = [(0, 16106127360), (1, 16106127360)], snapshot = \<lparr>Metrics = [], Snap_ActivePodUIDs = None\<rparr>\<rparr>"
  by (simp add: remember_def rememberDeviceTotalMemory_def rememberMinorToNVMLIndex_def rememberDeviceUUIDs_def
      sample_engine_def newMetricsControllerWithPodSource_def sample_gpus_def)

lemma sample_idle: "idle_keys (remember sample_gpus sample_engine) sample_pods (Processes sample_gpus) = {sample_key ''GPU-b'' 1}"
  unfolding idle_keys_def sample_busy sample_active sample_remember
  by (auto simp: sample_gpu_container_def idlePodGPUKey_def container_key_def sample_key_def lookup_or_def same_pod_device_def Let_def)

lemma sample_total: "requested_total (remember sample_gpus sample_engine) sample_pods (Processes sample_gpus) (sample_key ''GPU-a'' 0) = 7680"
proof -
  have "requesters (remember sample_gpus sample_engine) sample_pods (Processes sample_gpus) (sample_key ''GPU-a'' 0) = {sample_gpu_container}"
    unfolding requesters_def sample_active sample_resolve
    by (auto simp: sample_gpu_container_def container_key_def sample_key_def sample_gpus_def)
  then show ?thesis by (simp add: requested_total_def sample_gpu_container_def)
qed

theorem collect_exact_witness:
  "(idlePodGPUMetric (sample_key ''GPU-a'' 0))\<lparr>m_MemoryBytes := 1024, m_SMUtilizationPercent := 40,
      m_RequestedGPUFraction := 1 / 2, m_SMUtilizationPercentNormalized := 80\<rparr>
    \<in> set (Metrics (snapshot (engine_collect sample_gpus sample_pods sample_engine)))"
proof -
  let ?s = "remember sample_gpus sample_engine" and ?k = "sample_key ''GPU-a'' 0"
  have "cycle_metric ?s sample_pods (Processes sample_gpus) ?k =
      (idlePodGPUMetric ?k)\<lparr>m_MemoryBytes := 1024, m_SMUtilizationPercent := 40, m_RequestedGPUFraction := 1 / 2\<rparr>"
    unfolding cycle_metric_def sample_busy sample_total unfolding sample_remember
    by (simp add: procs_of_def akey_def sample_gpus_def sample_gpu_container_def container_key_def sample_key_def
        gpuFraction_def lookup_or_def wrap64_def metrics_bytesPerMiB_def idlePodGPUMetric_def Let_def)
  then have "published_metric ?s sample_pods (Processes sample_gpus) ?k =
      (idlePodGPUMetric ?k)\<lparr>m_MemoryBytes := 1024, m_SMUtilizationPercent := 40, m_RequestedGPUFraction := 1 / 2,
        m_SMUtilizationPercentNormalized := 80\<rparr>"
    by (simp add: published_metric_def smoothed_def sample_remember [THEN arg_cong, of smUtilWindowSize, simplified] normalizedSMUtil_def maxSMUtilPercent_def)
  moreover have "store_ok (ps_store sample_pods)" "names_ok sample_pods" "0 \<le> smUtilWindowSize sample_engine"
    by (simp_all add: store_ok_def gomap_ok_def names_ok_def source_ActiveContainers_def ActiveContainers_def sample_pods_def sample_gpu_container_def
        sample_engine_def newMetricsControllerWithPodSource_def)
  ultimately show ?thesis
    using collect_exact [of sample_pods sample_engine sample_gpus] unfolding sample_busy sample_idle sample_active by auto
qed

text \<open>
  C16: The sliding window equals its specification. While a pod and GPU has a metric in every
  cycle, what is reported for it after any number of cycles is the average of its last
  samples, as many as the window holds or as there were.
\<close>

theorem window_average:
  assumes "0 < smUtilWindowSize s" "gomap_ok (smUtilBuf s)" "map_of (smUtilBuf s) k = None"
    and "mss \<noteq> []" "list_all (has_series k) mss"
  shows "\<exists>m \<in> set (fst (window_cycles mss s)). podGPUKeyForMetric m = k \<and>
    m_SMUtilizationPercent m = average (lastn (nat (smUtilWindowSize s)) (map (series_sample k) mss))"
proof -
  obtain ps ms where mss: "mss = ps @ [ms]" using assms(4) by (metis append_butlast_last_id)
  define s' where "s' = snd (window_cycles ps s)"
  have last: "window_cycles mss s = windowedSMUtil ms s'" by (simp add: mss window_cycles_def s'_def split_beta)
  have ser: "list_all (has_series k) ps" "has_series k ms" using assms(5) by (simp_all add: mss)
  have s': "smUtilWindowSize s' = smUtilWindowSize s"
    "lookup_or (smUtilBuf s') k [] = (if ps = [] then [] else lastn (nat (smUtilWindowSize s)) (map (series_sample k) ps))"
    using window_cycles_bufs [OF assms(1,2) ser(1)] assms(3) by (simp_all add: s'_def)
  obtain m where m: "m \<in> set ms" "podGPUKeyForMetric m = k" "series_sample k ms = m_SMUtilizationPercent m"
    using ser(2) has_series_find by metis
  have "pushed (smUtilWindowSize s') (smUtilBuf s') m = lastn (nat (smUtilWindowSize s)) (map (series_sample k) mss)"
    using lastn_push [of "nat (smUtilWindowSize s)" "map (series_sample k) ps"] assms(1) m
    by (simp add: pushed_def s' mss)
  then show ?thesis
    using m windowedSMUtil_metrics [of s' ms] ser(2) assms(1) s'(1) by (force simp: last has_series_def)
qed

definition sample_cycle :: "rat \<Rightarrow> PodGPUMetric list" where
  "sample_cycle u = [(idlePodGPUMetric (sample_key ''GPU-a'' 0))\<lparr>m_SMUtilizationPercent := u\<rparr>]"

theorem window_average_witness:
  "\<exists>m \<in> set (fst (window_cycles [sample_cycle 30, sample_cycle 50, sample_cycle 100] (newMetricsControllerWithPodSource 5000000000 10000000000))).
     podGPUKeyForMetric m = sample_key ''GPU-a'' 0 \<and> m_SMUtilizationPercent m = 75"
  using window_average [of "newMetricsControllerWithPodSource 5000000000 10000000000" "sample_key ''GPU-a'' 0"
      "[sample_cycle 30, sample_cycle 50, sample_cycle 100]"]
  by (simp add: newMetricsControllerWithPodSource_def has_series_def sample_cycle_def series_sample_def lastn_def average_def)

end
