(* ===== verification/Exporter.thy ===== *)
theory Exporter
  imports Metrics_Engine
begin

text \<open>
  Package \<^verbatim>\<open>metricsd/internal/metrics\<close>, the exporter (exporter.go): configuration and metric names,
  the construction and shutdown of the runtime, and the Prometheus series kept in step with the
  engine's snapshots. The gauge vectors of the Prometheus client are third-party code: their
  operations are the parameter \<open>gauge_vec\<close>, of which the documented behaviour of setting and
  deleting a series is assumed (\<open>gauge_vec_ok\<close>).
\<close>

section \<open>Configuration\<close>

definition DefaultPath :: string where "DefaultPath = ''/metrics''"
definition HealthzPath :: string where "HealthzPath = ''/healthz''"
definition ReadyzPath :: string where "ReadyzPath = ''/readyz''"
definition MinCollectInterval :: int where "MinCollectInterval = 2 * 10 ^ 9"
definition DefaultCollectInterval :: int where "DefaultCollectInterval = 5 * 10 ^ 9"

record MetricNames =
  GPUMemoryUsedBytes :: string
  GPUSMUtilizationPercent :: string
  GPUSMUtilizationPercentNormalized :: string

record MetricsConfig =
  cfg_Enabled :: bool
  cfg_Address :: string
  cfg_Path :: string
  cfg_ProcRoot :: string
  cfg_Interval :: int
  cfg_SMUtilizationWindow :: int
  cfg_Names :: MetricNames

definition defaultMetricNames :: MetricNames where
  "defaultMetricNames =
    \<lparr>GPUMemoryUsedBytes = ''gpu_fractioning_gpu_memory_used_bytes'',
     GPUSMUtilizationPercent = ''gpu_fractioning_gpu_sm_utilization_percent'',
     GPUSMUtilizationPercentNormalized = ''gpu_fractioning_gpu_sm_utilization_percent_normalized''\<rparr>"

definition name_or :: "string \<Rightarrow> string \<Rightarrow> string" where
  "name_or n d = (if TrimSpace n = [] then d else n)"

definition WithDefaults :: "MetricNames \<Rightarrow> MetricNames" where
  "WithDefaults n =
    (let d = defaultMetricNames in
     n\<lparr>GPUMemoryUsedBytes := name_or (GPUMemoryUsedBytes n) (GPUMemoryUsedBytes d),
       GPUSMUtilizationPercent := name_or (GPUSMUtilizationPercent n) (GPUSMUtilizationPercent d),
       GPUSMUtilizationPercentNormalized :=
         name_or (GPUSMUtilizationPercentNormalized n) (GPUSMUtilizationPercentNormalized d)\<rparr>)"

text \<open>The characters of the metric name pattern: the first, and the others.\<close>

definition name_start :: "char \<Rightarrow> bool" where
  "name_start c \<longleftrightarrow>
    (let n = of_char c :: nat in 97 \<le> n \<and> n \<le> 122 \<or> 65 \<le> n \<and> n \<le> 90 \<or> c = CHR ''_'' \<or> c = CHR '':'')"

definition metricNamePattern :: "string \<Rightarrow> bool" where
  "metricNamePattern s =
    (case s of [] \<Rightarrow> False | c # cs \<Rightarrow> name_start c \<and> list_all (\<lambda>x. name_start x \<or> is_digit x) cs)"

datatype names_error = InvalidName string string | DuplicateName string string string

fun validate_fields :: "(string \<times> string) list \<Rightarrow> (string, string) gomap \<Rightarrow> names_error option" where
  "validate_fields [] seen = None"
| "validate_fields ((field, name) # fs) seen =
    (if \<not> metricNamePattern name then Some (InvalidName field name)
     else case map_of seen name of
       Some other \<Rightarrow> Some (DuplicateName field name other)
     | None \<Rightarrow> validate_fields fs (AList.update name field seen))"

definition validate :: "MetricNames \<Rightarrow> names_error option" where
  "validate n =
    validate_fields
      [(''gpuMemoryUsedBytes'', GPUMemoryUsedBytes n),
       (''gpuSmUtilizationPercent'', GPUSMUtilizationPercent n),
       (''gpuSmUtilizationPercentNormalized'', GPUSMUtilizationPercentNormalized n)] []"

definition metricsPath :: "MetricsConfig \<Rightarrow> string" where
  "metricsPath c =
    (let path = TrimSpace (cfg_Path c) in
     if path = [] then DefaultPath
     else if \<not> HasPrefix path ''/'' then ''/'' @ path else path)"

definition collectInterval :: "MetricsConfig \<Rightarrow> int" where
  "collectInterval c =
    (if cfg_Interval c \<le> 0 then DefaultCollectInterval
     else if cfg_Interval c < MinCollectInterval then MinCollectInterval
     else cfg_Interval c)"

section \<open>The runtime\<close>

type_synonym labels = "(string \<times> string) list"

record 'g gauge_vec =
  gv_new :: 'g
  gv_set :: "labels \<Rightarrow> rat \<Rightarrow> 'g \<Rightarrow> 'g"
  gv_delete :: "labels \<Rightarrow> 'g \<Rightarrow> 'g"
  gv_value :: "'g \<Rightarrow> labels \<Rightarrow> rat option"

record 'g Runtime =
  memoryBytes :: 'g
  smUtilization :: 'g
  smUtilizationNormalized :: 'g
  knownLabels :: "(podGPUKey, labels) gomap"

definition newRuntime :: "'g gauge_vec \<Rightarrow> 'g Runtime" where
  "newRuntime G = \<lparr>memoryBytes = gv_new G, smUtilization = gv_new G, smUtilizationNormalized = gv_new G, knownLabels = []\<rparr>"

definition metricLabels :: "PodGPUMetric \<Rightarrow> podGPUKey \<times> labels" where
  "metricLabels m =
    (\<lparr>k_Namespace = m_Namespace m, k_Pod = m_Pod m, k_PodUID = m_PodUID m, k_GPUUUID = m_GPUUUID m, k_GPUIndex = m_GPUIndex m\<rparr>,
     [(''namespace'', m_Namespace m), (''pod'', m_Pod m), (''pod_uuid'', m_PodUID m), (''gpu_uuid'', m_GPUUUID m),
      (''gpu'', Itoa (m_GPUIndex m))])"

definition deleteSeries :: "'g gauge_vec \<Rightarrow> podGPUKey \<Rightarrow> 'g Runtime \<Rightarrow> 'g Runtime" where
  "deleteSeries G k r =
    (let r = (case map_of (knownLabels r) k of
         None \<Rightarrow> r
       | Some labels \<Rightarrow> r\<lparr>memoryBytes := gv_delete G labels (memoryBytes r),
           smUtilization := gv_delete G labels (smUtilization r),
           smUtilizationNormalized := gv_delete G labels (smUtilizationNormalized r)\<rparr>)
     in r\<lparr>knownLabels := AList.delete k (knownLabels r)\<rparr>)"

definition pruneDeletedPods :: "'g gauge_vec \<Rightarrow> string set option \<Rightarrow> 'g Runtime \<Rightarrow> 'g Runtime" where
  "pruneDeletedPods G activePodUIDs r =
    (case activePodUIDs of
       None \<Rightarrow> r
     | Some active \<Rightarrow>
        fold (\<lambda>k r. if k_PodUID k \<notin> active then deleteSeries G k r else r) (map fst (knownLabels r)) r)"

definition set_values :: "'g gauge_vec \<Rightarrow> labels \<Rightarrow> rat \<times> rat \<times> rat \<Rightarrow> 'g Runtime \<Rightarrow> 'g Runtime" where
  "set_values G l v r =
    (case v of (a, b, c) \<Rightarrow>
       r\<lparr>memoryBytes := gv_set G l a (memoryBytes r), smUtilization := gv_set G l b (smUtilization r),
         smUtilizationNormalized := gv_set G l c (smUtilizationNormalized r)\<rparr>)"

definition setZero :: "'g gauge_vec \<Rightarrow> labels \<Rightarrow> 'g Runtime \<Rightarrow> 'g Runtime" where
  "setZero G l = set_values G l (0, 0, 0)"

definition idle_placeholder :: "podGPUKey \<Rightarrow> podGPUKey \<Rightarrow> bool" where
  "idle_placeholder k observed \<longleftrightarrow>
    k_Namespace k = k_Namespace observed \<and> k_PodUID k = k_PodUID observed \<and> k_GPUUUID k = [] \<and> k_GPUIndex k = k_GPUIndex observed"

definition deleteIdleLabelsForObservedGPU :: "'g gauge_vec \<Rightarrow> podGPUKey \<Rightarrow> 'g Runtime \<Rightarrow> 'g Runtime" where
  "deleteIdleLabelsForObservedGPU G observed r =
    (if k_GPUUUID observed = [] then r
     else fold (\<lambda>k r. if idle_placeholder k observed then deleteSeries G k r else r) (map fst (knownLabels r)) r)"

definition metric_values :: "PodGPUMetric \<Rightarrow> rat \<times> rat \<times> rat" where
  "metric_values m = (of_int (uint (m_MemoryBytes m)), m_SMUtilizationPercent m, m_SMUtilizationPercentNormalized m)"

definition observe_metric :: "'g gauge_vec \<Rightarrow> PodGPUMetric \<Rightarrow> 'g Runtime \<Rightarrow> 'g Runtime" where
  "observe_metric G m r =
    (case metricLabels m of (k, labels) \<Rightarrow>
       (let r = deleteIdleLabelsForObservedGPU G k r;
            r = r\<lparr>knownLabels := AList.update k labels (knownLabels r)\<rparr>
        in set_values G labels (metric_values m) r))"

definition observe :: "'g gauge_vec \<Rightarrow> PodGPUMetric list \<Rightarrow> string set option \<Rightarrow> 'g Runtime \<Rightarrow> 'g Runtime" where
  "observe G metrics activePodUIDs r =
    (let r = pruneDeletedPods G activePodUIDs r;
         r = fold (setZero G) (map snd (knownLabels r)) r
     in fold (observe_metric G) metrics r)"

text \<open>A scrape: the provider's snapshot is observed, or its failure leaves everything as it was.\<close>

definition refresh :: "'g gauge_vec \<Rightarrow> (string, Snapshot) result \<Rightarrow> 'g Runtime \<Rightarrow> 'g Runtime" where
  "refresh G answer r =
    (case answer of Inl _ \<Rightarrow> r | Inr snap \<Rightarrow> observe G (Metrics snap) (Snap_ActivePodUIDs snap) r)"

section \<open>Construction and shutdown\<close>

datatype route_handler = MetricsHandler | HealthHandler

type_synonym mux = "(string \<times> route_handler) list"

text \<open>\<^verbatim>\<open>http.ServeMux\<close> panics when a pattern is registered twice: \<open>None\<close>.\<close>

definition mux_Handle :: "string \<Rightarrow> route_handler \<Rightarrow> mux \<Rightarrow> mux option" where
  "mux_Handle pattern h m = (if map_of m pattern \<noteq> None then None else Some (m @ [(pattern, h)]))"

record 'g exporter =
  x_runtime :: "'g Runtime"
  x_coll :: collector
  x_engine :: metricsEngine
  x_resolver :: ProcCgroupResolver
  x_addr :: string
  x_mux :: mux

datatype new_error = BadNames names_error | NoReader | Panic

definition new_mux :: "string \<Rightarrow> mux option" where
  "new_mux path =
    Option.bind (mux_Handle path MetricsHandler []) (\<lambda>m.
    Option.bind (if path \<noteq> HealthzPath then mux_Handle HealthzPath HealthHandler m else Some m) (\<lambda>m.
    if path \<noteq> ReadyzPath then mux_Handle ReadyzPath HealthHandler m else Some m))"

definition New :: "'g gauge_vec \<Rightarrow> nvml_Return \<Rightarrow> MetricsConfig \<Rightarrow> bool \<Rightarrow> (new_error, 'g exporter) result" where
  "New G init cfg reader =
    (case validate (cfg_Names cfg) of
       Some e \<Rightarrow> Inl (BadNames e)
     | None \<Rightarrow>
        if \<not> reader then Inl NoReader
        else case new_mux (metricsPath cfg) of
          None \<Rightarrow> Inl Panic
        | Some mux \<Rightarrow>
            Inr \<lparr>x_runtime = newRuntime G, x_coll = newCollector init (collectInterval cfg),
                 x_engine = newMetricsControllerWithPodSource (collectInterval cfg) (cfg_SMUtilizationWindow cfg),
                 x_resolver = NewProcCgroupResolver (cfg_ProcRoot cfg), x_addr = cfg_Address cfg, x_mux = mux\<rparr>)"

datatype stop_action = CancelContext | WaitForCollector | ShutdownServer | CloseCollector

text \<open>\<^verbatim>\<open>Runtime.Stop\<close> on a runtime whose server and collector may be missing; a nil runtime does nothing.\<close>

definition Stop :: "bool \<Rightarrow> bool \<Rightarrow> bool \<Rightarrow> bool \<Rightarrow> stop_action list" where
  "Stop is_nil started has_server has_coll =
    (if is_nil then []
     else (if started then [CancelContext] else []) @ [WaitForCollector] @
       (if has_server then [ShutdownServer] else []) @ (if has_coll then [CloseCollector] else []))"


section \<open>Names, paths and intervals\<close>

lemma validate_fields_None:
  "validate_fields fs seen = None \<longleftrightarrow>
    (\<forall>n \<in> snd ` set fs. metricNamePattern n \<and> map_of seen n = None) \<and> distinct (map snd fs)"
proof (induction fs seen rule: validate_fields.induct)
  case (2 f n fs seen)
  show ?case
  proof (cases "metricNamePattern n \<and> map_of seen n = None")
    case True
    then have "validate_fields ((f, n) # fs) seen = validate_fields fs (AList.update n f seen)" by simp
    also have "\<dots> = None \<longleftrightarrow>
        (\<forall>n' \<in> snd ` set fs. metricNamePattern n' \<and> map_of (AList.update n f seen) n' = None) \<and> distinct (map snd fs)"
      using True by (intro "2.IH") simp_all
    also have "\<dots> \<longleftrightarrow> (\<forall>n' \<in> snd ` set fs. metricNamePattern n' \<and> map_of seen n' = None) \<and> n \<notin> snd ` set fs \<and> distinct (map snd fs)"
      by (auto simp only: update_conv' fun_upd_apply split: if_splits)
    finally show ?thesis using True by auto
  qed auto
qed simp

lemma validate_None:
  "validate n = None \<longleftrightarrow>
    list_all metricNamePattern [GPUMemoryUsedBytes n, GPUSMUtilizationPercent n, GPUSMUtilizationPercentNormalized n] \<and>
    distinct [GPUMemoryUsedBytes n, GPUSMUtilizationPercent n, GPUSMUtilizationPercentNormalized n]"
  unfolding validate_def validate_fields_None by auto

lemma default_names_valid: "validate defaultMetricNames = None"
  by code_simp

lemma metricsPath_rooted: "HasPrefix (metricsPath c) ''/''"
  by (auto simp: metricsPath_def Let_def DefaultPath_def HasPrefix_def)

lemma collectInterval_floor: "MinCollectInterval \<le> collectInterval c"
  by (simp add: collectInterval_def MinCollectInterval_def DefaultCollectInterval_def)

lemma new_mux_serves:
  "\<exists>m. new_mux p = Some m \<and> map_of m p = Some MetricsHandler \<and>
     (p \<noteq> HealthzPath \<longrightarrow> map_of m HealthzPath = Some HealthHandler) \<and>
     (p \<noteq> ReadyzPath \<longrightarrow> map_of m ReadyzPath = Some HealthHandler)"
  by (auto simp: new_mux_def mux_Handle_def HealthzPath_def ReadyzPath_def)

section \<open>Series\<close>

text \<open>What is documented of a gauge vector: setting a series shows its value, deleting it removes it.\<close>

definition gauge_vec_ok :: "'g gauge_vec \<Rightarrow> bool" where
  "gauge_vec_ok G \<longleftrightarrow>
    (\<forall>l. gv_value G (gv_new G) l = None) \<and>
    (\<forall>g l v l'. gv_value G (gv_set G l v g) l' = (if l' = l then Some v else gv_value G g l')) \<and>
    (\<forall>g l l'. gv_value G (gv_delete G l g) l' = (if l' = l then None else gv_value G g l'))"

definition labels_of :: "podGPUKey \<Rightarrow> labels" where
  "labels_of k =
    [(''namespace'', k_Namespace k), (''pod'', k_Pod k), (''pod_uuid'', k_PodUID k), (''gpu_uuid'', k_GPUUUID k),
     (''gpu'', Itoa (k_GPUIndex k))]"

lemma labels_of_inj [simp]: "labels_of k = labels_of k' \<longleftrightarrow> k = k'"
  by (cases k; cases k') (simp add: labels_of_def)

lemma metricLabels_key: "metricLabels m = (podGPUKeyForMetric m, labels_of (podGPUKeyForMetric m))"
  by (simp add: metricLabels_def podGPUKeyForMetric_def labels_of_def)

text \<open>The abstract exporter: the series by pod and GPU, each with its three values.\<close>

type_synonym series = "podGPUKey \<rightharpoonup> rat \<times> rat \<times> rat"

definition shows_values :: "'g gauge_vec \<Rightarrow> (rat \<times> rat \<times> rat \<Rightarrow> rat) \<Rightarrow> 'g \<Rightarrow> series \<Rightarrow> bool" where
  "shows_values G pr g M \<longleftrightarrow>
    (\<forall>l. gv_value G g l \<noteq> None \<longrightarrow> l \<in> range labels_of) \<and> (\<forall>k. gv_value G g (labels_of k) = map_option pr (M k))"

definition exports :: "'g gauge_vec \<Rightarrow> 'g Runtime \<Rightarrow> series \<Rightarrow> bool" where
  "exports G r M \<longleftrightarrow>
    gomap_ok (knownLabels r) \<and> (\<forall>k. map_of (knownLabels r) k = map_option (\<lambda>_. labels_of k) (M k)) \<and>
    shows_values G fst (memoryBytes r) M \<and> shows_values G (fst \<circ> snd) (smUtilization r) M \<and>
    shows_values G (snd \<circ> snd) (smUtilizationNormalized r) M"

definition spec_prune :: "string set option \<Rightarrow> series \<Rightarrow> series" where
  "spec_prune active M = (\<lambda>k. if active = None \<or> k_PodUID k \<in> the active then M k else None)"

definition spec_zero :: "series \<Rightarrow> series" where
  "spec_zero M = (\<lambda>k. map_option (\<lambda>_. (0, 0, 0)) (M k))"

definition spec_put :: "PodGPUMetric \<Rightarrow> series \<Rightarrow> series" where
  "spec_put m M = (\<lambda>k. if k = podGPUKeyForMetric m then Some (metric_values m)
     else if m_GPUUUID m \<noteq> [] \<and> idle_placeholder k (podGPUKeyForMetric m) then None else M k)"

definition spec_observe :: "PodGPUMetric list \<Rightarrow> string set option \<Rightarrow> series \<Rightarrow> series" where
  "spec_observe ms active M = fold spec_put ms (spec_zero (spec_prune active M))"

lemma shows_values_set:
  assumes "gauge_vec_ok G" "shows_values G pr g M"
  shows "shows_values G pr (gv_set G (labels_of k) (pr v) g) (M(k \<mapsto> v))"
  using assms by (auto simp: shows_values_def gauge_vec_ok_def)

lemma shows_values_delete:
  assumes "gauge_vec_ok G" "shows_values G pr g M"
  shows "shows_values G pr (gv_delete G (labels_of k) g) (M(k := None))"
  using assms by (auto simp: shows_values_def gauge_vec_ok_def)

lemma exports_delete:
  assumes "gauge_vec_ok G" "exports G r M" shows "exports G (deleteSeries G k r) (M(k := None))"
proof (cases "M k")
  case None
  then have "map_of (knownLabels r) k = None" using assms(2) by (simp add: exports_def)
  moreover have "M(k := None) = M" using None by auto
  ultimately show ?thesis using assms(2) by (auto simp: deleteSeries_def exports_def delete_conv')
next
  case (Some v)
  then have "map_of (knownLabels r) k = Some (labels_of k)" using assms(2) by (simp add: exports_def)
  then show ?thesis
    using assms shows_values_delete [OF assms(1)] by (auto simp: deleteSeries_def exports_def delete_conv')
qed

lemma exports_cong: "exports G r M \<Longrightarrow> (\<And>k. M k = M' k) \<Longrightarrow> exports G r M'"
  using ext [of M M'] by simp

lemma exports_delete_all:
  assumes "gauge_vec_ok G" "exports G r M"
  shows "exports G (fold (\<lambda>k r. if P k then deleteSeries G k r else r) ks r) (\<lambda>k. if P k \<and> k \<in> set ks then None else M k)"
  using assms(2)
proof (induction ks arbitrary: r M)
  case (Cons k ks)
  have "exports G (if P k then deleteSeries G k r else r) (if P k then M(k := None) else M)"
    using Cons.prems exports_delete [OF assms(1)] by simp
  then have "exports G (fold (\<lambda>k r. if P k then deleteSeries G k r else r) ks (if P k then deleteSeries G k r else r))
      (\<lambda>k'. if P k' \<and> k' \<in> set (k # ks) then None else M k')"
    by (rule exports_cong [OF Cons.IH]) auto
  then show ?case by simp
qed simp

lemma exports_known: "exports G r M \<Longrightarrow> set (map fst (knownLabels r)) = dom M"
  by (force simp: exports_def dom_def dom_map_of_conv_image_fst [symmetric])

lemma exports_delete_known:
  assumes "gauge_vec_ok G" "exports G r M"
  shows "exports G (fold (\<lambda>k r. if P k then deleteSeries G k r else r) (map fst (knownLabels r)) r) (\<lambda>k. if P k then None else M k)"
proof (rule exports_cong [OF exports_delete_all [OF assms]])
  fix k show "(if P k \<and> k \<in> set (map fst (knownLabels r)) then None else M k) = (if P k then None else M k)"
    by (cases "M k") (auto simp: exports_known [OF assms(2)] simp del: set_map)
qed


lemma exports_prune: "gauge_vec_ok G \<Longrightarrow> exports G r M \<Longrightarrow> exports G (pruneDeletedPods G active r) (spec_prune active M)"
  by (cases active) (auto simp: pruneDeletedPods_def spec_prune_def intro: exports_cong [OF exports_delete_known])

lemma set_values_show:
  assumes "gauge_vec_ok G" "exports G r M"
  shows "shows_values G fst (memoryBytes (set_values G (labels_of k) v r)) (M(k \<mapsto> v))"
    "shows_values G (fst \<circ> snd) (smUtilization (set_values G (labels_of k) v r)) (M(k \<mapsto> v))"
    "shows_values G (snd \<circ> snd) (smUtilizationNormalized (set_values G (labels_of k) v r)) (M(k \<mapsto> v))"
  using assms(2) shows_values_set [OF assms(1), where pr = fst and v = v] shows_values_set [OF assms(1), where pr = "fst \<circ> snd" and v = v]
    shows_values_set [OF assms(1), where pr = "snd \<circ> snd" and v = v]
  by (simp_all add: exports_def set_values_def split_beta)

lemma set_values_known [simp]: "knownLabels (set_values G l v r) = knownLabels r"
  by (simp add: set_values_def split_beta)

lemma exports_set:
  assumes "gauge_vec_ok G" "exports G r M" "k \<in> dom M"
  shows "exports G (set_values G (labels_of k) v r) (M(k \<mapsto> v))"
  using assms set_values_show [OF assms(1,2)] unfolding exports_def [of G "set_values G (labels_of k) v r"]
  by (auto simp: exports_def)

lemma exports_zero_some:
  assumes "gauge_vec_ok G" "exports G r M" "set ks \<subseteq> dom M"
  shows "exports G (fold (setZero G) (map labels_of ks) r) (\<lambda>k. if k \<in> set ks then Some (0, 0, 0) else M k)"
  using assms(2,3)
proof (induction ks arbitrary: r M)
  case (Cons k ks)
  have "exports G (setZero G (labels_of k) r) (M(k \<mapsto> (0, 0, 0)))"
    using Cons.prems unfolding setZero_def by (intro exports_set [OF assms(1)]) auto
  then have "exports G (fold (setZero G) (map labels_of ks) (setZero G (labels_of k) r))
      (\<lambda>k'. if k' \<in> set (k # ks) then Some (0, 0, 0) else M k')"
    using Cons.prems by (intro exports_cong [OF Cons.IH]) auto
  then show ?case by simp
qed simp

lemma exports_labels: "exports G r M \<Longrightarrow> map snd (knownLabels r) = map labels_of (map fst (knownLabels r))"
proof -
  assume r: "exports G r M"
  have "l = labels_of k" if "(k, l) \<in> set (knownLabels r)" for k l
    using r that gomap_entry [of "knownLabels r" k l] by (cases "M k") (auto simp: exports_def)
  then show ?thesis by (auto simp: map_eq_conv)
qed

lemma exports_zero: "gauge_vec_ok G \<Longrightarrow> exports G r M \<Longrightarrow> exports G (fold (setZero G) (map snd (knownLabels r)) r) (spec_zero M)"
proof -
  assume r: "gauge_vec_ok G" "exports G r M"
  let ?ks = "map fst (knownLabels r)"
  have "(if k \<in> set ?ks then Some (0, 0, 0) else M k) = spec_zero M k" for k
    by (cases "M k") (auto simp: spec_zero_def exports_known [OF r(2)] simp del: set_map)
  then have "exports G (fold (setZero G) (map labels_of ?ks) r) (spec_zero M)"
    using exports_known [OF r(2)] by (intro exports_cong [OF exports_zero_some [OF r]]) (simp_all del: set_map)
  then show ?thesis by (simp only: exports_labels [OF r(2)])
qed

lemma exports_put:
  assumes "gauge_vec_ok G" "exports G r M" shows "exports G (observe_metric G m r) (spec_put m M)"
proof -
  define k where "k = podGPUKeyForMetric m"
  define M1 where "M1 = (\<lambda>k'. if m_GPUUUID m \<noteq> [] \<and> idle_placeholder k' k then None else M k')"
  define r1 where "r1 = deleteIdleLabelsForObservedGPU G k r"
  have uuid: "k_GPUUUID k = m_GPUUUID m" by (simp add: k_def podGPUKeyForMetric_def)
  have r1: "exports G r1 M1"
    unfolding r1_def M1_def deleteIdleLabelsForObservedGPU_def uuid
    using assms exports_delete_known [OF assms] by (auto intro: exports_cong)
  define r2 where "r2 = r1\<lparr>knownLabels := AList.update k (labels_of k) (knownLabels r1)\<rparr>"
  have "set_values G (labels_of k) v r2 =
      (set_values G (labels_of k) v r1)\<lparr>knownLabels := AList.update k (labels_of k) (knownLabels r1)\<rparr>" for v
    by (simp add: r2_def set_values_def split_beta)
  then have "exports G (set_values G (labels_of k) (metric_values m) r2) (M1(k \<mapsto> metric_values m))"
    using set_values_show [OF assms(1) r1] r1 unfolding exports_def by (simp add: update_conv')
  moreover have "observe_metric G m r = set_values G (labels_of k) (metric_values m) r2"
    by (simp add: observe_metric_def metricLabels_key k_def r1_def r2_def Let_def)
  moreover have "(M1(k \<mapsto> metric_values m)) k' = spec_put m M k'" for k'
    by (simp add: spec_put_def M1_def k_def)
  ultimately show ?thesis using exports_cong by metis
qed

text \<open>The exporter implements the abstract one, step by step.\<close>

lemma observe_refines:
  assumes "gauge_vec_ok G" "exports G r M" shows "exports G (observe G ms active r) (spec_observe ms active M)"
proof -
  have "exports G r M \<Longrightarrow> exports G (fold (observe_metric G) ms r) (fold spec_put ms M)" for r M
    by (induction ms arbitrary: r M) (simp_all add: exports_put [OF assms(1)])
  from this [OF exports_zero [OF assms(1) exports_prune [OF assms]]] show ?thesis
    by (simp add: observe_def spec_observe_def Let_def)
qed

lemma exports_new: "gauge_vec_ok G \<Longrightarrow> exports G (newRuntime G) Map.empty"
  by (simp add: exports_def newRuntime_def shows_values_def gauge_vec_ok_def)


section \<open>What a scrape shows\<close>

text \<open>A series without a UUID gives way to one with a UUID for the same pod and device.\<close>

definition replaced :: "podGPUKey \<Rightarrow> PodGPUMetric list \<Rightarrow> bool" where
  "replaced k ms \<longleftrightarrow> list_ex (\<lambda>m. m_GPUUUID m \<noteq> [] \<and> idle_placeholder k (podGPUKeyForMetric m)) ms"

definition metric_of :: "podGPUKey \<Rightarrow> PodGPUMetric list \<Rightarrow> PodGPUMetric option" where
  "metric_of k ms = find (\<lambda>m. podGPUKeyForMetric m = k) ms"

definition scrape_view :: "PodGPUMetric list \<Rightarrow> string set option \<Rightarrow> series \<Rightarrow> series" where
  "scrape_view ms active M = (\<lambda>k.
    case metric_of k ms of
      Some m \<Rightarrow> Some (metric_values m)
    | None \<Rightarrow> if replaced k ms then None else spec_zero (spec_prune active M) k)"

lemma spec_put_apply: "spec_put m M k = (if k = podGPUKeyForMetric m then Some (metric_values m)
     else if m_GPUUUID m \<noteq> [] \<and> idle_placeholder k (podGPUKeyForMetric m) then None else M k)"
  by (simp add: spec_put_def)

lemma fold_spec_put:
  assumes "distinct (map podGPUKeyForMetric ms)" "\<And>m. m \<in> set ms \<Longrightarrow> \<not> replaced (podGPUKeyForMetric m) ms"
  shows "fold spec_put ms M k =
    (case metric_of k ms of Some m \<Rightarrow> Some (metric_values m) | None \<Rightarrow> if replaced k ms then None else M k)"
  using assms
proof (induction ms rule: rev_induct)
  case (snoc m ms)
  define N where "N = fold spec_put ms M"
  have ih: "N k = (case metric_of k ms of Some m \<Rightarrow> Some (metric_values m) | None \<Rightarrow> if replaced k ms then None else M k)"
    unfolding N_def using snoc.prems by (intro snoc.IH) (auto simp: replaced_def)
  have step: "fold spec_put (ms @ [m]) M k = spec_put m N k" by (simp add: N_def)
  have last: "metric_of k (ms @ [m]) = (case metric_of k ms of Some m' \<Rightarrow> Some m' | None \<Rightarrow> if podGPUKeyForMetric m = k then Some m else None)"
    by (simp add: metric_of_def find_append split: option.split)
  show ?case
  proof (cases "podGPUKeyForMetric m = k")
    case True
    then have "metric_of k ms = None" using snoc.prems(1) by (auto simp: metric_of_def find_None_iff image_iff)
    then show ?thesis using True last unfolding step by (simp add: spec_put_apply)
  next
    case False
    have "\<not> idle_placeholder k (podGPUKeyForMetric m)" if "metric_of k ms = Some m'" "m_GPUUUID m \<noteq> []" for m'
      using snoc.prems(2) [of m'] find_SomeD [OF that(1) [unfolded metric_of_def]] that(2) by (auto simp: replaced_def)
    then show ?thesis using False ih last unfolding step by (auto simp: spec_put_apply replaced_def split: option.splits)
  qed
qed (simp add: metric_of_def replaced_def)

lemma fold_spec_put_uuid:
  assumes "distinct (map podGPUKeyForMetric ms)" "m \<in> set ms" "podGPUKeyForMetric m = k" "k_GPUUUID k \<noteq> []"
  shows "fold spec_put ms M k = Some (metric_values m)"
  using assms(1,2)
proof (induction ms rule: rev_induct)
  case (snoc m' ms)
  define N where "N = fold spec_put ms M"
  have step: "fold spec_put (ms @ [m']) M k = spec_put m' N k" by (simp add: N_def)
  show ?case
  proof (cases "m \<in> set ms")
    case True
    then have "N k = Some (metric_values m)" using snoc by (simp add: N_def)
    moreover have "k \<noteq> podGPUKeyForMetric m'" using True snoc.prems(1) assms(3) by (auto simp: image_iff)
    ultimately show ?thesis unfolding step using assms(4) by (simp add: spec_put_apply idle_placeholder_def)
  next
    case False
    then show ?thesis unfolding step using snoc.prems(2) assms(3) by (simp add: spec_put_apply)
  qed
qed simp

lemma spec_observe_view:
  assumes "distinct (map podGPUKeyForMetric ms)" "\<And>m. m \<in> set ms \<Longrightarrow> \<not> replaced (podGPUKeyForMetric m) ms"
  shows "spec_observe ms active M = scrape_view ms active M"
  using fold_spec_put [OF assms] by (auto simp: spec_observe_def scrape_view_def fun_eq_iff)

text \<open>
  C7: The exporter refines a map of series. If its gauges show a map, then after a scrape they
  show the map in which every metric of the snapshot has its values, a series without a
  metric is zero as long as its pod is active, and is gone once the pod is, or once a series
  with a UUID stands for the same device; what is remembered of the series agrees. A scrape
  whose snapshot cannot be fetched changes nothing.
  The snapshot is assumed to have one metric per series, and none without a UUID beside one with a UUID
  for the same pod and device.
\<close>

theorem scrape_refines:
  assumes "gauge_vec_ok G" "exports G r M"
    and "distinct (map podGPUKeyForMetric (Metrics snap))"
    and "\<And>m. m \<in> set (Metrics snap) \<Longrightarrow> \<not> replaced (podGPUKeyForMetric m) (Metrics snap)"
  shows "exports G (refresh G (Inr snap) r) (scrape_view (Metrics snap) (Snap_ActivePodUIDs snap) M) \<and>
    refresh G (Inl e) r = r"
  using observe_refines [OF assms(1,2), of "Metrics snap" "Snap_ActivePodUIDs snap"] spec_observe_view [OF assms(3,4)]
  by (simp add: refresh_def)

definition sample_gauges :: "(labels \<rightharpoonup> rat) gauge_vec" where
  "sample_gauges = \<lparr>gv_new = Map.empty, gv_set = (\<lambda>l v g. g(l \<mapsto> v)), gv_delete = (\<lambda>l g. g(l := None)), gv_value = (\<lambda>g. g)\<rparr>"

lemma sample_gauges_ok: "gauge_vec_ok sample_gauges"
  by (simp add: gauge_vec_ok_def sample_gauges_def)

theorem scrape_refines_witness:
  "exports sample_gauges (refresh sample_gauges (Inr \<lparr>Metrics = sample_cycle 30, Snap_ActivePodUIDs = Some {''u1''}\<rparr>) (newRuntime sample_gauges))
     (scrape_view (sample_cycle 30) (Some {''u1''}) Map.empty) \<and>
   scrape_view (sample_cycle 30) (Some {''u1''}) Map.empty (sample_key ''GPU-a'' 0) = Some (0, 30, 0)"
proof
  let ?snap = "\<lparr>Metrics = sample_cycle 30, Snap_ActivePodUIDs = Some {''u1''}\<rparr>"
  have "distinct (map podGPUKeyForMetric (Metrics ?snap))" by (simp add: sample_cycle_def)
  moreover have "\<not> replaced (podGPUKeyForMetric m) (Metrics ?snap)" if "m \<in> set (Metrics ?snap)" for m
    using that by (simp add: sample_cycle_def replaced_def idle_placeholder_def sample_key_def)
  ultimately show "exports sample_gauges (refresh sample_gauges (Inr ?snap) (newRuntime sample_gauges)) (scrape_view (sample_cycle 30) (Some {''u1''}) Map.empty)"
    using scrape_refines [OF sample_gauges_ok exports_new [OF sample_gauges_ok], of ?snap "[]"] by simp
  show "scrape_view (sample_cycle 30) (Some {''u1''}) Map.empty (sample_key ''GPU-a'' 0) = Some (0, 30, 0)"
    by (simp add: scrape_view_def metric_of_def sample_cycle_def metric_values_def idlePodGPUMetric_def podGPUKeyForMetric_def sample_key_def)
qed

text \<open>
  A runtime is built if and only if the three metric names are valid Prometheus names and
  differ; the default names are. A built runtime leaves at least 2 seconds between samples, serves the
  metrics at the configured path and the probes at theirs, and no pattern is registered
  twice. It stops its collector's loop before it closes the collector.
\<close>

theorem New_builds:
  "((\<exists>x. New G init cfg True = Inr x) \<longleftrightarrow>
     (let ns = [GPUMemoryUsedBytes (cfg_Names cfg), GPUSMUtilizationPercent (cfg_Names cfg), GPUSMUtilizationPercentNormalized (cfg_Names cfg)]
      in list_all metricNamePattern ns \<and> distinct ns)) \<and>
   validate (WithDefaults \<lparr>GPUMemoryUsedBytes = [], GPUSMUtilizationPercent = [], GPUSMUtilizationPercentNormalized = []\<rparr>) = None \<and>
   (case New G init cfg True of
      Inl e \<Rightarrow> e \<noteq> Panic
    | Inr x \<Rightarrow> MinCollectInterval \<le> collectInterval cfg \<and> x_coll x = newCollector init (collectInterval cfg) \<and>
        map_of (x_mux x) (metricsPath cfg) = Some MetricsHandler \<and>
        list_all (\<lambda>p. map_of (x_mux x) p \<noteq> None) [HealthzPath, ReadyzPath]) \<and>
   Stop False True True True = [CancelContext, WaitForCollector, ShutdownServer, CloseCollector]"
proof -
  obtain m where m: "new_mux (metricsPath cfg) = Some m" "map_of m (metricsPath cfg) = Some MetricsHandler"
    "metricsPath cfg \<noteq> HealthzPath \<longrightarrow> map_of m HealthzPath = Some HealthHandler"
    "metricsPath cfg \<noteq> ReadyzPath \<longrightarrow> map_of m ReadyzPath = Some HealthHandler"
    using new_mux_serves by blast
  have new: "New G init cfg True = (case validate (cfg_Names cfg) of Some e \<Rightarrow> Inl (BadNames e) | None \<Rightarrow>
      Inr \<lparr>x_runtime = newRuntime G, x_coll = newCollector init (collectInterval cfg),
           x_engine = newMetricsControllerWithPodSource (collectInterval cfg) (cfg_SMUtilizationWindow cfg),
           x_resolver = NewProcCgroupResolver (cfg_ProcRoot cfg), x_addr = cfg_Address cfg, x_mux = m\<rparr>)"
    by (simp add: New_def m(1) split: option.split)
  have ex: "(\<exists>x. New G init cfg True = Inr x) \<longleftrightarrow> validate (cfg_Names cfg) = None"
    unfolding new by (auto split: option.splits)
  have "WithDefaults \<lparr>GPUMemoryUsedBytes = [], GPUSMUtilizationPercent = [], GPUSMUtilizationPercentNormalized = []\<rparr> = defaultMetricNames"
    by (simp add: WithDefaults_def name_or_def defaultMetricNames_def)
  moreover have "list_all (\<lambda>p. map_of m p \<noteq> None) [HealthzPath, ReadyzPath]"
    using m by (cases "metricsPath cfg = HealthzPath"; cases "metricsPath cfg = ReadyzPath") auto
  ultimately show ?thesis
    unfolding ex validate_None [of "cfg_Names cfg"] Let_def using m(2)
    by (auto simp: new default_names_valid collectInterval_floor Stop_def split: option.split)
qed

end
