(* ===== verification/Metricsd.thy ===== *)
theory Metricsd
  imports Exporter Fractiond_Builder
begin

text \<open>
  The metricsd process (metricsd/cmd/flags.go, main.go, and the goroutines that
  \<^verbatim>\<open>Runtime.Start\<close> launches). The collector, the engine and the scrapes run concurrently and
  fractiond changes the shared directory at any time: the process is a step relation over
  their state, one step per action that is atomic in the code. A cycle of the engine reads the
  directory in one step and the collector in a later one; a scrape fetches a snapshot in one
  step and observes it in a later one, so that scrapes may overtake each other.
\<close>

section \<open>Flags and main\<close>

record metricsd_flags =
  mf_mapDir :: string
  mf_logLevel :: string
  mf_metricsEnabled :: bool
  mf_address :: string
  mf_path :: string
  mf_procRoot :: string
  mf_interval :: int
  mf_smUtilWindow :: int
  mf_metricNames :: MetricNames

definition metricsd_defaultAddress :: string where "metricsd_defaultAddress = '':2112''"
definition metricsd_defaultProcRoot :: string where "metricsd_defaultProcRoot = ''/proc''"
definition metricsd_defaultLogLevel :: string where "metricsd_defaultLogLevel = ''info''"

definition metricsd_flag_defaults :: "(string \<Rightarrow> int option) \<Rightarrow> getenv \<Rightarrow> metricsd_flags" where
  "metricsd_flag_defaults pd ge =
    \<lparr>mf_mapDir = env_String ge ''MAP_DIR'' DefaultMapDir,
     mf_logLevel = env_String ge ''LOG_LEVEL'' metricsd_defaultLogLevel,
     mf_metricsEnabled = env_Bool ge ''METRICS_ENABLED'' True,
     mf_address = env_String ge ''METRICS_ADDRESS'' metricsd_defaultAddress,
     mf_path = env_String ge ''METRICS_PATH'' DefaultPath,
     mf_procRoot = env_String ge ''PROC_ROOT'' metricsd_defaultProcRoot,
     mf_interval = env_Duration pd ge ''METRICS_INTERVAL'' DefaultCollectInterval,
     mf_smUtilWindow = env_Duration pd ge ''SM_UTIL_WINDOW'' 0,
     mf_metricNames =
       \<lparr>GPUMemoryUsedBytes = env_String ge ''METRIC_NAME_GPU_MEMORY_USED_BYTES'' [],
        GPUSMUtilizationPercent = env_String ge ''METRIC_NAME_GPU_SM_UTILIZATION_PERCENT'' [],
        GPUSMUtilizationPercentNormalized = env_String ge ''METRIC_NAME_GPU_SM_UTILIZATION_PERCENT_NORMALIZED'' []\<rparr>\<rparr>"

definition map_names :: "(MetricNames \<Rightarrow> MetricNames) \<Rightarrow> metricsd_flags \<Rightarrow> metricsd_flags" where
  "map_names g f = f\<lparr>mf_metricNames := g (mf_metricNames f)\<rparr>"

definition metricsd_flag_set :: "texts \<Rightarrow> metricsd_flags flag_set" where
  "metricsd_flag_set t =
    \<lparr>is_bool = map_of [(''map-dir'', False), (''log-level'', False), (''metrics-enabled'', True), (''metrics-address'', False),
       (''metrics-path'', False), (''proc-root'', False), (''metrics-interval'', False), (''sm-util-window'', False),
       (''metric-name-gpu-memory-used-bytes'', False), (''metric-name-gpu-sm-utilization-percent'', False),
       (''metric-name-gpu-sm-utilization-percent-normalized'', False)],
     set_value = (\<lambda>n v f.
       if n = ''map-dir'' then Some (f\<lparr>mf_mapDir := v\<rparr>)
       else if n = ''log-level'' then Some (f\<lparr>mf_logLevel := v\<rparr>)
       else if n = ''metrics-enabled'' then map_option (\<lambda>b. f\<lparr>mf_metricsEnabled := b\<rparr>) (ParseBool v)
       else if n = ''metrics-address'' then Some (f\<lparr>mf_address := v\<rparr>)
       else if n = ''metrics-path'' then Some (f\<lparr>mf_path := v\<rparr>)
       else if n = ''proc-root'' then Some (f\<lparr>mf_procRoot := v\<rparr>)
       else if n = ''metrics-interval'' then map_option (\<lambda>i. f\<lparr>mf_interval := i\<rparr>) (parse_duration t v)
       else if n = ''sm-util-window'' then map_option (\<lambda>i. f\<lparr>mf_smUtilWindow := i\<rparr>) (parse_duration t v)
       else if n = ''metric-name-gpu-memory-used-bytes'' then Some (map_names (\<lambda>m. m\<lparr>GPUMemoryUsedBytes := v\<rparr>) f)
       else if n = ''metric-name-gpu-sm-utilization-percent'' then Some (map_names (\<lambda>m. m\<lparr>GPUSMUtilizationPercent := v\<rparr>) f)
       else if n = ''metric-name-gpu-sm-utilization-percent-normalized''
         then Some (map_names (\<lambda>m. m\<lparr>GPUSMUtilizationPercentNormalized := v\<rparr>) f)
       else None)\<rparr>"

definition metricsd_parseFlags :: "texts \<Rightarrow> getenv \<Rightarrow> string list \<Rightarrow> (flag_error, metricsd_flags) result" where
  "metricsd_parseFlags t ge args = flag_parse (metricsd_flag_set t) args (metricsd_flag_defaults (parse_duration t) ge)"

definition metricsd_config :: "metricsd_flags \<Rightarrow> MetricsConfig" where
  "metricsd_config f =
    \<lparr>cfg_Enabled = True, cfg_Address = mf_address f, cfg_Path = mf_path f, cfg_ProcRoot = mf_procRoot f,
     cfg_Interval = mf_interval f, cfg_SMUtilizationWindow = mf_smUtilWindow f, cfg_Names = WithDefaults (mf_metricNames f)\<rparr>"

text \<open>The process: nothing to do, exit status 1, or an exporter that runs until it is stopped.\<close>

datatype 'g main_result = NothingToDo | ExitOne new_error | Serve "'g exporter"

definition metricsd_main :: "'g gauge_vec \<Rightarrow> nvml_Return \<Rightarrow> metricsd_flags \<Rightarrow> 'g main_result" where
  "metricsd_main G init f =
    (if \<not> mf_metricsEnabled f then NothingToDo
     else case New G init (metricsd_config f) True of Inl e \<Rightarrow> ExitOne e | Inr x \<Rightarrow> Serve x)"

section \<open>The running process\<close>

record 'g metricsd =
  d_exporter :: "'g exporter"
  d_dir :: MapDir
  d_pods :: "podSourceSnapshot option"
  d_fetched :: "Snapshot list"

definition metricsd_start :: "'g exporter \<Rightarrow> MapDir \<Rightarrow> 'g metricsd" where
  "metricsd_start x dir = \<lparr>d_exporter = x, d_dir = dir, d_pods = None, d_fetched = []\<rparr>"

definition map_exporter :: "('g exporter \<Rightarrow> 'g exporter) \<Rightarrow> 'g metricsd \<Rightarrow> 'g metricsd" where
  "map_exporter f s = s\<lparr>d_exporter := f (d_exporter s)\<rparr>"

definition end_cycle :: "podSourceSnapshot \<Rightarrow> 'g exporter \<Rightarrow> 'g exporter" where
  "end_cycle pods x = x\<lparr>x_engine := engine_collect (collector_Snapshot (x_coll x)) pods (x_engine x)\<rparr>"

definition observe_fetched :: "'g gauge_vec \<Rightarrow> Snapshot \<Rightarrow> 'g exporter \<Rightarrow> 'g exporter" where
  "observe_fetched G snap x = x\<lparr>x_runtime := refresh G (Inr snap) (x_runtime x)\<rparr>"

inductive metricsd_step :: "'g gauge_vec \<Rightarrow> 'g metricsd \<Rightarrow> 'g metricsd \<Rightarrow> bool" for G where
  poll: "metricsd_step G s (map_exporter (\<lambda>x. x\<lparr>x_coll := collector_tick nv now (x_coll x)\<rparr>) s)"
| read_dir: "d_pods s = None \<Longrightarrow>
    metricsd_step G s (s\<lparr>d_pods := Some (podSource_Snapshot fs (x_resolver (d_exporter s)) (d_dir s))\<rparr>)"
| cycle: "d_pods s = Some pods \<Longrightarrow> metricsd_step G s ((map_exporter (end_cycle pods) s)\<lparr>d_pods := None\<rparr>)"
| fetch: "metricsd_step G s (s\<lparr>d_fetched := engine_Snapshot (x_engine (d_exporter s)) # d_fetched s\<rparr>)"
| scrape: "d_fetched s = as @ snap # bs \<Longrightarrow>
    metricsd_step G s ((map_exporter (observe_fetched G snap) s)\<lparr>d_fetched := as @ bs\<rparr>)"
| mapping: "metricsd_step G s (s\<lparr>d_dir := dir\<rparr>)"

definition metricsd_reaches :: "'g gauge_vec \<Rightarrow> 'g metricsd \<Rightarrow> 'g metricsd \<Rightarrow> bool" where
  "metricsd_reaches G = (metricsd_step G)\<^sup>*\<^sup>*"

section \<open>The invariant\<close>

definition values_ok :: "rat \<times> rat \<times> rat \<Rightarrow> bool" where
  "values_ok v \<longleftrightarrow> 0 \<le> fst v \<and> fst v < 2 ^ 64 \<and> in_percent (fst (snd v)) \<and> in_percent (snd (snd v))"

definition series_ok :: "series \<Rightarrow> bool" where
  "series_ok M \<longleftrightarrow> (\<forall>k v. M k = Some v \<longrightarrow> values_ok v)"

definition metricsd_ok :: "'g gauge_vec \<Rightarrow> 'g metricsd \<Rightarrow> bool" where
  "metricsd_ok G s \<longleftrightarrow>
    collector_ok (x_coll (d_exporter s)) \<and> engine_ok (x_engine (d_exporter s)) \<and>
    list_all (\<lambda>snap. metrics_ok (Metrics snap)) (d_fetched s) \<and>
    (\<exists>M. exports G (x_runtime (d_exporter s)) M \<and> series_ok M)"

lemma uint64_bound: "(of_int (uint (w :: uint64)) :: rat) < 2 ^ 64"
proof -
  have "uint w < 2 ^ 64" using uint_bounded [of w] by simp
  then have "(of_int (uint w) :: rat) < of_int (2 ^ 64)" by (simp only: of_int_less_iff)
  then show ?thesis by simp
qed

lemma metric_values_ok: "metric_ok m \<Longrightarrow> values_ok (metric_values m)"
  using uint64_bound [of "m_MemoryBytes m"] by (simp add: metric_ok_def values_ok_def metric_values_def)

lemma series_ok_observe:
  assumes "series_ok M" "metrics_ok ms" shows "series_ok (spec_observe ms active M)"
proof -
  have one: "series_ok N \<Longrightarrow> metric_ok m \<Longrightarrow> series_ok (spec_put m N)" for m N
    using metric_values_ok [of m] by (auto simp: series_ok_def spec_put_apply split: if_splits)
  have put: "series_ok N \<Longrightarrow> list_all metric_ok ms' \<Longrightarrow> series_ok (fold spec_put ms' N)" for ms' N
    by (induction ms' arbitrary: N) (simp_all add: one)
  have "series_ok (spec_zero (spec_prune active M))"
    by (auto simp: series_ok_def spec_zero_def values_ok_def in_percent_def)
  then show ?thesis using put assms(2) by (simp add: spec_observe_def metrics_ok_def)
qed

lemma engine_ok_snapshot: "engine_ok e \<Longrightarrow> metrics_ok (Metrics (engine_Snapshot e))"
  by (simp add: engine_ok_def engine_Snapshot_def)

lemma metricsd_ok_step:
  assumes "metricsd_step G s s'" "gauge_vec_ok G" "metricsd_ok G s" shows "metricsd_ok G s'"
  using assms
proof (induction rule: metricsd_step.induct)
  case (scrape s as snap bs)
  then obtain M where "exports G (x_runtime (d_exporter s)) M" "series_ok M" by (auto simp: metricsd_ok_def)
  moreover have "metrics_ok (Metrics snap)" using scrape by (auto simp: metricsd_ok_def)
  ultimately have "exports G (refresh G (Inr snap) (x_runtime (d_exporter s))) (spec_observe (Metrics snap) (Snap_ActivePodUIDs snap) M) \<and>
      series_ok (spec_observe (Metrics snap) (Snap_ActivePodUIDs snap) M)"
    using observe_refines [OF scrape(2)] series_ok_observe by (simp add: refresh_def)
  then show ?case using scrape by (auto simp: metricsd_ok_def map_exporter_def observe_fetched_def)
qed (auto simp: metricsd_ok_def map_exporter_def end_cycle_def collector_ok_tick engine_ok_collect engine_ok_snapshot)

lemma metricsd_ok_start:
  assumes "gauge_vec_ok G" "metricsd_main G init f = Serve x" shows "metricsd_ok G (metricsd_start x dir)"
proof -
  have "x_coll x = newCollector init (collectInterval (metricsd_config f))"
    "x_engine x = newMetricsControllerWithPodSource (collectInterval (metricsd_config f)) (cfg_SMUtilizationWindow (metricsd_config f))"
    "x_runtime x = newRuntime G"
    using assms(2) by (auto simp: metricsd_main_def New_def split: if_splits sum.splits option.splits)
  then show ?thesis
    using exports_new [OF assms(1)]
    by (auto simp: metricsd_ok_def metricsd_start_def collector_ok_new engine_ok_new series_ok_def intro!: exI [of _ Map.empty])
qed

lemma metricsd_ok_reached:
  assumes "gauge_vec_ok G" "metricsd_main G init f = Serve x" "metricsd_reaches G (metricsd_start x dir) s"
  shows "metricsd_ok G s"
  using assms(3) unfolding metricsd_reaches_def
  by (induction rule: rtranclp_induct) (auto intro: metricsd_ok_start [OF assms(1,2)] metricsd_ok_step [OF _ assms(1)])


section \<open>Properties\<close>

text \<open>
  C11: However polls, cycles, scrapes and changes of the directory interleave, what metricsd
  exports stays in bounds: memory is a 64-bit count of bytes, and both utilizations are
  between 0 and 100.
\<close>

theorem exported_bounds:
  assumes "gauge_vec_ok G" "metricsd_main G init f = Serve x" "metricsd_reaches G (metricsd_start x dir) s"
    and "r = x_runtime (d_exporter s)"
  shows "(case gv_value G (memoryBytes r) l of Some v \<Rightarrow> 0 \<le> v \<and> v < 2 ^ 64 | None \<Rightarrow> True) \<and>
    (case gv_value G (smUtilization r) l of Some v \<Rightarrow> in_percent v | None \<Rightarrow> True) \<and>
    (case gv_value G (smUtilizationNormalized r) l of Some v \<Rightarrow> in_percent v | None \<Rightarrow> True)"
proof -
  obtain M where M: "exports G r M" "series_ok M"
    using metricsd_ok_reached [OF assms(1-3)] assms(4) by (auto simp: metricsd_ok_def)
  show ?thesis
  proof (cases "l \<in> range labels_of")
    case True
    then obtain k where "l = labels_of k" by auto
    then show ?thesis using M by (cases "M k") (auto simp: exports_def shows_values_def series_ok_def values_ok_def)
  next
    case False
    then have "gv_value G (memoryBytes r) l = None" "gv_value G (smUtilization r) l = None"
      "gv_value G (smUtilizationNormalized r) l = None"
      using M(1) unfolding exports_def shows_values_def by blast+
    then show ?thesis by simp
  qed
qed

text \<open>
  C10: The state of metricsd stays well-formed. In every reachable state the collector's
  snapshot has one entry per GPU and process, the engine publishes one metric per pod and GPU
  and no sample buffer outgrows the window, and the three gauges have exactly the same series,
  those whose labels are remembered, each under the labels of its pod and GPU.
\<close>

theorem metricsd_wellformed:
  assumes "gauge_vec_ok G" "metricsd_main G init f = Serve x" "metricsd_reaches G (metricsd_start x dir) s"
    and "r = x_runtime (d_exporter s)" "e = x_engine (d_exporter s)"
  shows "distinct (map process_id (Processes (collector_Snapshot (x_coll (d_exporter s))))) \<and>
    distinct (map podGPUKeyForMetric (Metrics (engine_Snapshot e))) \<and>
    (case map_of (smUtilBuf e) k of Some b \<Rightarrow> int (length b) \<le> smUtilWindowSize e | None \<Rightarrow> True) \<and>
    list_all (\<lambda>g. {l. gv_value G g l \<noteq> None} = set (map snd (knownLabels r)))
      [memoryBytes r, smUtilization r, smUtilizationNormalized r] \<and>
    list_all (\<lambda>(k, l). l = labels_of k) (knownLabels r) \<and> distinct (map fst (knownLabels r))"
proof -
  have ok: "metricsd_ok G s" by (rule metricsd_ok_reached [OF assms(1-3)])
  then obtain M where M: "exports G r M" using assms(4) by (auto simp: metricsd_ok_def)
  have labels: "l = labels_of k'" if "(k', l) \<in> set (knownLabels r)" for k' l
    using M that gomap_entry [of "knownLabels r" k' l] by (cases "M k'") (auto simp: exports_def)
  have "set (map snd (knownLabels r)) = labels_of ` dom M"
    unfolding exports_labels [OF M] using exports_known [OF M] by (simp only: set_map [of labels_of "map fst (knownLabels r)"])
  moreover have "shows_values G pr g M \<Longrightarrow> {l. gv_value G g l \<noteq> None} = labels_of ` dom M" for pr g
    unfolding shows_values_def by (force simp: dom_def)
  ultimately have "list_all (\<lambda>g. {l. gv_value G g l \<noteq> None} = set (map snd (knownLabels r)))
      [memoryBytes r, smUtilization r, smUtilizationNormalized r]"
    using M unfolding exports_def by fastforce
  moreover have "processes_ok (Processes (collector_Snapshot (x_coll (d_exporter s))))"
    using ok by (intro collector_ok_Snapshot) (simp add: metricsd_ok_def)
  moreover have "engine_ok e" using ok assms(5) by (simp add: metricsd_ok_def)
  ultimately show ?thesis using labels M
    by (auto simp: processes_ok_def engine_ok_def metrics_ok_def engine_Snapshot_def buffer_ok_def list_all_iff exports_def gomap_ok_def
        split: option.splits)
qed

definition sample_flags :: metricsd_flags where
  "sample_flags = metricsd_flag_defaults (\<lambda>_. None) (\<lambda>_. [])"

definition sample_exporter :: "(labels \<rightharpoonup> rat) exporter" where
  "sample_exporter =
    \<lparr>x_runtime = newRuntime sample_gauges, x_coll = newCollector SUCCESS 5000000000, x_engine = newMetricsControllerWithPodSource 5000000000 0,
     x_resolver = \<lparr>ProcRoot = ''/proc''\<rparr>, x_addr = '':2112'',
     x_mux = [(''/metrics'', MetricsHandler), (''/healthz'', HealthHandler), (''/readyz'', HealthHandler)]\<rparr>"

lemma sample_config_eval:
  "metricsd_config sample_flags = \<lparr>cfg_Enabled = True, cfg_Address = '':2112'', cfg_Path = ''/metrics'', cfg_ProcRoot = ''/proc'',
     cfg_Interval = 5000000000, cfg_SMUtilizationWindow = 0, cfg_Names = defaultMetricNames\<rparr>"
  by (simp add: metricsd_config_def sample_flags_def metricsd_flag_defaults_def env_String_def env_Duration_def metricsd_defaultAddress_def
      metricsd_defaultProcRoot_def DefaultPath_def DefaultCollectInterval_def WithDefaults_def name_or_def defaultMetricNames_def)

lemma sample_serves: "metricsd_main sample_gauges SUCCESS sample_flags = Serve sample_exporter"
proof -
  have trims: "TrimSpace ''/metrics'' = ''/metrics''" "TrimSpace ''/proc'' = ''/proc''" by code_simp+
  have "mf_metricsEnabled sample_flags" by (simp add: sample_flags_def metricsd_flag_defaults_def env_Bool_def)
  then show ?thesis
    by (simp add: metricsd_main_def New_def sample_config_eval default_names_valid metricsPath_def collectInterval_def MinCollectInterval_def
        new_mux_def mux_Handle_def HealthzPath_def ReadyzPath_def NewProcCgroupResolver_def trims sample_exporter_def HasPrefix_def)
qed

definition sample_running :: "(labels \<rightharpoonup> rat) metricsd" where
  "sample_running = (metricsd_start sample_exporter \<lparr>dir_exists = False, dir_entries = []\<rparr>)
     \<lparr>d_fetched := [engine_Snapshot (x_engine sample_exporter)]\<rparr>"

lemma sample_reached: "metricsd_reaches sample_gauges (metricsd_start sample_exporter \<lparr>dir_exists = False, dir_entries = []\<rparr>) sample_running"
  unfolding metricsd_reaches_def sample_running_def
  using metricsd_step.fetch [of sample_gauges "metricsd_start sample_exporter \<lparr>dir_exists = False, dir_entries = []\<rparr>"]
  by (auto simp: metricsd_start_def)

theorem exported_bounds_witness:
  "case gv_value sample_gauges (memoryBytes (x_runtime (d_exporter sample_running))) [] of Some v \<Rightarrow> 0 \<le> v \<and> v < 2 ^ 64 | None \<Rightarrow> True"
  using exported_bounds [OF sample_gauges_ok sample_serves sample_reached refl, of "[]"] by simp

theorem metricsd_wellformed_witness:
  "distinct (map podGPUKeyForMetric (Metrics (engine_Snapshot (x_engine (d_exporter sample_running)))))"
  using metricsd_wellformed [OF sample_gauges_ok sample_serves sample_reached refl refl] by simp


section \<open>From the custom resource to the sidecar\<close>

definition names_overrides :: "MetricNamesSpec option \<Rightarrow> MetricNames \<Rightarrow> MetricNames" where
  "names_overrides n m =
    (case n of
       None \<Rightarrow> m
     | Some n \<Rightarrow> m\<lparr>GPUMemoryUsedBytes := given (nonempty (mn_GPUMemoryUsedBytes n)) (GPUMemoryUsedBytes m),
         GPUSMUtilizationPercent := given (nonempty (mn_GPUSMUtilizationPercent n)) (GPUSMUtilizationPercent m),
         GPUSMUtilizationPercentNormalized :=
           given (nonempty (mn_GPUSMUtilizationPercentNormalized n)) (GPUSMUtilizationPercentNormalized m)\<rparr>)"

definition metricsd_overrides :: "MetricsAgentSpec \<Rightarrow> metricsd_flags \<Rightarrow> metricsd_flags" where
  "metricsd_overrides m f = f\<lparr>
     mf_logLevel := given (nonempty (ma_LogLevel m)) (mf_logLevel f),
     mf_address := given (nonempty (ma_Address m)) (mf_address f),
     mf_path := given (nonempty (ma_Path m)) (mf_path f),
     mf_metricNames := names_overrides (ma_MetricNames m) (mf_metricNames f)\<rparr>"

lemma metricsd_names:
  "plain_name ''log-level''" "plain_name ''metrics-address''" "plain_name ''metrics-path''"
  "plain_name ''metric-name-gpu-memory-used-bytes''" "plain_name ''metric-name-gpu-sm-utilization-percent''"
  "plain_name ''metric-name-gpu-sm-utilization-percent-normalized''"
  by (simp_all add: plain_name_def)

lemma metricsd_kinds:
  "is_bool (metricsd_flag_set t) ''log-level'' = Some False" "is_bool (metricsd_flag_set t) ''metrics-address'' = Some False"
  "is_bool (metricsd_flag_set t) ''metrics-path'' = Some False"
  "is_bool (metricsd_flag_set t) ''metric-name-gpu-memory-used-bytes'' = Some False"
  "is_bool (metricsd_flag_set t) ''metric-name-gpu-sm-utilization-percent'' = Some False"
  "is_bool (metricsd_flag_set t) ''metric-name-gpu-sm-utilization-percent-normalized'' = Some False"
  by (simp_all add: metricsd_flag_set_def)

lemma metricsd_set_opt:
  "set_opt (metricsd_flag_set t) ''log-level'' (nonempty l) f = Some (f\<lparr>mf_logLevel := given (nonempty l) (mf_logLevel f)\<rparr>)"
  "set_opt (metricsd_flag_set t) ''metrics-address'' (nonempty l) f = Some (f\<lparr>mf_address := given (nonempty l) (mf_address f)\<rparr>)"
  "set_opt (metricsd_flag_set t) ''metrics-path'' (nonempty l) f = Some (f\<lparr>mf_path := given (nonempty l) (mf_path f)\<rparr>)"
  "set_opt (metricsd_flag_set t) ''metric-name-gpu-memory-used-bytes'' (nonempty l) f =
    Some (map_names (\<lambda>m. m\<lparr>GPUMemoryUsedBytes := given (nonempty l) (GPUMemoryUsedBytes m)\<rparr>) f)"
  "set_opt (metricsd_flag_set t) ''metric-name-gpu-sm-utilization-percent'' (nonempty l) f =
    Some (map_names (\<lambda>m. m\<lparr>GPUSMUtilizationPercent := given (nonempty l) (GPUSMUtilizationPercent m)\<rparr>) f)"
  "set_opt (metricsd_flag_set t) ''metric-name-gpu-sm-utilization-percent-normalized'' (nonempty l) f =
    Some (map_names (\<lambda>m. m\<lparr>GPUSMUtilizationPercentNormalized := given (nonempty l) (GPUSMUtilizationPercentNormalized m)\<rparr>) f)"
  by (simp_all add: set_opt_def nonempty_def metricsd_flag_set_def map_names_def)

lemma metricsd_args_parse:
  assumes "metricsSpec d = Some m"
  shows "flag_parse (metricsd_flag_set t) (buildMetricsdArgs d) f = Inr (metricsd_overrides m f)"
proof -
  note opt = parse_opt_arg [OF metricsd_names(1) metricsd_kinds(1) metricsd_set_opt(1)]
    parse_opt_arg [OF metricsd_names(2) metricsd_kinds(2) metricsd_set_opt(2)]
    parse_opt_arg [OF metricsd_names(3) metricsd_kinds(3) metricsd_set_opt(3)]
    parse_opt_arg [OF metricsd_names(4) metricsd_kinds(4) metricsd_set_opt(4)]
    parse_opt_arg [OF metricsd_names(5) metricsd_kinds(5) metricsd_set_opt(5)]
    parse_opt_arg [OF metricsd_names(6) metricsd_kinds(6) metricsd_set_opt(6), where rest = "[]", simplified append_Nil2]
    parse_opt_arg [OF metricsd_names(3) metricsd_kinds(3) metricsd_set_opt(3), where rest = "[]", simplified append_Nil2]
  show ?thesis
    using assms by (cases "ma_MetricNames m")
      (simp_all add: buildMetricsdArgs_def opt metricsd_overrides_def names_overrides_def map_names_def)
qed

lemma metricsd_environment:
  "k \<notin> {''NVIDIA_VISIBLE_DEVICES'', ''NVIDIA_DRIVER_CAPABILITIES'', ''GODEBUG''} \<Longrightarrow>
    container_getenv (buildMetricsdContainer d opts) field (\<lambda>_. []) k = []"
  by (simp add: container_getenv_def buildMetricsdContainer_def FIPSOnlyEnv_def Let_def)

lemma metricsd_unset:
  assumes "\<And>k. k \<notin> {''NVIDIA_VISIBLE_DEVICES'', ''NVIDIA_DRIVER_CAPABILITIES'', ''GODEBUG''} \<Longrightarrow> ge k = []"
  shows "metricsd_flag_defaults pd ge = metricsd_flag_defaults pd (\<lambda>_. [])"
  using assms by (simp add: metricsd_flag_defaults_def env_String_def env_Bool_def env_Duration_def)

lemma Itoa_ne: "Itoa i \<noteq> []"
  by (simp add: Itoa_def)

lemma default_port: "SplitHostPort metricsd_defaultAddress = Some (Itoa metricsPort)"
proof -
  have digits: "digit_char (Suc 0) = CHR ''1''" "digit_char 2 = CHR ''2''" by code_simp+
  have "show_nat 2112 = ''2112''"
    by (simp add: digits show_nat.simps [of 2112] show_nat.simps [of 211] show_nat.simps [of 21] show_nat.simps [of 2])
  moreover have "SplitHostPort metricsd_defaultAddress = Some ''2112''" by code_simp
  ultimately show ?thesis by (simp add: Itoa_def FormatInt_def metricsPort_def)
qed

text \<open>
  C38: The metrics sidecar the operator builds runs with the configured values and is reachable.
  With metrics on, the sidecar is in the pod; its arguments are accepted; the log level, the address,
  the path and the metric names of the custom resource override the defaults; it reads the directory that
  fractiond writes, which is mounted; its probes target paths the exporter serves; and when the
  address has a decimal port in range, they target that port.
\<close>

theorem metricsd_configuration_reaches:
  assumes "metricsEnabled d" "metricsSpec d = Some m" and "c = buildMetricsdContainer d opts"
  shows "c \<in> set (Containers (fractiond_pod t d opts)) \<and>
    (\<exists>f. metricsd_parseFlags t (container_getenv c field (\<lambda>_. [])) (Args c) = Inr f \<and>
      mf_metricsEnabled f \<and> mf_logLevel f = given (nonempty (ma_LogLevel m)) ''info'' \<and>
      mf_address f = given (nonempty (ma_Address m)) metricsd_defaultAddress \<and>
      mf_path f = given (nonempty (ma_Path m)) DefaultPath \<and>
      cfg_Names (metricsd_config f) = WithDefaults (names_overrides (ma_MetricNames m)
        \<lparr>GPUMemoryUsedBytes = [], GPUSMUtilizationPercent = [], GPUSMUtilizationPercentNormalized = []\<rparr>) \<and>
      collectInterval (metricsd_config f) = DefaultCollectInterval \<and>
      mf_mapDir f \<in> MountPath ` set (VolumeMounts c) \<inter> MountPath ` set (VolumeMounts (fractiond_container t d opts)) \<and>
      handler (ReadinessProbe c) = HTTPGet ReadyzPath (metricsListenPort d) \<and>
      handler (LivenessProbe c) = HTTPGet HealthzPath (metricsListenPort d) \<and>
      (\<forall>p. SplitHostPort (mf_address f) = Some (Itoa p) \<and> 0 < p \<and> p \<le> 65535 \<longrightarrow> metricsListenPort d = p))"
proof -
  let ?def = "metricsd_flag_defaults (parse_duration t) (\<lambda>_. [])"
  define f where "f = metricsd_overrides m ?def"
  have parsed: "metricsd_parseFlags t (container_getenv c field (\<lambda>_. [])) (Args c) = Inr f"
    using metricsd_args_parse [OF assms(2)] metricsd_unset [OF metricsd_environment]
    by (simp add: metricsd_parseFlags_def f_def assms(3)) (simp add: buildMetricsdContainer_def Let_def)
  have dir: "mf_mapDir f = containerPodMapDir"
    by (simp add: f_def metricsd_overrides_def metricsd_flag_defaults_def env_String_def DefaultMapDir_def containerPodMapDir_def)
  have Atoi: "0 < p \<Longrightarrow> p \<le> 65535 \<Longrightarrow> Atoi (Itoa p) = Some p" for p
    by (simp add: Atoi_def Itoa_def in_int64_def min_int64_def max_int64_def)
  have addr: "mf_address f = given (nonempty (ma_Address m)) metricsd_defaultAddress"
    by (simp add: f_def metricsd_overrides_def metricsd_flag_defaults_def env_String_def)
  have port: "metricsListenPort d = p" if "SplitHostPort (mf_address f) = Some (Itoa p)" "0 < p" "p \<le> 65535" for p
    using that addr Atoi [of p] default_port assms(2) Itoa_ne [of p]
    by (cases "ma_Address m = []") (auto simp: metricsListenPort_def nonempty_def)
  have "c \<in> set (Containers (fractiond_pod t d opts))"
    using assms by (simp add: fractiond_pod_def fractiond_BuildDaemonSet_def applyMetricsSidecar_def buildFractiondContainer_def Let_def)
  moreover have "collectInterval (metricsd_config f) = DefaultCollectInterval" "mf_metricsEnabled f"
    "mf_logLevel f = given (nonempty (ma_LogLevel m)) ''info''" "mf_path f = given (nonempty (ma_Path m)) DefaultPath"
    "cfg_Names (metricsd_config f) = WithDefaults (names_overrides (ma_MetricNames m)
        \<lparr>GPUMemoryUsedBytes = [], GPUSMUtilizationPercent = [], GPUSMUtilizationPercentNormalized = []\<rparr>)"
    by (simp_all add: f_def metricsd_overrides_def metricsd_flag_defaults_def env_String_def env_Bool_def env_Duration_def metricsd_config_def
        collectInterval_def DefaultCollectInterval_def MinCollectInterval_def metricsd_defaultLogLevel_def)
  moreover have "mf_mapDir f \<in> MountPath ` set (VolumeMounts c) \<inter> MountPath ` set (VolumeMounts (fractiond_container t d opts))"
    using assms(1) by (simp add: dir assms(3) buildMetricsdContainer_def fractiond_container_simps metricsSharedVolume_def Let_def)
  moreover have "handler (ReadinessProbe c) = HTTPGet ReadyzPath (metricsListenPort d)" "handler (LivenessProbe c) = HTTPGet HealthzPath (metricsListenPort d)"
    by (simp_all add: assms(3) buildMetricsdContainer_def ReadyzPath_def HealthzPath_def Let_def)
  ultimately show ?thesis using parsed addr port by (intro conjI exI [of _ f] allI impI) (assumption | elim conjE | rule port)+
qed

definition sample_metrics :: MetricsAgentSpec where
  "sample_metrics = \<lparr>ma_Enabled = True, ma_LogLevel = [], ma_Address = ''0.0.0.0:80'', ma_Path = [], ma_Volumes = [],
     ma_VolumeMounts = [], ma_MetricNames = None\<rparr>"

theorem metricsd_configuration_reaches_witness:
  "let d = NewFractiondDaemon None (Some sample_metrics) False; c = buildMetricsdContainer d sample_options in
   (\<exists>f. metricsd_parseFlags sample_texts (container_getenv c (\<lambda>_. []) (\<lambda>_. [])) (Args c) = Inr f \<and> mf_address f = ''0.0.0.0:80'') \<and>
   metricsListenPort d = 80"
proof -
  let ?d = "NewFractiondDaemon None (Some sample_metrics) False"
  have split: "SplitHostPort ''0.0.0.0:80'' = Some (Itoa 80)" by code_simp
  have d: "metricsEnabled ?d" "metricsSpec ?d = Some sample_metrics" "nonempty (ma_Address sample_metrics) = Some ''0.0.0.0:80''"
    by (simp_all add: NewFractiondDaemon_def metricsEnabled_def sample_metrics_def nonempty_def)
  obtain f where f: "metricsd_parseFlags sample_texts (container_getenv (buildMetricsdContainer ?d sample_options) (\<lambda>_. []) (\<lambda>_. []))
      (Args (buildMetricsdContainer ?d sample_options)) = Inr f"
    and addr: "mf_address f = given (nonempty (ma_Address sample_metrics)) metricsd_defaultAddress"
    and port: "\<forall>p. SplitHostPort (mf_address f) = Some (Itoa p) \<and> 0 < p \<and> p \<le> 65535 \<longrightarrow> metricsListenPort ?d = p"
    using metricsd_configuration_reaches [OF d(1,2) refl, of sample_options sample_texts "\<lambda>_. []"]
    by (elim conjE exE) (rule that, assumption+)
  have "mf_address f = ''0.0.0.0:80''" using addr by (simp add: d(3))
  moreover have "metricsListenPort ?d = 80" using port split by (simp add: calculation)
  ultimately show ?thesis unfolding Let_def using f by (intro conjI exI [of _ f])
qed

end
