(* ===== verification/Imagelock_Catalog.thy ===== *)
theory Imagelock_Catalog
  imports Prelude "HOL-Library.Product_Lexorder"
begin

text \<open>
  Command imagelock, the catalog (hack/imagelock/catalog.go): the release matrix of profiles,
  images and platforms, its validation, and the plan that remains after the exclusions. YAML
  decoding and the reference syntax of the container registry are third-party code: the
  decoded catalog is an argument, and which repositories and tags are well-formed is the
  parameter \<open>reference_syntax\<close>.
\<close>

section \<open>Types\<close>

record platform =
  plat_OS :: string
  plat_Architecture :: string

definition platform_String :: "platform \<Rightarrow> string" where
  "platform_String p = plat_OS p @ ''/'' @ plat_Architecture p"

record catalogImage =
  ci_Name :: string

record catalogProfile =
  cp_Name :: string
  cp_TagTemplate :: string

record catalogExclusion =
  ex_Image :: string
  ex_Profile :: string
  ex_Platform :: string
  ex_Reason :: string

record imageCatalog =
  cat_APIVersion :: string
  cat_Name :: string
  cat_ArtifactName :: string
  cat_Repository :: string
  cat_Images :: "catalogImage list"
  cat_Profiles :: "catalogProfile list"
  cat_Platforms :: "platform list"
  cat_Exclude :: "catalogExclusion list"

record chartImage =
  ch_name :: string
  ch_repo :: string
  ch_tag :: string

record lockTarget =
  lt_profile :: string
  lt_platform :: platform

record plannedImage =
  pi_profile :: string
  pi_image :: chartImage
  pi_platforms :: "platform list"

record releasePlan =
  rp_targets :: "lockTarget list"
  rp_images :: "plannedImage list"
  rp_combinationCount :: nat

record reference_syntax =
  NewRepository_ok :: "string \<Rightarrow> bool"
  NewTag_ok :: "string \<Rightarrow> bool"

datatype catalog_error =
    ReadCatalog | ParseCatalog | BadAPIVersion string | BadCatalogName string | BadArtifactName string | TrailingSlash string
  | InvalidRepository string | NoEntries string | BadEntryName string string | DuplicateEntry string string
  | BadPlatform string | BadTemplate string | NoReason nat | EmptySelector nat string | UnknownSelector nat string string
  | DuplicateExclusion nat | InvalidReference string string | OverlappingExclusions string string string "nat list"
  | UnusedExclusion nat | ImageRemoved string | EmptyTarget string string
  | ExpectedTwice string | ImagesMismatch "string list" "string list" | ReadValues | ParseValues
  | RepositoryMismatch string string string

definition catalogAPIVersion :: string where "catalogAPIVersion = ''imagelock.kai-scheduler.io/v1alpha1''"
definition versionPlaceholder :: string where "versionPlaceholder = ''{{version}}''"
definition wildcardSelector :: string where "wildcardSelector = ''*''"

section \<open>Package strings and the name pattern\<close>

text \<open>\<^verbatim>\<open>strings.Count\<close> and \<^verbatim>\<open>strings.Replace\<close> of the first match, for a text that is not empty.\<close>

fun Count :: "string \<Rightarrow> string \<Rightarrow> nat" where
  "Count p [] = 0"
| "Count p (c # cs) = (if prefix p (c # cs) then Suc (Count p (drop (length p - 1) cs)) else Count p cs)"

fun Replace_first :: "string \<Rightarrow> string \<Rightarrow> string \<Rightarrow> string" where
  "Replace_first p r [] = []"
| "Replace_first p r (c # cs) = (if prefix p (c # cs) then r @ drop (length p) (c # cs) else c # Replace_first p r cs)"

definition lower_alnum :: "char \<Rightarrow> bool" where
  "lower_alnum c \<longleftrightarrow> is_digit c \<or> (let n = of_char c :: nat in 97 \<le> n \<and> n \<le> 122)"

text \<open>Groups of lower-case letters and digits, separated by single hyphens or dots.\<close>

definition name_groups :: "string \<Rightarrow> string list" where
  "name_groups s = concat (map (\<lambda>g. Split g CHR ''.'') (Split s CHR ''-''))"

definition catalogName :: "string \<Rightarrow> bool" where
  "catalogName s \<longleftrightarrow> list_all (\<lambda>g. g \<noteq> [] \<and> list_all lower_alnum g) (name_groups s)"

section \<open>Validation\<close>

definition imageNames :: "catalogImage list \<Rightarrow> string list" where
  "imageNames is = map ci_Name is"

definition profileNames :: "catalogProfile list \<Rightarrow> string list" where
  "profileNames ps = map cp_Name ps"

fun unique_names :: "string \<Rightarrow> string list \<Rightarrow> string set \<Rightarrow> (catalog_error, string set) result" where
  "unique_names kind [] unique = Inr unique"
| "unique_names kind (v # vs) unique =
    (if \<not> catalogName v then Inl (BadEntryName kind v)
     else if v \<in> unique then Inl (DuplicateEntry kind v)
     else unique_names kind vs (insert v unique))"

definition uniqueCatalogNames :: "string \<Rightarrow> string list \<Rightarrow> (catalog_error, string set) result" where
  "uniqueCatalogNames kind names = (if names = [] then Inl (NoEntries kind) else unique_names kind names {})"

fun unique_platform_loop :: "platform list \<Rightarrow> string set \<Rightarrow> (catalog_error, string set) result" where
  "unique_platform_loop [] unique = Inr unique"
| "unique_platform_loop (p # ps) unique =
    (if plat_OS p = [] \<or> plat_Architecture p = [] \<or> Contains (plat_OS p) ''/'' \<or> Contains (plat_Architecture p) ''/''
     then Inl (BadPlatform (platform_String p))
     else if platform_String p \<in> unique then Inl (DuplicateEntry ''platform'' (platform_String p))
     else unique_platform_loop ps (insert (platform_String p) unique))"

definition uniquePlatforms :: "platform list \<Rightarrow> (catalog_error, string set) result" where
  "uniquePlatforms ps = (if ps = [] then Inl (NoEntries ''platform'') else unique_platform_loop ps {})"

definition validateSelector :: "nat \<Rightarrow> string \<Rightarrow> string \<Rightarrow> string set \<Rightarrow> catalog_error option" where
  "validateSelector index kind selector known =
    (if selector = wildcardSelector then None
     else if selector = [] then Some (EmptySelector index kind)
     else if selector \<notin> known then Some (UnknownSelector index kind selector)
     else None)"

fun validate_templates :: "catalogProfile list \<Rightarrow> catalog_error option" where
  "validate_templates [] = None"
| "validate_templates (p # ps) =
    (if Count versionPlaceholder (cp_TagTemplate p) \<noteq> 1 then Some (BadTemplate (cp_Name p)) else validate_templates ps)"

definition exclusion_key :: "catalogExclusion \<Rightarrow> string" where
  "exclusion_key e = ex_Image e @ [CHR 0x00] @ ex_Profile e @ [CHR 0x00] @ ex_Platform e"

fun validate_exclusions ::
  "string set \<Rightarrow> string set \<Rightarrow> string set \<Rightarrow> nat \<Rightarrow> catalogExclusion list \<Rightarrow> string set \<Rightarrow> catalog_error option" where
  "validate_exclusions imgs profs plats index [] seen = None"
| "validate_exclusions imgs profs plats index (e # es) seen =
    (if TrimSpace (ex_Reason e) = [] then Some (NoReason index)
     else case validateSelector index ''image'' (ex_Image e) imgs of Some err \<Rightarrow> Some err | None \<Rightarrow>
       (case validateSelector index ''profile'' (ex_Profile e) profs of Some err \<Rightarrow> Some err | None \<Rightarrow>
         (case validateSelector index ''platform'' (ex_Platform e) plats of Some err \<Rightarrow> Some err | None \<Rightarrow>
           if exclusion_key e \<in> seen then Some (DuplicateExclusion index)
           else validate_exclusions imgs profs plats (Suc index) es (insert (exclusion_key e) seen))))"

definition validateCatalog :: "reference_syntax \<Rightarrow> imageCatalog \<Rightarrow> catalog_error option" where
  "validateCatalog rs c =
    (if cat_APIVersion c \<noteq> catalogAPIVersion then Some (BadAPIVersion (cat_APIVersion c))
     else if \<not> catalogName (cat_Name c) then Some (BadCatalogName (cat_Name c))
     else if \<not> catalogName (cat_ArtifactName c) then Some (BadArtifactName (cat_ArtifactName c))
     else if HasSuffix (cat_Repository c) ''/'' then Some (TrailingSlash (cat_Repository c))
     else if \<not> NewRepository_ok rs (cat_Repository c) then Some (InvalidRepository (cat_Repository c))
     else case uniqueCatalogNames ''image'' (imageNames (cat_Images c)) of Inl e \<Rightarrow> Some e | Inr imgs \<Rightarrow>
       (case uniqueCatalogNames ''profile'' (profileNames (cat_Profiles c)) of Inl e \<Rightarrow> Some e | Inr profs \<Rightarrow>
         (case uniquePlatforms (cat_Platforms c) of Inl e \<Rightarrow> Some e | Inr plats \<Rightarrow>
           (case validate_templates (cat_Profiles c) of Some e \<Rightarrow> Some e
            | None \<Rightarrow> validate_exclusions imgs profs plats 0 (cat_Exclude c) {}))))"

text \<open>\<^verbatim>\<open>loadCatalog\<close> on the content of the file, if it can be read, and its decoding.\<close>

definition loadCatalog ::
  "reference_syntax \<Rightarrow> (string \<Rightarrow> imageCatalog option) \<Rightarrow> string option \<Rightarrow> (catalog_error, imageCatalog) result" where
  "loadCatalog rs unmarshalStrict contents =
    (case contents of None \<Rightarrow> Inl ReadCatalog | Some data \<Rightarrow>
       (case unmarshalStrict data of None \<Rightarrow> Inl ParseCatalog | Some c \<Rightarrow>
          (case validateCatalog rs c of Some e \<Rightarrow> Inl e | None \<Rightarrow> Inr c)))"

section \<open>The release plan\<close>

definition selectorMatches :: "string \<Rightarrow> string \<Rightarrow> bool" where
  "selectorMatches selector v \<longleftrightarrow> selector = wildcardSelector \<or> selector = v"

definition matchingExclusions :: "catalogExclusion list \<Rightarrow> string \<Rightarrow> string \<Rightarrow> string \<Rightarrow> nat list" where
  "matchingExclusions es img prof plat =
    filter (\<lambda>i. selectorMatches (ex_Image (es ! i)) img \<and> selectorMatches (ex_Profile (es ! i)) prof \<and>
                selectorMatches (ex_Platform (es ! i)) plat) [0..<length es]"

record plan_state =
  matchedExclusions :: "nat list"
  targetImageCounts :: "(lockTarget, nat) gomap"
  imageCombinationCounts :: "(string, nat) gomap"
  planned :: "(string, plannedImage) gomap"
  combinationCount :: nat

definition count_of :: "('k, nat) gomap \<Rightarrow> 'k \<Rightarrow> nat" where
  "count_of m k = (case map_of m k of None \<Rightarrow> 0 | Some n \<Rightarrow> n)"

definition plan_key :: "string \<Rightarrow> string \<Rightarrow> string" where
  "plan_key prof img = prof @ [CHR 0x00] @ img"

text \<open>One combination that no exclusion covers. The order of the association list stands for the random order of
  Go's map iteration; the plan is sorted afterwards by a key that no two entries share.\<close>

definition plan_include :: "string \<Rightarrow> chartImage \<Rightarrow> platform \<Rightarrow> plan_state \<Rightarrow> plan_state" where
  "plan_include prof ch plat st =
    (let target = \<lparr>lt_profile = prof, lt_platform = plat\<rparr>; k = plan_key prof (ch_name ch);
         entry = (case map_of (planned st) k of
             None \<Rightarrow> \<lparr>pi_profile = prof, pi_image = ch, pi_platforms = []\<rparr> | Some e \<Rightarrow> e)
     in st\<lparr>targetImageCounts := AList.update target (count_of (targetImageCounts st) target + 1) (targetImageCounts st),
           imageCombinationCounts :=
             AList.update (ch_name ch) (count_of (imageCombinationCounts st) (ch_name ch) + 1) (imageCombinationCounts st),
           combinationCount := combinationCount st + 1,
           planned := AList.update k (entry\<lparr>pi_platforms := pi_platforms entry @ [plat]\<rparr>) (planned st)\<rparr>)"

fun platform_loop ::
  "catalogExclusion list \<Rightarrow> string \<Rightarrow> chartImage \<Rightarrow> platform list \<Rightarrow> plan_state \<Rightarrow> (catalog_error, plan_state) result" where
  "platform_loop es prof ch [] st = Inr st"
| "platform_loop es prof ch (p # ps) st =
    (case matchingExclusions es (ch_name ch) prof (platform_String p) of
       [] \<Rightarrow> platform_loop es prof ch ps (plan_include prof ch p st)
     | [i] \<Rightarrow> platform_loop es prof ch ps (st\<lparr>matchedExclusions := (matchedExclusions st)[i := matchedExclusions st ! i + 1]\<rparr>)
     | m \<Rightarrow> Inl (OverlappingExclusions (ch_name ch) prof (platform_String p) m))"

fun image_loop ::
  "reference_syntax \<Rightarrow> imageCatalog \<Rightarrow> string \<Rightarrow> string \<Rightarrow> catalogImage list \<Rightarrow> plan_state \<Rightarrow> (catalog_error, plan_state) result" where
  "image_loop rs c prof tag [] st = Inr st"
| "image_loop rs c prof tag (i # is) st =
    (let repository = cat_Repository c @ ''/'' @ ci_Name i in
     if \<not> NewTag_ok rs (repository @ '':'' @ tag) then Inl (InvalidReference prof (ci_Name i))
     else case platform_loop (cat_Exclude c) prof \<lparr>ch_name = ci_Name i, ch_repo = repository, ch_tag = tag\<rparr> (cat_Platforms c) st of
         Inl e \<Rightarrow> Inl e
       | Inr st \<Rightarrow> image_loop rs c prof tag is st)"

fun profile_loop ::
  "reference_syntax \<Rightarrow> imageCatalog \<Rightarrow> string \<Rightarrow> catalogProfile list \<Rightarrow> plan_state \<Rightarrow> (catalog_error, plan_state) result" where
  "profile_loop rs c version [] st = Inr st"
| "profile_loop rs c version (p # ps) st =
    (case image_loop rs c (cp_Name p) (Replace_first versionPlaceholder version (cp_TagTemplate p)) (cat_Images c) st of
       Inl e \<Rightarrow> Inl e
     | Inr st \<Rightarrow> profile_loop rs c version ps st)"

definition all_targets :: "imageCatalog \<Rightarrow> lockTarget list" where
  "all_targets c =
    concat (map (\<lambda>prof. map (\<lambda>plat. \<lparr>lt_profile = cp_Name prof, lt_platform = plat\<rparr>) (cat_Platforms c)) (cat_Profiles c))"

definition target_key :: "lockTarget \<Rightarrow> string \<times> string" where
  "target_key t = (lt_profile t, platform_String (lt_platform t))"

definition planned_key :: "plannedImage \<Rightarrow> string \<times> string" where
  "planned_key i = (pi_profile i, ch_name (pi_image i))"

definition buildReleasePlan :: "reference_syntax \<Rightarrow> imageCatalog \<Rightarrow> string \<Rightarrow> (catalog_error, releasePlan) result" where
  "buildReleasePlan rs c version =
    (case profile_loop rs c version (cat_Profiles c)
        \<lparr>matchedExclusions = replicate (length (cat_Exclude c)) 0, targetImageCounts = [], imageCombinationCounts = [],
         planned = [], combinationCount = 0\<rparr> of
       Inl e \<Rightarrow> Inl e
     | Inr st \<Rightarrow>
        (case find (\<lambda>i. matchedExclusions st ! i = 0) [0..<length (matchedExclusions st)] of
           Some i \<Rightarrow> Inl (UnusedExclusion i)
         | None \<Rightarrow>
            (case find (\<lambda>i. count_of (imageCombinationCounts st) (ci_Name i) = 0) (cat_Images c) of
               Some i \<Rightarrow> Inl (ImageRemoved (ci_Name i))
             | None \<Rightarrow>
                (case find (\<lambda>t. count_of (targetImageCounts st) t = 0) (all_targets c) of
                   Some t \<Rightarrow> Inl (EmptyTarget (lt_profile t) (platform_String (lt_platform t)))
                 | None \<Rightarrow>
                     Inr \<lparr>rp_targets = sort_key target_key (all_targets c), rp_images = sort_key planned_key (map snd (planned st)),
                          rp_combinationCount = combinationCount st\<rparr>))))"

section \<open>Cross-checks of the inventory\<close>

fun first_repeat :: "string list \<Rightarrow> string option" where
  "first_repeat (a # b # cs) = (if b = a then Some b else first_repeat (b # cs))"
| "first_repeat _ = None"

definition validateExpectedImages :: "imageCatalog \<Rightarrow> string list \<Rightarrow> catalog_error option" where
  "validateExpectedImages c expected =
    (if expected = [] then None
     else let want = sort expected; got = sort (imageNames (cat_Images c)) in
       case first_repeat want of
         Some w \<Rightarrow> Some (ExpectedTwice w)
       | None \<Rightarrow> if Join got [CHR 0x00] \<noteq> Join want [CHR 0x00] then Some (ImagesMismatch got want) else None)"

text \<open>The images of the chart values, by name, with their repositories, if they can be read and decoded.\<close>

definition validateChartValues ::
  "imageCatalog \<Rightarrow> string option \<Rightarrow> (string \<Rightarrow> (string, string) gomap option) \<Rightarrow> catalog_error option" where
  "validateChartValues c contents unmarshal =
    (case contents of None \<Rightarrow> Some ReadValues | Some data \<Rightarrow>
       (case unmarshal data of None \<Rightarrow> Some ParseValues | Some vals \<Rightarrow>
          (case validateExpectedImages c (map fst vals) of Some e \<Rightarrow> Some e | None \<Rightarrow>
             (let repo = (\<lambda>n. case map_of vals n of None \<Rightarrow> [] | Some r \<Rightarrow> r) in
              map_option (\<lambda>i. RepositoryMismatch (ci_Name i) (repo (ci_Name i)) (cat_Repository c @ ''/'' @ ci_Name i))
                (find (\<lambda>i. repo (ci_Name i) \<noteq> cat_Repository c @ ''/'' @ ci_Name i) (cat_Images c))))))"


section \<open>What the loops compute\<close>

text \<open>The combinations in the order of the loops, and the effect of one of them.\<close>

type_synonym combination = "string \<times> chartImage \<times> platform"

definition matches_of :: "catalogExclusion list \<Rightarrow> combination \<Rightarrow> nat list" where
  "matches_of es x = (case x of (prof, ch, p) \<Rightarrow> matchingExclusions es (ch_name ch) prof (platform_String p))"

definition target_of :: "combination \<Rightarrow> lockTarget" where
  "target_of x = (case x of (prof, ch, p) \<Rightarrow> \<lparr>lt_profile = prof, lt_platform = p\<rparr>)"

definition image_of :: "combination \<Rightarrow> string" where
  "image_of x = (case x of (prof, ch, p) \<Rightarrow> ch_name ch)"

definition plan_step :: "catalogExclusion list \<Rightarrow> combination \<Rightarrow> plan_state \<Rightarrow> plan_state" where
  "plan_step es x st =
    (case matches_of es x of
       [] \<Rightarrow> (case x of (prof, ch, p) \<Rightarrow> plan_include prof ch p st)
     | i # _ \<Rightarrow> st\<lparr>matchedExclusions := (matchedExclusions st)[i := matchedExclusions st ! i + 1]\<rparr>)"

definition chart_of :: "imageCatalog \<Rightarrow> string \<Rightarrow> catalogProfile \<Rightarrow> catalogImage \<Rightarrow> chartImage" where
  "chart_of c v prof i =
    \<lparr>ch_name = ci_Name i, ch_repo = cat_Repository c @ ''/'' @ ci_Name i,
     ch_tag = Replace_first versionPlaceholder v (cp_TagTemplate prof)\<rparr>"

definition image_group :: "imageCatalog \<Rightarrow> string \<Rightarrow> catalogProfile \<Rightarrow> catalogImage \<Rightarrow> combination list" where
  "image_group c v prof i = map (\<lambda>p. (cp_Name prof, chart_of c v prof i, p)) (cat_Platforms c)"

definition combinations_of :: "imageCatalog \<Rightarrow> string \<Rightarrow> catalogProfile list \<Rightarrow> combination list" where
  "combinations_of c v profs = concat (map (\<lambda>prof. concat (map (image_group c v prof) (cat_Images c))) profs)"

definition chart_reference :: "chartImage \<Rightarrow> string" where
  "chart_reference ch = ch_repo ch @ '':'' @ ch_tag ch"

lemma matching_cases:
  obtains "xs = []" | i where "xs = [i]" | i j ys where "xs = i # j # ys"
  by (metis list.exhaust)

lemma platform_loop_fold:
  "platform_loop es prof ch ps st = Inr st' \<longleftrightarrow>
   (\<forall>p \<in> set ps. length (matches_of es (prof, ch, p)) \<le> 1) \<and> st' = fold (plan_step es) (map (\<lambda>p. (prof, ch, p)) ps) st"
proof (induction ps arbitrary: st)
  case (Cons p ps)
  show ?case
    by (cases "matchingExclusions es (ch_name ch) prof (platform_String p)" rule: matching_cases)
       (auto simp: Cons matches_of_def plan_step_def)
qed auto

lemma chained_Inr: "(case r of Inl e \<Rightarrow> Inl e | Inr s \<Rightarrow> f s) = Inr t \<longleftrightarrow> (\<exists>s. r = Inr s \<and> f s = Inr t)"
  by (cases r) auto

lemma image_loop_fold:
  "image_loop rs c (cp_Name prof) (Replace_first versionPlaceholder v (cp_TagTemplate prof)) is st = Inr st' \<longleftrightarrow>
    (\<forall>i \<in> set is. NewTag_ok rs (chart_reference (chart_of c v prof i))) \<and>
    (\<forall>x \<in> set (concat (map (image_group c v prof) is)). length (matches_of (cat_Exclude c) x) \<le> 1) \<and>
    st' = fold (plan_step (cat_Exclude c)) (concat (map (image_group c v prof) is)) st"
proof (induction "is" arbitrary: st)
  case (Cons i "is")
  have group: "platform_loop (cat_Exclude c) (cp_Name prof) (chart_of c v prof i) (cat_Platforms c) st = Inr s1 \<longleftrightarrow>
      (\<forall>x \<in> set (image_group c v prof i). length (matches_of (cat_Exclude c) x) \<le> 1) \<and>
      s1 = fold (plan_step (cat_Exclude c)) (image_group c v prof i) st" for s1
    by (auto simp: platform_loop_fold image_group_def)
  have ref: "cat_Repository c @ ''/'' @ ci_Name i @ '':'' @ Replace_first versionPlaceholder v (cp_TagTemplate prof) =
      chart_reference (chart_of c v prof i)"
    by (simp add: chart_reference_def chart_of_def)
  show ?case
    by (simp only: image_loop.simps Let_def append_assoc ref flip: chart_of_def)
       (auto simp: chained_Inr group Cons.IH)
qed auto

lemma profile_loop_fold:
  "profile_loop rs c v profs st = Inr st' \<longleftrightarrow>
    (\<forall>prof \<in> set profs. \<forall>i \<in> set (cat_Images c). NewTag_ok rs (chart_reference (chart_of c v prof i))) \<and>
    (\<forall>x \<in> set (combinations_of c v profs). length (matches_of (cat_Exclude c) x) \<le> 1) \<and>
    st' = fold (plan_step (cat_Exclude c)) (combinations_of c v profs) st"
proof (induction profs arbitrary: st)
  case (Cons prof profs)
  have split: "combinations_of c v (prof # profs) = concat (map (image_group c v prof) (cat_Images c)) @ combinations_of c v profs"
    by (simp add: combinations_of_def)
  show ?case
    by (simp only: profile_loop.simps chained_Inr image_loop_fold Cons.IH split fold_append set_append ball_Un list.set ball_simps o_def) blast
qed (auto simp: combinations_of_def)


section \<open>The counters and the planned images\<close>

lemma count_of_update [simp]: "count_of (AList.update k n m) k' = (if k' = k then n else count_of m k')"
  by (simp add: count_of_def update_conv')

lemma plan_step_skip:
  "matches_of es x = i # ys \<Longrightarrow>
    plan_step es x st = st\<lparr>matchedExclusions := (matchedExclusions st)[i := matchedExclusions st ! i + 1]\<rparr>"
  by (simp add: plan_step_def)

lemma plan_step_include: "matches_of es (prof, ch, p) = [] \<Longrightarrow> plan_step es (prof, ch, p) st = plan_include prof ch p st"
  by (simp add: plan_step_def)

lemma combinationCount_fold:
  "combinationCount (fold (plan_step es) xs st) = combinationCount st + length (filter (\<lambda>x. matches_of es x = []) xs)"
proof (induction xs arbitrary: st)
  case (Cons x xs)
  then show ?case
    by (cases x; cases "matches_of es x") (simp_all add: plan_step_skip plan_step_include plan_include_def Let_def)
qed simp

lemma targetImageCounts_fold:
  "count_of (targetImageCounts (fold (plan_step es) xs st)) t =
    count_of (targetImageCounts st) t + length (filter (\<lambda>x. matches_of es x = [] \<and> target_of x = t) xs)"
proof (induction xs arbitrary: st)
  case (Cons x xs)
  then show ?case
    by (cases x; cases "matches_of es x") (auto simp: plan_step_skip plan_step_include plan_include_def Let_def target_of_def)
qed simp

lemma imageCombinationCounts_fold:
  "count_of (imageCombinationCounts (fold (plan_step es) xs st)) n =
    count_of (imageCombinationCounts st) n + length (filter (\<lambda>x. matches_of es x = [] \<and> image_of x = n) xs)"
proof (induction xs arbitrary: st)
  case (Cons x xs)
  then show ?case
    by (cases x; cases "matches_of es x") (auto simp: plan_step_skip plan_step_include plan_include_def Let_def image_of_def)
qed simp

lemma matches_of_bound: "i \<in> set (matches_of es x) \<Longrightarrow> i < length es"
  by (cases x) (auto simp: matches_of_def matchingExclusions_def)

lemma matchedExclusions_fold:
  assumes "length (matchedExclusions st) = length es"
  shows "length (matchedExclusions (fold (plan_step es) xs st)) = length es \<and>
    (\<forall>i < length es. matchedExclusions (fold (plan_step es) xs st) ! i =
       matchedExclusions st ! i + length (filter (\<lambda>x. \<exists>ys. matches_of es x = i # ys) xs))"
  using assms
proof (induction xs arbitrary: st)
  case (Cons x xs)
  show ?case
  proof (cases "matches_of es x")
    case Nil
    then have "matchedExclusions (plan_step es x st) = matchedExclusions st"
      by (cases x) (simp add: plan_step_include plan_include_def Let_def)
    then show ?thesis using Cons.IH [of "plan_step es x st"] Cons.prems Nil by simp
  next
    case (Cons j js)
    then have "j < length es" using matches_of_bound [of j es x] by simp
    then show ?thesis
      using Cons.IH [of "plan_step es x st"] Cons.prems Cons
      by (auto simp: plan_step_skip nth_list_update)
  qed
qed simp

text \<open>Over the platforms of one image, one entry with the platforms that no exclusion covers.\<close>

lemma planned_group_more:
  assumes "k \<notin> fst ` set ms" "k = plan_key prof (ch_name ch)" "planned st = ms @ [(k, e)]"
  shows "planned (fold (plan_step es) (map (\<lambda>p. (prof, ch, p)) ps) st) =
    ms @ [(k, e\<lparr>pi_platforms := pi_platforms e @ filter (\<lambda>p. matches_of es (prof, ch, p) = []) ps\<rparr>)]"
  using assms
proof (induction ps arbitrary: st e)
  case (Cons p ps)
  have upd: "AList.update k w (ms @ [(k, e)]) = ms @ [(k, w)]" for w
    using Cons.prems(1) by (induction ms) auto
  have look: "map_of (ms @ [(k, e)]) k = Some e"
    using map_of_eq_None_iff [of ms k] Cons.prems(1) by (simp add: map_add_def)
  show ?case
  proof (cases "matches_of es (prof, ch, p)")
    case Nil
    have "planned (plan_step es (prof, ch, p) st) = ms @ [(k, e\<lparr>pi_platforms := pi_platforms e @ [p]\<rparr>)]"
      using Cons.prems(2,3) upd look by (simp add: plan_step_include [OF Nil] plan_include_def Let_def)
    from Cons.IH [OF Cons.prems(1,2) this] show ?thesis using Nil by simp
  next
    case (Cons i ys)
    then have "planned (plan_step es (prof, ch, p) st) = ms @ [(k, e)]"
      using Cons.prems(3) by (simp add: plan_step_skip)
    from Cons.IH [OF Cons.prems(1,2) this] show ?thesis using Cons by simp
  qed
qed simp

lemma planned_group:
  assumes "plan_key prof (ch_name ch) \<notin> fst ` set (planned st)"
  shows "planned (fold (plan_step es) (map (\<lambda>p. (prof, ch, p)) ps) st) =
    planned st @ (let inc = filter (\<lambda>p. matches_of es (prof, ch, p) = []) ps in
      if inc = [] then [] else [(plan_key prof (ch_name ch), \<lparr>pi_profile = prof, pi_image = ch, pi_platforms = inc\<rparr>)])"
  using assms
proof (induction ps arbitrary: st)
  case (Cons p ps)
  let ?k = "plan_key prof (ch_name ch)"
  show ?case
  proof (cases "matches_of es (prof, ch, p)")
    case Nil
    have "planned (plan_step es (prof, ch, p) st) = planned st @ [(?k, \<lparr>pi_profile = prof, pi_image = ch, pi_platforms = [p]\<rparr>)]"
      using Cons.prems
      by (simp add: plan_step_include [OF Nil] plan_include_def Let_def update_fresh map_of_eq_None_iff [THEN iffD2])
    from planned_group_more [OF Cons.prems refl this] show ?thesis using Nil by (simp add: Let_def)
  next
    case (Cons i ys)
    then show ?thesis using Cons.IH [of "plan_step es (prof, ch, p) st"] Cons.prems by (simp add: plan_step_skip)
  qed
qed (simp add: Let_def)


section \<open>The plan of a valid catalog\<close>

definition covering :: "imageCatalog \<Rightarrow> catalogProfile \<Rightarrow> catalogImage \<Rightarrow> platform \<Rightarrow> nat list" where
  "covering c prof i p = matchingExclusions (cat_Exclude c) (ci_Name i) (cp_Name prof) (platform_String p)"

definition included_platforms :: "imageCatalog \<Rightarrow> catalogProfile \<Rightarrow> catalogImage \<Rightarrow> platform list" where
  "included_platforms c prof i = filter (\<lambda>p. covering c prof i p = []) (cat_Platforms c)"

definition planned_images :: "imageCatalog \<Rightarrow> string \<Rightarrow> plannedImage list" where
  "planned_images c v =
    map (\<lambda>(prof, i). \<lparr>pi_profile = cp_Name prof, pi_image = chart_of c v prof i, pi_platforms = included_platforms c prof i\<rparr>)
      (filter (\<lambda>(prof, i). included_platforms c prof i \<noteq> []) (List.product (cat_Profiles c) (cat_Images c)))"

definition release_plan :: "imageCatalog \<Rightarrow> string \<Rightarrow> releasePlan" where
  "release_plan c v =
    \<lparr>rp_targets = sort_key target_key (all_targets c), rp_images = sort_key planned_key (planned_images c v),
     rp_combinationCount =
       sum_list (map (\<lambda>(prof, i). length (included_platforms c prof i)) (List.product (cat_Profiles c) (cat_Images c)))\<rparr>"

text \<open>
  Every reference is a tag; no combination is covered twice; every exclusion covers something; every
  image is released somewhere; and every profile and platform has an image.
\<close>

definition releasable :: "reference_syntax \<Rightarrow> imageCatalog \<Rightarrow> string \<Rightarrow> bool" where
  "releasable rs c v \<longleftrightarrow>
    (\<forall>prof \<in> set (cat_Profiles c). \<forall>i \<in> set (cat_Images c). NewTag_ok rs (chart_reference (chart_of c v prof i))) \<and>
    (\<forall>prof \<in> set (cat_Profiles c). \<forall>i \<in> set (cat_Images c). \<forall>p \<in> set (cat_Platforms c). length (covering c prof i p) \<le> 1) \<and>
    (\<forall>k < length (cat_Exclude c). \<exists>prof \<in> set (cat_Profiles c). \<exists>i \<in> set (cat_Images c). \<exists>p \<in> set (cat_Platforms c).
       k \<in> set (covering c prof i p)) \<and>
    (\<forall>i \<in> set (cat_Images c). \<exists>prof \<in> set (cat_Profiles c). included_platforms c prof i \<noteq> []) \<and>
    (\<forall>prof \<in> set (cat_Profiles c). \<forall>p \<in> set (cat_Platforms c). \<exists>i \<in> set (cat_Images c). p \<in> set (included_platforms c prof i))"

lemma Split_covers: "x \<in> set t \<Longrightarrow> x \<noteq> d \<Longrightarrow> \<exists>g \<in> set (Split t d). x \<in> set g"
proof (induction t)
  case (Cons a t)
  then show ?case by (cases "Split t d") auto
qed simp

lemma catalogName_char:
  assumes "catalogName s" "x \<in> set s" "x \<noteq> CHR ''-''" "x \<noteq> CHR ''.''" shows "lower_alnum x"
proof -
  obtain g where g: "g \<in> set (Split s CHR ''-'')" "x \<in> set g" using Split_covers [OF assms(2,3)] by auto
  then obtain h where "h \<in> set (Split g CHR ''.'')" and h: "x \<in> set h" using Split_covers [OF g(2) assms(4)] by auto
  with g have "h \<in> set (name_groups s)" by (auto simp: name_groups_def)
  with assms(1) h show ?thesis by (simp add: catalogName_def list_all_iff)
qed

lemma catalogName_no_zero: "catalogName s \<Longrightarrow> CHR 0x00 \<notin> set s"
  using catalogName_char [of s "CHR 0x00"] by (auto simp: lower_alnum_def is_digit_def)

lemma catalogName_no_slash: "catalogName s \<Longrightarrow> CHR ''/'' \<notin> set s"
  using catalogName_char [of s "CHR ''/''"] by (auto simp: lower_alnum_def is_digit_def)

lemma plan_key_inject:
  assumes "CHR 0x00 \<notin> set p" "CHR 0x00 \<notin> set p'" "plan_key p i = plan_key p' i'" shows "p = p' \<and> i = i'"
  using assms Split_append [of "CHR 0x00" p i] Split_append [of "CHR 0x00" p' i'] by (auto simp: plan_key_def)

lemma unique_names_Inr: "unique_names kind ns u = Inr r \<Longrightarrow> distinct ns \<and> set ns \<inter> u = {} \<and> list_all catalogName ns \<and> r = u \<union> set ns"
  by (induction ns arbitrary: u) (auto split: if_splits)

lemma unique_platforms_Inr:
  "unique_platform_loop ps u = Inr r \<Longrightarrow> distinct (map platform_String ps) \<and> platform_String ` set ps \<inter> u = {} \<and>
    list_all (\<lambda>p. plat_OS p \<noteq> [] \<and> plat_Architecture p \<noteq> []) ps"
  by (induction ps arbitrary: u) (auto split: if_splits)

text \<open>What validation establishes.\<close>

lemma validateCatalog_None:
  assumes "validateCatalog rs c = None"
  shows "distinct (map ci_Name (cat_Images c))" "distinct (map cp_Name (cat_Profiles c))"
    "distinct (map platform_String (cat_Platforms c))"
    "\<forall>i \<in> set (cat_Images c). catalogName (ci_Name i)" "\<forall>p \<in> set (cat_Profiles c). catalogName (cp_Name p)"
    "cat_Images c \<noteq> []" "cat_Profiles c \<noteq> []" "cat_Platforms c \<noteq> []"
proof -
  from assms obtain ns ps ls where
    "uniqueCatalogNames ''image'' (imageNames (cat_Images c)) = Inr ns"
    "uniqueCatalogNames ''profile'' (profileNames (cat_Profiles c)) = Inr ps"
    "uniquePlatforms (cat_Platforms c) = Inr ls"
    unfolding validateCatalog_def by (auto split: if_splits sum.splits)
  then show "distinct (map ci_Name (cat_Images c))" "distinct (map cp_Name (cat_Profiles c))"
    "distinct (map platform_String (cat_Platforms c))"
    "\<forall>i \<in> set (cat_Images c). catalogName (ci_Name i)" "\<forall>p \<in> set (cat_Profiles c). catalogName (cp_Name p)"
    "cat_Images c \<noteq> []" "cat_Profiles c \<noteq> []" "cat_Platforms c \<noteq> []"
    by (auto simp: uniqueCatalogNames_def uniquePlatforms_def imageNames_def profileNames_def list_all_iff
        split: if_splits dest!: unique_names_Inr unique_platforms_Inr)
qed


lemma matches_of_chart [simp]: "matches_of (cat_Exclude c) (cp_Name prof, chart_of c v prof i, p) = covering c prof i p"
  by (simp add: matches_of_def covering_def chart_of_def)

lemma combinations_product:
  "combinations_of c v profs = concat (map (\<lambda>(prof, i). image_group c v prof i) (List.product profs (cat_Images c)))"
proof (induction profs)
  case (Cons prof profs)
  have "concat (map ((\<lambda>(prof, i). image_group c v prof i) \<circ> Pair prof) xs) = concat (map (image_group c v prof) xs)" for xs
    by (induction xs) auto
  with Cons show ?case by (simp add: combinations_of_def)
qed (simp add: combinations_of_def)

lemma set_combinations:
  "x \<in> set (combinations_of c v (cat_Profiles c)) \<longleftrightarrow>
    (\<exists>prof \<in> set (cat_Profiles c). \<exists>i \<in> set (cat_Images c). \<exists>p \<in> set (cat_Platforms c). x = (cp_Name prof, chart_of c v prof i, p))"
  by (auto simp: combinations_of_def image_group_def)

lemma ball_combinations:
  "(\<forall>x \<in> set (combinations_of c v (cat_Profiles c)). P x) \<longleftrightarrow>
    (\<forall>prof \<in> set (cat_Profiles c). \<forall>i \<in> set (cat_Images c). \<forall>p \<in> set (cat_Platforms c). P (cp_Name prof, chart_of c v prof i, p))"
  unfolding Ball_def set_combinations by blast

lemma bex_combinations:
  "(\<exists>x \<in> set (combinations_of c v (cat_Profiles c)). P x) \<longleftrightarrow>
    (\<exists>prof \<in> set (cat_Profiles c). \<exists>i \<in> set (cat_Images c). \<exists>p \<in> set (cat_Platforms c). P (cp_Name prof, chart_of c v prof i, p))"
  unfolding Bex_def set_combinations by blast

lemma planned_groups:
  assumes "distinct (map (\<lambda>(prof, i). plan_key (cp_Name prof) (ci_Name i)) gs)"
    and "\<forall>(prof, i) \<in> set gs. plan_key (cp_Name prof) (ci_Name i) \<notin> fst ` set (planned st)"
  shows "planned (fold (plan_step (cat_Exclude c)) (concat (map (\<lambda>(prof, i). image_group c v prof i) gs)) st) =
    planned st @ map (\<lambda>(prof, i). (plan_key (cp_Name prof) (ci_Name i),
        \<lparr>pi_profile = cp_Name prof, pi_image = chart_of c v prof i, pi_platforms = included_platforms c prof i\<rparr>))
      (filter (\<lambda>(prof, i). included_platforms c prof i \<noteq> []) gs)"
  using assms
proof (induction gs arbitrary: st)
  case (Cons g gs)
  obtain prof i where g: "g = (prof, i)" by (cases g)
  have name: "ch_name (chart_of c v prof i) = ci_Name i" by (simp add: chart_of_def)
  define st1 where "st1 = fold (plan_step (cat_Exclude c)) (image_group c v prof i) st"
  have st1: "planned st1 = planned st @ (if included_platforms c prof i = [] then [] else
      [(plan_key (cp_Name prof) (ci_Name i),
        \<lparr>pi_profile = cp_Name prof, pi_image = chart_of c v prof i, pi_platforms = included_platforms c prof i\<rparr>)])"
    unfolding st1_def image_group_def using Cons.prems(2) g name
    by (subst planned_group) (auto simp: Let_def included_platforms_def)
  have fresh: "\<forall>(prof, i) \<in> set gs. plan_key (cp_Name prof) (ci_Name i) \<notin> fst ` set (planned st1)"
    using Cons.prems unfolding st1 g by (force split: if_splits)
  show ?case
    using Cons.IH [OF _ fresh] Cons.prems(1) st1 by (simp add: g st1_def)
qed simp

lemma plan_keys_distinct:
  assumes "validateCatalog rs c = None"
  shows "distinct (map (\<lambda>(prof, i). plan_key (cp_Name prof) (ci_Name i)) (List.product (cat_Profiles c) (cat_Images c)))"
proof -
  note valid = validateCatalog_None [OF assms]
  have "inj_on (\<lambda>(prof, i). plan_key (cp_Name prof) (ci_Name i)) (set (cat_Profiles c) \<times> set (cat_Images c))"
  proof (rule inj_onI, clarify)
    fix prof i prof' i'
    assume el: "prof \<in> set (cat_Profiles c)" "i \<in> set (cat_Images c)" "prof' \<in> set (cat_Profiles c)" "i' \<in> set (cat_Images c)"
      and "plan_key (cp_Name prof) (ci_Name i) = plan_key (cp_Name prof') (ci_Name i')"
    then have "cp_Name prof = cp_Name prof' \<and> ci_Name i = ci_Name i'"
      using valid(5) by (intro plan_key_inject) (auto dest: catalogName_no_zero)
    then show "prof = prof' \<and> i = i'"
      using el valid(1,2) by (auto simp: distinct_map inj_on_def)
  qed
  then show ?thesis
    using valid(1,2) by (simp add: distinct_map distinct_product)
qed

lemma included_count:
  "length (filter (\<lambda>x. matches_of (cat_Exclude c) x = []) (concat (map (\<lambda>(prof, i). image_group c v prof i) gs))) =
   sum_list (map (\<lambda>(prof, i). length (included_platforms c prof i)) gs)"
  by (induction gs) (auto simp: image_group_def included_platforms_def filter_map o_def)


definition initial_plan :: "imageCatalog \<Rightarrow> plan_state" where
  "initial_plan c = \<lparr>matchedExclusions = replicate (length (cat_Exclude c)) 0, targetImageCounts = [], imageCombinationCounts = [],
     planned = [], combinationCount = 0\<rparr>"

definition final_plan :: "imageCatalog \<Rightarrow> string \<Rightarrow> plan_state" where
  "final_plan c v = fold (plan_step (cat_Exclude c)) (combinations_of c v (cat_Profiles c)) (initial_plan c)"

lemma count_of_Nil [simp]: "count_of [] k = 0"
  by (simp add: count_of_def)

lemma ch_name_chart [simp]: "ch_name (chart_of c v prof i) = ci_Name i"
  by (simp add: chart_of_def)

lemma final_target_zero:
  "count_of (targetImageCounts (final_plan c v)) t = 0 \<longleftrightarrow>
    \<not> (\<exists>prof \<in> set (cat_Profiles c). \<exists>i \<in> set (cat_Images c). \<exists>p \<in> set (included_platforms c prof i).
         t = \<lparr>lt_profile = cp_Name prof, lt_platform = p\<rparr>)"
  unfolding final_plan_def targetImageCounts_fold
  by (auto simp: initial_plan_def filter_empty_conv ball_combinations target_of_def included_platforms_def)

lemma final_image_zero:
  "count_of (imageCombinationCounts (final_plan c v)) n = 0 \<longleftrightarrow>
    \<not> (\<exists>prof \<in> set (cat_Profiles c). \<exists>i \<in> set (cat_Images c). included_platforms c prof i \<noteq> [] \<and> n = ci_Name i)"
  unfolding final_plan_def imageCombinationCounts_fold
  by (auto simp: initial_plan_def filter_empty_conv ball_combinations image_of_def included_platforms_def ch_name_chart)


lemma final_matched:
  "length (matchedExclusions (final_plan c v)) = length (cat_Exclude c)"
  "k < length (cat_Exclude c) \<Longrightarrow> matchedExclusions (final_plan c v) ! k = 0 \<longleftrightarrow>
    \<not> (\<exists>x \<in> set (combinations_of c v (cat_Profiles c)). \<exists>ys. matches_of (cat_Exclude c) x = k # ys)"
  using matchedExclusions_fold [of "initial_plan c" "cat_Exclude c" "combinations_of c v (cat_Profiles c)"]
  by (auto simp: final_plan_def initial_plan_def filter_empty_conv)

lemma single_match: "length xs \<le> 1 \<Longrightarrow> (\<exists>ys. xs = k # ys) \<longleftrightarrow> k \<in> set xs"
  by (cases xs) auto

lemma exclusions_used:
  assumes "\<forall>x \<in> set (combinations_of c v (cat_Profiles c)). length (matches_of (cat_Exclude c) x) \<le> 1"
  shows "find (\<lambda>i. matchedExclusions (final_plan c v) ! i = 0) [0..<length (matchedExclusions (final_plan c v))] = None \<longleftrightarrow>
    (\<forall>k < length (cat_Exclude c). \<exists>prof \<in> set (cat_Profiles c). \<exists>i \<in> set (cat_Images c). \<exists>p \<in> set (cat_Platforms c).
       k \<in> set (covering c prof i p))"
proof -
  have "(\<exists>x \<in> set (combinations_of c v (cat_Profiles c)). \<exists>ys. matches_of (cat_Exclude c) x = k # ys) \<longleftrightarrow>
      (\<exists>x \<in> set (combinations_of c v (cat_Profiles c)). k \<in> set (matches_of (cat_Exclude c) x))" for k
    using assms single_match by (metis (no_types, lifting))
  also have "\<dots> k \<longleftrightarrow> (\<exists>prof \<in> set (cat_Profiles c). \<exists>i \<in> set (cat_Images c). \<exists>p \<in> set (cat_Platforms c).
       k \<in> set (covering c prof i p))" for k
    by (simp add: bex_combinations)
  finally have "k < length (cat_Exclude c) \<Longrightarrow> matchedExclusions (final_plan c v) ! k \<noteq> 0 \<longleftrightarrow>
      (\<exists>prof \<in> set (cat_Profiles c). \<exists>i \<in> set (cat_Images c). \<exists>p \<in> set (cat_Platforms c). k \<in> set (covering c prof i p))" for k
    by (simp only: final_matched(2) not_not)
  then show ?thesis
    by (simp add: find_None_iff final_matched(1))
qed

lemma buildReleasePlan_final:
  "buildReleasePlan rs c v = Inr plan \<longleftrightarrow>
    (\<forall>prof \<in> set (cat_Profiles c). \<forall>i \<in> set (cat_Images c). NewTag_ok rs (chart_reference (chart_of c v prof i))) \<and>
    (\<forall>x \<in> set (combinations_of c v (cat_Profiles c)). length (matches_of (cat_Exclude c) x) \<le> 1) \<and>
    find (\<lambda>i. matchedExclusions (final_plan c v) ! i = 0) [0..<length (matchedExclusions (final_plan c v))] = None \<and>
    find (\<lambda>i. count_of (imageCombinationCounts (final_plan c v)) (ci_Name i) = 0) (cat_Images c) = None \<and>
    find (\<lambda>t. count_of (targetImageCounts (final_plan c v)) t = 0) (all_targets c) = None \<and>
    plan = \<lparr>rp_targets = sort_key target_key (all_targets c),
      rp_images = sort_key planned_key (map snd (planned (final_plan c v))), rp_combinationCount = combinationCount (final_plan c v)\<rparr>"
  unfolding buildReleasePlan_def initial_plan_def [symmetric] chained_Inr profile_loop_fold final_plan_def [symmetric]
  by (auto split: option.splits)

lemma final_planned:
  assumes "validateCatalog rs c = None"
  shows "map snd (planned (final_plan c v)) = planned_images c v"
proof -
  have "planned (initial_plan c) = []" by (simp add: initial_plan_def)
  then show ?thesis
    using planned_groups [OF plan_keys_distinct [OF assms], of "initial_plan c" c v]
    by (simp add: final_plan_def combinations_product planned_images_def o_def split_beta)
qed

lemma targets_filled:
  assumes "distinct (map cp_Name (cat_Profiles c))"
  shows "find (\<lambda>t. count_of (targetImageCounts (final_plan c v)) t = 0) (all_targets c) = None \<longleftrightarrow>
    (\<forall>prof \<in> set (cat_Profiles c). \<forall>p \<in> set (cat_Platforms c). \<exists>i \<in> set (cat_Images c). p \<in> set (included_platforms c prof i))"
proof -
  have same: "prof = prof'" if "prof \<in> set (cat_Profiles c)" "prof' \<in> set (cat_Profiles c)" "cp_Name prof = cp_Name prof'" for prof prof'
    using assms that by (auto simp: distinct_map inj_on_def)
  have zero: "count_of (targetImageCounts (final_plan c v)) \<lparr>lt_profile = cp_Name prof, lt_platform = p\<rparr> = 0 \<longleftrightarrow>
      \<not> (\<exists>i \<in> set (cat_Images c). p \<in> set (included_platforms c prof i))" if "prof \<in> set (cat_Profiles c)" for prof p
  proof -
    have "(\<exists>prof' \<in> set (cat_Profiles c). \<exists>i \<in> set (cat_Images c). \<exists>p' \<in> set (included_platforms c prof' i).
        \<lparr>lt_profile = cp_Name prof, lt_platform = p\<rparr> = \<lparr>lt_profile = cp_Name prof', lt_platform = p'\<rparr>) \<longleftrightarrow>
      (\<exists>i \<in> set (cat_Images c). p \<in> set (included_platforms c prof i))" (is "?l = ?r")
    proof
      assume ?l
      then obtain prof' i where "prof' \<in> set (cat_Profiles c)" "i \<in> set (cat_Images c)" "p \<in> set (included_platforms c prof' i)"
        "cp_Name prof = cp_Name prof'" by (auto simp: lockTarget.iffs)
      then show ?r using same [OF that] by auto
    next
      assume ?r
      then show ?l using that by auto
    qed
    then show ?thesis unfolding final_target_zero by (rule arg_cong)
  qed
  have "set (all_targets c) = (\<lambda>(prof, p). \<lparr>lt_profile = cp_Name prof, lt_platform = p\<rparr>) ` (set (cat_Profiles c) \<times> set (cat_Platforms c))"
    by (auto simp: all_targets_def)
  then show ?thesis
    unfolding find_None_iff using zero by auto
qed

lemma buildReleasePlan_spec:
  assumes "validateCatalog rs c = None"
  shows "buildReleasePlan rs c v = Inr plan \<longleftrightarrow> releasable rs c v \<and> plan = release_plan c v"
proof -
  note valid = validateCatalog_None [OF assms]
  have single: "(\<forall>x \<in> set (combinations_of c v (cat_Profiles c)). length (matches_of (cat_Exclude c) x) \<le> 1) \<longleftrightarrow>
      (\<forall>prof \<in> set (cat_Profiles c). \<forall>i \<in> set (cat_Images c). \<forall>p \<in> set (cat_Platforms c). length (covering c prof i p) \<le> 1)"
    by (simp add: ball_combinations)
  have images: "find (\<lambda>i. count_of (imageCombinationCounts (final_plan c v)) (ci_Name i) = 0) (cat_Images c) = None \<longleftrightarrow>
      (\<forall>i \<in> set (cat_Images c). \<exists>prof \<in> set (cat_Profiles c). included_platforms c prof i \<noteq> [])"
    unfolding find_None_iff final_image_zero not_not using inj_onD [OF distinct_map [THEN iffD1, OF valid(1), THEN conjunct2]]
    by blast
  have targets: "find (\<lambda>t. count_of (targetImageCounts (final_plan c v)) t = 0) (all_targets c) = None \<longleftrightarrow>
      (\<forall>prof \<in> set (cat_Profiles c). \<forall>p \<in> set (cat_Platforms c). \<exists>i \<in> set (cat_Images c). p \<in> set (included_platforms c prof i))"
    by (rule targets_filled [OF valid(2)])
  have total_count: "combinationCount (final_plan c v) = rp_combinationCount (release_plan c v)"
    by (simp add: final_plan_def combinationCount_fold combinations_product included_count release_plan_def initial_plan_def)
  show ?thesis
    unfolding buildReleasePlan_final images targets final_planned [OF assms] total_count releasable_def single [symmetric]
    using exclusions_used [of c v] by (auto simp: release_plan_def)
qed


section \<open>Property\<close>

text \<open>
  C34: the release plan of a valid catalog is exactly its matrix without the exclusions. A plan is
  built if and only if every reference is a tag, no combination is covered by two exclusions, no
  exclusion is unused, no image is excluded everywhere and no profile and platform is left without an
  image; and then it lists every profile and platform, each image of each profile with exactly the
  platforms no exclusion covers, in sorted order, and their number.
\<close>

theorem release_plan_exact:
  assumes "validateCatalog rs c = None"
  shows "buildReleasePlan rs c v = Inr plan \<longleftrightarrow> releasable rs c v \<and> plan = release_plan c v"
  using assms by (rule buildReleasePlan_spec)

definition sample_syntax :: reference_syntax where
  "sample_syntax = \<lparr>NewRepository_ok = (\<lambda>r. r \<noteq> []), NewTag_ok = (\<lambda>t. CHR '' '' \<notin> set t)\<rparr>"

definition sample_catalog :: imageCatalog where
  "sample_catalog =
    \<lparr>cat_APIVersion = catalogAPIVersion, cat_Name = ''gpu'', cat_ArtifactName = ''gpu-images'', cat_Repository = ''r.io/p'',
     cat_Images = [\<lparr>ci_Name = ''mpsd''\<rparr>, \<lparr>ci_Name = ''fractiond''\<rparr>],
     cat_Profiles = [\<lparr>cp_Name = ''standard'', cp_TagTemplate = ''{{version}}''\<rparr>, \<lparr>cp_Name = ''ubi'', cp_TagTemplate = ''{{version}}-ubi''\<rparr>],
     cat_Platforms = [\<lparr>plat_OS = ''linux'', plat_Architecture = ''arm64''\<rparr>, \<lparr>plat_OS = ''linux'', plat_Architecture = ''amd64''\<rparr>],
     cat_Exclude = [\<lparr>ex_Image = ''mpsd'', ex_Profile = ''ubi'', ex_Platform = ''*'', ex_Reason = ''no base image''\<rparr>]\<rparr>"

lemma sample_catalog_valid: "validateCatalog sample_syntax sample_catalog = None"
  by code_simp

theorem release_plan_exact_witness:
  "validateCatalog sample_syntax sample_catalog = None \<and> releasable sample_syntax sample_catalog ''v1.0.0'' \<and>
   map planned_key (rp_images (release_plan sample_catalog ''v1.0.0'')) =
     [(''standard'', ''fractiond''), (''standard'', ''mpsd''), (''ubi'', ''fractiond'')]"
proof -
  obtain plan where plan: "buildReleasePlan sample_syntax sample_catalog ''v1.0.0'' = Inr plan"
    and keys: "map planned_key (rp_images plan) =
      [(''standard'', ''fractiond''), (''standard'', ''mpsd''), (''ubi'', ''fractiond'')]"
  proof -
    have "case buildReleasePlan sample_syntax sample_catalog ''v1.0.0'' of Inl _ \<Rightarrow> False
      | Inr plan \<Rightarrow> map planned_key (rp_images plan) =
          [(''standard'', ''fractiond''), (''standard'', ''mpsd''), (''ubi'', ''fractiond'')]"
      by code_simp
    then show thesis using that by (auto split: sum.splits)
  qed
  show ?thesis
    using release_plan_exact [OF sample_catalog_valid, of "''v1.0.0''" plan] plan keys sample_catalog_valid by simp
qed

end
