(* ===== verification/Imagelock.thy ===== *)
theory Imagelock
  imports Imagelock_Catalog Goflag "HOL-Library.Multiset"
begin

text \<open>
  Command imagelock, the locks (hack/imagelock/main.go): the flags, the resolution of every planned
  image to digests, and the lock files, staged beside their final names and published by renaming.
  The registry client and YAML are third-party code: the registry is a parameter that answers the
  n-th request, and the decoder and encoder are functions of the environment. The output directory
  is an explicit map from paths to contents, and every system call may fail as a \<open>lock_io\<close> value
  says. Waiting between attempts is not modelled.
\<close>

section \<open>Options\<close>

definition lockAPIVersion :: string where "lockAPIVersion = ''artifacts.run.ai/v1alpha1''"
definition lockKind :: string where "lockKind = ''ImageLock''"
definition standardProfile :: string where "standardProfile = ''standard''"
definition verifyVersion :: string where "verifyVersion = ''v0.0.0-imagelock-verify''"
definition registryAttempts :: nat where "registryAttempts = 3"
definition defaultStabilityReads :: int where "defaultStabilityReads = 10"

definition hex_digit :: "char \<Rightarrow> bool" where
  "hex_digit c \<longleftrightarrow> is_digit c \<or> (let n = of_char c :: nat in 97 \<le> n \<and> n \<le> 102)"

definition sha256Digest :: "string \<Rightarrow> bool" where
  "sha256Digest s \<longleftrightarrow> HasPrefix s ''sha256:'' \<and> length (drop 7 s) = 64 \<and> list_all hex_digit (drop 7 s)"

text \<open>Three numbers without leading zeros, and optionally a pre-release of dot-separated groups after the first hyphen.\<close>

definition plain_number :: "string \<Rightarrow> bool" where
  "plain_number s \<longleftrightarrow> digits_only s \<and> (s = ''0'' \<or> hd s \<noteq> CHR ''0'')"

definition prerelease_char :: "char \<Rightarrow> bool" where
  "prerelease_char c \<longleftrightarrow> lower_alnum c \<or> c = CHR ''-'' \<or> (let n = of_char c :: nat in 65 \<le> n \<and> n \<le> 90)"

definition releaseVersion :: "string \<Rightarrow> bool" where
  "releaseVersion s =
    (case s of [] \<Rightarrow> False
     | c # rest \<Rightarrow> c = CHR ''v'' \<and>
        (case Cut rest CHR ''-'' of (core, pre, found) \<Rightarrow>
           length (Split core CHR ''.'') = 3 \<and> list_all plain_number (Split core CHR ''.'') \<and>
           (found \<longrightarrow> list_all (\<lambda>g. g \<noteq> [] \<and> list_all prerelease_char g) (Split pre CHR ''.''))))"

record options =
  opt_catalog :: string
  opt_chartValues :: string
  opt_version :: string
  opt_outDir :: string
  opt_verifyOnly :: bool
  opt_stabilityReads :: int
  opt_expectedImages :: "string list"

definition imagelock_flag_defaults :: options where
  "imagelock_flag_defaults =
    \<lparr>opt_catalog = ''catalog.yaml'', opt_chartValues = [], opt_version = [], opt_outDir = ''../../dist'',
     opt_verifyOnly = False, opt_stabilityReads = defaultStabilityReads, opt_expectedImages = []\<rparr>"

definition imagelock_flag_set :: "texts \<Rightarrow> options flag_set" where
  "imagelock_flag_set t =
    \<lparr>is_bool = map_of [(''catalog'', False), (''chart-values'', False), (''version'', False), (''out-dir'', False),
       (''verify-only'', True), (''stability-reads'', False), (''expected-image'', False)],
     set_value = (\<lambda>n v f.
       if n = ''catalog'' then Some (f\<lparr>opt_catalog := v\<rparr>)
       else if n = ''chart-values'' then Some (f\<lparr>opt_chartValues := v\<rparr>)
       else if n = ''version'' then Some (f\<lparr>opt_version := v\<rparr>)
       else if n = ''out-dir'' then Some (f\<lparr>opt_outDir := v\<rparr>)
       else if n = ''verify-only'' then map_option (\<lambda>b. f\<lparr>opt_verifyOnly := b\<rparr>) (ParseBool v)
       else if n = ''stability-reads'' then map_option (\<lambda>i. f\<lparr>opt_stabilityReads := i\<rparr>) (parse_int t v)
       else if n = ''expected-image'' then Some (f\<lparr>opt_expectedImages := opt_expectedImages f @ [v]\<rparr>)
       else None)\<rparr>"

datatype imagelock_error =
    FlagError flag_error | PositionalArguments "string list" | TooFewReads | VersionRequired | BadVersion string
  | CatalogError catalog_error | BadReference string | FetchFailed nat | DigestChanged string string | NotAnIndex
  | IndexUnreadable | NoManifest string | AmbiguousManifest string nat
  | BadIndexDigest string | MissingDigest string | BadDigest string string
  | EmptyLock string string | MarshalLock string string
  | CreateOutDir string | CreateStaged | ChmodStaged string | WriteStaged string | CloseStaged string | PublishLock string

definition imagelock_parseFlags :: "texts \<Rightarrow> string list \<Rightarrow> (imagelock_error, options) result" where
  "imagelock_parseFlags t args =
    (case flag_parse (imagelock_flag_set t) args imagelock_flag_defaults of
       Inl e \<Rightarrow> Inl (FlagError e)
     | Inr opts \<Rightarrow>
        if flag_args (imagelock_flag_set t) args \<noteq> [] then Inl (PositionalArguments (flag_args (imagelock_flag_set t) args))
        else if opt_stabilityReads opts < 1 then Inl TooFewReads
        else let opts = (if opt_verifyOnly opts \<and> opt_version opts = [] then opts\<lparr>opt_version := verifyVersion\<rparr> else opts) in
        if opt_version opts = [] then Inl VersionRequired
        else if \<not> releaseVersion (opt_version opts) then Inl (BadVersion (opt_version opts))
        else Inr opts)"

section \<open>Resolving tags to digests\<close>

record resolvedImage =
  ri_profile :: string
  ri_image :: chartImage
  ri_indexDigest :: string
  ri_digestPerPlatform :: "(platform, string) gomap"

text \<open>A descriptor of the registry: its digest, whether it is an index, and the manifests of the index if they can be read.\<close>

record descriptor =
  desc_Digest :: string
  desc_IsIndex :: bool
  desc_Manifests :: "(platform option \<times> string) list option"

record registry =
  ParseReference_ok :: "string \<Rightarrow> bool"
  remote_Get :: "nat \<Rightarrow> string \<Rightarrow> descriptor option"

fun fetch_attempts :: "registry \<Rightarrow> string \<Rightarrow> nat \<Rightarrow> nat \<Rightarrow> descriptor option \<times> nat" where
  "fetch_attempts reg ref 0 n = (None, n)"
| "fetch_attempts reg ref (Suc k) n =
    (case remote_Get reg n ref of Some d \<Rightarrow> (Some d, Suc n) | None \<Rightarrow> fetch_attempts reg ref k (Suc n))"

definition fetchDescriptor :: "registry \<Rightarrow> string \<Rightarrow> nat \<Rightarrow> (imagelock_error, descriptor) result \<times> nat" where
  "fetchDescriptor reg ref n =
    (case fetch_attempts reg ref registryAttempts n of
       (None, n) \<Rightarrow> (Inl (FetchFailed registryAttempts), n)
     | (Some d, n) \<Rightarrow> (Inr d, n))"

fun reread :: "registry \<Rightarrow> string \<Rightarrow> descriptor \<Rightarrow> nat \<Rightarrow> nat \<Rightarrow> (imagelock_error, descriptor) result \<times> nat" where
  "reread reg ref first 0 n = (Inr first, n)"
| "reread reg ref first (Suc k) n =
    (case fetchDescriptor reg ref n of
       (Inl e, n) \<Rightarrow> (Inl e, n)
     | (Inr again, n) \<Rightarrow>
        if desc_Digest again \<noteq> desc_Digest first then (Inl (DigestChanged (desc_Digest first) (desc_Digest again)), n)
        else reread reg ref first k n)"

definition resolveStableDescriptor :: "registry \<Rightarrow> string \<Rightarrow> int \<Rightarrow> nat \<Rightarrow> (imagelock_error, descriptor) result \<times> nat" where
  "resolveStableDescriptor reg ref reads n =
    (let reads = (if reads < 1 then defaultStabilityReads else reads) in
     case fetchDescriptor reg ref n of
       (Inl e, n) \<Rightarrow> (Inl e, n)
     | (Inr first, n) \<Rightarrow> reread reg ref first (nat (reads - 1)) n)"

definition platform_matches :: "(platform option \<times> string) list \<Rightarrow> platform \<Rightarrow> string list" where
  "platform_matches ms p = map snd (filter (\<lambda>(q, d). q = Some p) ms)"

fun digest_loop ::
  "(platform option \<times> string) list \<Rightarrow> platform list \<Rightarrow> (platform, string) gomap \<Rightarrow> (imagelock_error, (platform, string) gomap) result" where
  "digest_loop ms [] m = Inr m"
| "digest_loop ms (p # ps) m =
    (case platform_matches ms p of
       [] \<Rightarrow> Inl (NoManifest (platform_String p))
     | [d] \<Rightarrow> digest_loop ms ps (AList.update p d m)
     | ds \<Rightarrow> Inl (AmbiguousManifest (platform_String p) (length ds)))"

definition manifestDigestsPerPlatform ::
  "descriptor \<Rightarrow> platform list \<Rightarrow> (imagelock_error, (platform, string) gomap) result" where
  "manifestDigestsPerPlatform d platforms =
    (case desc_Manifests d of None \<Rightarrow> Inl IndexUnreadable | Some ms \<Rightarrow> digest_loop ms platforms [])"

type_synonym resolver =
  "string \<Rightarrow> platform list \<Rightarrow> nat \<Rightarrow> (imagelock_error, string \<times> (platform, string) gomap) result \<times> nat"

definition remote_resolve :: "registry \<Rightarrow> int \<Rightarrow> resolver" where
  "remote_resolve reg stabilityReads ref platforms n =
    (if \<not> ParseReference_ok reg ref then (Inl (BadReference ref), n)
     else case resolveStableDescriptor reg ref stabilityReads n of
       (Inl e, n) \<Rightarrow> (Inl e, n)
     | (Inr d, n) \<Rightarrow>
        if \<not> desc_IsIndex d then (Inl NotAnIndex, n)
        else case manifestDigestsPerPlatform d platforms of
            Inl e \<Rightarrow> (Inl e, n)
          | Inr m \<Rightarrow> (Inr (desc_Digest d, m), n))"

fun check_digests :: "(platform, string) gomap \<Rightarrow> platform list \<Rightarrow> imagelock_error option" where
  "check_digests m [] = None"
| "check_digests m (p # ps) =
    (case map_of m p of
       None \<Rightarrow> Some (MissingDigest (platform_String p))
     | Some d \<Rightarrow> if \<not> sha256Digest d then Some (BadDigest (platform_String p) d) else check_digests m ps)"

definition validateDigests :: "string \<Rightarrow> (platform, string) gomap \<Rightarrow> platform list \<Rightarrow> imagelock_error option" where
  "validateDigests indexDigest m expected =
    (if \<not> sha256Digest indexDigest then Some (BadIndexDigest indexDigest) else check_digests m expected)"

fun resolveImages ::
  "plannedImage list \<Rightarrow> resolver \<Rightarrow> nat \<Rightarrow> (imagelock_error, resolvedImage list) result \<times> nat" where
  "resolveImages [] resolve n = (Inr [], n)"
| "resolveImages (i # is) resolve n =
    (case resolve (chart_reference (pi_image i)) (pi_platforms i) n of
       (Inl e, n) \<Rightarrow> (Inl e, n)
     | (Inr (indexDigest, m), n) \<Rightarrow>
        (case validateDigests indexDigest m (pi_platforms i) of
           Some e \<Rightarrow> (Inl e, n)
         | None \<Rightarrow>
            (case resolveImages is resolve n of
               (Inl e, n) \<Rightarrow> (Inl e, n)
             | (Inr rs, n) \<Rightarrow>
                 (Inr (\<lparr>ri_profile = pi_profile i, ri_image = pi_image i, ri_indexDigest = indexDigest,
                        ri_digestPerPlatform = m\<rparr> # rs), n))))"

section \<open>Locks\<close>

record lockedImage =
  li_Name :: string
  li_Image :: string
  li_Source :: string
  li_IndexDigest :: string

record imageLock =
  lk_APIVersion :: string
  lk_Kind :: string
  lk_MetaName :: string
  lk_MetaVersion :: string
  lk_Profile :: string
  lk_Platform :: platform
  lk_Images :: "lockedImage list"

record lockOutput =
  lo_path :: string
  lo_yaml :: string

definition lock_entry :: "lockTarget \<Rightarrow> resolvedImage \<Rightarrow> lockedImage option" where
  "lock_entry target i =
    (if ri_profile i \<noteq> lt_profile target then None
     else case map_of (ri_digestPerPlatform i) (lt_platform target) of
         None \<Rightarrow> None
       | Some digest \<Rightarrow>
           Some \<lparr>li_Name = ch_name (ri_image i), li_Image = ch_repo (ri_image i) @ ''@'' @ digest,
                 li_Source = chart_reference (ri_image i), li_IndexDigest = ri_indexDigest i\<rparr>)"

definition buildLock :: "string \<Rightarrow> string \<Rightarrow> lockTarget \<Rightarrow> resolvedImage list \<Rightarrow> (imagelock_error, imageLock) result" where
  "buildLock name version target resolved =
    (let images = List.map_filter (lock_entry target) resolved in
     if images = [] then Inl (EmptyLock (lt_profile target) (platform_String (lt_platform target)))
     else Inr \<lparr>lk_APIVersion = lockAPIVersion, lk_Kind = lockKind, lk_MetaName = name, lk_MetaVersion = version,
               lk_Profile = lt_profile target, lk_Platform = lt_platform target, lk_Images = sort_key li_Name images\<rparr>)"

definition lockFileName :: "string \<Rightarrow> imageLock \<Rightarrow> string" where
  "lockFileName artifactName lock =
    (if lk_Profile lock = standardProfile
     then ''imagelock-'' @ artifactName @ ''-'' @ lk_MetaVersion lock @ ''-'' @ plat_OS (lk_Platform lock) @ ''-'' @
            plat_Architecture (lk_Platform lock) @ ''.yaml''
     else ''imagelock-'' @ artifactName @ ''-'' @ lk_MetaVersion lock @ ''-'' @ lk_Profile lock @ ''-'' @
            plat_OS (lk_Platform lock) @ ''-'' @ plat_Architecture (lk_Platform lock) @ ''.yaml'')"

fun marshalLocks ::
  "(imageLock \<Rightarrow> string option) \<Rightarrow> options \<Rightarrow> imageCatalog \<Rightarrow> lockTarget list \<Rightarrow> resolvedImage list \<Rightarrow>
   (imagelock_error, lockOutput list) result" where
  "marshalLocks marshal opts c [] resolved = Inr []"
| "marshalLocks marshal opts c (t # ts) resolved =
    (case buildLock (cat_Name c) (opt_version opts) t resolved of
       Inl e \<Rightarrow> Inl e
     | Inr lock \<Rightarrow>
        (case marshal lock of
           None \<Rightarrow> Inl (MarshalLock (lt_profile t) (platform_String (lt_platform t)))
         | Some y \<Rightarrow>
            (case marshalLocks marshal opts c ts resolved of
               Inl e \<Rightarrow> Inl e
             | Inr os \<Rightarrow>
                 Inr (\<lparr>lo_path = filepath_Join [opt_outDir opts, lockFileName (cat_ArtifactName c) lock], lo_yaml = y\<rparr> # os))))"

section \<open>Staging and publishing\<close>

text \<open>
  The files by path, and which system calls fail: by the index of the output for its staged file and
  its renaming, and by path for a removal. A failed write leaves some content behind.
\<close>

type_synonym files = "(string, string) gomap"

datatype stage_step = StageCreate | StageChmod | StageWrite | StageClose

record lock_io =
  lio_mkdirFails :: bool
  lio_stageFails :: "nat \<Rightarrow> stage_step \<Rightarrow> bool"
  lio_partial :: "nat \<Rightarrow> string"
  lio_renameFails :: "nat \<Rightarrow> bool"
  lio_removeFails :: "string \<Rightarrow> bool"
  lio_rand :: "nat \<Rightarrow> nat"

definition stagedName :: "string \<Rightarrow> nat \<Rightarrow> string" where
  "stagedName dir r = (if dir \<noteq> [] \<and> last dir = CHR ''/'' then dir else dir @ ''/'') @ ''.imagelock-'' @ show_nat r @ ''.tmp''"

definition remove_file :: "lock_io \<Rightarrow> string \<Rightarrow> files \<Rightarrow> files" where
  "remove_file io path fs = (if lio_removeFails io path then fs else AList.delete path fs)"

definition rename_file :: "string \<Rightarrow> string \<Rightarrow> files \<Rightarrow> files" where
  "rename_file a b fs = (case map_of fs a of None \<Rightarrow> fs | Some c \<Rightarrow> AList.update b c (AList.delete a fs))"

definition cleanupStaged :: "lock_io \<Rightarrow> string list \<Rightarrow> files \<Rightarrow> files" where
  "cleanupStaged io stagedPaths fs = fold (\<lambda>path fs. if path \<noteq> [] then remove_file io path fs else fs) stagedPaths fs"

fun stage_loop ::
  "lock_io \<Rightarrow> string \<Rightarrow> nat \<Rightarrow> lockOutput list \<Rightarrow> string list \<Rightarrow> files \<Rightarrow> imagelock_error option \<times> string list \<times> files" where
  "stage_loop io dir index [] stagedPaths fs = (None, stagedPaths, fs)"
| "stage_loop io dir index (output # outputs) stagedPaths fs =
    (if lio_stageFails io index StageCreate then (Some CreateStaged, stagedPaths, cleanupStaged io stagedPaths fs)
     else let staged = stagedName dir (lio_rand io index); stagedPaths = stagedPaths[index := staged];
              fs = AList.update staged [] fs in
     if lio_stageFails io index StageChmod then (Some (ChmodStaged staged), stagedPaths, cleanupStaged io stagedPaths fs)
     else if lio_stageFails io index StageWrite
       then (Some (WriteStaged staged), stagedPaths, cleanupStaged io stagedPaths (AList.update staged (lio_partial io index) fs))
     else let fs = AList.update staged (lo_yaml output) fs in
     if lio_stageFails io index StageClose then (Some (CloseStaged staged), stagedPaths, cleanupStaged io stagedPaths fs)
     else stage_loop io dir (Suc index) outputs stagedPaths fs)"

fun publish_loop ::
  "lock_io \<Rightarrow> nat \<Rightarrow> lockOutput list \<Rightarrow> string list \<Rightarrow> string list \<Rightarrow> files \<Rightarrow> imagelock_error option \<times> files" where
  "publish_loop io index [] stagedPaths publishedPaths fs = (None, fs)"
| "publish_loop io index (output # outputs) stagedPaths publishedPaths fs =
    (if lio_renameFails io index
     then (Some (PublishLock (lo_path output)), cleanupStaged io stagedPaths (fold (remove_file io) publishedPaths fs))
     else publish_loop io (Suc index) outputs (stagedPaths[index := []]) (publishedPaths @ [lo_path output])
            (rename_file (stagedPaths ! index) (lo_path output) fs))"

definition writeLocks ::
  "lock_io \<Rightarrow> (imageLock \<Rightarrow> string option) \<Rightarrow> options \<Rightarrow> imageCatalog \<Rightarrow> lockTarget list \<Rightarrow> resolvedImage list \<Rightarrow> files \<Rightarrow>
   imagelock_error option \<times> files" where
  "writeLocks io marshal opts c targets resolved fs =
    (case marshalLocks marshal opts c targets resolved of
       Inl e \<Rightarrow> (Some e, fs)
     | Inr outputs \<Rightarrow>
        if lio_mkdirFails io then (Some (CreateOutDir (opt_outDir opts)), fs)
        else case stage_loop io (opt_outDir opts) 0 outputs (replicate (length outputs) []) fs of
            (Some e, _, fs) \<Rightarrow> (Some e, fs)
          | (None, stagedPaths, fs) \<Rightarrow> publish_loop io 0 outputs stagedPaths [] fs)"

section \<open>The command\<close>

text \<open>The surroundings of a run: decoding, the files to read, the registry and the output directory's faults.\<close>

record imagelock_env =
  env_texts :: texts
  env_syntax :: reference_syntax
  env_ReadFile :: "string \<Rightarrow> string option"
  env_catalog :: "string \<Rightarrow> imageCatalog option"
  env_values :: "string \<Rightarrow> (string, string) gomap option"
  env_marshal :: "imageLock \<Rightarrow> string option"
  env_registry :: registry
  env_io :: lock_io

definition imagelock_run :: "imagelock_env \<Rightarrow> string list \<Rightarrow> files \<Rightarrow> imagelock_error option \<times> files" where
  "imagelock_run e args fs =
    (case imagelock_parseFlags (env_texts e) args of Inl err \<Rightarrow> (Some err, fs) | Inr opts \<Rightarrow>
      (case loadCatalog (env_syntax e) (env_catalog e) (env_ReadFile e (opt_catalog opts)) of
         Inl err \<Rightarrow> (Some (CatalogError err), fs) | Inr c \<Rightarrow>
        (case validateExpectedImages c (opt_expectedImages opts) of Some err \<Rightarrow> (Some (CatalogError err), fs) | None \<Rightarrow>
          (case (if opt_chartValues opts \<noteq> []
                 then validateChartValues c (env_ReadFile e (opt_chartValues opts)) (env_values e) else None) of
             Some err \<Rightarrow> (Some (CatalogError err), fs) | None \<Rightarrow>
            (case buildReleasePlan (env_syntax e) c (opt_version opts) of Inl err \<Rightarrow> (Some (CatalogError err), fs) | Inr plan \<Rightarrow>
              if opt_verifyOnly opts then (None, fs)
              else case fst (resolveImages (rp_images plan) (remote_resolve (env_registry e) (opt_stabilityReads opts)) 0) of
                  Inl err \<Rightarrow> (Some err, fs)
                | Inr resolved \<Rightarrow> writeLocks (env_io e) (env_marshal e) opts c (rp_targets plan) resolved fs)))))"


section \<open>What staging and publishing do to the files\<close>

lemma map_of_delete: "map_of (AList.delete k m) p = (if p = k then None else map_of m p)"
  by (simp add: delete_conv')

lemma map_of_rename:
  "map_of (rename_file a b fs) p =
    (case map_of fs a of None \<Rightarrow> map_of fs p | Some c \<Rightarrow> if p = b then Some c else if p = a then None else map_of fs p)"
  by (auto simp: rename_file_def update_conv' map_of_delete split: option.split)

lemma stagedName_ne [simp]: "stagedName dir r \<noteq> []"
  by (simp add: stagedName_def)

lemma map_of_remove_all:
  assumes "\<forall>p. \<not> lio_removeFails io p"
  shows "map_of (fold (remove_file io) ps fs) p = (if p \<in> set ps then None else map_of fs p)"
  by (induction ps arbitrary: fs) (auto simp: remove_file_def assms map_of_delete)

lemma map_of_cleanup:
  assumes "\<forall>p. \<not> lio_removeFails io p"
  shows "map_of (cleanupStaged io sp fs) p = (if p \<noteq> [] \<and> p \<in> set sp then None else map_of fs p)"
  unfolding cleanupStaged_def by (induction sp arbitrary: fs) (auto simp: remove_file_def assms map_of_delete)

text \<open>While a run goes on, it differs from the files before it only in the staged and the published ones.\<close>

definition run_inv :: "files \<Rightarrow> string list \<Rightarrow> string list \<Rightarrow> files \<Rightarrow> bool" where
  "run_inv fs0 sp published fs \<longleftrightarrow>
    (\<forall>p. (p = [] \<or> p \<notin> set sp) \<and> p \<notin> set published \<longrightarrow> map_of fs p = map_of fs0 p) \<and>
    (\<forall>p \<in> set sp. p = [] \<or> map_of fs0 p = None)"

lemma run_inv_cleanup:
  assumes "run_inv fs0 sp published fs" "\<forall>p. \<not> lio_removeFails io p"
  shows "map_of (cleanupStaged io sp (fold (remove_file io) published fs)) p = map_of fs0 p \<or>
    p \<in> set published \<and> map_of (cleanupStaged io sp (fold (remove_file io) published fs)) p = None"
  using assms by (auto simp: run_inv_def map_of_cleanup map_of_remove_all)

lemma run_inv_stage:
  assumes "run_inv fs0 sp published fs" "map_of fs0 t = None" "i < length sp" "sp ! i = []" "t \<noteq> []"
  shows "run_inv fs0 (sp[i := t]) published (AList.update t c fs)"
proof -
  have "p \<in> set sp \<Longrightarrow> p \<noteq> [] \<Longrightarrow> p \<in> set (sp[i := t])" for p
    using assms(3,4) by (metis in_set_conv_nth length_list_update nth_list_update_neq)
  moreover have "set (sp[i := t]) \<subseteq> insert t (set sp)" "t \<in> set (sp[i := t])"
    using assms(3) by (simp_all add: set_update_subset_insert set_update_memI)
  moreover from this(1) have "p \<in> set (sp[i := t]) \<Longrightarrow> p = t \<or> p \<in> set sp" for p by blast
  ultimately show ?thesis
    using assms(1,2,5) unfolding run_inv_def by (simp add: update_conv') metis
qed

lemma run_inv_write: "run_inv fs0 sp published fs \<Longrightarrow> t \<in> set sp \<Longrightarrow> t \<noteq> [] \<Longrightarrow> run_inv fs0 sp published (AList.update t c fs)"
  by (auto simp: run_inv_def update_conv')

lemma run_inv_publish:
  assumes "run_inv fs0 sp published fs" "i < length sp" "sp ! i \<noteq> []"
  shows "run_inv fs0 (sp[i := []]) (published @ [path]) (rename_file (sp ! i) path fs)"
proof -
  have staged: "map_of fs0 (sp ! i) = None" using assms by (auto simp: run_inv_def)
  have sub: "set (sp[i := []]) \<subseteq> insert [] (set sp)" by (rule set_update_subset_insert)
  have keep: "p \<in> set sp \<Longrightarrow> p \<noteq> sp ! i \<Longrightarrow> p \<in> set (sp[i := []])" for p
    by (metis in_set_conv_nth length_list_update nth_list_update_neq)
  show ?thesis
    unfolding run_inv_def
  proof (intro conjI allI impI ballI)
    fix p assume p: "(p = [] \<or> p \<notin> set (sp[i := []])) \<and> p \<notin> set (published @ [path])"
    show "map_of (rename_file (sp ! i) path fs) p = map_of fs0 p"
    proof (cases "p = sp ! i")
      case True
      then show ?thesis using p staged by (auto simp: map_of_rename split: option.split)
    next
      case False
      then have "p = [] \<or> p \<notin> set sp" using p keep by auto
      then show ?thesis using p False assms(1) by (auto simp: map_of_rename run_inv_def split: option.split)
    qed
  next
    fix p assume "p \<in> set (sp[i := []])"
    then show "p = [] \<or> map_of fs0 p = None" using sub assms(1) by (auto simp: run_inv_def)
  qed
qed


abbreviation staged_at :: "lock_io \<Rightarrow> string \<Rightarrow> nat \<Rightarrow> string" where
  "staged_at io dir j \<equiv> stagedName dir (lio_rand io j)"

lemma cleanup_inv:
  assumes "run_inv fs0 sp [] fs" "\<forall>p. \<not> lio_removeFails io p"
  shows "map_of (cleanupStaged io sp fs) p = map_of fs0 p"
  using run_inv_cleanup [OF assms] by auto

lemma stage_loop_inv:
  assumes "run_inv fs0 sp [] fs" "i + length outputs = length sp" "\<forall>j. i \<le> j \<and> j < length sp \<longrightarrow> sp ! j = []"
    and fresh: "\<forall>j. map_of fs0 (staged_at io dir j) = None"
  shows "stage_loop io dir i outputs sp fs = (err, sp', fs') \<Longrightarrow>
    (case err of
       Some _ \<Rightarrow> (\<forall>p. \<not> lio_removeFails io p) \<longrightarrow> map_of fs' = map_of fs0
     | None \<Rightarrow> run_inv fs0 sp' [] fs' \<and> length sp' = length sp \<and>
         (\<forall>j < length sp. sp' ! j = (if i \<le> j then staged_at io dir j else sp ! j)))"
  using assms(1-3)
proof (induction outputs arbitrary: i sp fs)
  case Nil
  then show ?case by auto
next
  case (Cons ot outputs)
  let ?t = "staged_at io dir i" and ?sp = "sp[i := staged_at io dir i]"
  have i: "i < length sp" "sp ! i = []" using Cons.prems by auto
  have inv: "run_inv fs0 ?sp [] (AList.update ?t content fs)" for content
    by (rule run_inv_stage) (use Cons.prems(2) fresh i in auto)
  have loop: "stage_loop io dir (Suc i) outputs ?sp (AList.update ?t (lo_yaml ot) fs) = (err, sp', fs')"
    if "\<forall>s. \<not> lio_stageFails io i s" using Cons.prems(1) that by (simp add: Let_def)
  have failed: "err \<noteq> None \<and> ((\<forall>p. \<not> lio_removeFails io p) \<longrightarrow> map_of fs' = map_of fs0)"
    if "\<not> (\<forall>s. \<not> lio_stageFails io i s)" 
  proof -
    have "lio_stageFails io i StageCreate \<or> lio_stageFails io i StageChmod \<or> lio_stageFails io i StageWrite \<or> lio_stageFails io i StageClose"
      using that by (metis stage_step.exhaust)
    then show ?thesis
      using Cons.prems(1) cleanup_inv [OF Cons.prems(2)] cleanup_inv [OF inv]
      by (auto simp: Let_def split: if_splits)
  qed
  show ?case
  proof (cases "\<forall>s. \<not> lio_stageFails io i s")
    case True
    have "\<forall>j. Suc i \<le> j \<and> j < length ?sp \<longrightarrow> ?sp ! j = []" "Suc i + length outputs = length ?sp"
      using Cons.prems by auto
    from Cons.IH [OF loop [OF True] inv this(2,1)] show ?thesis
      using i(1) by (auto split: option.splits simp: nth_list_update not_less_eq_eq le_antisym)
  next
    case False
    then show ?thesis using failed by (auto split: option.splits)
  qed
qed

lemma publish_loop_failed:
  assumes "run_inv fs0 sp published fs" "i + length outputs = length sp" "\<forall>j. i \<le> j \<and> j < length sp \<longrightarrow> sp ! j \<noteq> []"
    and "\<forall>p. \<not> lio_removeFails io p" "publish_loop io i outputs sp published fs = (Some e, fs')"
  shows "map_of fs' p = map_of fs0 p \<or> p \<in> set published \<union> lo_path ` set outputs \<and> map_of fs' p = None"
  using assms(1-3,5)
proof (induction outputs arbitrary: i sp published fs)
  case (Cons ot outputs)
  show ?case
  proof (cases "lio_renameFails io i")
    case True
    then show ?thesis using Cons.prems(4) run_inv_cleanup [OF Cons.prems(1) assms(4), of p] by auto
  next
    case False
    have i: "i < length sp" "sp ! i \<noteq> []" using Cons.prems by auto
    have "map_of fs' p = map_of fs0 p \<or> p \<in> set (published @ [lo_path ot]) \<union> lo_path ` set outputs \<and> map_of fs' p = None"
      by (rule Cons.IH [OF run_inv_publish [OF Cons.prems(1) i]]) (use Cons.prems False in auto)
    then show ?thesis by auto
  qed
qed simp


text \<open>\<^verbatim>\<open>os.CreateTemp\<close> makes new files: none of them was there, and no two are the same.\<close>

definition staging_fresh :: "lock_io \<Rightarrow> string \<Rightarrow> files \<Rightarrow> bool" where
  "staging_fresh io dir fs \<longleftrightarrow> inj (staged_at io dir) \<and> (\<forall>j. map_of fs (staged_at io dir j) = None)"

lemma stage_loop_contents:
  assumes "stage_loop io dir i outputs sp fs = (None, sp', fs')" "inj (staged_at io dir)"
  shows "(\<forall>j < length outputs. map_of fs' (staged_at io dir (i + j)) = Some (lo_yaml (outputs ! j))) \<and>
    (\<forall>p. p \<notin> staged_at io dir ` {i..<i + length outputs} \<longrightarrow> map_of fs' p = map_of fs p)"
  using assms(1)
proof (induction outputs arbitrary: i sp fs)
  case (Cons ot outputs)
  let ?t = "staged_at io dir i"
  from Cons.prems have loop: "stage_loop io dir (Suc i) outputs (sp[i := ?t]) (AList.update ?t (lo_yaml ot) fs) = (None, sp', fs')"
    by (auto simp: Let_def split: if_splits)
  note IH = Cons.IH [OF loop]
  have notin: "?t \<notin> staged_at io dir ` {Suc i..<Suc i + length outputs}"
    using assms(2) by (auto dest: injD)
  have range: "{i..<i + length (ot # outputs)} = insert i {Suc i..<Suc i + length outputs}" by auto
  show ?case
  proof (intro conjI allI impI)
    fix j assume j: "j < length (ot # outputs)"
    show "map_of fs' (staged_at io dir (i + j)) = Some (lo_yaml ((ot # outputs) ! j))"
    proof (cases j)
      case 0
      have "map_of fs' ?t = map_of (AList.update ?t (lo_yaml ot) fs) ?t" using IH notin by blast
      with 0 show ?thesis by (simp add: update_conv')
    next
      case (Suc k)
      then show ?thesis using IH j by auto
    qed
  next
    fix p assume "p \<notin> staged_at io dir ` {i..<i + length (ot # outputs)}"
    then have "p \<noteq> ?t" "p \<notin> staged_at io dir ` {Suc i..<Suc i + length outputs}" unfolding range by auto
    then show "map_of fs' p = map_of fs p" using IH by (simp add: update_conv')
  qed
qed simp

lemma publish_loop_contents:
  assumes "publish_loop io i outputs sp published fs = (None, fs')" "length sp = i + length outputs"
    and "\<forall>j < length outputs. sp ! (i + j) = nm (i + j) \<and> map_of fs (nm (i + j)) = Some (lo_yaml (outputs ! j))"
    and "inj nm" "range nm \<inter> lo_path ` set outputs = {}" "distinct (map lo_path outputs)"
  shows "(\<forall>ot \<in> set outputs. map_of fs' (lo_path ot) = Some (lo_yaml ot)) \<and>
    (\<forall>p. p \<notin> lo_path ` set outputs \<longrightarrow> map_of fs' p = (if p \<in> nm ` {i..<i + length outputs} then None else map_of fs p))"
  using assms(1-3,5,6)
proof (induction outputs arbitrary: i sp published fs)
  case (Cons ot outputs)
  let ?fs = "rename_file (nm i) (lo_path ot) fs"
  have first: "sp ! i = nm i" "map_of fs (nm i) = Some (lo_yaml ot)" using Cons.prems(3) [rule_format, of 0] by auto
  have ren: "map_of ?fs p = (if p = lo_path ot then Some (lo_yaml ot) else if p = nm i then None else map_of fs p)" for p
    using first(2) by (simp add: map_of_rename)
  from Cons.prems(1) first have loop: "publish_loop io (Suc i) outputs (sp[i := []]) (published @ [lo_path ot]) ?fs = (None, fs')"
    by (auto split: if_splits)
  have off: "nm k \<noteq> lo_path ot" for k using Cons.prems(4) rangeI [of nm k] by force
  have later: "\<forall>j < length outputs. sp[i := []] ! (Suc i + j) = nm (Suc i + j) \<and> map_of ?fs (nm (Suc i + j)) = Some (lo_yaml (outputs ! j))"
  proof (intro allI impI)
    fix j assume "j < length outputs"
    then have "sp ! (Suc i + j) = nm (Suc i + j)" "map_of fs (nm (Suc i + j)) = Some (lo_yaml (outputs ! j))"
      using Cons.prems(3) [rule_format, of "Suc j"] by auto
    moreover have "nm (Suc i + j) \<noteq> nm i" using assms(4) by (auto dest: injD)
    ultimately show "sp[i := []] ! (Suc i + j) = nm (Suc i + j) \<and> map_of ?fs (nm (Suc i + j)) = Some (lo_yaml (outputs ! j))"
      using off by (simp add: ren)
  qed
  have IH: "(\<forall>ot \<in> set outputs. map_of fs' (lo_path ot) = Some (lo_yaml ot)) \<and>
      (\<forall>p. p \<notin> lo_path ` set outputs \<longrightarrow> map_of fs' p = (if p \<in> nm ` {Suc i..<Suc i + length outputs} then None else map_of ?fs p))"
    by (rule Cons.IH [OF loop _ later]) (use Cons.prems in auto)
  have range: "{i..<i + length (ot # outputs)} = insert i {Suc i..<Suc i + length outputs}" by auto
  have own: "map_of fs' (lo_path ot) = Some (lo_yaml ot)"
  proof -
    have "lo_path ot \<notin> lo_path ` set outputs" using Cons.prems(5) by auto
    moreover have "lo_path ot \<notin> nm ` {Suc i..<Suc i + length outputs}" using off by (metis imageE)
    ultimately show ?thesis using IH by (simp add: ren)
  qed
  show ?case
    using IH own unfolding range by (auto simp: ren)
qed simp


section \<open>What resolving gives\<close>

text \<open>The registry served, under the reference, an index of this digest with this single manifest for the platform.\<close>

definition served :: "registry \<Rightarrow> string \<Rightarrow> string \<Rightarrow> platform \<Rightarrow> string \<Rightarrow> bool" where
  "served reg ref indexDigest p digest \<longleftrightarrow>
    (\<exists>n d ms. remote_Get reg n ref = Some d \<and> desc_IsIndex d \<and> desc_Digest d = indexDigest \<and>
       desc_Manifests d = Some ms \<and> platform_matches ms p = [digest])"

lemma fetch_attempts_Some: "fetch_attempts reg ref k n = (Some d, n') \<Longrightarrow> \<exists>m. remote_Get reg m ref = Some d"
  by (induction k arbitrary: n) (auto split: option.splits)

lemma fetchDescriptor_Inr: "fetchDescriptor reg ref n = (Inr d, n') \<Longrightarrow> \<exists>m. remote_Get reg m ref = Some d"
  by (auto simp: fetchDescriptor_def dest: fetch_attempts_Some split: prod.splits option.splits)

lemma reread_Inr: "reread reg ref first k n = (Inr d, n') \<Longrightarrow> d = first"
  by (induction k arbitrary: n) (auto split: prod.splits sum.splits if_splits)

lemma resolveStableDescriptor_Inr: "resolveStableDescriptor reg ref reads n = (Inr d, n') \<Longrightarrow> \<exists>m. remote_Get reg m ref = Some d"
  by (auto simp: resolveStableDescriptor_def Let_def dest: fetchDescriptor_Inr reread_Inr split: prod.splits sum.splits)

lemma digest_loop_Inr:
  "digest_loop ms ps m = Inr m' \<Longrightarrow>
    dom (map_of m') = dom (map_of m) \<union> set ps \<and>
    (\<forall>p d. map_of m' p = Some d \<longrightarrow> map_of m p = Some d \<or> platform_matches ms p = [d])"
proof (induction ps arbitrary: m)
  case (Cons p ps)
  show ?case
  proof (cases "platform_matches ms p" rule: matching_cases)
    case (2 d)
    then have "digest_loop ms ps (AList.update p d m) = Inr m'" using Cons.prems by simp
    from Cons.IH [OF this] show ?thesis
      using 2 by (auto simp: update_conv' split: if_splits)
  qed (use Cons.prems in auto)
qed auto

lemma remote_resolve_Inr:
  assumes "remote_resolve reg reads ref ps n = (Inr (indexDigest, m), n')"
  shows "dom (map_of m) = set ps" "\<forall>p d. map_of m p = Some d \<longrightarrow> served reg ref indexDigest p d"
proof -
  from assms obtain d ms n1 where d: "resolveStableDescriptor reg ref reads n = (Inr d, n1)" "desc_IsIndex d"
    "desc_Manifests d = Some ms" "digest_loop ms ps [] = Inr m" "indexDigest = desc_Digest d"
    by (auto simp: remote_resolve_def manifestDigestsPerPlatform_def split: if_splits prod.splits sum.splits option.splits)
  note loop = digest_loop_Inr [OF d(4)]
  then show "dom (map_of m) = set ps" by simp
  obtain k where "remote_Get reg k ref = Some d" using resolveStableDescriptor_Inr [OF d(1)] by blast
  then have "served reg ref indexDigest p x" if "platform_matches ms p = [x]" for p x
    unfolding served_def using d(2,3,5) that by blast
  then show "\<forall>p d. map_of m p = Some d \<longrightarrow> served reg ref indexDigest p d"
    using loop by simp
qed

lemma check_digests_None: "check_digests m ps = None \<Longrightarrow> p \<in> set ps \<Longrightarrow> \<exists>d. map_of m p = Some d \<and> sha256Digest d"
  by (induction ps) (auto split: option.splits if_splits)

text \<open>A resolved image has digests for exactly the planned platforms, all of them pinned.\<close>

definition resolves :: "registry \<Rightarrow> plannedImage \<Rightarrow> resolvedImage \<Rightarrow> bool" where
  "resolves reg i r \<longleftrightarrow>
    ri_profile r = pi_profile i \<and> ri_image r = pi_image i \<and> sha256Digest (ri_indexDigest r) \<and>
    dom (map_of (ri_digestPerPlatform r)) = set (pi_platforms i) \<and>
    (\<forall>p d. map_of (ri_digestPerPlatform r) p = Some d \<longrightarrow>
       sha256Digest d \<and> served reg (chart_reference (pi_image i)) (ri_indexDigest r) p d)"

lemma resolveImages_Inr:
  "resolveImages is (remote_resolve reg reads) n = (Inr rs, n') \<Longrightarrow> list_all2 (resolves reg) is rs"
proof (induction "is" arbitrary: n rs n')
  case (Cons i "is")
  from Cons.prems obtain ix m n1 rs' n2 where r:
    "remote_resolve reg reads (chart_reference (pi_image i)) (pi_platforms i) n = (Inr (ix, m), n1)"
    "validateDigests ix m (pi_platforms i) = None" "resolveImages is (remote_resolve reg reads) n1 = (Inr rs', n2)"
    "rs = \<lparr>ri_profile = pi_profile i, ri_image = pi_image i, ri_indexDigest = ix, ri_digestPerPlatform = m\<rparr> # rs'"
    by (auto split: prod.splits sum.splits option.splits)
  have sha: "sha256Digest ix" "check_digests m (pi_platforms i) = None"
    using r(2) by (auto simp: validateDigests_def split: if_splits)
  note res = remote_resolve_Inr [OF r(1)]
  have "sha256Digest d" if "map_of m p = Some d" for p d
    using check_digests_None [OF sha(2), of p] that res(1) by (metis domI option.inject)
  then show ?case
    using r(4) sha(1) res Cons.IH [OF r(3)] by (simp add: resolves_def)
qed simp


section \<open>File names\<close>

definition lock_path :: "options \<Rightarrow> imageCatalog \<Rightarrow> lockTarget \<Rightarrow> string" where
  "lock_path opts c t =
    filepath_Join [opt_outDir opts, lockFileName (cat_ArtifactName c)
      \<lparr>lk_APIVersion = lockAPIVersion, lk_Kind = lockKind, lk_MetaName = cat_Name c, lk_MetaVersion = opt_version opts,
       lk_Profile = lt_profile t, lk_Platform = lt_platform t, lk_Images = []\<rparr>]"

lemma buildLock_path:
  "buildLock (cat_Name c) (opt_version opts) t rs = Inr lock \<Longrightarrow>
    filepath_Join [opt_outDir opts, lockFileName (cat_ArtifactName c) lock] = lock_path opts c t"
  by (auto simp: buildLock_def lock_path_def lockFileName_def Let_def split: if_splits)

lemma marshalLocks_Inr:
  "marshalLocks marshal opts c ts rs = Inr outputs \<Longrightarrow>
    list_all2 (\<lambda>t ot. lo_path ot = lock_path opts c t \<and>
      (\<exists>lock. buildLock (cat_Name c) (opt_version opts) t rs = Inr lock \<and> marshal lock = Some (lo_yaml ot))) ts outputs"
  by (induction ts arbitrary: outputs) (auto simp: buildLock_path split: sum.splits option.splits)

text \<open>The parts of a file name hold no slash, and those of the platform no hyphen.\<close>

lemma Cut_parts: "Cut s x = (b, a, found) \<Longrightarrow> s = (if found then b @ x # a else b)"
  by (induction s arbitrary: b) (auto split: if_splits prod.splits)

lemma releaseVersion_chars:
  assumes "releaseVersion v" shows "CHR ''/'' \<notin> set v"
proof
  assume slash: "CHR ''/'' \<in> set v"
  from assms obtain rest where v: "v = CHR ''v'' # rest" by (auto simp: releaseVersion_def split: list.splits)
  obtain core pre found where cut: "Cut rest CHR ''-'' = (core, pre, found)" by (metis prod_cases3)
  have core: "list_all plain_number (Split core CHR ''.'')"
    and pre: "found \<Longrightarrow> list_all (\<lambda>g. g \<noteq> [] \<and> list_all prerelease_char g) (Split pre CHR ''.'')"
    using assms v cut by (auto simp: releaseVersion_def)
  have "CHR ''/'' \<in> set core \<or> found \<and> CHR ''/'' \<in> set pre"
    using slash v Cut_parts [OF cut] by (auto split: if_splits)
  then obtain g where "CHR ''/'' \<in> set g" "list_all is_digit g \<or> list_all prerelease_char g"
    using Split_covers [of "CHR ''/''" core "CHR ''.''"] Split_covers [of "CHR ''/''" pre "CHR ''.''"] core pre
    by (auto simp: list_all_iff plain_number_def digits_only_def)
  then show False by (auto simp: list_all_iff is_digit_def prerelease_char_def lower_alnum_def)
qed

definition bare_platform :: "platform \<Rightarrow> bool" where
  "bare_platform p \<longleftrightarrow> CHR ''-'' \<notin> set (plat_OS p) \<and> CHR ''-'' \<notin> set (plat_Architecture p)"

definition name_tail :: "lockTarget \<Rightarrow> string" where
  "name_tail t = (if lt_profile t = standardProfile then [] else lt_profile t @ ''-'') @
     plat_OS (lt_platform t) @ ''-'' @ plat_Architecture (lt_platform t)"

lemma Split_name_tail:
  assumes "bare_platform (lt_platform t)"
  shows "Split (name_tail t) CHR ''-'' =
    (if lt_profile t = standardProfile then [] else Split (lt_profile t) CHR ''-'') @
    [plat_OS (lt_platform t), plat_Architecture (lt_platform t)]"
  using assms by (auto simp: name_tail_def bare_platform_def Split_app)

lemma name_tail_inj:
  assumes "bare_platform (lt_platform t)" "bare_platform (lt_platform t')" "name_tail t = name_tail t'" shows "t = t'"
proof -
  have inj: "Split a x = Split b x \<Longrightarrow> a = b" for a b x by (metis Join_Split)
  have "lt_profile t = lt_profile t' \<and> plat_OS (lt_platform t) = plat_OS (lt_platform t') \<and>
      plat_Architecture (lt_platform t) = plat_Architecture (lt_platform t')"
    using Split_name_tail [OF assms(1)] Split_name_tail [OF assms(2)] assms(3)
    by (auto split: if_splits dest: inj sym [of "[]"])
  then show ?thesis by (cases t; cases t'; cases "lt_platform t"; cases "lt_platform t'") simp
qed


lemma Contains_char: "Contains s [x] \<longleftrightarrow> x \<in> set s"
  by (auto simp: Contains_def sublist_def in_set_conv_decomp)

lemma unique_platforms_bare:
  "unique_platform_loop ps u = Inr r \<Longrightarrow> p \<in> set ps \<Longrightarrow> CHR ''/'' \<notin> set (plat_OS p) \<and> CHR ''/'' \<notin> set (plat_Architecture p)"
  by (induction ps arbitrary: u) (auto simp: Contains_char split: if_splits)

lemma validateCatalog_names:
  assumes "validateCatalog rs c = None"
  shows "CHR ''/'' \<notin> set (cat_ArtifactName c)"
    "p \<in> set (cat_Platforms c) \<Longrightarrow> CHR ''/'' \<notin> set (plat_OS p) \<and> CHR ''/'' \<notin> set (plat_Architecture p)"
proof -
  from assms have "catalogName (cat_ArtifactName c)" and "\<exists>ls. uniquePlatforms (cat_Platforms c) = Inr ls"
    unfolding validateCatalog_def by (simp_all split: if_splits sum.splits)
  then show "CHR ''/'' \<notin> set (cat_ArtifactName c)"
    "p \<in> set (cat_Platforms c) \<Longrightarrow> CHR ''/'' \<notin> set (plat_OS p) \<and> CHR ''/'' \<notin> set (plat_Architecture p)"
    using catalogName_no_slash unique_platforms_bare [of "cat_Platforms c"] by (auto simp: uniquePlatforms_def split: if_splits)
qed

definition lock_file :: "options \<Rightarrow> imageCatalog \<Rightarrow> lockTarget \<Rightarrow> string" where
  "lock_file opts c t = ''imagelock-'' @ cat_ArtifactName c @ ''-'' @ opt_version opts @ ''-'' @ name_tail t @ ''.yaml''"

lemma lock_path_file: "lock_path opts c t = filepath_Join [opt_outDir opts, lock_file opts c t]"
  by (simp add: lock_path_def lockFileName_def lock_file_def name_tail_def)

lemma set_all_targets: "t \<in> set (all_targets c) \<longleftrightarrow> (\<exists>prof \<in> set (cat_Profiles c). \<exists>p \<in> set (cat_Platforms c). t = \<lparr>lt_profile = cp_Name prof, lt_platform = p\<rparr>)"
  by (auto simp: all_targets_def)

lemma lock_file_plain:
  assumes "validateCatalog rs c = None" "releaseVersion (opt_version opts)" "t \<in> set (all_targets c)"
  shows "plain_file (lock_file opts c t)"
proof -
  obtain prof p where t: "prof \<in> set (cat_Profiles c)" "p \<in> set (cat_Platforms c)" "t = \<lparr>lt_profile = cp_Name prof, lt_platform = p\<rparr>"
    using assms(3) by (auto simp: set_all_targets)
  have "CHR ''/'' \<notin> set (cp_Name prof)" using validateCatalog_None(5) [OF assms(1)] t(1) catalogName_no_slash by auto
  then show ?thesis
    using validateCatalog_names(1) [OF assms(1)] validateCatalog_names(2) [OF assms(1) t(2)] releaseVersion_chars [OF assms(2)]
    by (simp add: plain_file_def lock_file_def name_tail_def t(3))
qed

lemma lock_path_inj:
  assumes "validateCatalog rs c = None" "releaseVersion (opt_version opts)" "\<forall>p \<in> set (cat_Platforms c). bare_platform p"
    and "t \<in> set (all_targets c)" "t' \<in> set (all_targets c)" "lock_path opts c t = lock_path opts c t'"
  shows "t = t'"
proof -
  have "last (Split (lock_path opts c t) CHR ''/'') = lock_file opts c t" "last (Split (lock_path opts c t') CHR ''/'') = lock_file opts c t'"
    unfolding lock_path_file by (rule last_filepath_Join, rule lock_file_plain, fact+)+
  then have "lock_file opts c t = lock_file opts c t'" using assms(6) by simp
  then have "name_tail t = name_tail t'" by (simp add: lock_file_def)
  moreover have "bare_platform (lt_platform t)" "bare_platform (lt_platform t')" using assms(3-5) by (auto simp: set_all_targets)
  ultimately show ?thesis using name_tail_inj by blast
qed

lemma staged_not_lock:
  assumes "validateCatalog rs c = None" "releaseVersion (opt_version opts)" "t \<in> set (all_targets c)"
  shows "stagedName dir r \<noteq> lock_path opts c t"
proof -
  let ?n = "''.imagelock-'' @ show_nat r @ ''.tmp''"
  have "CHR ''/'' \<notin> set ?n" using show_nat_digits [of r] by (auto simp: list_all_iff is_digit_def)
  then have last: "last (Split (d @ CHR ''/'' # ?n) CHR ''/'') = ?n" for d by (simp add: Split_app)
  have "\<exists>d. stagedName dir r = d @ CHR ''/'' # ?n"
    by (cases dir rule: rev_cases) (auto simp: stagedName_def)
  then have "last (Split (stagedName dir r) CHR ''/'') = ?n" using last by metis
  moreover have "last (Split (lock_path opts c t) CHR ''/'') = lock_file opts c t"
    unfolding lock_path_file by (rule last_filepath_Join [OF lock_file_plain [OF assms]])
  ultimately show ?thesis by (auto simp: lock_file_def)
qed

section \<open>What a lock holds\<close>

lemma lock_entries:
  assumes "list_all2 (resolves reg) is rs"
  shows "map li_Name (List.map_filter (lock_entry t) rs) =
      map (\<lambda>i. ch_name (pi_image i)) (filter (\<lambda>i. pi_profile i = lt_profile t \<and> lt_platform t \<in> set (pi_platforms i)) is)"
  using assms
proof (induction rule: list_all2_induct)
  case (Cons i "is" r rs)
  then have dom: "lt_platform t \<in> set (pi_platforms i) \<longleftrightarrow> (\<exists>d. map_of (ri_digestPerPlatform r) (lt_platform t) = Some d)"
    by (auto simp: resolves_def dom_def set_eq_iff)
  show ?case
    using Cons dom by (auto simp: lock_entry_def map_filter_simps resolves_def split: option.splits)
qed (simp add: map_filter_simps)

lemma lock_entry_pinned:
  assumes "list_all2 (resolves reg) is rs" "x \<in> set (List.map_filter (lock_entry t) rs)"
  shows "\<exists>i \<in> set is. \<exists>d. pi_profile i = lt_profile t \<and> sha256Digest d \<and> sha256Digest (li_IndexDigest x) \<and> li_Name x = ch_name (pi_image i) \<and>
    li_Image x = ch_repo (pi_image i) @ ''@'' @ d \<and> li_Source x = chart_reference (pi_image i) \<and>
    served reg (li_Source x) (li_IndexDigest x) (lt_platform t) d"
proof -
  obtain r where r: "r \<in> set rs" "lock_entry t r = Some x" using assms(2) by (auto simp: List.map_filter_def)
  then obtain i where i: "i \<in> set is" "resolves reg i r"
    using assms(1) by (metis in_set_conv_nth list_all2_conv_all_nth)
  obtain d where d: "ri_profile r = lt_profile t" "map_of (ri_digestPerPlatform r) (lt_platform t) = Some d"
    "x = \<lparr>li_Name = ch_name (ri_image r), li_Image = ch_repo (ri_image r) @ ''@'' @ d,
          li_Source = chart_reference (ri_image r), li_IndexDigest = ri_indexDigest r\<rparr>"
    using r(2) by (auto simp: lock_entry_def split: if_splits option.splits)
  show ?thesis
    by (rule bexI [OF _ i(1)], rule exI [of _ d]) (use i(2) d in \<open>simp add: resolves_def\<close>)
qed


lemma sort_mset_cong: "mset xs = mset ys \<Longrightarrow> sort xs = sort ys"
  by (metis mset_sort properties_for_sort sorted_sort)

lemma map_sort_key: "map f (sort_key f xs) = sort (map f xs)"
  by (rule properties_for_sort [symmetric]) simp_all

lemma product_filter:
  "distinct xs \<Longrightarrow> x \<in> set xs \<Longrightarrow> filter (\<lambda>(a, b). a = x \<and> Q b) (List.product xs ys) = map (Pair x) (filter Q ys)"
proof (induction xs)
  case (Cons z xs)
  have own: "filter (\<lambda>(a, b). a = x \<and> Q b) (map (Pair z) ys) = (if z = x then map (Pair x) (filter Q ys) else [])"
    by (induction ys) auto
  show ?case
  proof (cases "z = x")
    case True
    then have "filter (\<lambda>(a, b). a = x \<and> Q b) (List.product xs ys) = []" using Cons.prems by (auto simp: filter_empty_conv)
    then show ?thesis using own True by simp
  next
    case False
    then show ?thesis using own Cons by simp
  qed
qed simp

lemma planned_for_target:
  assumes "validateCatalog rs c = None" "prof \<in> set (cat_Profiles c)"
  shows "map (\<lambda>i. ch_name (pi_image i)) (filter (\<lambda>i. pi_profile i = cp_Name prof \<and> p \<in> set (pi_platforms i)) (planned_images c v)) =
    map ci_Name (filter (\<lambda>i. p \<in> set (included_platforms c prof i)) (cat_Images c))"
proof -
  note valid = validateCatalog_None [OF assms(1)]
  have same: "prof' \<in> set (cat_Profiles c) \<Longrightarrow> cp_Name prof' = cp_Name prof \<longleftrightarrow> prof' = prof" for prof'
    using valid(2) assms(2) by (auto simp: distinct_map inj_on_def)
  have "filter (\<lambda>(prof', i). included_platforms c prof' i \<noteq> [] \<and> cp_Name prof' = cp_Name prof \<and> p \<in> set (included_platforms c prof' i))
      (List.product (cat_Profiles c) (cat_Images c)) =
    filter (\<lambda>(prof', i). prof' = prof \<and> p \<in> set (included_platforms c prof i)) (List.product (cat_Profiles c) (cat_Images c))"
    by (rule filter_cong) (auto simp: same)
  also have "\<dots> = map (Pair prof) (filter (\<lambda>i. p \<in> set (included_platforms c prof i)) (cat_Images c))"
    by (rule product_filter) (use valid(2) assms(2) in \<open>auto simp: distinct_map\<close>)
  finally show ?thesis
    by (simp add: planned_images_def filter_map o_def split_beta case_prod_unfold conj_ac)
qed

lemma planned_chart:
  assumes "validateCatalog rs c = None" "i \<in> set (planned_images c v)" "prof \<in> set (cat_Profiles c)" "pi_profile i = cp_Name prof"
  shows "pi_image i = chart_of c v prof \<lparr>ci_Name = ch_name (pi_image i)\<rparr>"
proof -
  from assms(2) obtain prof' k where i: "prof' \<in> set (cat_Profiles c)" "pi_profile i = cp_Name prof'" "pi_image i = chart_of c v prof' k"
    by (auto simp: planned_images_def)
  then have "prof' = prof"
    using assms(3,4) validateCatalog_None(2) [OF assms(1)] by (auto simp: distinct_map inj_on_def)
  then show ?thesis using i(3) by (simp add: chart_of_def)
qed

text \<open>What the lock of a profile and platform is to hold: every image no exclusion covers, by name, pinned to a manifest the registry served.\<close>

definition lock_holds :: "registry \<Rightarrow> imageCatalog \<Rightarrow> string \<Rightarrow> catalogProfile \<Rightarrow> platform \<Rightarrow> imageLock \<Rightarrow> bool" where
  "lock_holds reg c v prof p lock \<longleftrightarrow>
    lk_APIVersion lock = lockAPIVersion \<and> lk_Kind lock = lockKind \<and> lk_MetaName lock = cat_Name c \<and> lk_MetaVersion lock = v \<and>
    lk_Profile lock = cp_Name prof \<and> lk_Platform lock = p \<and>
    map li_Name (lk_Images lock) = sort (map ci_Name (filter (\<lambda>i. covering c prof i p = []) (cat_Images c))) \<and>
    (\<forall>x \<in> set (lk_Images lock). \<exists>d. sha256Digest d \<and> sha256Digest (li_IndexDigest x) \<and>
       li_Image x = cat_Repository c @ ''/'' @ li_Name x @ ''@'' @ d \<and>
       li_Source x = cat_Repository c @ ''/'' @ li_Name x @ '':'' @ Replace_first versionPlaceholder v (cp_TagTemplate prof) \<and>
       served reg (li_Source x) (li_IndexDigest x) p d)"

lemma buildLock_holds:
  assumes "validateCatalog rs c = None" "list_all2 (resolves reg) (sort_key planned_key (planned_images c v)) res"
    and "prof \<in> set (cat_Profiles c)" "p \<in> set (cat_Platforms c)"
    and "buildLock (cat_Name c) v \<lparr>lt_profile = cp_Name prof, lt_platform = p\<rparr> res = Inr lock"
  shows "lock_holds reg c v prof p lock"
proof -
  let ?t = "\<lparr>lt_profile = cp_Name prof, lt_platform = p\<rparr>"
  define xs where "xs = List.map_filter (lock_entry ?t) res"
  have lock: "lock = \<lparr>lk_APIVersion = lockAPIVersion, lk_Kind = lockKind, lk_MetaName = cat_Name c, lk_MetaVersion = v,
      lk_Profile = cp_Name prof, lk_Platform = p, lk_Images = sort_key li_Name xs\<rparr>"
    using assms(5) by (simp add: buildLock_def xs_def Let_def split: if_splits)
  have "sort (map li_Name xs) = sort (map ci_Name (filter (\<lambda>i. p \<in> set (included_platforms c prof i)) (cat_Images c)))"
    unfolding xs_def lock_entries [OF assms(2)] planned_for_target [OF assms(1,3), of p v, symmetric]
    by (rule sort_mset_cong) (simp add: filter_sort)
  then have names: "map li_Name (sort_key li_Name xs) = sort (map ci_Name (filter (\<lambda>i. covering c prof i p = []) (cat_Images c)))"
    using assms(4) by (simp add: map_sort_key included_platforms_def)
  have "\<exists>d. sha256Digest d \<and> sha256Digest (li_IndexDigest x) \<and> li_Image x = cat_Repository c @ ''/'' @ li_Name x @ ''@'' @ d \<and>
      li_Source x = cat_Repository c @ ''/'' @ li_Name x @ '':'' @ Replace_first versionPlaceholder v (cp_TagTemplate prof) \<and>
      served reg (li_Source x) (li_IndexDigest x) p d" if x: "x \<in> set xs" for x
  proof -
    obtain i d where i: "i \<in> set (planned_images c v)" "pi_profile i = cp_Name prof" and
      d: "sha256Digest d" "sha256Digest (li_IndexDigest x)" "li_Name x = ch_name (pi_image i)"
        "li_Image x = ch_repo (pi_image i) @ ''@'' @ d" "li_Source x = chart_reference (pi_image i)"
        "served reg (li_Source x) (li_IndexDigest x) p d"
      using lock_entry_pinned [OF assms(2), of x ?t] x by (auto simp: xs_def)
    have chart: "pi_image i = chart_of c v prof \<lparr>ci_Name = li_Name x\<rparr>"
      using planned_chart [OF assms(1) i(1) assms(3) i(2)] d(3) by simp
    show ?thesis
      by (rule exI [of _ d]) (use d chart in \<open>simp add: chart_of_def chart_reference_def\<close>)
  qed
  then show ?thesis unfolding lock_holds_def lock using names by simp
qed


section \<open>Whole runs\<close>

lemma marshalLocks_paths:
  assumes "marshalLocks marshal opts c targets rs = Inr outputs" shows "map lo_path outputs = map (lock_path opts c) targets"
proof -
  have "list_all2 (\<lambda>t ot. lo_path ot = lock_path opts c t) targets outputs"
    using marshalLocks_Inr [OF assms] by (rule list_all2_mono) simp
  then show ?thesis by (induction rule: list_all2_induct) simp_all
qed

lemma writeLocks_failed:
  assumes "writeLocks io marshal opts c targets resolved fs = (Some e, fs')"
    and "\<forall>p. \<not> lio_removeFails io p" "\<forall>j. map_of fs (staged_at io (opt_outDir opts) j) = None"
  shows "map_of fs' p = map_of fs p \<or> p \<in> lock_path opts c ` set targets \<and> map_of fs' p = None"
proof (cases "marshalLocks marshal opts c targets resolved")
  case (Inr outputs)
  have set_paths: "lo_path ` set outputs = lock_path opts c ` set targets" using marshalLocks_paths [OF Inr] by (metis list.set_map)
  let ?sp = "replicate (length outputs) []"
  obtain err sp' fs1 where stage: "stage_loop io (opt_outDir opts) 0 outputs ?sp fs = (err, sp', fs1)"
    by (metis prod_cases3)
  have "run_inv fs ?sp [] fs" by (auto simp: run_inv_def)
  note staged = stage_loop_inv [OF this _ _ assms(3) stage]
  show ?thesis
  proof (cases err)
    case None
    then have inv: "run_inv fs sp' [] fs1" "0 + length outputs = length sp'" "\<forall>j. 0 \<le> j \<and> j < length sp' \<longrightarrow> sp' ! j \<noteq> []"
      using staged by simp_all
    show ?thesis
    proof (cases "lio_mkdirFails io")
      case True
      then show ?thesis using assms(1) Inr by (simp add: writeLocks_def)
    next
      case False
      then have "publish_loop io 0 outputs sp' [] fs1 = (Some e, fs')"
        using assms(1) Inr None stage by (simp add: writeLocks_def)
      from publish_loop_failed [OF inv assms(2) this, of p] show ?thesis unfolding set_paths by simp
    qed
  next
    case (Some x)
    then have "map_of fs1 = map_of fs" using staged assms(2) by simp
    then show ?thesis using assms(1) Inr stage Some by (simp add: writeLocks_def split: if_splits)
  qed
qed (use assms(1) in \<open>simp add: writeLocks_def\<close>)

lemma writeLocks_published:
  assumes "writeLocks io marshal opts c targets rs fs = (None, fs')" "staging_fresh io (opt_outDir opts) fs"
    and "distinct targets" "inj_on (lock_path opts c) (set targets)"
    and "\<And>r t. t \<in> set targets \<Longrightarrow> stagedName (opt_outDir opts) r \<noteq> lock_path opts c t"
  shows "(\<forall>t \<in> set targets. \<exists>lock y. buildLock (cat_Name c) (opt_version opts) t rs = Inr lock \<and> marshal lock = Some y \<and>
      map_of fs' (lock_path opts c t) = Some y) \<and>
    (\<forall>q. q \<notin> lock_path opts c ` set targets \<longrightarrow> map_of fs' q = map_of fs q)"
proof -
  let ?nm = "staged_at io (opt_outDir opts)"
  have fresh: "inj ?nm" "\<forall>j. map_of fs (?nm j) = None" using assms(2) by (auto simp: staging_fresh_def)
  from assms(1) obtain outputs sp fs1 where
    o: "marshalLocks marshal opts c targets rs = Inr outputs" and
    s: "stage_loop io (opt_outDir opts) 0 outputs (replicate (length outputs) []) fs = (None, sp, fs1)" and
    p: "publish_loop io 0 outputs sp [] fs1 = (None, fs')"
    by (auto simp: writeLocks_def split: sum.splits if_splits prod.splits option.splits)
  note all2 = marshalLocks_Inr [OF o]
  note paths = marshalLocks_paths [OF o]
  then have set_paths: "lo_path ` set outputs = lock_path opts c ` set targets" by (metis list.set_map)
  have sp: "length sp = length outputs" "\<forall>j < length outputs. sp ! j = ?nm j"
    using stage_loop_inv [OF _ _ _ fresh(2) s] by (simp_all add: run_inv_def)
  have contents: "(\<forall>ot \<in> set outputs. map_of fs' (lo_path ot) = Some (lo_yaml ot)) \<and>
      (\<forall>q. q \<notin> lo_path ` set outputs \<longrightarrow> map_of fs' q = (if q \<in> ?nm ` {0..<0 + length outputs} then None else map_of fs1 q))"
  proof (rule publish_loop_contents [OF p])
    show "distinct (map lo_path outputs)" unfolding paths using assms(3,4) by (simp add: distinct_map)
    show "range ?nm \<inter> lo_path ` set outputs = {}" unfolding set_paths using assms(5) by auto
  qed (use sp stage_loop_contents [OF s fresh(1)] fresh(1) in auto)
  have unchanged: "map_of fs' q = map_of fs q" if "q \<notin> lock_path opts c ` set targets" for q
  proof (cases "q \<in> ?nm ` {0..<0 + length outputs}")
    case True
    then have "map_of fs' q = None" using contents that set_paths by simp
    moreover obtain j where "q = ?nm j" using True by blast
    ultimately show ?thesis using fresh(2) by simp
  next
    case False
    then have "map_of fs' q = map_of fs1 q" using contents that set_paths by simp
    then show ?thesis using stage_loop_contents [OF s fresh(1)] False by simp
  qed
  have "\<exists>lock y. buildLock (cat_Name c) (opt_version opts) t rs = Inr lock \<and> marshal lock = Some y \<and>
      map_of fs' (lock_path opts c t) = Some y" if t: "t \<in> set targets" for t
  proof -
    obtain j where j: "j < length targets" "targets ! j = t" using t by (auto simp: in_set_conv_nth)
    have "lo_path (outputs ! j) = lock_path opts c t" "outputs ! j \<in> set outputs" and
      lock: "\<exists>lock. buildLock (cat_Name c) (opt_version opts) t rs = Inr lock \<and> marshal lock = Some (lo_yaml (outputs ! j))"
      using list_all2_nthD [OF all2 j(1)] j list_all2_lengthD [OF all2] by simp_all
    then have "map_of fs' (lock_path opts c t) = Some (lo_yaml (outputs ! j))" using contents by metis
    then show ?thesis using lock by simp
  qed
  then show ?thesis using unchanged by blast
qed

lemma parseFlags_version: "imagelock_parseFlags t args = Inr opts \<Longrightarrow> releaseVersion (opt_version opts)"
  by (auto simp: imagelock_parseFlags_def Let_def split: sum.splits if_splits)

lemma loadCatalog_Inr: "loadCatalog rs u r = Inr c \<Longrightarrow> validateCatalog rs c = None"
  by (auto simp: loadCatalog_def split: option.splits)

lemma imagelock_run_cases:
  assumes "imagelock_run e args fs = (err, fs')" "imagelock_parseFlags (env_texts e) args = Inr opts" "\<not> opt_verifyOnly opts"
    and "loadCatalog (env_syntax e) (env_catalog e) (env_ReadFile e (opt_catalog opts)) = Inr c" "err = None"
  obtains res n where "resolveImages (rp_images (release_plan c (opt_version opts))) (remote_resolve (env_registry e) (opt_stabilityReads opts)) 0 = (Inr res, n)"
    "writeLocks (env_io e) (env_marshal e) opts c (rp_targets (release_plan c (opt_version opts))) res fs = (None, fs')"
proof -
  from assms obtain plan where plan: "buildReleasePlan (env_syntax e) c (opt_version opts) = Inr plan"
    and rest: "(case fst (resolveImages (rp_images plan) (remote_resolve (env_registry e) (opt_stabilityReads opts)) 0) of
        Inl err \<Rightarrow> (Some err, fs) | Inr resolved \<Rightarrow> writeLocks (env_io e) (env_marshal e) opts c (rp_targets plan) resolved fs) = (None, fs')"
    by (simp add: imagelock_run_def split: option.splits sum.splits)
  have "plan = release_plan c (opt_version opts)"
    using plan buildReleasePlan_spec [OF loadCatalog_Inr [OF assms(4)]] by blast
  then show thesis
    using rest that by (auto split: sum.splits simp: prod_eq_iff)
qed


lemma all_targets_distinct:
  assumes "validateCatalog rs c = None" shows "distinct (all_targets c)"
proof -
  note valid = validateCatalog_None [OF assms]
  have "all_targets c = map (\<lambda>(prof, p). \<lparr>lt_profile = cp_Name prof, lt_platform = p\<rparr>) (List.product (cat_Profiles c) (cat_Platforms c))"
    by (simp add: all_targets_def product_concat_map map_concat o_def)
  moreover have "inj_on (\<lambda>(prof, p). \<lparr>lt_profile = cp_Name prof, lt_platform = p\<rparr>) (set (cat_Profiles c) \<times> set (cat_Platforms c))"
    using valid(2) by (auto simp: inj_on_def distinct_map)
  ultimately show ?thesis
    using valid(2,3) by (simp add: distinct_map distinct_product)
qed

lemma imagelock_run_failed:
  assumes "imagelock_run e args fs = (Some err, fs')" "fs' \<noteq> fs"
  shows "\<exists>opts c plan res. imagelock_parseFlags (env_texts e) args = Inr opts \<and>
    loadCatalog (env_syntax e) (env_catalog e) (env_ReadFile e (opt_catalog opts)) = Inr c \<and>
    buildReleasePlan (env_syntax e) c (opt_version opts) = Inr plan \<and>
    writeLocks (env_io e) (env_marshal e) opts c (rp_targets plan) res fs = (Some err, fs')"
  using assms unfolding imagelock_run_def by (simp split: sum.splits option.splits if_splits) blast+

text \<open>With a hyphen in the architecture two targets share a file name, and one lock would replace the other.\<close>

lemma lock_names_collide:
  "lock_path opts c \<lparr>lt_profile = ''standard'', lt_platform = \<lparr>plat_OS = ''linux'', plat_Architecture = ''a-b''\<rparr>\<rparr> =
   lock_path opts c \<lparr>lt_profile = ''linux'', lt_platform = \<lparr>plat_OS = ''a'', plat_Architecture = ''b''\<rparr>\<rparr>"
  by (simp add: lock_path_def lockFileName_def standardProfile_def)

section \<open>Properties\<close>

text \<open>
  C32: a run that succeeds has written, for every profile and platform of the catalog, one lock that lists
  exactly the images no exclusion covers, in order of their names, each pinned to the digest of the
  one manifest that the registry served for the platform in an index under the image's tag; and it has
  changed no other file. The operating systems and architectures are assumed free of hyphens, which
  separate the parts of a file name.
\<close>

theorem lock_files_exact:
  assumes "imagelock_run e args fs = (None, fs')" "imagelock_parseFlags (env_texts e) args = Inr opts" "\<not> opt_verifyOnly opts"
    and "loadCatalog (env_syntax e) (env_catalog e) (env_ReadFile e (opt_catalog opts)) = Inr c"
    and "staging_fresh (env_io e) (opt_outDir opts) fs" "\<forall>p \<in> set (cat_Platforms c). bare_platform p"
  shows "(\<forall>prof \<in> set (cat_Profiles c). \<forall>p \<in> set (cat_Platforms c). \<exists>lock y.
      lock_holds (env_registry e) c (opt_version opts) prof p lock \<and> env_marshal e lock = Some y \<and>
      map_of fs' (lock_path opts c \<lparr>lt_profile = cp_Name prof, lt_platform = p\<rparr>) = Some y) \<and>
    (\<forall>q. q \<notin> lock_path opts c ` set (all_targets c) \<longrightarrow> map_of fs' q = map_of fs q)"
proof -
  obtain res n where res: "resolveImages (rp_images (release_plan c (opt_version opts)))
        (remote_resolve (env_registry e) (opt_stabilityReads opts)) 0 = (Inr res, n)"
    and w: "writeLocks (env_io e) (env_marshal e) opts c (rp_targets (release_plan c (opt_version opts))) res fs = (None, fs')"
    by (rule imagelock_run_cases [OF assms(1-4)]) auto
  have valid: "validateCatalog (env_syntax e) c = None" and version: "releaseVersion (opt_version opts)"
    using loadCatalog_Inr [OF assms(4)] parseFlags_version [OF assms(2)] by auto
  have targets: "set (rp_targets (release_plan c (opt_version opts))) = set (all_targets c)"
    "distinct (rp_targets (release_plan c (opt_version opts)))"
    using all_targets_distinct [OF valid] by (auto simp: release_plan_def)
  note resolved = resolveImages_Inr [OF res, unfolded release_plan_def releasePlan.simps]
  have "inj_on (lock_path opts c) (set (all_targets c))"
    using lock_path_inj [OF valid version assms(6)] by (auto intro: inj_onI)
  then have published: "(\<forall>t \<in> set (all_targets c). \<exists>lock y. buildLock (cat_Name c) (opt_version opts) t res = Inr lock \<and>
        env_marshal e lock = Some y \<and> map_of fs' (lock_path opts c t) = Some y) \<and>
      (\<forall>q. q \<notin> lock_path opts c ` set (all_targets c) \<longrightarrow> map_of fs' q = map_of fs q)"
    using writeLocks_published [OF w assms(5) targets(2)] staged_not_lock [OF valid version] targets(1) by simp
  have "\<exists>lock y. lock_holds (env_registry e) c (opt_version opts) prof p lock \<and> env_marshal e lock = Some y \<and>
      map_of fs' (lock_path opts c \<lparr>lt_profile = cp_Name prof, lt_platform = p\<rparr>) = Some y"
    if el: "prof \<in> set (cat_Profiles c)" "p \<in> set (cat_Platforms c)" for prof p
  proof -
    have "\<lparr>lt_profile = cp_Name prof, lt_platform = p\<rparr> \<in> set (all_targets c)" using el by (auto simp: set_all_targets)
    then show ?thesis using published buildLock_holds [OF valid resolved el] by blast
  qed
  then show ?thesis using published by blast
qed

text \<open>
  C33: a run that fails leaves no lock of its own behind. As long as files can be removed, every file is
  as before the run, except that the place of a lock that was already published is empty again; no
  staged file remains and no lock holds a new content.
\<close>

theorem failed_run_leaves_no_lock:
  assumes "imagelock_run e args fs = (Some err, fs')" "\<forall>p. \<not> lio_removeFails (env_io e) p"
    and "\<forall>dir j. map_of fs (staged_at (env_io e) dir j) = None"
  shows "map_of fs' q = map_of fs q \<or>
    (map_of fs' q = None \<and> (\<exists>opts c t. imagelock_parseFlags (env_texts e) args = Inr opts \<and>
       loadCatalog (env_syntax e) (env_catalog e) (env_ReadFile e (opt_catalog opts)) = Inr c \<and> t \<in> set (all_targets c) \<and>
       q = lock_path opts c t))"
proof (cases "fs' = fs")
  case False
  then obtain opts c plan res where run: "imagelock_parseFlags (env_texts e) args = Inr opts"
    "loadCatalog (env_syntax e) (env_catalog e) (env_ReadFile e (opt_catalog opts)) = Inr c"
    "buildReleasePlan (env_syntax e) c (opt_version opts) = Inr plan"
    "writeLocks (env_io e) (env_marshal e) opts c (rp_targets plan) res fs = (Some err, fs')"
    using imagelock_run_failed [OF assms(1)] by blast
  have "set (rp_targets plan) = set (all_targets c)"
    using buildReleasePlan_spec [OF loadCatalog_Inr [OF run(2)]] run(3) by (simp add: release_plan_def)
  then show ?thesis
    using writeLocks_failed [OF run(4) assms(2), of q] assms(3) run(1,2) by blast
qed simp


section \<open>Witnesses\<close>

text \<open>A registry that serves the same two-platform index for every tag, and a directory that is empty at first.\<close>

definition sample_digest :: "char \<Rightarrow> string" where
  "sample_digest x = ''sha256:'' @ replicate 64 x"

definition sample_registry :: registry where
  "sample_registry =
    \<lparr>ParseReference_ok = (\<lambda>_. True),
     remote_Get = (\<lambda>n ref. if n = 0 then None else Some \<lparr>desc_Digest = sample_digest CHR ''a'', desc_IsIndex = True,
       desc_Manifests = Some [(Some \<lparr>plat_OS = ''linux'', plat_Architecture = ''amd64''\<rparr>, sample_digest CHR ''b''),
         (None, sample_digest CHR ''c''), (Some \<lparr>plat_OS = ''linux'', plat_Architecture = ''arm64''\<rparr>, sample_digest CHR ''d'')]\<rparr>)\<rparr>"

definition sample_lock_io :: "(nat \<Rightarrow> bool) \<Rightarrow> lock_io" where
  "sample_lock_io renameFails =
    \<lparr>lio_mkdirFails = False, lio_stageFails = (\<lambda>_ _. False), lio_partial = (\<lambda>_. []), lio_renameFails = renameFails,
     lio_removeFails = (\<lambda>_. False), lio_rand = id\<rparr>"

definition sample_lock_env :: "(nat \<Rightarrow> bool) \<Rightarrow> imagelock_env" where
  "sample_lock_env renameFails =
    \<lparr>env_texts = sample_texts, env_syntax = sample_syntax, env_ReadFile = (\<lambda>_. Some []), env_catalog = (\<lambda>_. Some sample_catalog),
     env_values = (\<lambda>_. None), env_marshal = (\<lambda>lock. Some (concat (map li_Image (lk_Images lock)))),
     env_registry = sample_registry, env_io = sample_lock_io renameFails\<rparr>"

definition sample_lock_args :: "string list" where
  "sample_lock_args = [''--version=v1.0.0'', ''--stability-reads'', ''2'', ''--out-dir'', ''d'']"

definition sample_lock_opts :: options where
  "sample_lock_opts = imagelock_flag_defaults\<lparr>opt_version := ''v1.0.0'', opt_stabilityReads := 2, opt_outDir := ''d''\<rparr>"

lemma sample_lock_flags: "imagelock_parseFlags sample_texts sample_lock_args = Inr sample_lock_opts"
  by code_simp

lemma sample_staging_fresh: "staging_fresh (sample_lock_io f) dir []"
  by (auto simp: staging_fresh_def sample_lock_io_def stagedName_def inj_on_def show_nat_inj)

lemma sample_lock_load:
  "loadCatalog sample_syntax (env_catalog (sample_lock_env f)) (env_ReadFile (sample_lock_env f) (opt_catalog sample_lock_opts)) =
    Inr sample_catalog"
  using sample_catalog_valid by (simp add: loadCatalog_def sample_lock_env_def)

theorem lock_files_exact_witness:
  "fst (imagelock_run (sample_lock_env (\<lambda>_. False)) sample_lock_args []) = None \<and>
   (\<exists>lock y. lock_holds sample_registry sample_catalog ''v1.0.0'' \<lparr>cp_Name = ''ubi'', cp_TagTemplate = ''{{version}}-ubi''\<rparr>
      \<lparr>plat_OS = ''linux'', plat_Architecture = ''amd64''\<rparr> lock \<and>
      map_of (snd (imagelock_run (sample_lock_env (\<lambda>_. False)) sample_lock_args []))
        ''d/imagelock-gpu-images-v1.0.0-ubi-linux-amd64.yaml'' = Some y)"
proof -
  let ?e = "sample_lock_env (\<lambda>_. False)"
  have ok: "fst (imagelock_run ?e sample_lock_args []) = None" by code_simp
  then have run: "imagelock_run ?e sample_lock_args [] = (None, snd (imagelock_run ?e sample_lock_args []))" by (simp add: prod_eq_iff)
  have env: "env_texts ?e = sample_texts" "env_syntax ?e = sample_syntax" "env_registry ?e = sample_registry"
    "env_io ?e = sample_lock_io (\<lambda>_. False)" by (simp_all add: sample_lock_env_def)
  have path: "lock_path sample_lock_opts sample_catalog
      \<lparr>lt_profile = ''ubi'', lt_platform = \<lparr>plat_OS = ''linux'', plat_Architecture = ''amd64''\<rparr>\<rparr> =
      ''d/imagelock-gpu-images-v1.0.0-ubi-linux-amd64.yaml''" by code_simp
  have "\<not> opt_verifyOnly sample_lock_opts" "\<forall>p \<in> set (cat_Platforms sample_catalog). bare_platform p"
    "opt_version sample_lock_opts = ''v1.0.0''" by code_simp+
  moreover have "\<lparr>cp_Name = ''ubi'', cp_TagTemplate = ''{{version}}-ubi''\<rparr> \<in> set (cat_Profiles sample_catalog)"
    "\<lparr>plat_OS = ''linux'', plat_Architecture = ''amd64''\<rparr> \<in> set (cat_Platforms sample_catalog)"
    by (simp_all add: sample_catalog_def)
  ultimately show ?thesis
    using lock_files_exact [OF run, unfolded env, OF sample_lock_flags _ sample_lock_load sample_staging_fresh] ok path
    by (metis catalogProfile.select_convs(1))
qed

theorem failed_run_leaves_no_lock_witness:
  "\<exists>err. fst (imagelock_run (sample_lock_env (\<lambda>i. i = 2)) sample_lock_args []) = Some err \<and>
   map_of (snd (imagelock_run (sample_lock_env (\<lambda>i. i = 2)) sample_lock_args []))
     ''d/imagelock-gpu-images-v1.0.0-linux-amd64.yaml'' = None"
proof -
  let ?e = "sample_lock_env (\<lambda>i. i = 2)"
  have "fst (imagelock_run ?e sample_lock_args []) \<noteq> None" by code_simp
  then obtain err where err: "fst (imagelock_run ?e sample_lock_args []) = Some err" by blast
  then have run: "imagelock_run ?e sample_lock_args [] = (Some err, snd (imagelock_run ?e sample_lock_args []))" by (simp add: prod_eq_iff)
  have "\<forall>p. \<not> lio_removeFails (env_io ?e) p" by (simp add: sample_lock_env_def sample_lock_io_def)
  then show ?thesis
    using failed_run_leaves_no_lock [OF run, of "''d/imagelock-gpu-images-v1.0.0-linux-amd64.yaml''"] err by auto
qed

end
