(* ===== verification/Fake_Mps.thy ===== *)
theory Fake_Mps
  imports Mpsd
begin

text \<open>
  Command fake-mps (hack/fake-mps/main.go): the stand-in for the MPS control daemon on clusters without
  GPUs. It reads its configuration file from the arguments that mpsd passes, listens on the
  control socket and on one socket per configured server, and stays until it is told to quit.
  The sockets are a list of the paths that are bound; creating a directory or a socket may fail.
\<close>

section \<open>Configuration\<close>

text \<open>The argument after the first \<^verbatim>\<open>-a\<close> that has one.\<close>

fun fake_configPath :: "string list \<Rightarrow> string" where
  "fake_configPath (a # v # args) = (if a = ''-a'' then v else fake_configPath (v # args))"
| "fake_configPath _ = []"

text \<open>\<^verbatim>\<open>strings.CutPrefix\<close>, \<^verbatim>\<open>strings.CutSuffix\<close>, and \<^verbatim>\<open>strings.Trim\<close> of one character.\<close>

definition CutPrefix :: "string \<Rightarrow> string \<Rightarrow> string option" where
  "CutPrefix s p = (if HasPrefix s p then Some (drop (length p) s) else None)"

definition CutSuffix :: "string \<Rightarrow> string \<Rightarrow> string option" where
  "CutSuffix s p = (if HasSuffix s p then Some (take (length s - length p) s) else None)"

definition Trim_char :: "string \<Rightarrow> char \<Rightarrow> string" where
  "Trim_char s c = rev (dropWhile (\<lambda>x. x = c) (rev (dropWhile (\<lambda>x. x = c) s)))"

definition server_section :: "string \<Rightarrow> string option" where
  "server_section line =
    (case CutPrefix (TrimSpace line) ''[servers.'' of None \<Rightarrow> None | Some name \<Rightarrow>
       (case CutSuffix name '']'' of None \<Rightarrow> None | Some name \<Rightarrow>
          (let name = Trim_char name CHR 0x22 in if name \<noteq> [] then Some name else None)))"

definition configuredServers :: "(string \<Rightarrow> string option) \<Rightarrow> string \<Rightarrow> string list" where
  "configuredServers ReadFile path =
    (if path = [] then []
     else case ReadFile path of None \<Rightarrow> [] | Some content \<Rightarrow> List.map_filter server_section (Split content CHR 0x0A))"

section \<open>The process\<close>

definition fake_pipeDir :: "getenv \<Rightarrow> string" where
  "fake_pipeDir ge = (if ge ''CUDA_MPS_PIPE_DIRECTORY'' = [] then ''/run/nvidia-mps'' else ge ''CUDA_MPS_PIPE_DIRECTORY'')"

definition fake_sockets :: "getenv \<Rightarrow> (string \<Rightarrow> string option) \<Rightarrow> string list \<Rightarrow> string list" where
  "fake_sockets ge ReadFile args =
    filepath_Join [fake_pipeDir ge, ''control''] #
    map (\<lambda>server. filepath_Join [fake_pipeDir ge, server, ''default'', ''control''])
      (configuredServers ReadFile (fake_configPath args))"

record fake_io =
  fk_mkdirFails :: "string \<Rightarrow> bool"
  fk_listenFails :: "string \<Rightarrow> bool"

text \<open>\<^verbatim>\<open>listen\<close>: a stale socket at the path goes, a new one is bound there.\<close>

definition fake_listen :: "fake_io \<Rightarrow> string \<Rightarrow> string list \<Rightarrow> bool \<times> string list" where
  "fake_listen io path bound =
    (if fk_mkdirFails io (filepath_Dir path) then (False, bound)
     else let bound = removeAll path bound in
       if fk_listenFails io path then (False, bound) else (True, path # bound))"

fun fake_listen_all :: "fake_io \<Rightarrow> string list \<Rightarrow> string list \<Rightarrow> bool \<times> string list" where
  "fake_listen_all io [] bound = (True, bound)"
| "fake_listen_all io (s # ss) bound =
    (case fake_listen io s bound of (False, bound) \<Rightarrow> (False, bound) | (True, bound) \<Rightarrow> fake_listen_all io ss bound)"

text \<open>Standard input is read up to a line that says quit, or to its end.\<close>

fun fake_stdin :: "string list \<Rightarrow> string list" where
  "fake_stdin [] = []"
| "fake_stdin (l # ls) = (if TrimSpace l = ''quit'' then ls else fake_stdin ls)"

text \<open>
  While the process runs: the sockets that are bound, or the exit after a fatal error, which
  leaves them; and after it was told to stop, the sockets without its own.
\<close>

definition fake_running :: "fake_io \<Rightarrow> getenv \<Rightarrow> (string \<Rightarrow> string option) \<Rightarrow> string list \<Rightarrow> string list \<Rightarrow> bool \<times> string list" where
  "fake_running io ge ReadFile args bound = fake_listen_all io (fake_sockets ge ReadFile args) bound"

definition fake_main :: "fake_io \<Rightarrow> getenv \<Rightarrow> (string \<Rightarrow> string option) \<Rightarrow> string list \<Rightarrow> string list \<Rightarrow> nat \<times> string list" where
  "fake_main io ge ReadFile args bound =
    (case fake_running io ge ReadFile args bound of
       (False, bound) \<Rightarrow> (1, bound)
     | (True, bound) \<Rightarrow> (0, fold removeAll (rev (fake_sockets ge ReadFile args)) bound))"

section \<open>Under the supervisor of mpsd\<close>

lemma fake_configPath_built: "port \<noteq> ''-a'' \<Longrightarrow> path \<noteq> [] \<Longrightarrow> fake_configPath (buildMPSArgs port path multiuser) = path"
  by (auto simp: buildMPSArgs_def)

lemma servers_of_config:
  "List.map_filter server_section (Split (TOML_text (mpsd_mpsConfig f)) CHR 0x0A) =
    (if mpsd_supportSMSharing f then [DefaultSharedServerName] else [])"
proof -
  have on: "List.map_filter server_section (Split (TOML_text \<lparr>MemacctEnabled = True, MemacctAuditLog = b, ContextShareEnabled = True,
      ContextShareDefaultSocket = DefaultContextShareDefaultSocket, SharedServerName = DefaultSharedServerName\<rparr>) CHR 0x0A) =
      [DefaultSharedServerName]" for b
  proof (cases b)
    case True
    then have b: "b = True" by simp
    show ?thesis unfolding b by code_simp
  next
    case False
    then have b: "b = False" by simp
    show ?thesis unfolding b by code_simp
  qed
  have off: "List.map_filter server_section (Split (TOML_text \<lparr>MemacctEnabled = True, MemacctAuditLog = b, ContextShareEnabled = False,
      ContextShareDefaultSocket = [], SharedServerName = []\<rparr>) CHR 0x0A) = []" for b
  proof (cases b)
    case True
    then have b: "b = True" by simp
    show ?thesis unfolding b by code_simp
  next
    case False
    then have b: "b = False" by simp
    show ?thesis unfolding b by code_simp
  qed
  show ?thesis by (simp add: mpsd_mpsConfig_def on off)
qed

text \<open>
  Started by the supervisor in the default directory, with the configuration file it has written: the
  control socket, and with sm-sharing the socket in the directory that fractiond mounts.
\<close>

lemma fake_sockets_supervised:
  assumes "PipeDir (mpsd_supervisor f) = DefaultMPSPipeDirectory" "controlPort f = DefaultMPSControlPort" "configPath f \<noteq> []"
    and "ge ''CUDA_MPS_PIPE_DIRECTORY'' = PipeDir (mpsd_supervisor f)"
    and "ReadFile (configPath f) = Some (ConfigContent (mpsd_supervisor f))"
  shows "map filepath_Dir (fake_sockets ge ReadFile
      (buildMPSArgs (ControlPort (mpsd_supervisor f)) (ConfigPath (mpsd_supervisor f)) (Multiuser (mpsd_supervisor f)))) =
    DefaultMPSPipeDirectory # (if mpsd_supportSMSharing f then [fst (MPSPipeMount (pipeDir f) ComputeModeSMSharing)] else [])"
proof -
  let ?s = "mpsd_supervisor f"
  have path: "fake_configPath (buildMPSArgs (ControlPort ?s) (ConfigPath ?s) (Multiuser ?s)) = configPath f"
    using assms(2,3) by (subst fake_configPath_built) (simp_all add: mpsd_supervisor_def DefaultMPSControlPort_def)
  have servers: "configuredServers ReadFile (configPath f) = (if mpsd_supportSMSharing f then [DefaultSharedServerName] else [])"
    using assms(3,5) servers_of_config [of f] by (simp add: configuredServers_def mpsd_supervisor_def)
  have dir: "fake_pipeDir ge = DefaultMPSPipeDirectory" "pipeDir f = DefaultMPSPipeDirectory"
    using assms(1,4) by (simp_all add: fake_pipeDir_def mpsd_supervisor_def DefaultMPSPipeDirectory_def)
  have dirs: "filepath_Dir (filepath_Join [DefaultMPSPipeDirectory, ''control'']) = DefaultMPSPipeDirectory"
    "filepath_Dir (filepath_Join [DefaultMPSPipeDirectory, DefaultSharedServerName, ''default'', ''control'']) =
      fst (MPSPipeMount DefaultMPSPipeDirectory ComputeModeSMSharing)"
    by code_simp+
  show ?thesis unfolding fake_sockets_def path servers dir using dirs by simp
qed

end
