(* ===== verification/Crdupgrade.thy ===== *)
theory Crdupgrade
  imports Dependency
begin

text \<open>
  The CRD upgrade hook: the manifests embedded in the operator image (charts/crds/embed.go) and
  their server-side apply (internal/crdupgrade/crdupgrade.go). The directory that the build embeds,
  YAML and the Kubernetes client are not code of the repository: the embedded files, the decoder and
  the API server's answers are arguments. Polling is run over the answers that the API server gives
  before the timeout, one per poll; a run out of answers is the timeout.
\<close>

section \<open>Embedded manifests\<close>

definition crdKind :: string where "crdKind = ''CustomResourceDefinition''"

text \<open>A decoded manifest is its kind and what the accessors of an unstructured object answer.\<close>

record manifest =
  mf_Kind :: string
  mf_Object :: unstructured

datatype crd_error =
    ReadCRDDirectory | ReadCRD string | ParseCRD string | WrongKind string string | NoCRDName string | NoManifests
  | LoadKubeconfig | BuildClient | ApplyCRD string | GetFailed string | NamesRejected string string | NotEstablished string

record embedded =
  emb_ReadDir :: "(string \<times> bool) list option"
  emb_ReadFile :: "string \<Rightarrow> string option"
  emb_Unmarshal :: "string \<Rightarrow> manifest option"

fun load_manifests :: "embedded \<Rightarrow> string list \<Rightarrow> (crd_error, unstructured list) result" where
  "load_manifests fs [] = Inr []"
| "load_manifests fs (name # names) =
    (case emb_ReadFile fs name of None \<Rightarrow> Inl (ReadCRD name) | Some data \<Rightarrow>
      (case emb_Unmarshal fs data of None \<Rightarrow> Inl (ParseCRD name) | Some m \<Rightarrow>
        if mf_Kind m \<noteq> crdKind then Inl (WrongKind name (mf_Kind m))
        else if GetName (mf_Object m) = [] then Inl (NoCRDName name)
        else case load_manifests fs names of Inl e \<Rightarrow> Inl e | Inr objs \<Rightarrow> Inr (mf_Object m # objs)))"

definition manifest_names :: "(string \<times> bool) list \<Rightarrow> string list" where
  "manifest_names entries = sort (map fst (filter (\<lambda>(n, isDir). \<not> isDir) entries))"

definition Load :: "embedded \<Rightarrow> (crd_error, unstructured list) result" where
  "Load fs =
    (case emb_ReadDir fs of None \<Rightarrow> Inl ReadCRDDirectory | Some entries \<Rightarrow>
      (case load_manifests fs (manifest_names entries) of Inl e \<Rightarrow> Inl e | Inr objs \<Rightarrow>
        if objs = [] then Inl NoManifests else Inr objs))"

section \<open>Apply and wait\<close>

definition crd_condition :: "unstructured \<Rightarrow> string \<Rightarrow> entry option" where
  "crd_condition obj want =
    (case NestedSlice obj [''status'', ''conditions''] of None \<Rightarrow> None
     | Some conds \<Rightarrow> Option.bind (find (\<lambda>c. case c of None \<Rightarrow> False | Some cond \<Rightarrow> cond ''type'' = Some want) conds) id)"

definition isEstablished :: "unstructured \<Rightarrow> bool" where
  "isEstablished obj = (case crd_condition obj ''Established'' of None \<Rightarrow> False | Some cond \<Rightarrow> cond ''status'' = Some ''True'')"

text \<open>One poll: an error ends the wait, otherwise whether the definition is established.\<close>

definition poll_crd :: "string \<Rightarrow> unstructured option \<Rightarrow> (crd_error, bool) result" where
  "poll_crd name answer =
    (case answer of None \<Rightarrow> Inl (GetFailed name) | Some obj \<Rightarrow>
      (case crd_condition obj ''NamesAccepted'' of
         Some cond \<Rightarrow> if cond ''status'' = Some ''False'' then Inl (NamesRejected name (or_empty (cond ''message''))) else Inr (isEstablished obj)
       | None \<Rightarrow> Inr (isEstablished obj)))"

fun waitEstablished :: "string \<Rightarrow> unstructured option list \<Rightarrow> crd_error option" where
  "waitEstablished name [] = Some (NotEstablished name)"
| "waitEstablished name (a # answers) =
    (case poll_crd name a of Inl e \<Rightarrow> Some e | Inr True \<Rightarrow> None | Inr False \<Rightarrow> waitEstablished name answers)"

record crd_api =
  apply_fails :: "unstructured \<Rightarrow> bool"
  poll_answers :: "string \<Rightarrow> unstructured option list"

text \<open>The objects that were applied, in order, and the error that ended the run.\<close>

fun applyObjects :: "crd_api \<Rightarrow> unstructured list \<Rightarrow> unstructured list \<times> crd_error option" where
  "applyObjects api [] = ([], None)"
| "applyObjects api (obj # objs) =
    (if apply_fails api obj then ([], Some (ApplyCRD (GetName obj)))
     else case waitEstablished (GetName obj) (poll_answers api (GetName obj)) of
         Some e \<Rightarrow> ([obj], Some e)
       | None \<Rightarrow> (case applyObjects api objs of (applied, e) \<Rightarrow> (obj # applied, e)))"

definition Apply :: "embedded \<Rightarrow> crd_api \<Rightarrow> unstructured list \<times> crd_error option" where
  "Apply fs api = (case Load fs of Inl e \<Rightarrow> ([], Some e) | Inr objs \<Rightarrow> applyObjects api objs)"

definition crdupgrade_Run :: "bool \<Rightarrow> bool \<Rightarrow> embedded \<Rightarrow> crd_api \<Rightarrow> unstructured list \<times> crd_error option" where
  "crdupgrade_Run configFails clientFails fs api =
    (if configFails then ([], Some LoadKubeconfig) else if clientFails then ([], Some BuildClient) else Apply fs api)"

section \<open>Facts\<close>

text \<open>The API server serves the definition before the timeout, with no poll failed and no names rejected on the way.\<close>

definition served_in_time :: "string \<Rightarrow> unstructured option list \<Rightarrow> bool" where
  "served_in_time name answers \<longleftrightarrow>
    (\<exists>k < length answers. poll_crd name (answers ! k) = Inr True \<and> (\<forall>j < k. poll_crd name (answers ! j) = Inr False))"

lemma waitEstablished_iff: "waitEstablished name answers = None \<longleftrightarrow> served_in_time name answers"
proof (induction answers)
  case (Cons a answers)
  have "served_in_time name (a # answers) \<longleftrightarrow>
      poll_crd name a = Inr True \<or> (poll_crd name a = Inr False \<and> served_in_time name answers)"
    unfolding served_in_time_def by (auto simp: Ex_less_Suc2 All_less_Suc2)
  with Cons show ?case by (auto split: sum.splits bool.splits)
qed (simp add: served_in_time_def)

definition crd_ready :: "crd_api \<Rightarrow> unstructured \<Rightarrow> bool" where
  "crd_ready api obj \<longleftrightarrow> \<not> apply_fails api obj \<and> served_in_time (GetName obj) (poll_answers api (GetName obj))"

lemma applyObjects_prefix:
  "applyObjects api objs =
    (case dropWhile (crd_ready api) objs of
       [] \<Rightarrow> (objs, None)
     | obj # _ \<Rightarrow> if apply_fails api obj then (takeWhile (crd_ready api) objs, Some (ApplyCRD (GetName obj)))
         else (takeWhile (crd_ready api) objs @ [obj], waitEstablished (GetName obj) (poll_answers api (GetName obj))))"
proof (induction objs)
  case (Cons obj objs)
  have ready: "crd_ready api obj \<longleftrightarrow> \<not> apply_fails api obj \<and> waitEstablished (GetName obj) (poll_answers api (GetName obj)) = None"
    by (simp add: crd_ready_def waitEstablished_iff)
  show ?case
  proof (cases "crd_ready api obj")
    case True
    then show ?thesis using Cons ready by (cases "dropWhile (crd_ready api) objs") (simp_all del: dropWhile_eq_Nil_conv)
  next
    case False
    then show ?thesis using ready by (auto split: option.split)
  qed
qed simp

text \<open>A file of the image holds the definition.\<close>

definition embeds :: "embedded \<Rightarrow> string \<Rightarrow> unstructured \<Rightarrow> bool" where
  "embeds fs name obj \<longleftrightarrow>
    (\<exists>data m. emb_ReadFile fs name = Some data \<and> emb_Unmarshal fs data = Some m \<and> mf_Kind m = crdKind \<and>
       GetName (mf_Object m) \<noteq> [] \<and> obj = mf_Object m)"

lemma load_manifests_Inr: "load_manifests fs names = Inr objs \<Longrightarrow> list_all2 (embeds fs) names objs"
  by (induction names arbitrary: objs) (auto simp: embeds_def split: option.splits sum.splits if_splits)

section \<open>Property\<close>

text \<open>
  C31: the upgrade hook applies the embedded definitions in the order of their file names, each only once
  the one before it is served, and succeeds exactly when all of them are served in time. It stops at
  the first one that is not: the later ones are never applied, and the error is that one's.
\<close>

theorem crds_applied_in_order:
  assumes "Load fs = Inr objs" "Apply fs api = (applied, err)"
  shows "(err = None \<longleftrightarrow> (\<forall>obj \<in> set objs. crd_ready api obj)) \<and>
    (err = None \<longrightarrow> applied = objs) \<and> objs \<noteq> [] \<and>
    (\<exists>names. emb_ReadDir fs = Some names \<and> list_all2 (embeds fs) (manifest_names names) objs) \<and>
    (\<forall>e. err = Some e \<longrightarrow> (\<exists>ready obj rest. objs = ready @ obj # rest \<and> (\<forall>o' \<in> set ready. crd_ready api o') \<and> \<not> crd_ready api obj \<and>
       (apply_fails api obj \<and> applied = ready \<and> e = ApplyCRD (GetName obj) \<or>
        \<not> apply_fails api obj \<and> applied = ready @ [obj] \<and> waitEstablished (GetName obj) (poll_answers api (GetName obj)) = Some e)))"
proof -
  have run: "applyObjects api objs = (applied, err)" using assms by (simp add: Apply_def)
  obtain names where names: "emb_ReadDir fs = Some names" "load_manifests fs (manifest_names names) = Inr objs" "objs \<noteq> []"
    using assms(1) by (auto simp: Load_def split: option.splits sum.splits if_splits)
  note files = load_manifests_Inr [OF names(2)]
  show ?thesis
  proof (cases "dropWhile (crd_ready api) objs")
    case Nil
    have "applied = objs" "err = None" using run unfolding applyObjects_prefix Nil by simp_all
    moreover have "\<forall>obj \<in> set objs. crd_ready api obj" using Nil by simp
    ultimately show ?thesis using names files by blast
  next
    case (Cons obj rest)
    have split: "objs = takeWhile (crd_ready api) objs @ obj # rest" using Cons by (metis takeWhile_dropWhile_id)
    have bad: "\<not> crd_ready api obj" using Cons by (metis hd_dropWhile list.sel(1) list.simps(3))
    then have "\<not> (\<forall>o' \<in> set objs. crd_ready api o')" using split by (metis in_set_conv_decomp)
    moreover have "err \<noteq> None"
      using run bad unfolding applyObjects_prefix Cons by (auto simp: crd_ready_def waitEstablished_iff [symmetric] split: if_splits)
    moreover have "\<forall>o' \<in> set (takeWhile (crd_ready api) objs). crd_ready api o'" by (auto dest: set_takeWhileD)
    moreover have "apply_fails api obj \<and> applied = takeWhile (crd_ready api) objs \<and> err = Some (ApplyCRD (GetName obj)) \<or>
        \<not> apply_fails api obj \<and> applied = takeWhile (crd_ready api) objs @ [obj] \<and>
          waitEstablished (GetName obj) (poll_answers api (GetName obj)) = err"
      using run unfolding applyObjects_prefix Cons by (auto split: if_splits)
    ultimately show ?thesis using names files split bad by auto
  qed
qed

text \<open>Two embedded definitions; the first is served at the second poll.\<close>

definition sample_crd :: "string \<Rightarrow> bool \<Rightarrow> unstructured" where
  "sample_crd name established =
    \<lparr>GetName = name, GetLabels = Map.empty, NestedString = (\<lambda>_. None), NestedBool = (\<lambda>_. None),
     NestedSlice = (\<lambda>p. if p = [''status'', ''conditions'']
       then Some [None, Some (map_of [(''type'', ''Established''), (''status'', if established then ''True'' else ''False'')])] else None)\<rparr>"

definition sample_embedded :: embedded where
  "sample_embedded =
    \<lparr>emb_ReadDir = Some [(''b.yaml'', False), (''dir'', True), (''a.yaml'', False)], emb_ReadFile = Some,
     emb_Unmarshal = (\<lambda>d. Some \<lparr>mf_Kind = crdKind, mf_Object = sample_crd d False\<rparr>)\<rparr>"

definition sample_crd_api :: crd_api where
  "sample_crd_api =
    \<lparr>apply_fails = (\<lambda>_. False),
     poll_answers = (\<lambda>n. if n = ''a.yaml'' then [Some (sample_crd n False), Some (sample_crd n True)] else [Some (sample_crd n False), None])\<rparr>"

theorem crds_applied_in_order_witness:
  "map GetName (fst (Apply sample_embedded sample_crd_api)) = [''a.yaml'', ''b.yaml''] \<and>
   snd (Apply sample_embedded sample_crd_api) = Some (GetFailed ''b.yaml'') \<and>
   \<not> crd_ready sample_crd_api (sample_crd ''b.yaml'' False)"
proof -
  let ?objs = "[sample_crd ''a.yaml'' False, sample_crd ''b.yaml'' False]"
  have sorted: "manifest_names [(''b.yaml'', False), (''dir'', True), (''a.yaml'', False)] = [''a.yaml'', ''b.yaml'']" by code_simp
  have load: "Load sample_embedded = Inr ?objs"
    unfolding Load_def by (simp add: sample_embedded_def sorted sample_crd_def)
  have run: "map GetName (fst (Apply sample_embedded sample_crd_api)) = [''a.yaml'', ''b.yaml'']"
      "snd (Apply sample_embedded sample_crd_api) = Some (GetFailed ''b.yaml'')"
    by (simp_all add: Apply_def load sample_crd_api_def sample_crd_def poll_crd_def crd_condition_def isEstablished_def)
  have "crd_ready sample_crd_api (sample_crd ''a.yaml'' False)"
    by (simp add: crd_ready_def waitEstablished_iff [symmetric] sample_crd_api_def sample_crd_def poll_crd_def crd_condition_def isEstablished_def)
  then show ?thesis
    using crds_applied_in_order [OF load surjective_pairing, of sample_crd_api, THEN conjunct1] run by simp
qed

end
