(* ===== verification/Operator_Main.thy ===== *)
theory Operator_Main
  imports Controller Crdupgrade
begin

text \<open>
  The operator process: its flags (internal/config/config.go), the assembly of the manager and the
  reconciler from flags and environment (cmd/main.go), the watches that trigger the reconciler
  (\<^verbatim>\<open>SetupWithManager\<close> of the controller), and the subcommand that applies the CRDs. The
  controller runtime is third-party code: which of its calls fail is an argument, and a manager is
  the options it was made with.
\<close>

section \<open>Flags\<close>

record Config_op =
  MetricsAddr :: string
  ProbeAddr :: string
  EnableLeaderElect :: bool
  SecureMetrics :: bool
  EnableHTTP2 :: bool
  MetricsCertPath :: string
  MetricsCertName :: string
  MetricsCertKey :: string
  Development :: bool

definition operator_flag_defaults :: Config_op where
  "operator_flag_defaults =
    \<lparr>MetricsAddr = ''0'', ProbeAddr = '':8081'', EnableLeaderElect = False, SecureMetrics = True, EnableHTTP2 = False,
     MetricsCertPath = [], MetricsCertName = ''tls.crt'', MetricsCertKey = ''tls.key'', Development = False\<rparr>"

definition operator_flag_set :: "Config_op flag_set" where
  "operator_flag_set =
    \<lparr>is_bool = map_of [(''metrics-bind-address'', False), (''health-probe-bind-address'', False), (''leader-elect'', True),
       (''metrics-secure'', True), (''metrics-cert-path'', False), (''metrics-cert-name'', False), (''metrics-cert-key'', False),
       (''enable-http2'', True), (''development'', True)],
     set_value = (\<lambda>n v f.
       if n = ''metrics-bind-address'' then Some (f\<lparr>MetricsAddr := v\<rparr>)
       else if n = ''health-probe-bind-address'' then Some (f\<lparr>ProbeAddr := v\<rparr>)
       else if n = ''leader-elect'' then map_option (\<lambda>b. f\<lparr>EnableLeaderElect := b\<rparr>) (ParseBool v)
       else if n = ''metrics-secure'' then map_option (\<lambda>b. f\<lparr>SecureMetrics := b\<rparr>) (ParseBool v)
       else if n = ''metrics-cert-path'' then Some (f\<lparr>MetricsCertPath := v\<rparr>)
       else if n = ''metrics-cert-name'' then Some (f\<lparr>MetricsCertName := v\<rparr>)
       else if n = ''metrics-cert-key'' then Some (f\<lparr>MetricsCertKey := v\<rparr>)
       else if n = ''enable-http2'' then map_option (\<lambda>b. f\<lparr>EnableHTTP2 := b\<rparr>) (ParseBool v)
       else if n = ''development'' then map_option (\<lambda>b. f\<lparr>Development := b\<rparr>) (ParseBool v)
       else None)\<rparr>"

definition ParseFlags :: "string list \<Rightarrow> (flag_error, Config_op) result" where
  "ParseFlags args = flag_parse operator_flag_set args operator_flag_defaults"

text \<open>A flag set that exits on error ends the process with status 2, but 0 when help was asked for.\<close>

definition flag_exit :: "flag_error \<Rightarrow> nat" where
  "flag_exit e = (if e = Undefined ''h'' \<or> e = Undefined ''help'' then 0 else 2)"

section \<open>Watches\<close>

record GroupVersionKind =
  gvk_Group :: string
  gvk_Version :: string
  gvk_Kind :: string

definition clusterPolicyGVK :: GroupVersionKind where
  "clusterPolicyGVK = \<lparr>gvk_Group = ''nvidia.com'', gvk_Version = ''v1'', gvk_Kind = ''ClusterPolicy''\<rparr>"

definition clusterServiceVersionGVK :: GroupVersionKind where
  "clusterServiceVersionGVK = \<lparr>gvk_Group = ''operators.coreos.com'', gvk_Version = ''v1alpha1'', gvk_Kind = ''ClusterServiceVersion''\<rparr>"

definition defaultGpuFractioningConfigName :: string where
  "defaultGpuFractioningConfigName = ''default''"

text \<open>What a builder watches; an optional source does not block the start of the controller, and each of its events requests one name.\<close>

datatype watch = WatchConfig | OwnsDaemonSet | OptionalSource GroupVersionKind string

datatype mapping_answer = Mapped | NoMatch | MapperFailed string

definition gpuOperatorDependencyGVKExists :: "(GroupVersionKind \<Rightarrow> mapping_answer) \<Rightarrow> GroupVersionKind \<Rightarrow> (string, bool) result" where
  "gpuOperatorDependencyGVKExists mapper gvk =
    (case mapper gvk of Mapped \<Rightarrow> Inr True | NoMatch \<Rightarrow> Inr False | MapperFailed e \<Rightarrow> Inl e)"

definition gpuOperatorDependencySource :: "GroupVersionKind \<Rightarrow> watch" where
  "gpuOperatorDependencySource gvk = OptionalSource gvk defaultGpuFractioningConfigName"

definition watchGpuOperatorDependencyIfAvailable ::
  "(GroupVersionKind \<Rightarrow> mapping_answer) \<Rightarrow> watch list \<Rightarrow> GroupVersionKind \<Rightarrow> (string, watch list) result" where
  "watchGpuOperatorDependencyIfAvailable mapper b gvk =
    (case gpuOperatorDependencyGVKExists mapper gvk of
       Inl e \<Rightarrow> Inl e
     | Inr False \<Rightarrow> Inr b
     | Inr True \<Rightarrow> Inr (b @ [gpuOperatorDependencySource gvk]))"

definition SetupWithManager :: "(GroupVersionKind \<Rightarrow> mapping_answer) \<Rightarrow> bool \<Rightarrow> (string, watch list) result" where
  "SetupWithManager mapper completeFails =
    (case watchGpuOperatorDependencyIfAvailable mapper [WatchConfig, OwnsDaemonSet] clusterPolicyGVK of
       Inl e \<Rightarrow> Inl e
     | Inr b \<Rightarrow>
        (case watchGpuOperatorDependencyIfAvailable mapper b clusterServiceVersionGVK of
           Inl e \<Rightarrow> Inl e
         | Inr b \<Rightarrow> if completeFails then Inl ''complete'' else Inr b))"

section \<open>The process\<close>

record metrics_server =
  ms_BindAddress :: string
  ms_SecureServing :: bool
  ms_http1Only :: bool
  ms_authFilter :: bool
  ms_CertDir :: string
  ms_CertName :: string
  ms_KeyName :: string

definition metricsServerOptions :: "Config_op \<Rightarrow> metrics_server" where
  "metricsServerOptions cfg =
    (let o1 = \<lparr>ms_BindAddress = MetricsAddr cfg, ms_SecureServing = SecureMetrics cfg, ms_http1Only = (\<not> EnableHTTP2 cfg),
               ms_authFilter = SecureMetrics cfg, ms_CertDir = [], ms_CertName = [], ms_KeyName = []\<rparr>
     in if 0 < length (MetricsCertPath cfg)
        then o1\<lparr>ms_CertDir := MetricsCertPath cfg, ms_CertName := MetricsCertName cfg, ms_KeyName := MetricsCertKey cfg\<rparr>
        else o1)"

record operator_setup =
  su_Metrics :: metrics_server
  su_HealthProbeBindAddress :: string
  su_LeaderElection :: bool
  su_Reconciler :: Reconciler
  su_Watches :: "watch list"

text \<open>The surroundings of the process: its environment variables and which calls of the runtime fail.\<close>

record operator_env =
  oe_getenv :: getenv
  oe_managerFails :: bool
  oe_mapper :: "GroupVersionKind \<Rightarrow> mapping_answer"
  oe_completeFails :: bool
  oe_healthzFails :: bool
  oe_readyzFails :: bool
  oe_startFails :: bool
  oe_kubeconfigFails :: bool
  oe_clientFails :: bool
  oe_embedded :: embedded
  oe_crds :: crd_api

definition component_image :: "getenv \<Rightarrow> string \<Rightarrow> ImageSpec" where
  "component_image ge name =
    (if name = ''fractiond'' then ReadImageFromEnv ge ''FRACTIOND_IMAGE''
     else if name = ''metricsd'' then ReadImageFromEnv ge ''METRICSD_IMAGE''
     else if name = ''mpsd'' then ReadImageFromEnv ge ''MPSD_IMAGE''
     else \<lparr>Repository = [], Tag = [], ImagePullPolicy = []\<rparr>)"

definition operator_namespace :: "getenv \<Rightarrow> string" where
  "operator_namespace ge = (if ge ''POD_NAMESPACE'' = [] then ''default'' else ge ''POD_NAMESPACE'')"

definition NewGpuFractioningConfigReconciler ::
  "string \<Rightarrow> (string \<Rightarrow> ImageSpec) \<Rightarrow> string \<Rightarrow> bool \<Rightarrow> bool \<Rightarrow> bool \<Rightarrow> bool \<Rightarrow> Reconciler" where
  "NewGpuFractioningConfigReconciler ns images sa audit sm fips skip =
    \<lparr>r_Namespace = ns, r_DefaultImages = images, DaemonServiceAccountName = sa, MpsdAuditLog = audit,
     r_SupportSMSharing = sm, r_FIPSOnly = fips, SkipGpuStackVersionChecks = skip\<rparr>"

definition operator_reconciler :: "getenv \<Rightarrow> Reconciler" where
  "operator_reconciler ge =
    NewGpuFractioningConfigReconciler (operator_namespace ge) (component_image ge)
      (env_String ge ''DAEMON_SERVICE_ACCOUNT_NAME'' []) (env_Bool ge ''MPSD_AUDIT_LOG'' True)
      (env_Bool ge ''SUPPORT_SM_SHARING'' True) (env_String ge ''FIPS_MODE'' ''off'' = ''only'')
      (env_Bool ge ''SKIP_GPU_STACK_VERSION_CHECKS'' False)"

definition applyCRDsCommand :: string where "applyCRDsCommand = ''apply-crds''"

definition apply_flag_set :: "bool flag_set" where
  "apply_flag_set = \<lparr>is_bool = map_of [(''development'', True)], set_value = (\<lambda>n v f. if n = ''development'' then ParseBool v else None)\<rparr>"

text \<open>The exit status, and the definitions that were applied.\<close>

definition runApplyCRDs :: "operator_env \<Rightarrow> string list \<Rightarrow> nat \<times> unstructured list" where
  "runApplyCRDs oe args =
    (case flag_parse apply_flag_set args False of
       Inl e \<Rightarrow> (flag_exit e, [])
     | Inr _ \<Rightarrow>
        if flag_args apply_flag_set args \<noteq> [] then (1, [])
        else case crdupgrade_Run (oe_kubeconfigFails oe) (oe_clientFails oe) (oe_embedded oe) (oe_crds oe) of
            (applied, Some _) \<Rightarrow> (1, applied)
          | (applied, None) \<Rightarrow> (0, applied))"

text \<open>What the process did: the manager it started, if it came to that, the definitions it applied, and its exit status.\<close>

record operator_run =
  or_started :: "operator_setup option"
  or_applied :: "unstructured list"
  or_exit :: nat

definition exits :: "nat \<Rightarrow> operator_run" where
  "exits n = \<lparr>or_started = None, or_applied = [], or_exit = n\<rparr>"

definition start_operator :: "operator_env \<Rightarrow> Config_op \<Rightarrow> operator_run" where
  "start_operator oe cfg =
    (if oe_managerFails oe then exits 1
     else if \<exists>name \<in> {''fractiond'', ''metricsd'', ''mpsd''}. FullImage (component_image (oe_getenv oe) name) = [] then exits 1
     else case SetupWithManager (oe_mapper oe) (oe_completeFails oe) of
         Inl _ \<Rightarrow> exits 1
       | Inr watches \<Rightarrow>
          if oe_healthzFails oe \<or> oe_readyzFails oe then exits 1
          else \<lparr>or_started = Some \<lparr>su_Metrics = metricsServerOptions cfg, su_HealthProbeBindAddress = ProbeAddr cfg,
                  su_LeaderElection = EnableLeaderElect cfg, su_Reconciler = operator_reconciler (oe_getenv oe), su_Watches = watches\<rparr>,
                or_applied = [], or_exit = (if oe_startFails oe then 1 else 0)\<rparr>)"

definition operator_main :: "operator_env \<Rightarrow> string list \<Rightarrow> operator_run" where
  "operator_main oe args =
    (if args \<noteq> [] \<and> hd args = applyCRDsCommand
     then case runApplyCRDs oe (tl args) of (n, applied) \<Rightarrow> \<lparr>or_started = None, or_applied = applied, or_exit = n\<rparr>
     else case ParseFlags args of Inl e \<Rightarrow> exits (flag_exit e) | Inr cfg \<Rightarrow> start_operator oe cfg)"


section \<open>Property\<close>

lemma started_cases:
  assumes "or_started (operator_main oe args) = Some su"
  shows "su_Reconciler su = operator_reconciler (oe_getenv oe)"
    "FullImage (component_image (oe_getenv oe) ''fractiond'') \<noteq> []" "FullImage (component_image (oe_getenv oe) ''metricsd'') \<noteq> []"
    "FullImage (component_image (oe_getenv oe) ''mpsd'') \<noteq> []"
  using assms
  by (auto simp: operator_main_def start_operator_def exits_def split: if_splits prod.splits sum.splits)

lemma buildOptions_simps [simp]:
  "DefaultImages (buildOptions r config p) = r_DefaultImages r" "FIPSOnly (buildOptions r config p) = r_FIPSOnly r"
  "o_Namespace (buildOptions r config p) = r_Namespace r"
  by (simp_all add: buildOptions_def Let_def)

text \<open>
  C30: what the operator's installation says is what is rolled out. Once the manager is started, every
  container of every DaemonSet that the reconciler builds, whatever the custom resource and the
  cluster policy, runs the image that the environment names for its component, which is never
  empty, in the operator's own namespace; and where the installation enforces FIPS, every container
  is told so.
\<close>

theorem installed_images_rolled_out:
  assumes "or_started (operator_main oe args) = Some su" "r = su_Reconciler su"
    and "(n, build) \<in> set (buildDaemons t (cfg_Spec config) (MpsdAuditLog r) (r_SupportSMSharing r))"
    and "ct \<in> set (Containers (Template (Spec (build (buildOptions r config p)))))"
  shows "c_Name ct \<in> {''fractiond'', ''metricsd'', ''mpsd''} \<and> Image ct = FullImage (component_image (oe_getenv oe) (c_Name ct)) \<and>
    Image ct \<noteq> [] \<and> ds_Namespace (build (buildOptions r config p)) = operator_namespace (oe_getenv oe) \<and>
    (oe_getenv oe ''FIPS_MODE'' = ''only'' \<longrightarrow> set (FIPSOnlyEnv True) \<subseteq> set (Env ct))"
proof -
  note started = started_cases [OF assms(1)]
  have r: "r_DefaultImages r = component_image (oe_getenv oe)" "r_Namespace r = operator_namespace (oe_getenv oe)"
    "oe_getenv oe ''FIPS_MODE'' = ''only'' \<Longrightarrow> r_FIPSOnly r"
    using assms(2) started(1) by (simp_all add: operator_reconciler_def NewGpuFractioningConfigReconciler_def env_String_def)
  note built = fractiond_BuildDaemonSet_def mpsd_BuildDaemonSet_def buildFractiondContainer_def mpsd_buildContainer_def
    applyMetricsSidecar_def buildMetricsdContainer_def BaseDaemonSet_def mpsd_env_def
    fractiond_daemonName_def mpsd_daemonName_def metricsdName_def
  from assms(3) consider "build = fractiond_BuildDaemonSet t (NewFractiondDaemon (FractioningAgent (cfg_Spec config)) (MetricsAgent (cfg_Spec config)) (r_SupportSMSharing r))"
    | "build = mpsd_BuildDaemonSet t (NewMpsdDaemon (MpsDaemon (cfg_Spec config)) (MpsdAuditLog r) (r_SupportSMSharing r))"
    by (auto simp: buildDaemons_def)
  then show ?thesis
    using assms(4) r started(2-4) by cases (auto simp: built Let_def split: if_splits)
qed

definition sample_operator_env :: operator_env where
  "sample_operator_env =
    \<lparr>oe_getenv = (\<lambda>k. if k \<in> {''FRACTIOND_IMAGE_REPOSITORY'', ''METRICSD_IMAGE_REPOSITORY'', ''MPSD_IMAGE_REPOSITORY''} then ''r/img''
       else if k = ''MPSD_IMAGE_TAG'' then ''v1'' else if k = ''SUPPORT_SM_SHARING'' then ''false'' else []),
     oe_managerFails = False, oe_mapper = (\<lambda>_. NoMatch), oe_completeFails = False, oe_healthzFails = False, oe_readyzFails = False,
     oe_startFails = False, oe_kubeconfigFails = False, oe_clientFails = False, oe_embedded = sample_embedded, oe_crds = sample_crd_api\<rparr>"

lemma sample_operator_started:
  "\<exists>su. or_started (operator_main sample_operator_env [''--leader-elect'']) = Some su"
proof -
  have "ParseFlags [''--leader-elect''] = Inr (operator_flag_defaults\<lparr>EnableLeaderElect := True\<rparr>)" by code_simp
  then show ?thesis
    by (simp add: operator_main_def start_operator_def applyCRDsCommand_def component_image_def ReadImageFromEnv_def FullImage_def
        sample_operator_env_def env_String_def SetupWithManager_def watchGpuOperatorDependencyIfAvailable_def gpuOperatorDependencyGVKExists_def)
qed

theorem installed_images_rolled_out_witness:
  "\<exists>su. or_started (operator_main sample_operator_env [''--leader-elect'']) = Some su \<and>
     map Image (Containers (Template (Spec (mpsd_BuildDaemonSet sample_texts (NewMpsdDaemon (MpsDaemon (cfg_Spec sample_config)) (MpsdAuditLog (su_Reconciler su))
       (r_SupportSMSharing (su_Reconciler su))) (buildOptions (su_Reconciler su) sample_config (ReadClusterPolicy KindNotFound)))))) = [''r/img:v1'']"
proof -
  obtain su where su: "or_started (operator_main sample_operator_env [''--leader-elect'']) = Some su" using sample_operator_started by blast
  let ?d = "NewMpsdDaemon (MpsDaemon (cfg_Spec sample_config)) (MpsdAuditLog (su_Reconciler su)) (r_SupportSMSharing (su_Reconciler su))"
  let ?o = "buildOptions (su_Reconciler su) sample_config (ReadClusterPolicy KindNotFound)"
  have "(mpsd_daemonName, mpsd_BuildDaemonSet sample_texts ?d) \<in> set (buildDaemons sample_texts (cfg_Spec sample_config) (MpsdAuditLog (su_Reconciler su)) (r_SupportSMSharing (su_Reconciler su)))"
    by (simp add: buildDaemons_def)
  from installed_images_rolled_out [OF su refl this, of "mpsd_container sample_texts ?d ?o" "ReadClusterPolicy KindNotFound"]
  have "Image (mpsd_container sample_texts ?d ?o) = FullImage (component_image (oe_getenv sample_operator_env) (c_Name (mpsd_container sample_texts ?d ?o)))"
    by (simp add: mpsd_container_simps)
  moreover have "c_Name (mpsd_container sample_texts ?d ?o) = ''mpsd''"
    by (simp add: mpsd_container_def mpsd_BuildDaemonSet_def mpsd_buildContainer_def BaseDaemonSet_def mpsd_daemonName_def)
  moreover have "FullImage (component_image (oe_getenv sample_operator_env) ''mpsd'') = ''r/img:v1''"
    by (simp add: component_image_def ReadImageFromEnv_def FullImage_def sample_operator_env_def env_String_def)
  ultimately show ?thesis using su by (intro exI [of _ su]) (simp add: mpsd_container_simps)
qed

end
