(* ===== verification/Fractiond_Main.thy ===== *)
theory Fractiond_Main
  imports Fractiond_Builder
begin

text \<open>
  The main function of fractiond (fractiond/cmd/main.go) around the connection loop, and the life
  of its readiness server (internal/readiness/readiness.go): what the flags make of the plugin, the
  stopper and the server, and how the process ends. The callbacks that the NRI runtime makes
  during the runs are a function on the plugin.
\<close>

definition fractiond_Config :: "fractiond_flags \<Rightarrow> Config" where
  "fractiond_Config f =
    \<lparr>cfg_AnnotationPrefix = annotationPrefix f, cfg_MPSPipeDirectory = mpsPipeDir f, cfg_FailOpen = failOpen f,
     cfg_SupportSMSharing = fl_supportSMSharing f, cfg_InjectCDIDevice = injectCDIDevice f,
     cfg_RetroactiveEnforcement = retroactiveEnforcement f, cfg_MapDir = mapDir f, cfg_Readiness = Some NewState\<rparr>"

record fractiond_process =
  fp_plugin :: Plugin
  fp_stopper :: "CRIStopper option"
  fp_readinessPort :: "int option"

definition fractiond_start :: "fractiond_flags \<Rightarrow> MapDir \<Rightarrow> (plugin_error, fractiond_process) result" where
  "fractiond_start f dir =
    (let stopper = (if retroactiveEnforcement f then Some (NewCRIStopper (criSocket f) (stopTimeout f)) else None) in
     case NewPlugin (fractiond_Config f) (stopper \<noteq> None) dir of
       Inl e \<Rightarrow> Inl e
     | Inr p \<Rightarrow> Inr \<lparr>fp_plugin = p, fp_stopper = stopper, fp_readinessPort = (if readinessPort f > 0 then Some (readinessPort f) else None)\<rparr>)"

text \<open>The plugin and the exit status; no status while the loop goes on.\<close>

definition fractiond_main ::
  "fractiond_flags \<Rightarrow> MapDir \<Rightarrow> MapDir Writer \<Rightarrow> (Plugin \<Rightarrow> Plugin) \<Rightarrow> nri_env list \<Rightarrow> Plugin option \<times> nat option" where
  "fractiond_main f dir W callbacks es =
    (case fractiond_start f dir of
       Inl e \<Rightarrow> (None, Some 1)
     | Inr fp \<Rightarrow>
        (case snd (runWithRetry (retry_flags.truncate f) es) of
           Inr s \<Rightarrow> (Some (callbacks (fp_plugin fp)), None)
         | Inl out \<Rightarrow> (case main_exit W out (callbacks (fp_plugin fp)) of (p, n) \<Rightarrow> (Some p, Some n))))"

text \<open>\<^verbatim>\<open>Serve\<close>: a listener that fails ends it with an error, otherwise a shutdown does, with the shutdown's result.\<close>

definition readiness_Serve :: "string option \<Rightarrow> string option \<Rightarrow> string option" where
  "readiness_Serve listenErr shutdownErr = (case listenErr of Some e \<Rightarrow> Some (''readiness server: '' @ e) | None \<Rightarrow> shutdownErr)"

section \<open>Facts\<close>

text \<open>The stopper is built exactly when the plugin needs it, so the process always starts, and not ready.\<close>

lemma fractiond_starts:
  "\<exists>fp. fractiond_start f dir = Inr fp \<and> readiness (fp_plugin fp) = Some False \<and>
    (fp_stopper fp \<noteq> None \<longleftrightarrow> retroactiveEnforcement f) \<and> (sentinel (fp_plugin fp) \<noteq> None \<longleftrightarrow> retroactiveEnforcement f) \<and>
    SupportSMSharing (fp_plugin fp) = fl_supportSMSharing f \<and> InjectCDIDevice (fp_plugin fp) = injectCDIDevice f"
  by (simp add: fractiond_start_def NewPlugin_def fractiond_Config_def NewState_def Let_def)

text \<open>Exit status 0 exactly after a shutdown signal, and the queue of mapping events is drained before any exit of the loop.\<close>

lemma fractiond_exit:
  assumes "fractiond_main f dir W callbacks es = (Some p, Some n)"
  shows "(n = 0 \<longleftrightarrow> snd (runWithRetry (retry_flags.truncate f) es) = Inl CleanExit) \<and>
    (\<exists>q. p = Flush W q)"
  using assms fractiond_starts [of f dir]
  by (auto simp: fractiond_main_def main_exit_def split: sum.splits if_splits)

end
