(* ===== verification/Spec2Isabelle.thy ===== *)
theory Spec2Isabelle
  imports Prelude Annotations Nri Injection Container_Store Fsstore Events Injection_Audit Adapter Plugin Retry_Loop
    Fractiond_Run Pkg Goflag Mpsd Daemonmgr Dependency Daemonset Mpsd_Builder Fractiond_Builder Controller
    Nvml_Collector Pod_Source Metrics_Engine Exporter Metricsd Imagelock_Catalog Imagelock Fake_Mps Crdupgrade Operator_Main
    Fractiond_Main
begin

text \<open>
  A verification of gpu-fractioning, the Kubernetes components that let several pods share a GPU by
  memory. Paths below are relative to the source tree.

  \<^bold>\<open>The program.\<close> An operator watches one cluster-scoped custom resource and rolls out two
  DaemonSets. On every GPU node, \<^emph>\<open>fractiond\<close> is a plugin of the container runtime (NRI): when a
  container is created it reads the pod's GPU annotations and injects environment variables, a
  mount of the MPS pipe directory and devices; it records which container belongs to which pod in a shared
  directory; and after a reconnect it audits running containers for what they lack and can stop
  them. \<^emph>\<open>metricsd\<close>, its sidecar, reads that directory, polls NVML for GPU processes and exports
  utilisation by pod. \<^emph>\<open>mpsd\<close> labels the node with its driver branch and supervises the MPS control
  daemon. Two tools stand beside them: imagelock pins release images to digests, and fake-mps
  replaces the MPS daemon on clusters without GPUs.

  \<^bold>\<open>How code becomes definitions.\<close> A struct is a record, a tagged value a datatype, a function or
  method one definition of the same name (prefixed where Isabelle or another package uses the name). State is passed
  explicitly. An error return is the left summand of \<open>result\<close> or an option. Go strings are byte lists, Go maps
  association lists with distinct keys (\<open>gomap\<close>), \<^verbatim>\<open>int\<close> and \<^verbatim>\<open>int64\<close> are integers with the wrap-around
  written where it can matter (\<open>wrap64\<close>, \<open>in_int64\<close>), \<^verbatim>\<open>uint32\<close> and \<^verbatim>\<open>uint64\<close> of NVML are machine words,
  times and durations are nanoseconds, and \<^verbatim>\<open>float64\<close> is rational, so rounding is not modelled. Loops are recursive functions
  that terminate. A loop that runs for the life of a process (the NRI connection, the MPS
  supervisor, the event worker, the ticks of metricsd, the polls of the CRD hook) is run over a
  finite list of what its surroundings do, or is an inductive step relation; no fuel is used
  anywhere, and statements hold for every such list or reachable state. Interleavings of
  goroutines are sequences of atomic actions.

  \<^bold>\<open>Parameters.\<close> Code outside the source tree is an argument with its documented laws as a named predicate: the
  quantity parser (\<open>quantity_parser\<close>), number and duration texts (\<open>texts\<close>, \<open>texts_ok\<close>), the
  Kubernetes API (\<open>node_api\<close>, \<open>merge_keyed\<close>, \<open>ds_api\<close>, \<open>rec_env\<close>, \<open>list_reply\<close>, \<open>crd_api\<close>), semantic versions (\<open>semver\<close>), NVML
  (\<open>nvml_poll\<close>), the proc file system (\<open>procfs\<close>), Prometheus gauges (\<open>gauge_vec\<close>, \<open>gauge_vec_ok\<close>), the
  container registry (\<open>registry\<close>, \<open>reference_syntax\<close>), and which system calls fail (\<open>Io\<close>, \<open>lock_io\<close>, \<open>staging_fresh\<close>).

  \<^bold>\<open>Theories.\<close>
  \<^item> \<open>Prelude\<close>: strings, strconv, filepath, Go maps; the fact collections. \<open>Pkg\<close>: pkg/env and
    pkg/driverinfo. \<open>Goflag\<close>: the flag package, and that written arguments are read back. \<open>Retry_Loop\<close>:
    the locale \<open>restart_loop\<close>, interpreted on fractiond's connection loop and mpsd's supervisor.
  \<^item> \<open>Annotations\<close>, \<open>Injection\<close>, \<open>Nri\<close>, \<open>Adapter\<close>, \<open>Plugin\<close>: fractioning-manager/fractiond/internal. A memory annotation is the
    amount in MiB rounded up; a created container is queued for recording if and only if it was adjusted; on errors
    it blocks or lets pass as configured.
  \<^item> \<open>Injection_Audit\<close>: fractioning-manager/fractiond/internal/audit. A container that was injected is never reported,
    and a created or running one is reported if and only if it lacks a part of the injection.
  \<^item> \<open>Container_Store\<close>, \<open>Fsstore\<close>, \<open>Events\<close>: fractioning-manager/common/mapping and fractiond/internal/events. The locale \<open>mapping_writer\<close> is the contract of
    a mapping store, interpreted on the in-memory and the file-backed one. Both refine an abstract map;
    a write is atomic for a reader under every failure; accepted events are applied once, in order,
    reach the directory, and a flush waits for them.
  \<^item> \<open>Fractiond_Run\<close>, \<open>Fractiond_Main\<close>: fractioning-manager/fractiond/cmd and internal/readiness. Retries back off
    within bounds and end when the budget is spent; the process starts, and starts not ready.
  \<^item> \<open>Nvml_Collector\<close>, \<open>Pod_Source\<close>, \<open>Metrics_Engine\<close>, \<open>Exporter\<close>, \<open>Metricsd\<close>: fractioning-manager/metricsd. A poll reports exactly what NVML
    answered; a collect cycle attributes and sums exactly; the window is the average of the last
    samples; a scrape refines the published metrics; in every reachable state the gauges are
    well-formed and within bounds.
  \<^item> \<open>Mpsd\<close>, \<open>Fake_Mps\<close>: fractioning-manager/mpsd and hack/fake-mps. Between two starts of the MPS daemon the
    control socket of its pipe directory is removed; the daemon starts only on a labelled node, and is killed only
    after a request to quit that it ignores. A run is a trace of actions, in which \<open>cmd_Run\<close> is what Go's os/exec does with
    the Cancel function and the WaitDelay of the source. The stand-in opens the sockets that the
    configuration names.
  \<^item> \<open>Daemonmgr\<close>, \<open>Daemonset\<close>, \<open>Mpsd_Builder\<close>, \<open>Fractiond_Builder\<close>: operator/internal/common/daemonmgr and
    operator/internal/fractioningmanager/components. The locale \<open>managed_daemon\<close> is the contract of a DaemonSet builder, interpreted on both.
    What the custom resource says reaches the flags of the three processes, value by value. Ready says whether the
    daemons are healthy. A patch of a node condition is merged by type and field by field, and leaves out empty texts (\<open>merge_condition\<close>).
  \<^item> \<open>Dependency\<close>, \<open>Controller\<close>: operator/internal/controller and internal/metrics. The GPU stack gate, the node
    conditions and their aggregation, the finalizer, deletion, that a pass which is done has
    rolled out (by the counters that the DaemonSets store), and that a failed recovery of a node is not retried.
  \<^item> \<open>Crdupgrade\<close>, \<open>Operator_Main\<close>: operator/internal/crdupgrade, operator/charts/crds,
    operator/internal/config and operator/cmd. CRDs are applied
    in order and awaited; a started operator rolls out only configured images.
  \<^item> \<open>Imagelock_Catalog\<close>, \<open>Imagelock\<close>: hack/imagelock. The plan is the matrix without its
    exclusions; a successful run writes exactly the locks of the plan, if platform names have no hyphens, a failed one leaves none of its own, as long as files can be removed.
  \<^item> this theory: from fractiond's recorded mapping to metricsd's gauges; from mpsd's label to the
    operator's verdict; and the sm-sharing switch through operator, mpsd, MPS sockets and fractiond.

  \<^bold>\<open>Bounds.\<close> The event queue holds the 10240 entries of the source; doubled retry waits are capped
  at 60 seconds; the registry is tried three times per read. The lemmas on the growth of the waits assume a positive interval of at
  most half the range of \<^verbatim>\<open>int64\<close> (\<open>sane_interval\<close>), so that doubling does not overflow.

  \<^bold>\<open>Not modelled.\<close> Logging, and the text of error messages beyond their arguments. JSON, YAML and TOML
  decoding: a file is its decoded record, except for the MPS configuration, which is its text.
  HTTP serving beyond routes and status codes, gRPC, signals and real time: they decide only which
  surroundings a run meets. Floating-point rounding. The generated deep copies (zz_generated.deepcopy.go),
  which copy values; the registration of API types with the client's scheme; the
  Helm chart, which is rendered outside the program and reaches it as environment variables; the
  test doubles and the end-to-end harness.
\<close>

section \<open>Properties across components\<close>

text \<open>
  C35: the label mpsd writes is the one the operator judges. On a node that mpsd has labelled, the
  operator's driver check finds no fault exactly when the major version of the driver that NVML
  reported is supported, whatever else is on the node.
\<close>

theorem labelled_node_judged:
  assumes "LabelCurrentNode ge nvml clientFails patchFails labels = (labels', None)"
    and "nvml_version nvml = Some v" "ParseDriverVersionMajor v = Inr major"
  shows "gpuDriverFailureReason (node\<lparr>node_labels := labels'\<rparr>) = None \<longleftrightarrow> minGPUDriverMajor \<le> major"
proof -
  have written: "labels' NVIDIADriverMajorLabel = Some (Itoa major)" and parsed: "ParseDriverMajorLabel (Itoa major) = Inr major"
    using node_label_written [where ge = ge and nvml = nvml and clientFails = clientFails and patchFails = patchFails and labels = labels] assms
    by auto
  have "ParseDriverMajorLabel (TrimSpace (Itoa major)) = Inr major" using parsed by (simp add: ParseDriverMajorLabel_def)
  moreover from this have "TrimSpace (Itoa major) \<noteq> []" by (auto simp: ParseDriverMajorLabel_def parsePositiveInt_def)
  ultimately show ?thesis using written by (simp add: gpuDriverFailureReason_def or_empty_def Let_def not_less)
qed

theorem labelled_node_judged_witness:
  "gpuDriverFailureReason (sample_node\<lparr>node_labels := fst (LabelCurrentNode (\<lambda>_. ''n'')
     \<lparr>nvml_init_ok = True, nvml_version = Some ''615.43''\<rparr> False False Map.empty)\<rparr>) = None"
proof -
  have parse: "ParseDriverVersionMajor ''615.43'' = Inr 615" by code_simp
  have "snd (LabelCurrentNode (\<lambda>_. ''n'') \<lparr>nvml_init_ok = True, nvml_version = Some ''615.43''\<rparr> False False Map.empty) = None"
    by code_simp
  then have run: "LabelCurrentNode (\<lambda>_. ''n'') \<lparr>nvml_init_ok = True, nvml_version = Some ''615.43''\<rparr> False False Map.empty =
      (fst (LabelCurrentNode (\<lambda>_. ''n'') \<lparr>nvml_init_ok = True, nvml_version = Some ''615.43''\<rparr> False False Map.empty), None)"
    by (metis prod.collapse)
  show ?thesis using labelled_node_judged [OF run _ parse, of sample_node] by (simp add: minGPUDriverMajor_def)
qed


text \<open>
  C3: What fractiond records, metricsd reports. Take any state metricsd reaches, with the directory
  as fractiond's mapping calls left it, a recorded container, and a process on a GPU whose
  cgroup lies in that container and in no other. If the collector has seen the process, then
  after the next cycle and scrape the memory gauge has a series for the container's pod and
  that GPU, and its value is the memory of the pod's processes on that GPU, this one included.
\<close>

theorem recorded_process_reported:
  assumes G: "gauge_vec_ok G" and run: "metricsd_main G init f = Serve x0" "metricsd_reaches G (metricsd_start x0 dir0) s"
    and dir: "d_dir s = fold (run_op (fs_Writer (no_faults rnd))) ops empty_dir" "\<And>j. j \<in> \<Union> (op_ids ` set ops) \<Longrightarrow> bare_file_id j"
    and c: "fold spec_op ops Map.empty i = Some c" "bare_file_id i"
    and p: "p \<in> set (Processes (collector_Snapshot (x_coll (d_exporter s))))" "p_PID p \<noteq> 0" "p_GPUUUID p \<noteq> []"
    and paths: "CgroupPaths fs (x_resolver (d_exporter s)) (p_PID p) = Inr paths" "q \<in> set paths"
      "cgroupPathMatchesContainer q (persisted c)"
      "\<And>c' q'. c' \<in> set (Reader_ActiveContainers (d_dir s)) \<Longrightarrow> q' \<in> set paths \<Longrightarrow> cgroupPathMatchesContainer q' c' \<Longrightarrow> c' = persisted c"
    and names: "\<And>c'. c' \<in> set (Reader_ActiveContainers (d_dir s)) \<Longrightarrow> CHR ''/'' \<notin> set (Namespace c') \<and> CHR ''/'' \<notin> set (PodUID c')"
    and pods: "pods = podSource_Snapshot fs (x_resolver (d_exporter s)) (d_dir s)"
    and x: "x = end_cycle pods (d_exporter s)"
    and k: "k = container_key (persisted c) (p_GPUUUID p) (p_GPUIndex p)"
    and procs: "procs = procs_of (attributions pods (Processes (collector_Snapshot (x_coll (d_exporter s))))) k"
  shows "p \<in> set procs \<and>
    gv_value G (memoryBytes (x_runtime (observe_fetched G (engine_Snapshot (x_engine x)) x))) (labels_of k) =
      Some (of_int (uint (sum_list (map p_UsedGPUMemoryBytes procs))))"
proof -
  let ?g = "collector_Snapshot (x_coll (d_exporter s))" and ?e = "x_engine (d_exporter s)"
  let ?ms = "Metrics (snapshot (engine_collect ?g pods ?e))"
  have ok: "metricsd_ok G s" by (rule metricsd_ok_reached [OF G run])
  then obtain M where M: "exports G (x_runtime (d_exporter s)) M" by (auto simp: metricsd_ok_def)
  have store: "store_ok (ps_store pods)" by (simp add: pods podSource_store_ok)
  have active: "c' \<in> set (source_ActiveContainers pods) \<longleftrightarrow> c' \<in> set (Reader_ActiveContainers (d_dir s))" for c'
    using source_containers [OF store] scan_containers by (simp add: pods podSource_store_lookup)
  have "map_of (scan (d_dir s)) i = Some (persisted c)" using recorded_in_scan [OF dir(2) c(2)] c(1) by (simp add: dir(1))
  then have here: "persisted c \<in> set (source_ActiveContainers pods)"
    using scan_ok [of "d_dir s"] by (auto simp: active scan_containers store_ok_iff)
  have resolve: "ResolveProcess pods p = Some (persisted c)"
    by (rule ResolveProcess_unique [OF _ here paths(2,3)]) (use paths(1,4) active in \<open>auto simp: pods podSource_Snapshot_def\<close>)
  then have attr: "(persisted c, p) \<in> set (attributions pods (Processes ?g))" using p by (simp add: in_attributions)
  have busy: "k \<in> busy_keys pods (Processes ?g)" using attr by (force simp: busy_keys_def akey_def k)
  have "names_ok pods" using names active by (simp add: names_ok_def list_all_iff)
  moreover have "source_ActiveContainers pods \<noteq> []" using here by auto
  moreover have "0 \<le> smUtilWindowSize ?e" using ok by (simp add: metricsd_ok_def engine_ok_def)
  ultimately have ms: "set ?ms = published_metric (remember ?g ?e) pods (Processes ?g) ` (busy_keys pods (Processes ?g) \<union> idle_keys (remember ?g ?e) pods (Processes ?g))"
    "distinct (map podGPUKeyForMetric ?ms)"
    using published_exact [OF store] by blast+
  let ?m = "published_metric (remember ?g ?e) pods (Processes ?g) k"
  have "?m \<in> set ?ms" "podGPUKeyForMetric ?m = k" "k_GPUUUID k \<noteq> []" using busy ms(1) p(3) by (auto simp: published_key k)
  then have "spec_observe ?ms active' M k = Some (metric_values ?m)" for active'
    using fold_spec_put_uuid [OF ms(2)] by (simp add: spec_observe_def)
  moreover have "exports G (x_runtime (observe_fetched G (engine_Snapshot (x_engine x)) x)) (spec_observe ?ms (Snap_ActivePodUIDs (snapshot (engine_collect ?g pods ?e))) M)"
    using observe_refines [OF G M] by (simp add: observe_fetched_def refresh_def x end_cycle_def engine_Snapshot_def)
  ultimately have "gv_value G (memoryBytes (x_runtime (observe_fetched G (engine_Snapshot (x_engine x)) x))) (labels_of k) = Some (fst (metric_values ?m))"
    by (simp add: exports_def shows_values_def)
  moreover have "fst (metric_values ?m) = of_int (uint (sum_list (map p_UsedGPUMemoryBytes procs)))"
    by (simp add: metric_values_def published_metric_def cycle_metric_def procs Let_def)
  moreover have "p \<in> set procs" using attr by (force simp: procs procs_of_def akey_def k)
  ultimately show ?thesis by simp
qed


definition sample_ops :: "mapping_op list" where
  "sample_ops = [OpUpsert (sample_info ''a1'' ''p'')]"

definition sample_map_dir :: MapDir where
  "sample_map_dir = fold (run_op (fs_Writer (no_faults (\<lambda>_. 1)))) sample_ops empty_dir"

definition sample_seen :: GPUProcessMetric where
  "sample_seen = \<lparr>p_PID = 7, p_GPUUUID = ''GPU-a'', p_GPUIndex = 0, p_UsedGPUMemoryBytes = 1024, p_SMUtilizationPercent = 40,
     p_ProcessUtilizationTimestamp = 9000000\<rparr>"

definition sample_polled :: "(labels \<rightharpoonup> rat) metricsd" where
  "sample_polled = map_exporter (\<lambda>x. x\<lparr>x_coll := collector_tick sample_poll 9500000000 (x_coll x)\<rparr>)
     ((metricsd_start sample_exporter empty_dir)\<lparr>d_dir := sample_map_dir\<rparr>)"

lemma sample_polled_reached: "metricsd_reaches sample_gauges (metricsd_start sample_exporter empty_dir) sample_polled"
proof -
  define s where "s = (metricsd_start sample_exporter empty_dir)\<lparr>d_dir := sample_map_dir\<rparr>"
  have "metricsd_step sample_gauges (metricsd_start sample_exporter empty_dir) s" unfolding s_def by (rule metricsd_step.mapping)
  moreover have "metricsd_step sample_gauges s sample_polled" unfolding sample_polled_def s_def by (rule metricsd_step.poll)
  ultimately show ?thesis unfolding metricsd_reaches_def by (rule rtranclp.rtrancl_into_rtrancl [OF r_into_rtranclp])
qed

lemma sample_polled_processes: "Processes (collector_Snapshot (x_coll (d_exporter sample_polled))) = [sample_seen]"
  by code_simp

lemma sample_map_containers: "Reader_ActiveContainers sample_map_dir = [persisted (sample_info ''a1'' ''p'')]"
  by code_simp

definition sample_proc :: procfs where
  "sample_proc = (\<lambda>_. Some ''0::/kubepods/a1'')"

lemma sample_proc_paths: "CgroupPaths sample_proc r 7 = Inr [''/kubepods/a1'']"
proof -
  have "parseCgroupPaths ''0::/kubepods/a1'' = [''/kubepods/a1'']" by code_simp
  then show ?thesis by (simp add: CgroupPaths_def sample_proc_def)
qed

theorem recorded_process_reported_witness:
  "let x = end_cycle (podSource_Snapshot sample_proc (x_resolver (d_exporter sample_polled)) (d_dir sample_polled)) (d_exporter sample_polled)
   in gv_value sample_gauges (memoryBytes (x_runtime (observe_fetched sample_gauges (engine_Snapshot (x_engine x)) x)))
        (labels_of (container_key (persisted (sample_info ''a1'' ''p'')) ''GPU-a'' 0)) = Some 1024"
proof -
  let ?c = "sample_info ''a1'' ''p''"
  define pods where "pods = podSource_Snapshot sample_proc (x_resolver (d_exporter sample_polled)) (d_dir sample_polled)"
  define procs where "procs = procs_of (attributions pods [sample_seen]) (container_key (persisted ?c) ''GPU-a'' 0)"
  have dir: "d_dir sample_polled = sample_map_dir" by (simp add: sample_polled_def map_exporter_def)
  have bare: "bare_file_id ''a1''" by code_simp
  have match: "cgroupPathMatchesContainer ''/kubepods/a1'' (persisted ?c)" by code_simp
  have noslash: "CHR ''/'' \<notin> set (Namespace (persisted ?c)) \<and> CHR ''/'' \<notin> set (PodUID (persisted ?c))" by code_simp
  have seen: "p_PID sample_seen = 7" "p_GPUUUID sample_seen = ''GPU-a''" "p_GPUIndex sample_seen = 0" "p_UsedGPUMemoryBytes sample_seen = 1024"
    by (simp_all add: sample_seen_def)
  have all: "sample_seen \<in> set procs \<and>
      gv_value sample_gauges (memoryBytes (x_runtime (observe_fetched sample_gauges (engine_Snapshot (x_engine (end_cycle pods (d_exporter sample_polled))))
        (end_cycle pods (d_exporter sample_polled))))) (labels_of (container_key (persisted ?c) ''GPU-a'' 0)) =
      Some (of_int (uint (sum_list (map p_UsedGPUMemoryBytes procs))))"
  proof (rule recorded_process_reported [where G = sample_gauges and s = sample_polled and ops = sample_ops and i = "''a1''" and c = ?c and
      p = sample_seen and fs = sample_proc and paths = "[''/kubepods/a1'']" and q = "''/kubepods/a1''" and rnd = "\<lambda>_. 1" and procs = procs and
      pods = pods and x = "end_cycle pods (d_exporter sample_polled)", OF sample_gauges_ok sample_serves sample_polled_reached])
    show "d_dir sample_polled = fold (run_op (fs_Writer (no_faults (\<lambda>_. 1)))) sample_ops empty_dir" by (simp add: dir sample_map_dir_def)
  qed (auto simp: sample_polled_processes seen dir sample_map_containers sample_proc_paths match noslash bare sample_ops_def pods_def procs_def)
  have "length procs \<le> 1" by (simp add: procs_def procs_of_def attributions_def attribution_def seen split: option.split)
  with all have "procs = [sample_seen]" by (cases procs) auto
  with all show ?thesis by (simp add: pods_def [symmetric] seen Let_def)
qed


text \<open>
  C29: the installation's sm-sharing switch moves the whole stack together. Whatever the custom
  resource says, the two containers that a started operator builds parse their arguments; the
  fake MPS daemon under the supervisor that mpsd then runs has, besides the control socket's
  directory, exactly with the switch on the directory that fractiond mounts into sm-sharing
  containers; and with the switch off fractiond accepts no sm-sharing annotation, so nothing is
  ever mounted from a directory that is not there.
\<close>

theorem sm_sharing_switch:
  assumes "or_started (operator_main oe args) = Some su" "r = su_Reconciler su" "opts = buildOptions r config p" "texts_ok t"
    and "case MpsDaemon (cfg_Spec config) of None \<Rightarrow> True | Some s \<Rightarrow> md_int64 s"
    and "case FractioningAgent (cfg_Spec config) of None \<Rightarrow> True | Some s \<Rightarrow> fa_int64 s"
    and "md = NewMpsdDaemon (MpsDaemon (cfg_Spec config)) (MpsdAuditLog r) (r_SupportSMSharing r)"
    and "fd = NewFractiondDaemon (FractioningAgent (cfg_Spec config)) (MetricsAgent (cfg_Spec config)) (r_SupportSMSharing r)"
    and "on = env_Bool (oe_getenv oe) ''SUPPORT_SM_SHARING'' True"
  shows "\<exists>mf ff. mpsd_parseFlags t (container_getenv (mpsd_container t md opts) field (\<lambda>_. [])) (Args (mpsd_container t md opts)) = Inr mf \<and>
    fractiond_parseFlags t (container_getenv (fractiond_container t fd opts) field (\<lambda>_. [])) (Args (fractiond_container t fd opts)) = Inr ff \<and>
    (\<forall>ge ReadFile. ge ''CUDA_MPS_PIPE_DIRECTORY'' = PipeDir (mpsd_supervisor mf) \<and>
       ReadFile (ConfigPath (mpsd_supervisor mf)) = Some (ConfigContent (mpsd_supervisor mf)) \<longrightarrow>
       map filepath_Dir (fake_sockets ge ReadFile (buildMPSArgs (ControlPort (mpsd_supervisor mf)) (ConfigPath (mpsd_supervisor mf))
           (Multiuser (mpsd_supervisor mf)))) =
         PipeDir (mpsd_supervisor mf) # (if on then [fst (MPSPipeMount (PipeDir (mpsd_supervisor mf)) ComputeModeSMSharing)] else [])) \<and>
    (\<forall>ann cname pre. ParseComputeMode ann cname pre (fl_supportSMSharing ff) = Inr ComputeModeSMSharing \<longrightarrow> on)"
proof -
  have sm: "r_SupportSMSharing r = on"
    using started_cases(1) [OF assms(1)] assms(2,9) by (simp add: operator_reconciler_def NewGpuFractioningConfigReconciler_def)
  obtain mf where mf: "mpsd_parseFlags t (container_getenv (mpsd_container t md opts) field (\<lambda>_. [])) (Args (mpsd_container t md opts)) = Inr mf"
      "Multiuser (mpsd_supervisor mf) = on" "PipeDir (mpsd_supervisor mf) = DefaultMPSPipeDirectory"
      "controlPort mf = DefaultMPSControlPort" "configPath mf = DefaultMPSConfigPath"
    using mpsd_container_flags [OF assms(4) _ refl, of md opts field] assms(5) sm
    by (auto simp: assms(7) NewMpsdDaemon_def mpsd_defaultMPSPipeDir_def DefaultMPSPipeDirectory_def)
  obtain ff where ff: "fractiond_parseFlags t (container_getenv (fractiond_container t fd opts) field (\<lambda>_. [])) (Args (fractiond_container t fd opts)) = Inr ff"
      "fl_supportSMSharing ff = on"
    using fractiond_container_flags [OF assms(4) _ refl, of fd opts field] assms(6) sm by (auto simp: assms(8) NewFractiondDaemon_def)
  have flags: "mpsd_supportSMSharing mf = on" "ConfigPath (mpsd_supervisor mf) = configPath mf" "pipeDir mf = PipeDir (mpsd_supervisor mf)"
    using mf(2) by (simp_all add: mpsd_supervisor_def)
  have "map filepath_Dir (fake_sockets ge ReadFile (buildMPSArgs (ControlPort (mpsd_supervisor mf)) (ConfigPath (mpsd_supervisor mf))
        (Multiuser (mpsd_supervisor mf)))) =
      PipeDir (mpsd_supervisor mf) # (if on then [fst (MPSPipeMount (PipeDir (mpsd_supervisor mf)) ComputeModeSMSharing)] else [])"
    if "ge ''CUDA_MPS_PIPE_DIRECTORY'' = PipeDir (mpsd_supervisor mf)"
      "ReadFile (ConfigPath (mpsd_supervisor mf)) = Some (ConfigContent (mpsd_supervisor mf))" for ge ReadFile
    using fake_sockets_supervised [of mf ge ReadFile] that mf(4) mf(3,5) flags by (simp add: DefaultMPSConfigPath_def)
  moreover have "ParseComputeMode ann cname pre (fl_supportSMSharing ff) = Inr ComputeModeSMSharing \<Longrightarrow> on" for ann cname pre
    using ff(2) by (auto simp: ParseComputeMode_def Let_def split: option.splits if_splits)
  ultimately show ?thesis using mf(1) ff(1) by blast
qed

theorem sm_sharing_switch_witness:
  "\<exists>su mf. or_started (operator_main sample_operator_env [''--leader-elect'']) = Some su \<and>
     mpsd_parseFlags sample_texts
       (container_getenv (mpsd_container sample_texts (NewMpsdDaemon None (MpsdAuditLog (su_Reconciler su)) (r_SupportSMSharing (su_Reconciler su)))
          (buildOptions (su_Reconciler su) sample_config (ReadClusterPolicy KindNotFound))) (\<lambda>_. ''n'') (\<lambda>_. []))
       (Args (mpsd_container sample_texts (NewMpsdDaemon None (MpsdAuditLog (su_Reconciler su)) (r_SupportSMSharing (su_Reconciler su)))
          (buildOptions (su_Reconciler su) sample_config (ReadClusterPolicy KindNotFound)))) = Inr mf \<and>
     map filepath_Dir (fake_sockets (\<lambda>_. PipeDir (mpsd_supervisor mf)) (\<lambda>_. Some (ConfigContent (mpsd_supervisor mf)))
       (buildMPSArgs (ControlPort (mpsd_supervisor mf)) (ConfigPath (mpsd_supervisor mf)) (Multiuser (mpsd_supervisor mf)))) =
       [PipeDir (mpsd_supervisor mf)]"
proof -
  obtain su where su: "or_started (operator_main sample_operator_env [''--leader-elect'']) = Some su" using sample_operator_started by blast
  have off: "env_Bool (oe_getenv sample_operator_env) ''SUPPORT_SM_SHARING'' True = False"
    by (simp add: sample_operator_env_def env_Bool_def ParseBool_def)
  have spec: "MpsDaemon (cfg_Spec sample_config) = None" "FractioningAgent (cfg_Spec sample_config) = None"
    by (simp_all add: sample_config_def)
  show ?thesis
    using sm_sharing_switch [OF su refl refl texts_ok_sample _ _ refl refl refl, of sample_config "ReadClusterPolicy KindNotFound" "\<lambda>_. ''n''"] su
    unfolding spec off by (auto simp: spec)
qed

end
